(* ===== verification/Prelude.thy ===== *)
theory Prelude
  imports Main "HOL-Library.Multiset"
begin

text \<open>
  Shared vocabulary of the cmp-issuer development.

  A Go \<^verbatim>\<open>string\<close> and a Go \<^verbatim>\<open>[]byte\<close> are both sequences of bytes, and
  a HOL \<^typ>\<open>char\<close> is a byte, so both are the type \<open>bytes\<close>. A Go function
  that returns a value and an error is a function into the sum type \<open>'e + 'a\<close>
  (\<open>Inl\<close> the error, \<open>Inr\<close> the value). The combinators below sequence such
  functions the way \<^verbatim>\<open>if err != nil { return ..., err }\<close> does, and the
  collection \<open>result_simps\<close> carries their inversion rules.
\<close>

type_synonym bytes = string

named_theorems result_simps \<open>inversion of the error combinators\<close>

subsection \<open>Sequencing fallible steps\<close>

definition rbind :: "'e + 'a \<Rightarrow> ('a \<Rightarrow> 'e + 'b) \<Rightarrow> 'e + 'b" where
  "rbind r f = (case r of Inl e \<Rightarrow> Inl e | Inr x \<Rightarrow> f x)"

definition map_err :: "('e \<Rightarrow> 'f) \<Rightarrow> 'e + 'a \<Rightarrow> 'f + 'a" where
  "map_err h r = (case r of Inl e \<Rightarrow> Inl (h e) | Inr x \<Rightarrow> Inr x)"

definition ensure :: "bool \<Rightarrow> 'e \<Rightarrow> 'e + unit" where
  "ensure b e = (if b then Inr () else Inl e)"

fun rmap :: "('a \<Rightarrow> 'e + 'b) \<Rightarrow> 'a list \<Rightarrow> 'e + 'b list" where
  "rmap f [] = Inr []"
| "rmap f (x # xs) = rbind (f x) (\<lambda>y. rbind (rmap f xs) (\<lambda>ys. Inr (y # ys)))"

lemma rbind_simps [simp]:
  "rbind (Inl e) f = Inl e"
  "rbind (Inr x) f = f x"
  by (simp_all add: rbind_def)

lemma map_err_simps [simp]:
  "map_err h (Inl e) = Inl (h e)"
  "map_err h (Inr x) = Inr x"
  by (simp_all add: map_err_def)

lemma ensure_simps [simp]:
  "ensure True e = Inr ()"
  "ensure False e = Inl e"
  by (simp_all add: ensure_def)

lemma rbind_Inr [result_simps]:
  "rbind r f = Inr y \<longleftrightarrow> (\<exists>x. r = Inr x \<and> f x = Inr y)"
  by (cases r) auto

lemma rbind_Inl [result_simps]:
  "rbind r f = Inl e \<longleftrightarrow> r = Inl e \<or> (\<exists>x. r = Inr x \<and> f x = Inl e)"
  by (cases r) auto

lemma map_err_Inr [result_simps]: "map_err h r = Inr y \<longleftrightarrow> r = Inr y"
  by (cases r) auto

lemma map_err_Inl [result_simps]: "map_err h r = Inl e \<longleftrightarrow> (\<exists>e'. r = Inl e' \<and> e = h e')"
  by (cases r) auto

lemma ensure_Inr [result_simps]: "ensure b e = Inr u \<longleftrightarrow> b"
  by (auto simp: ensure_def)

lemma ensure_Inl [result_simps]: "ensure b e = Inl e' \<longleftrightarrow> \<not> b \<and> e' = e"
  by (auto simp: ensure_def)

lemma rmap_Inr [result_simps]:
  "rmap f xs = Inr ys \<longleftrightarrow> list_all2 (\<lambda>x y. f x = Inr y) xs ys"
  by (induction xs arbitrary: ys) (auto simp: rbind_Inr list_all2_Cons1)

lemma rmap_length: "rmap f xs = Inr ys \<Longrightarrow> length ys = length xs"
  by (auto simp: rmap_Inr dest: list_all2_lengthD)

subsection \<open>Sorted lists as canonical forms of multisets\<close>

lemma sort_eq_iff_mset: "sort (xs :: 'a::linorder list) = sort ys \<longleftrightarrow> mset xs = mset ys"
  by (metis mset_sort properties_for_sort sorted_sort)

lemma image_mset_inj_eq:
  assumes "inj f"
  shows "image_mset f A = image_mset f B \<longleftrightarrow> A = B"
proof
  assume eq: "image_mset f A = image_mset f B"
  have inv: "image_mset (inv f) (image_mset f M) = M" for M
    using assms by (simp add: multiset.map_comp comp_def)
  show "A = B" using arg_cong [OF eq, of "image_mset (inv f)"] unfolding inv .
qed simp

subsection \<open>Prefix selection\<close>

lemma takeWhile_prefix: "\<exists>zs. xs = takeWhile P xs @ zs"
  by (rule exI [of _ "dropWhile P xs"]) simp

subsection \<open>Actions: state passing with errors\<close>

text \<open>
  A call that changes state and may fail maps a state to its result and the state after it.
  A failed call keeps what it changed before it failed.
\<close>

type_synonym ('s, 'e, 'a) action = "'s \<Rightarrow> ('e + 'a) \<times> 's"

definition slift :: "'e + 'a \<Rightarrow> ('s, 'e, 'a) action" where
  "slift r s = (r, s)"

definition sbind :: "('s, 'e, 'a) action \<Rightarrow> ('a \<Rightarrow> ('s, 'e, 'b) action) \<Rightarrow> ('s, 'e, 'b) action" where
  "sbind m f s = (case m s of (Inl e, s') \<Rightarrow> (Inl e, s') | (Inr x, s') \<Rightarrow> f x s')"

definition stry :: "('s, 'e, 'a) action \<Rightarrow> ('s, 'f, 'e + 'a) action" where
  "stry m s = (case m s of (r, s') \<Rightarrow> (Inr r, s'))"

lemma sbind_Inr:
  "sbind m f s = (Inr y, s'') \<longleftrightarrow> (\<exists>x s'. m s = (Inr x, s') \<and> f x s' = (Inr y, s''))"
  by (auto simp: sbind_def split: prod.split sum.split)

lemma sbind_slift_Inl [simp]: "sbind (slift (Inl e)) f = slift (Inl e)"
  by (rule ext) (simp add: sbind_def slift_def)

lemma sbind_slift_Inr [simp]: "sbind (slift (Inr x)) f = f x"
  by (rule ext) (simp add: sbind_def slift_def)

text \<open>
  \<open>behaves R m E P\<close>: the action moves the state along \<open>R\<close> whatever its result, a
  failure satisfies \<open>E\<close> and a success \<open>P\<close>.
\<close>

definition behaves ::
    "('s \<Rightarrow> 's \<Rightarrow> bool) \<Rightarrow> ('s, 'e, 'a) action \<Rightarrow> ('e \<Rightarrow> bool) \<Rightarrow> ('a \<Rightarrow> bool) \<Rightarrow> bool"
where
  "behaves R m E P \<longleftrightarrow>
     (\<forall>s. R s (snd (m s)) \<and> (case fst (m s) of Inl e \<Rightarrow> E e | Inr x \<Rightarrow> P x))"

lemma behavesI:
  "(\<And>s. R s (snd (m s))) \<Longrightarrow> (\<And>s e. fst (m s) = Inl e \<Longrightarrow> E e) \<Longrightarrow>
   (\<And>s x. fst (m s) = Inr x \<Longrightarrow> P x) \<Longrightarrow> behaves R m E P"
  by (auto simp: behaves_def split: sum.split)

lemma behaves_state: "behaves R m E P \<Longrightarrow> m s = (r, s') \<Longrightarrow> R s s'"
  by (metis behaves_def snd_conv)

lemma behaves_error: "behaves R m E P \<Longrightarrow> m s = (Inl e, s') \<Longrightarrow> E e"
  by (metis behaves_def fst_conv sum.case(1))

lemma behaves_success: "behaves R m E P \<Longrightarrow> m s = (Inr x, s') \<Longrightarrow> P x"
  by (metis behaves_def fst_conv sum.case(2))

lemma behaves_result:
  "behaves R m E P \<Longrightarrow> m s = (r, s') \<Longrightarrow> R s s' \<and> (case r of Inl e \<Rightarrow> E e | Inr x \<Rightarrow> P x)"
  by (metis behaves_def fst_conv snd_conv)

lemma behaves_mono:
  "behaves R m E P \<Longrightarrow> (\<And>s s'. R s s' \<Longrightarrow> R' s s') \<Longrightarrow> (\<And>e. E e \<Longrightarrow> E' e) \<Longrightarrow> (\<And>x. P x \<Longrightarrow> P' x) \<Longrightarrow>
   behaves R' m E' P'"
  by (auto simp: behaves_def split: sum.split_asm sum.split)

lemma behaves_slift:
  "reflp R \<Longrightarrow> (\<And>e. r = Inl e \<Longrightarrow> E e) \<Longrightarrow> (\<And>x. r = Inr x \<Longrightarrow> P x) \<Longrightarrow> behaves R (slift r) E P"
  by (auto simp: behaves_def slift_def reflp_def split: sum.split)

lemma behaves_stry:
  assumes "behaves R m E P"
  shows "behaves R (stry m) F (\<lambda>r. case r of Inl e \<Rightarrow> E e | Inr x \<Rightarrow> P x)"
  using assms by (auto simp: behaves_def stry_def case_prod_beta)

lemma behaves_sbind:
  assumes "transp R" and "behaves R m E P" and "\<And>x. P x \<Longrightarrow> behaves R (f x) E Q"
  shows "behaves R (sbind m f) E Q"
  unfolding behaves_def
proof
  fix s
  obtain r s' where m: "m s = (r, s')"
    by fastforce
  with assms(2) have R: "R s s'" and result: "case r of Inl e \<Rightarrow> E e | Inr x \<Rightarrow> P x"
    by (auto simp: behaves_def dest!: spec [of _ s])
  show "R s (snd (sbind m f s)) \<and> (case fst (sbind m f s) of Inl e \<Rightarrow> E e | Inr x \<Rightarrow> Q x)"
  proof (cases r)
    case (Inl e)
    with R result m show ?thesis
      by (simp add: sbind_def)
  next
    case (Inr x)
    with result assms(3) have "behaves R (f x) E Q"
      by simp
    then have "R s' (snd (f x s'))" "case fst (f x s') of Inl e \<Rightarrow> E e | Inr x \<Rightarrow> Q x"
      by (simp_all add: behaves_def)
    with Inr R m assms(1) show ?thesis
      by (auto simp: sbind_def elim: transpE)
  qed
qed

lemma behaves_if:
  "(c \<Longrightarrow> behaves R m E P) \<Longrightarrow> (\<not> c \<Longrightarrow> behaves R m' E P) \<Longrightarrow> behaves R (if c then m else m') E P"
  by simp

text \<open>
  \<open>triple P m E Q\<close>: from a state that satisfies \<open>P\<close>, a failure and the state after it
  satisfy \<open>E\<close>, a success and the state after it \<open>Q\<close>.
\<close>

definition triple ::
    "('s \<Rightarrow> bool) \<Rightarrow> ('s, 'e, 'a) action \<Rightarrow> ('e \<Rightarrow> 's \<Rightarrow> bool) \<Rightarrow> ('a \<Rightarrow> 's \<Rightarrow> bool) \<Rightarrow> bool"
where
  "triple P m E Q \<longleftrightarrow> (\<forall>s. P s \<longrightarrow> (case m s of (r, s') \<Rightarrow> case r of Inl e \<Rightarrow> E e s' | Inr x \<Rightarrow> Q x s'))"

lemma tripleI:
  "(\<And>s e s'. P s \<Longrightarrow> m s = (Inl e, s') \<Longrightarrow> E e s') \<Longrightarrow> (\<And>s x s'. P s \<Longrightarrow> m s = (Inr x, s') \<Longrightarrow> Q x s') \<Longrightarrow>
   triple P m E Q"
  by (auto simp: triple_def split: sum.split)

lemma triple_result:
  "triple P m E Q \<Longrightarrow> P s \<Longrightarrow> m s = (r, s') \<Longrightarrow> case r of Inl e \<Rightarrow> E e s' | Inr x \<Rightarrow> Q x s'"
  by (auto simp: triple_def)

lemma triple_conseq:
  "triple P' m E' Q' \<Longrightarrow> (\<And>s. P s \<Longrightarrow> P' s) \<Longrightarrow> (\<And>e s. E' e s \<Longrightarrow> E e s) \<Longrightarrow> (\<And>x s. Q' x s \<Longrightarrow> Q x s) \<Longrightarrow>
   triple P m E Q"
  by (fastforce simp: triple_def split: sum.split_asm sum.split)

lemma triple_slift:
  "(\<And>s e. P s \<Longrightarrow> r = Inl e \<Longrightarrow> E e s) \<Longrightarrow> (\<And>s x. P s \<Longrightarrow> r = Inr x \<Longrightarrow> Q x s) \<Longrightarrow> triple P (slift r) E Q"
  by (auto simp: triple_def slift_def split: sum.split)

lemma triple_sbind:
  assumes "triple P m E Q" and "\<And>x. triple (Q x) (f x) E R"
  shows "triple P (sbind m f) E R"
proof (rule tripleI)
  fix s e s'
  assume "P s" and "sbind m f s = (Inl e, s')"
  then show "E e s'"
    using triple_result [OF assms(1), of s] triple_result [OF assms(2)]
    by (fastforce simp: sbind_def split: prod.split_asm sum.split_asm)
next
  fix s y s'
  assume "P s" and "sbind m f s = (Inr y, s')"
  then show "R y s'"
    using triple_result [OF assms(1), of s] triple_result [OF assms(2)]
    by (fastforce simp: sbind_def split: prod.split_asm sum.split_asm)
qed

lemma triple_stry:
  "triple P m E Q \<Longrightarrow> triple P (stry m) F (\<lambda>r s. case r of Inl e \<Rightarrow> E e s | Inr x \<Rightarrow> Q x s)"
  by (simp add: triple_def stry_def case_prod_beta)

lemma triple_if:
  "(c \<Longrightarrow> triple P m E Q) \<Longrightarrow> (\<not> c \<Longrightarrow> triple P m' E Q) \<Longrightarrow> triple P (if c then m else m') E Q"
  by simp

lemma triple_option:
  "(x = None \<Longrightarrow> triple P m E Q) \<Longrightarrow> (\<And>y. x = Some y \<Longrightarrow> triple P (f y) E Q) \<Longrightarrow>
   triple P (case x of None \<Rightarrow> m | Some y \<Rightarrow> f y) E Q"
  by (cases x) simp_all

lemma triple_sum:
  "(\<And>e. x = Inl e \<Longrightarrow> triple P (g e) E Q) \<Longrightarrow> (\<And>y. x = Inr y \<Longrightarrow> triple P (f y) E Q) \<Longrightarrow>
   triple P (case x of Inl e \<Rightarrow> g e | Inr y \<Rightarrow> f y) E Q"
  by (cases x) simp_all

lemma triple_pure: "(p \<Longrightarrow> triple P m E Q) \<Longrightarrow> triple (\<lambda>s. p \<and> P s) m E Q"
  by (auto simp: triple_def)

lemma triple_behaves:
  "behaves R m F P' \<Longrightarrow>
   triple P m (\<lambda>e s'. F e \<and> (\<exists>s. P s \<and> R s s')) (\<lambda>x s'. P' x \<and> (\<exists>s. P s \<and> R s s'))"
  by (rule tripleI) (blast dest: behaves_state behaves_error behaves_success)+

end
