(* ===== verification/Go_Runtime.thy ===== *)
theory Go_Runtime
  imports Prelude "HOL-Library.List_Lexorder" "HOL-Library.Char_ord"
begin

text \<open>
  The parts of the Go language and its standard library that the program's branches
  depend on: UTF-8 decoding as a \<^verbatim>\<open>for range\<close> loop over a string performs it,
  encoding of runes, \<^verbatim>\<open>strings.TrimSpace\<close>, \<^verbatim>\<open>strings.Cut\<close>,
  \<^verbatim>\<open>strings.Join\<close>, \<^verbatim>\<open>strconv.Atoi\<close>, decimal and hexadecimal
  rendering, and fixed-width signed arithmetic. Case mapping and graphic classification of
  runes beyond Latin-1 come from the Unicode tables and are parameters of the definitions
  that need them. The main facts are that decoding inverts encoding and that decimal
  rendering is read back by \<open>atoi\<close>.
\<close>

type_synonym rune = nat

subsection \<open>Fixed-width signed integers\<close>

text \<open>Go's \<^verbatim>\<open>int64\<close> and \<^verbatim>\<open>int32\<close> arithmetic wraps around in two's complement.\<close>

definition wrap64 :: "int \<Rightarrow> int" where
  "wrap64 x = (x + 2 ^ 63) mod 2 ^ 64 - 2 ^ 63"

definition wrap32 :: "int \<Rightarrow> int" where
  "wrap32 x = (x + 2 ^ 31) mod 2 ^ 32 - 2 ^ 31"

definition is_int64 :: "int \<Rightarrow> bool" where
  "is_int64 x \<longleftrightarrow> - (2 ^ 63) \<le> x \<and> x < 2 ^ 63"

definition is_int32 :: "int \<Rightarrow> bool" where
  "is_int32 x \<longleftrightarrow> - (2 ^ 31) \<le> x \<and> x < 2 ^ 31"

subsection \<open>UTF-8\<close>

definition rune_error :: rune where
  "rune_error = 65533"

definition continuation_byte :: "nat \<Rightarrow> bool" where
  "continuation_byte b \<longleftrightarrow> 128 \<le> b \<and> b < 192"

text \<open>The bytes accepted after a given lead byte.\<close>

definition second_byte_ok :: "nat \<Rightarrow> nat \<Rightarrow> bool" where
  "second_byte_ok p b \<longleftrightarrow>
     (if p = 224 then 160 \<le> b \<and> b < 192
      else if p = 237 then 128 \<le> b \<and> b < 160
      else if p = 240 then 144 \<le> b \<and> b < 192
      else if p = 244 then 128 \<le> b \<and> b < 144
      else continuation_byte b)"

definition sequence_length :: "nat \<Rightarrow> nat" where
  "sequence_length p =
     (if p < 128 then 1
      else if p < 194 then 0
      else if p < 224 then 2
      else if p < 240 then 3
      else if p < 245 then 4
      else 0)"

text \<open>
  \<^verbatim>\<open>utf8.DecodeRuneInString\<close> on a non-empty string: the rune and its width. Every
  invalid encoding is the replacement rune with width one.
\<close>

fun decode_rune :: "nat list \<Rightarrow> rune \<times> nat" where
  "decode_rune [] = (rune_error, 0)"
| "decode_rune (p # bs) =
     (case sequence_length p of
        0 \<Rightarrow> (rune_error, 1)
      | Suc 0 \<Rightarrow> (p, 1)
      | Suc (Suc 0) \<Rightarrow>
          (case bs of
             b1 # _ \<Rightarrow>
               if second_byte_ok p b1 then (p mod 32 * 64 + b1 mod 64, 2) else (rune_error, 1)
           | [] \<Rightarrow> (rune_error, 1))
      | Suc (Suc (Suc 0)) \<Rightarrow>
          (case bs of
             b1 # b2 # _ \<Rightarrow>
               if second_byte_ok p b1 \<and> continuation_byte b2
               then (p mod 16 * 4096 + b1 mod 64 * 64 + b2 mod 64, 3) else (rune_error, 1)
           | _ \<Rightarrow> (rune_error, 1))
      | _ \<Rightarrow>
          (case bs of
             b1 # b2 # b3 # _ \<Rightarrow>
               if second_byte_ok p b1 \<and> continuation_byte b2 \<and> continuation_byte b3
               then (p mod 8 * 262144 + b1 mod 64 * 4096 + b2 mod 64 * 64 + b3 mod 64, 4)
               else (rune_error, 1)
           | _ \<Rightarrow> (rune_error, 1)))"

lemma decode_rune_width: "bs \<noteq> [] \<Longrightarrow> 0 < snd (decode_rune bs)"
  by (cases bs) (auto split: nat.splits list.splits)

text \<open>
  The runes of a string with their widths, in the order a \<^verbatim>\<open>range\<close> loop visits them.
\<close>

function rune_cells :: "nat list \<Rightarrow> (rune \<times> nat list) list" where
  "rune_cells bs =
     (if bs = [] then []
      else (let (r, w) = decode_rune bs in (r, take w bs) # rune_cells (drop w bs)))"
  by pat_completeness auto
termination
proof (relation "measure length")
  show "wf (measure length)" by simp
next
  fix bs :: "nat list" and x r w
  assume "bs \<noteq> []" and "x = decode_rune bs" and "(r, w) = x"
  then have "0 < w" using decode_rune_width [of bs] by (metis snd_conv)
  with \<open>bs \<noteq> []\<close> show "(drop w bs, bs) \<in> measure length" by simp
qed

declare rune_cells.simps [simp del]

definition byte_values :: "bytes \<Rightarrow> nat list" where
  "byte_values s = map of_char s"

definition of_byte_values :: "nat list \<Rightarrow> bytes" where
  "of_byte_values bs = map char_of bs"

definition runes :: "bytes \<Rightarrow> rune list" where
  "runes s = map fst (rune_cells (byte_values s))"

definition valid_rune :: "rune \<Rightarrow> bool" where
  "valid_rune r \<longleftrightarrow> r < 55296 \<or> 57344 \<le> r \<and> r < 1114112"

text \<open>\<^verbatim>\<open>utf8.AppendRune\<close>: an invalid rune is encoded as the replacement rune.\<close>

definition encode_rune_values :: "rune \<Rightarrow> nat list" where
  "encode_rune_values r0 =
     (let r = (if valid_rune r0 then r0 else rune_error) in
      if r < 128 then [r]
      else if r < 2048 then [192 + r div 64, 128 + r mod 64]
      else if r < 65536 then [224 + r div 4096, 128 + r div 64 mod 64, 128 + r mod 64]
      else [240 + r div 262144, 128 + r div 4096 mod 64, 128 + r div 64 mod 64, 128 + r mod 64])"

definition encode_runes :: "rune list \<Rightarrow> bytes" where
  "encode_runes rs = of_byte_values (concat (map encode_rune_values rs))"

lemma of_byte_values_byte_values [simp]: "of_byte_values (byte_values s) = s"
  by (simp add: of_byte_values_def byte_values_def comp_def)

lemma byte_values_of_byte_values [simp]:
  "\<forall>b \<in> set bs. b < 256 \<Longrightarrow> byte_values (of_byte_values bs) = bs"
  by (induction bs) (auto simp: of_byte_values_def byte_values_def)

lemma rune_cells_Nil [simp]: "rune_cells [] = []"
  by (simp add: rune_cells.simps)

lemma rune_cells_step:
  assumes "decode_rune (xs @ bs) = (r, length xs)" and "xs \<noteq> []"
  shows "rune_cells (xs @ bs) = (r, xs) # rune_cells bs"
  using assms by (simp add: rune_cells.simps [of "xs @ bs"])

lemma concat_rune_cells [simp]: "concat (map snd (rune_cells bs)) = bs"
proof (induction bs rule: rune_cells.induct)
  case (1 bs)
  then show ?case
    by (cases "bs = []") (auto simp: rune_cells.simps [of bs] split: prod.splits)
qed

lemma encode_rune_values_bytes: "b \<in> set (encode_rune_values r) \<Longrightarrow> b < 256"
proof -
  assume b: "b \<in> set (encode_rune_values r)"
  define q where "q = (if valid_rune r then r else rune_error)"
  have q: "q < 1114112" by (auto simp: q_def valid_rune_def rune_error_def)
  from b show ?thesis
    using q by (auto simp: encode_rune_values_def q_def [symmetric] Let_def split: if_splits)
qed

lemma encode_rune_values_nonempty [simp]: "encode_rune_values r \<noteq> []"
  by (auto simp: encode_rune_values_def Let_def)

lemma decode_encode_1: "r < 128 \<Longrightarrow> decode_rune (r # bs) = (r, 1)"
  by (simp add: sequence_length_def)

lemma multiple_add_mod: "q < n \<Longrightarrow> (k * n + q) mod n = (q :: nat)"
  by simp

lemma low_bits: "(128 + x mod 64) mod 64 = x mod (64 :: nat)"
  using multiple_add_mod [of "x mod 64" 64 2] by simp

lemma decode_encode_2:
  assumes "128 \<le> r" "r < 2048"
  shows "decode_rune ((192 + r div 64) # (128 + r mod 64) # bs) = (r, 2)"
proof -
  define q where "q = r div 64"
  have q: "2 \<le> q" "q < 32" using assms by (auto simp: q_def)
  then have m: "(192 + q) mod 32 = q" using multiple_add_mod [of q 32 6] by simp
  have "sequence_length (192 + q) = Suc (Suc 0)" using q by (simp add: sequence_length_def)
  moreover have "second_byte_ok (192 + q) (128 + r mod 64)"
    using q by (simp add: second_byte_ok_def continuation_byte_def)
  moreover have "q * 64 + r mod 64 = r" by (simp add: q_def)
  ultimately show ?thesis by (simp add: q_def [symmetric] m low_bits)
qed

lemma base64_digits: "r div 64 div 64 * 4096 + r div 64 mod 64 * 64 + r mod 64 = (r :: nat)"
proof -
  have "r div 64 = r div 64 div 64 * 64 + r div 64 mod 64" by simp
  moreover have "r = r div 64 * 64 + r mod 64" by simp
  ultimately show ?thesis by linarith
qed

lemma decode_encode_3:
  assumes "2048 \<le> r" "r < 65536" "valid_rune r"
  shows "decode_rune ((224 + r div 4096) # (128 + r div 64 mod 64) # (128 + r mod 64) # bs) = (r, 3)"
proof -
  define q where "q = r div 64"
  have q: "32 \<le> q" "q < 1024" "q < 864 \<or> 896 \<le> q"
    using assms by (auto simp: q_def valid_rune_def)
  have d: "r div 4096 = q div 64" by (simp add: q_def div_mult2_eq [symmetric])
  have p: "q div 64 < 16" using q by simp
  then have m: "(224 + q div 64) mod 16 = q div 64"
    using multiple_add_mod [of "q div 64" 16 14] by simp
  have l: "sequence_length (224 + q div 64) = Suc (Suc (Suc 0))"
    using p by (simp add: sequence_length_def)
  have "q = q div 64 * 64 + q mod 64" by simp
  then have "q div 64 = 0 \<Longrightarrow> 32 \<le> q mod 64" "q div 64 = 13 \<Longrightarrow> q mod 64 < 32"
    using q p mod_less_divisor [of 64 q] by linarith+
  then have s: "second_byte_ok (224 + q div 64) (128 + q mod 64)"
    using p by (auto simp: second_byte_ok_def continuation_byte_def)
  have c: "continuation_byte (128 + r mod 64)" by (simp add: continuation_byte_def)
  have v: "q div 64 * 4096 + q mod 64 * 64 + r mod 64 = r"
    using base64_digits [of r] by (simp add: q_def)
  show ?thesis using l s c by (simp add: d q_def [symmetric] m low_bits v)
qed

lemma decode_encode_4:
  assumes "65536 \<le> r" "r < 1114112"
  shows "decode_rune ((240 + r div 262144) # (128 + r div 4096 mod 64) # (128 + r div 64 mod 64)
           # (128 + r mod 64) # bs) = (r, 4)"
proof -
  define q where "q = r div 4096"
  have q: "16 \<le> q" "q < 272" using assms by (auto simp: q_def)
  have d: "r div 262144 = q div 64" by (simp add: q_def div_mult2_eq [symmetric])
  have e: "r div 64 div 64 = q" by (simp add: q_def div_mult2_eq [symmetric])
  have p: "q div 64 < 5" using q by simp
  then have m: "(240 + q div 64) mod 8 = q div 64"
    using multiple_add_mod [of "q div 64" 8 30] by simp
  have l: "sequence_length (240 + q div 64) = Suc (Suc (Suc (Suc 0)))"
    using p by (simp add: sequence_length_def)
  have digits: "q = q div 64 * 64 + q mod 64" by simp
  then have "q div 64 = 0 \<Longrightarrow> 16 \<le> q mod 64" "q div 64 = 4 \<Longrightarrow> q mod 64 < 16"
    using q by linarith+
  then have s: "second_byte_ok (240 + q div 64) (128 + q mod 64)"
    using p by (auto simp: second_byte_ok_def continuation_byte_def)
  have c: "continuation_byte (128 + r mod 64)" "continuation_byte (128 + r div 64 mod 64)"
    by (simp_all add: continuation_byte_def)
  from digits have v: "q div 64 * 262144 + q mod 64 * 4096 + r div 64 mod 64 * 64 + r mod 64 = r"
    using base64_digits [of r] unfolding e by linarith
  show ?thesis using l s c by (simp add: d q_def [symmetric] m low_bits v)
qed

lemma decode_encode_rune:
  assumes "valid_rune r"
  shows "decode_rune (encode_rune_values r @ bs) = (r, length (encode_rune_values r))"
proof -
  consider "r < 128" | "128 \<le> r" "r < 2048" | "2048 \<le> r" "r < 65536" | "65536 \<le> r" "r < 1114112"
    using assms unfolding valid_rune_def by linarith
  then show ?thesis
  proof cases
    case 1
    then show ?thesis
      using assms by (simp add: encode_rune_values_def decode_encode_1 del: decode_rune.simps)
  next
    case 2
    then show ?thesis
      using assms by (simp add: encode_rune_values_def decode_encode_2 del: decode_rune.simps)
  next
    case 3
    then show ?thesis
      using assms by (simp add: encode_rune_values_def decode_encode_3 del: decode_rune.simps)
  next
    case 4
    then show ?thesis
      using assms by (simp add: encode_rune_values_def decode_encode_4 del: decode_rune.simps)
  qed
qed

lemma rune_cells_encode:
  "\<forall>r \<in> set rs. valid_rune r \<Longrightarrow>
     rune_cells (concat (map encode_rune_values rs) @ bs)
       = map (\<lambda>r. (r, encode_rune_values r)) rs @ rune_cells bs"
proof (induction rs)
  case Nil
  then show ?case by simp
next
  case (Cons r rs)
  then have "valid_rune r" by simp
  then show ?case
    using Cons by (simp add: rune_cells_step [OF decode_encode_rune])
qed

lemma byte_values_encode_runes [simp]:
  "byte_values (encode_runes rs) = concat (map encode_rune_values rs)"
  by (simp add: encode_runes_def, rule byte_values_of_byte_values)
    (auto dest: encode_rune_values_bytes)

lemma runes_encode_runes:
  "\<forall>r \<in> set rs. valid_rune r \<Longrightarrow> runes (encode_runes rs) = rs"
  using rune_cells_encode [of rs "[]"] by (simp add: runes_def comp_def)

definition normal_rune :: "rune \<Rightarrow> rune" where
  "normal_rune r = (if valid_rune r then r else rune_error)"

lemma valid_normal_rune [simp]: "valid_rune (normal_rune r)"
  by (simp add: normal_rune_def valid_rune_def rune_error_def)

lemma normal_rune_valid [simp]: "valid_rune r \<Longrightarrow> normal_rune r = r"
  by (simp add: normal_rune_def)

lemma encode_normal_rune: "encode_rune_values (normal_rune r) = encode_rune_values r"
  using valid_normal_rune [of r] by (simp add: encode_rune_values_def normal_rune_def Let_def)

lemma runes_encode_any: "runes (encode_runes rs) = map normal_rune rs"
proof -
  have "encode_runes (map normal_rune rs) = encode_runes rs"
    by (simp add: encode_runes_def comp_def encode_normal_rune)
  moreover have "runes (encode_runes (map normal_rune rs)) = map normal_rune rs"
    by (rule runes_encode_runes) simp
  ultimately show ?thesis by simp
qed

text \<open>Decoding yields valid runes only: surrogates and overlong forms are rejected.\<close>

lemma continuation_mod: "128 \<le> b \<Longrightarrow> b < 192 \<Longrightarrow> b mod 64 = b - (128 :: nat)"
  using multiple_add_mod [of "b - 128" 64 2] by simp

lemma second_byte_continuation: "second_byte_ok p b \<Longrightarrow> continuation_byte b"
  by (auto simp: second_byte_ok_def continuation_byte_def split: if_splits)

lemma decoded_2_valid:
  "second_byte_ok p b \<Longrightarrow> valid_rune (p mod 32 * 64 + b mod 64)"
proof -
  have "p mod 32 < 32" "b mod 64 < 64" by simp_all
  then show ?thesis unfolding valid_rune_def by linarith
qed

lemma decoded_3_valid:
  assumes "sequence_length p = 3" "second_byte_ok p b1" "continuation_byte b2"
  shows "valid_rune (p mod 16 * 4096 + b1 mod 64 * 64 + b2 mod 64)"
proof -
  have p: "224 \<le> p" "p < 240" using assms(1) by (auto simp: sequence_length_def split: if_splits)
  then have m: "p mod 16 = p - 224" using multiple_add_mod [of "p - 224" 16 14] by simp
  have b: "b1 mod 64 = b1 - 128" "b1 < 192" "128 \<le> b1" "p = 237 \<Longrightarrow> b1 < 160"
    using second_byte_continuation [OF assms(2)] assms(2) continuation_mod
    by (auto simp: continuation_byte_def second_byte_ok_def)
  have c: "b2 mod 64 < 64" by simp
  consider "p \<le> 236" | "p = 237" | "238 \<le> p" by linarith
  then show ?thesis
  proof cases
    case 1
    then show ?thesis using p m b c unfolding valid_rune_def by linarith
  next
    case 2
    then have "p mod 16 = 13" "b1 mod 64 \<le> 31" using m b by simp_all
    then show ?thesis using c unfolding valid_rune_def by linarith
  next
    case 3
    then show ?thesis using p m b c unfolding valid_rune_def by linarith
  qed
qed

lemma decoded_4_valid:
  assumes "sequence_length p = 4" "second_byte_ok p b1"
  shows "valid_rune (p mod 8 * 262144 + b1 mod 64 * 4096 + b2 mod 64 * 64 + b3 mod 64)"
proof -
  have p: "240 \<le> p" "p < 245" using assms(1) by (auto simp: sequence_length_def split: if_splits)
  then have "p mod 8 = p - 240" using multiple_add_mod [of "p - 240" 8 30] by simp
  moreover have "b1 mod 64 = b1 - 128" "b1 < 192" "128 \<le> b1"
    "p = 240 \<Longrightarrow> 144 \<le> b1" "p = 244 \<Longrightarrow> b1 < 144"
    using second_byte_continuation [OF assms(2)] assms(2) continuation_mod
    by (auto simp: continuation_byte_def second_byte_ok_def)
  moreover have "b2 mod 64 < 64" "b3 mod 64 < 64" by simp_all
  ultimately show ?thesis using p unfolding valid_rune_def by linarith
qed

lemma decode_rune_valid: "valid_rune (fst (decode_rune bs))"
proof (cases bs)
  case Nil
  then show ?thesis by (simp add: valid_rune_def rune_error_def)
next
  case (Cons p ps)
  have e: "valid_rune rune_error" by (simp add: valid_rune_def rune_error_def)
  have "sequence_length p \<in> {0, 1, 2, 3, 4}" by (simp add: sequence_length_def)
  then consider "sequence_length p = 0" | "sequence_length p = 1" | "sequence_length p = 2"
    | "sequence_length p = 3" | "sequence_length p = 4"
    by auto
  then show ?thesis
  proof cases
    case 1
    with e Cons show ?thesis by simp
  next
    case 2
    then have "p < 128" by (simp add: sequence_length_def split: if_splits)
    with 2 Cons show ?thesis by (simp add: valid_rune_def)
  next
    case 3
    with e Cons show ?thesis
      by (auto simp: numeral_2_eq_2 decoded_2_valid split: list.splits)
  next
    case 4
    with e Cons show ?thesis
      using decoded_3_valid [OF 4] by (auto simp: numeral_3_eq_3 split: list.splits)
  next
    case 5
    moreover from 5 have "sequence_length p = Suc (Suc (Suc (Suc 0)))" by simp
    ultimately show ?thesis
      using e Cons decoded_4_valid [OF 5] by (auto split: list.splits)
  qed
qed

lemma rune_cells_valid: "c \<in> set (rune_cells bs) \<Longrightarrow> valid_rune (fst c)"
proof (induction bs rule: rune_cells.induct)
  case (1 bs)
  show ?case
  proof (cases "bs = []")
    case True
    with "1.prems" show ?thesis by simp
  next
    case False
    obtain r w where d: "decode_rune bs = (r, w)" by force
    with False have cells: "rune_cells bs = (r, take w bs) # rune_cells (drop w bs)"
      by (simp add: rune_cells.simps [of bs])
    have "valid_rune r" using decode_rune_valid [of bs] d by simp
    with cells "1.prems" "1.IH" [OF False refl d [symmetric]] show ?thesis by auto
  qed
qed

lemma runes_valid: "r \<in> set (runes s) \<Longrightarrow> valid_rune r"
  by (auto simp: runes_def dest: rune_cells_valid)

lemma encode_runes_append: "encode_runes (rs @ qs) = encode_runes rs @ encode_runes qs"
  by (simp add: encode_runes_def of_byte_values_def)

subsection \<open>ASCII strings\<close>

definition ascii :: "bytes \<Rightarrow> bool" where
  "ascii s \<longleftrightarrow> (\<forall>c \<in> set s. (of_char c :: nat) < 128)"

lemma ascii_encode: "ascii s \<Longrightarrow> encode_runes (byte_values s) = s"
  by (induction s)
    (auto simp: ascii_def encode_runes_def byte_values_def of_byte_values_def
      encode_rune_values_def valid_rune_def)

lemma ascii_runes: "ascii s \<Longrightarrow> runes s = byte_values s"
proof -
  assume a: "ascii s"
  then have "\<forall>r \<in> set (byte_values s). valid_rune r"
    by (auto simp: ascii_def byte_values_def valid_rune_def)
  then have "runes (encode_runes (byte_values s)) = byte_values s"
    by (rule runes_encode_runes)
  with a show ?thesis by (simp add: ascii_encode)
qed

subsection \<open>White space\<close>

text \<open>\<^verbatim>\<open>unicode.IsSpace\<close>\<close>

definition is_space :: "rune \<Rightarrow> bool" where
  "is_space r \<longleftrightarrow>
     9 \<le> r \<and> r \<le> 13 \<or> r = 32 \<or> r = 133 \<or> r = 160 \<or> r = 5760 \<or> 8192 \<le> r \<and> r \<le> 8202
     \<or> r = 8232 \<or> r = 8233 \<or> r = 8239 \<or> r = 8287 \<or> r = 12288"

definition trim_cells :: "(rune \<times> nat list) list \<Rightarrow> (rune \<times> nat list) list" where
  "trim_cells cs =
     rev (dropWhile (is_space \<circ> fst) (rev (dropWhile (is_space \<circ> fst) cs)))"

text \<open>\<^verbatim>\<open>strings.TrimSpace\<close>\<close>

definition trim_space :: "bytes \<Rightarrow> bytes" where
  "trim_space s = of_byte_values (concat (map snd (trim_cells (rune_cells (byte_values s)))))"

lemma trim_space_Nil [simp]: "trim_space [] = []"
  by (simp add: trim_space_def trim_cells_def byte_values_def of_byte_values_def)

lemma trim_cells_id:
  assumes "cs \<noteq> [] \<Longrightarrow> \<not> is_space (fst (hd cs))" "cs \<noteq> [] \<Longrightarrow> \<not> is_space (fst (last cs))"
  shows "trim_cells cs = cs"
proof (cases "cs = []")
  case True
  then show ?thesis by (simp add: trim_cells_def)
next
  case False
  then have 1: "dropWhile (is_space \<circ> fst) cs = cs"
    using assms(1) by (cases cs) auto
  have "dropWhile (is_space \<circ> fst) (rev cs) = rev cs"
    using assms(2) False by (cases "rev cs") (auto simp: last_rev [symmetric] hd_rev)
  then show ?thesis by (simp add: trim_cells_def 1)
qed

lemma trim_space_encode:
  assumes "\<forall>r \<in> set rs. valid_rune r"
    and "rs \<noteq> [] \<Longrightarrow> \<not> is_space (hd rs)" "rs \<noteq> [] \<Longrightarrow> \<not> is_space (last rs)"
  shows "trim_space (encode_runes rs) = encode_runes rs"
proof -
  let ?cs = "map (\<lambda>r. (r, encode_rune_values r)) rs"
  have "rune_cells (byte_values (encode_runes rs)) = ?cs"
    using rune_cells_encode [OF assms(1), of "[]"] by simp
  moreover have "trim_cells ?cs = ?cs"
    by (rule trim_cells_id) (use assms(2,3) in \<open>simp_all add: hd_map last_map\<close>)
  ultimately show ?thesis by (simp add: trim_space_def encode_runes_def comp_def)
qed

subsection \<open>Cutting and joining\<close>

text \<open>\<^verbatim>\<open>strings.Cut\<close> with a separator of one byte: the part before it, the part after
  it and whether it occurs.\<close>

definition cut :: "bytes \<Rightarrow> char \<Rightarrow> bytes \<times> bytes \<times> bool" where
  "cut s c =
     (if c \<in> set s
      then (takeWhile (\<lambda>x. x \<noteq> c) s, tl (dropWhile (\<lambda>x. x \<noteq> c) s), True)
      else (s, [], False))"

lemma while_until:
  "c \<notin> set a \<Longrightarrow> takeWhile (\<lambda>x. x \<noteq> c) (a @ c # b) = a \<and> dropWhile (\<lambda>x. x \<noteq> c) (a @ c # b) = c # b"
  by (induction a) auto

lemma cut_found: "c \<notin> set a \<Longrightarrow> cut (a @ c # b) c = (a, b, True)"
  by (simp add: cut_def while_until)

lemma cut_parts: "cut s c = (a, b, True) \<Longrightarrow> s = a @ c # b \<and> c \<notin> set a"
proof -
  assume cut: "cut s c = (a, b, True)"
  then have "c \<in> set s" by (simp add: cut_def split: if_splits)
  then obtain xs ys where s: "s = xs @ c # ys" "c \<notin> set xs"
    by (meson split_list_first)
  with cut cut_found [OF s(2), of ys] show ?thesis by simp
qed

text \<open>\<^verbatim>\<open>strings.Join\<close>\<close>

fun join :: "bytes \<Rightarrow> bytes list \<Rightarrow> bytes" where
  "join sep [] = []"
| "join sep [x] = x"
| "join sep (x # y # xs) = x @ sep @ join sep (y # xs)"

subsection \<open>Decimal and hexadecimal digits\<close>

definition digit_char :: "nat \<Rightarrow> char" where
  "digit_char d = char_of (48 + d)"

definition digit_value :: "char \<Rightarrow> nat option" where
  "digit_value c = (let n = of_char c in if 48 \<le> n \<and> n \<le> 57 then Some (n - 48) else None)"

fun itoa_nat :: "nat \<Rightarrow> bytes" where
  "itoa_nat n = (if n < 10 then [digit_char n] else itoa_nat (n div 10) @ [digit_char (n mod 10)])"

declare itoa_nat.simps [simp del]

fun digits_value :: "nat \<Rightarrow> bytes \<Rightarrow> nat option" where
  "digits_value acc [] = Some acc"
| "digits_value acc (c # cs) =
     (case digit_value c of None \<Rightarrow> None | Some d \<Rightarrow> digits_value (10 * acc + d) cs)"

text \<open>
  \<^verbatim>\<open>strconv.Atoi\<close> on a 64-bit platform: an optional sign and at least one decimal
  digit, rejected outside the range of \<^verbatim>\<open>int64\<close>.
\<close>

definition atoi :: "bytes \<Rightarrow> int option" where
  "atoi s =
     (let neg = (case s of c # _ \<Rightarrow> c = CHR ''-'' | [] \<Rightarrow> False);
          signed = (case s of c # _ \<Rightarrow> c = CHR ''-'' \<or> c = CHR ''+'' | [] \<Rightarrow> False);
          body = (if signed then tl s else s)
      in if body = [] then None
         else (case digits_value 0 body of
                 None \<Rightarrow> None
               | Some n \<Rightarrow>
                   let v = (if neg then - int n else int n)
                   in if is_int64 v then Some v else None))"

definition hex_digit :: "nat \<Rightarrow> char" where
  "hex_digit d = (if d < 10 then char_of (48 + d) else char_of (87 + d))"

text \<open>\<^verbatim>\<open>hex.EncodeToString\<close>\<close>

definition hex_encode :: "bytes \<Rightarrow> bytes" where
  "hex_encode s =
     concat (map (\<lambda>c. [hex_digit (of_char c div 16), hex_digit (of_char c mod 16)]) s)"

lemma hex_digit_inject: "d < 16 \<Longrightarrow> e < 16 \<Longrightarrow> hex_digit d = hex_digit e \<longleftrightarrow> d = e"
  by (auto simp: hex_digit_def char_of_eq_iff take_bit_eq_mod split: if_splits)

lemma hex_encode_inject: "hex_encode s = hex_encode t \<longleftrightarrow> s = t"
proof
  show "hex_encode s = hex_encode t \<Longrightarrow> s = t"
  proof (induction s arbitrary: t)
    case Nil
    then show ?case
      by (cases t) (simp_all add: hex_encode_def)
  next
    case (Cons c s)
    then obtain d t' where t: "t = d # t'"
      by (cases t) (simp_all add: hex_encode_def)
    have bound: "(of_char x :: nat) div 16 < 16" for x :: char
      using nat_of_char_less_256 [of x] by (simp only: less_mult_imp_div_less)
    have "(of_char c :: nat) div 16 = of_char d div 16" "(of_char c :: nat) mod 16 = of_char d mod 16"
        and tail: "hex_encode s = hex_encode t'"
      using Cons.prems by (simp_all add: t hex_encode_def hex_digit_inject bound)
    then have "(of_char c :: nat) = of_char d"
      by (metis div_mult_mod_eq)
    with Cons.IH [OF tail] t show ?case
      by simp
  qed
qed simp

lemma digit_value_digit_char [simp]: "d < 10 \<Longrightarrow> digit_value (digit_char d) = Some d"
  by (simp add: digit_value_def digit_char_def)

lemma digits_value_append:
  "digits_value acc (xs @ ys) =
     (case digits_value acc xs of None \<Rightarrow> None | Some n \<Rightarrow> digits_value n ys)"
  by (induction xs arbitrary: acc) (auto split: option.splits)

lemma digits_value_itoa: "digits_value 0 (itoa_nat n) = Some n"
proof (induction n rule: itoa_nat.induct)
  case (1 n)
  then show ?case
    by (cases "n < 10") (simp_all add: itoa_nat.simps [of n] digits_value_append)
qed

lemma itoa_nat_nonempty [simp]: "itoa_nat n \<noteq> []"
  by (simp add: itoa_nat.simps [of n])

lemma Nil_neq_itoa_nat [simp]: "[] \<noteq> itoa_nat n"
  by (rule itoa_nat_nonempty [THEN not_sym])

lemma hd_itoa_nat: "\<exists>d < 10. hd (itoa_nat n) = digit_char d"
proof (induction n rule: itoa_nat.induct)
  case (1 n)
  then show ?case by (cases "n < 10") (auto simp: itoa_nat.simps [of n])
qed

lemma digit_char_no_sign: "d < 10 \<Longrightarrow> digit_char d \<noteq> CHR ''-'' \<and> digit_char d \<noteq> CHR ''+''"
proof -
  assume d: "d < 10"
  have "digit_value (CHR ''-'') = None" "digit_value (CHR ''+'') = None"
    by (simp_all add: digit_value_def)
  with digit_value_digit_char [OF d] show ?thesis by force
qed

lemma atoi_itoa_nat: "n < 2 ^ 63 \<Longrightarrow> atoi (itoa_nat n) = Some (int n)"
proof -
  assume n: "n < 2 ^ 63"
  obtain c cs where s: "itoa_nat n = c # cs" by (meson itoa_nat_nonempty list.exhaust)
  then have "c \<noteq> CHR ''-'' \<and> c \<noteq> CHR ''+''"
    using hd_itoa_nat [of n] digit_char_no_sign by auto
  moreover have "is_int64 (int n)" using n by (simp add: is_int64_def)
  moreover have "digits_value 0 (c # cs) = Some n" using digits_value_itoa [of n] s by simp
  ultimately show ?thesis by (simp add: atoi_def s Let_def)
qed

subsection \<open>Wrap-around\<close>

lemma wrap64_id: "is_int64 x \<Longrightarrow> wrap64 x = x"
  by (simp add: wrap64_def is_int64_def)

lemma wrap64_range: "is_int64 (wrap64 x)"
proof -
  have "0 \<le> (x + 2 ^ 63) mod (2 ^ 64)" "(x + 2 ^ 63) mod (2 ^ 64) < (2 ^ 64 :: int)" by simp_all
  then show ?thesis unfolding is_int64_def wrap64_def by simp
qed

lemma wrap32_id: "is_int32 x \<Longrightarrow> wrap32 x = x"
  by (simp add: wrap32_def is_int32_def)

lemma wrap32_range: "is_int32 (wrap32 x)"
proof -
  have "0 \<le> (x + 2 ^ 31) mod (2 ^ 32)" "(x + 2 ^ 31) mod (2 ^ 32) < (2 ^ 32 :: int)" by simp_all
  then show ?thesis unfolding is_int32_def wrap32_def by simp
qed

end
