(* ===== verification/Log_Text.thy ===== *)
theory Log_Text
  imports Go_Runtime
begin

text \<open>
  The package \<^verbatim>\<open>src/internal/logging\<close>: text chosen by a peer is stripped of
  non-printing characters and truncated before it reaches a log line, a condition or an
  Event. The parameter \<open>graphic\<close> is \<^verbatim>\<open>unicode.IsGraphic\<close> above Latin-1.
  The lemmas show that every bounded text is graphic, that its length is bounded whatever
  the peer sent, and that a short printable text is left unchanged.
\<close>

definition MaxTextLength :: nat where
  "MaxTextLength = 256"

definition MaxListItems :: nat where
  "MaxListItems = 8"

text \<open>\<^verbatim>\<open>unicode.IsGraphic\<close>: the Latin-1 block is fixed, the rest is a parameter.\<close>

definition is_graphic :: "(rune \<Rightarrow> bool) \<Rightarrow> rune \<Rightarrow> bool" where
  "is_graphic graphic r \<longleftrightarrow>
     (if r < 256 then 32 \<le> r \<and> r < 127 \<or> 160 \<le> r \<and> r \<noteq> 173 else graphic r)"

definition truncation_mark :: bytes where
  "truncation_mark = '' ...(truncated)''"

definition printable_rune :: "(rune \<Rightarrow> bool) \<Rightarrow> rune \<Rightarrow> rune" where
  "printable_rune graphic r = (if is_graphic graphic r then r else 32)"

text \<open>\<^verbatim>\<open>func Text(value string) string\<close>\<close>

definition Text :: "(rune \<Rightarrow> bool) \<Rightarrow> bytes \<Rightarrow> bytes" where
  "Text graphic value =
     (let printable = encode_runes (map (printable_rune graphic) (runes value))
      in if length (runes printable) \<le> MaxTextLength then printable
         else encode_runes (take MaxTextLength (runes printable)) @ truncation_mark)"

text \<open>\<^verbatim>\<open>func List(values []string) []string\<close>\<close>

definition bounded_list :: "(rune \<Rightarrow> bool) \<Rightarrow> bytes list \<Rightarrow> bytes list" where
  "bounded_list graphic values =
     (if values = [] then []
      else (let limit = min (length values) MaxListItems;
                bounded = map (Text graphic) (take limit values)
            in if limit < length values
               then bounded @ [''('' @ itoa_nat (length values - limit) @ '' more)'']
               else bounded))"

subsection \<open>Every text is printable and bounded\<close>

lemma printable_rune_graphic: "is_graphic graphic (printable_rune graphic r)"
  by (simp add: printable_rune_def is_graphic_def)

lemma ascii_truncation_mark: "ascii truncation_mark"
  by (simp add: ascii_def truncation_mark_def)

lemma encode_truncation_mark: "encode_runes (byte_values truncation_mark) = truncation_mark"
  by (rule ascii_encode [OF ascii_truncation_mark])

lemma truncation_mark_graphic:
  "\<forall>r \<in> set (byte_values truncation_mark). valid_rune r \<and> is_graphic graphic r"
  by (simp add: truncation_mark_def byte_values_def valid_rune_def is_graphic_def)

lemma length_truncation_mark: "length (byte_values truncation_mark) = 15"
  by (simp add: truncation_mark_def byte_values_def)

definition printable_runes :: "(rune \<Rightarrow> bool) \<Rightarrow> bytes \<Rightarrow> rune list" where
  "printable_runes graphic value = map (normal_rune \<circ> printable_rune graphic) (runes value)"

lemma runes_Text:
  "runes (Text graphic value) =
     (let rs = printable_runes graphic value
      in if length rs \<le> MaxTextLength then rs
         else take MaxTextLength rs @ byte_values truncation_mark)"
proof -
  let ?p = "encode_runes (map (printable_rune graphic) (runes value))"
  let ?rs = "printable_runes graphic value"
  have p: "runes ?p = ?rs" by (simp add: runes_encode_any printable_runes_def)
  have "runes (encode_runes (take MaxTextLength ?rs) @ truncation_mark)
      = runes (encode_runes (take MaxTextLength ?rs @ byte_values truncation_mark))"
    by (simp add: encode_runes_append encode_truncation_mark)
  also have "\<dots> = take MaxTextLength ?rs @ byte_values truncation_mark"
  proof (rule runes_encode_runes, rule ballI)
    fix r assume "r \<in> set (take MaxTextLength ?rs @ byte_values truncation_mark)"
    then show "valid_rune r"
      using truncation_mark_graphic by (auto simp: printable_runes_def dest!: in_set_takeD)
  qed
  finally show ?thesis using p by (simp add: Text_def Let_def)
qed

lemma Text_length: "length (runes (Text graphic value)) \<le> MaxTextLength + 15"
  by (simp add: runes_Text Let_def length_truncation_mark)

lemma printable_runes_graphic:
  assumes "r \<in> set (printable_runes graphic value)"
  shows "is_graphic graphic r"
proof -
  from assms obtain q where q: "q \<in> set (runes value)"
    and r: "r = normal_rune (printable_rune graphic q)"
    by (auto simp: printable_runes_def)
  have "valid_rune (printable_rune graphic q)"
    using runes_valid [OF q] by (auto simp: printable_rune_def valid_rune_def)
  then show ?thesis by (simp add: r printable_rune_graphic)
qed

lemma Text_graphic: "r \<in> set (runes (Text graphic value)) \<Longrightarrow> is_graphic graphic r"
  using printable_runes_graphic [of r graphic] truncation_mark_graphic [of graphic]
  by (auto simp: runes_Text Let_def split: if_splits dest: in_set_takeD)

text \<open>A text that is already printable and short enough passes unchanged.\<close>

lemma Text_unchanged:
  assumes "\<forall>r \<in> set rs. valid_rune r \<and> is_graphic graphic r" and "length rs \<le> MaxTextLength"
  shows "Text graphic (encode_runes rs) = encode_runes rs"
proof -
  have r: "runes (encode_runes rs) = rs" using assms(1) by (simp add: runes_encode_runes)
  have "map (printable_rune graphic) rs = rs"
    using assms(1) by (simp add: map_idI printable_rune_def)
  with r assms(2) show ?thesis by (simp add: Text_def Let_def)
qed

lemma bounded_list_length: "length (bounded_list graphic values) \<le> MaxListItems + 1"
  by (auto simp: bounded_list_def Let_def min_def)

subsection \<open>Properties\<close>

text \<open>
  Peer-chosen text that reaches conditions, Events or the log is bounded and harmless.
  Whatever bytes the text has, the result of logging.Text decodes to at most MaxTextLength (256) runes
  plus the 15 of the truncation mark, and every rune of it is graphic.
\<close>

lemma Text_bounded:
  "length (runes (Text graphic val)) \<le> MaxTextLength + 15
   \<and> list_all (is_graphic graphic) (runes (Text graphic val))"
  using Text_length Text_graphic by (auto simp: list_all_iff)

end
