(* ===== verification/Errors.thy ===== *)
theory Errors
  imports Log_Text
begin

text \<open>
  The error values of the program. Go wraps errors in errors; the branches of the program
  look a wrapped error up by its type (\<^verbatim>\<open>errors.As\<close>), so an error is a tree with
  one constructor per type the program distinguishes: the typed CMP failure of
  \<^verbatim>\<open>src/internal/protocol/types.go\<close>, the issuer configuration failure of
  \<^verbatim>\<open>src/internal/controller/configuration.go\<close>, the three retry contracts of issuer-lib,
  the API server's status errors and plain or wrapped text. The text of a message is its
  format string: no branch reads the rendered arguments. \<open>Panic\<close> is no error value of the
  program: it stands for a run that ends in a runtime panic.
\<close>

text \<open>Points in time are nanoseconds since the Unix epoch, durations nanoseconds.\<close>

type_synonym time = int
type_synonym duration = int

definition zero_time :: time where
  "zero_time = - 62135596800000000000"

definition second :: duration where
  "second = 1000000000"

subsection \<open>CMP status values\<close>

datatype pki_status =
    StatusAccepted | StatusGrantedWithMods | StatusRejection | StatusWaiting | StatusOther int

datatype failure_bit =
    FailBadMessageCheck | FailSignerNotTrusted | FailNotAuthorized | FailBadPOP
  | FailBadCertTemplate | FailBadAlg | FailTransactionIdInUse | FailBadRequest
  | FailSystemUnavail | FailSystemFailure | FailOther nat

text \<open>A failure info is the list of its set bits.\<close>

record pki_status_info =
  Status :: pki_status
  StatusString :: "bytes list"
  FailInfo :: "failure_bit list"

subsection \<open>Errors\<close>

datatype error_kind =
    ErrorKindPermanent | ErrorKindRetryable | ErrorKindPending | ErrorKindSecurity
  | ErrorKindOther string

datatype api_reason = NotFound | Conflict | OtherReason string

datatype go_error =
    TextError string
  | StatusError pki_status_info
  | ApiError api_reason
  | WrapError string go_error
  | ProtocolError (pe_Kind: error_kind) (pe_Operation: string) (pe_Failure: string)
      (pe_RequeueAfter: duration) (pe_Err: "go_error option")
  | ConfigurationError (ce_Permanent: bool) (ce_Operation: string) (ce_Err: go_error)
  | PermanentError go_error
  | PendingError go_error duration
  | IssuerError go_error
  | Panic string

definition permanent :: "string \<Rightarrow> string \<Rightarrow> go_error \<Rightarrow> go_error" where
  "permanent operation failure err =
     ProtocolError ErrorKindPermanent operation failure 0 (Some err)"

definition retryable :: "string \<Rightarrow> string \<Rightarrow> go_error \<Rightarrow> go_error" where
  "retryable operation failure err =
     ProtocolError ErrorKindRetryable operation failure 0 (Some err)"

definition security :: "string \<Rightarrow> string \<Rightarrow> go_error \<Rightarrow> go_error" where
  "security operation failure err =
     ProtocolError ErrorKindSecurity operation failure 0 (Some err)"

definition permanentConfiguration :: "string \<Rightarrow> go_error \<Rightarrow> go_error" where
  "permanentConfiguration operation err = ConfigurationError True operation err"

definition retryableConfiguration :: "string \<Rightarrow> go_error \<Rightarrow> go_error" where
  "retryableConfiguration operation err = ConfigurationError False operation err"

text \<open>
  \<^verbatim>\<open>errors.As\<close>: the outermost error of a type along the chain of wrapped errors.
\<close>

fun unwrap :: "go_error \<Rightarrow> go_error option" where
  "unwrap (WrapError _ e) = Some e"
| "unwrap (ProtocolError _ _ _ _ e) = e"
| "unwrap (ConfigurationError _ _ e) = Some e"
| "unwrap (PermanentError e) = Some e"
| "unwrap (PendingError e _) = Some e"
| "unwrap (IssuerError e) = Some e"
| "unwrap _ = None"

lemma unwrap_size: "unwrap e = Some e' \<Longrightarrow> size e' < size e"
  by (cases e) auto

function errors_as :: "(go_error \<Rightarrow> bool) \<Rightarrow> go_error \<Rightarrow> go_error option" where
  "errors_as P e =
     (if P e then Some e
      else (case unwrap e of None \<Rightarrow> None | Some e' \<Rightarrow> errors_as P e'))"
  by pat_completeness auto
termination
  by (relation "measure (size \<circ> snd)") (auto dest: unwrap_size)

declare errors_as.simps [simp del]

definition as_protocol :: "go_error \<Rightarrow> go_error option" where
  "as_protocol = errors_as is_ProtocolError"

definition as_configuration :: "go_error \<Rightarrow> go_error option" where
  "as_configuration = errors_as is_ConfigurationError"

definition as_permanent :: "go_error \<Rightarrow> go_error option" where
  "as_permanent = errors_as is_PermanentError"

definition as_pending :: "go_error \<Rightarrow> go_error option" where
  "as_pending = errors_as is_PendingError"

definition is_not_found :: "go_error \<Rightarrow> bool" where
  "is_not_found e \<longleftrightarrow> errors_as is_ApiError e = Some (ApiError NotFound)"

definition is_conflict :: "go_error \<Rightarrow> bool" where
  "is_conflict e \<longleftrightarrow> errors_as is_ApiError e = Some (ApiError Conflict)"

lemma errors_as_here [simp]: "P e \<Longrightarrow> errors_as P e = Some e"
  by (simp add: errors_as.simps [of P e])

lemma errors_as_there:
  "\<not> P e \<Longrightarrow> errors_as P e = (case unwrap e of None \<Rightarrow> None | Some e' \<Rightarrow> errors_as P e')"
  by (simp add: errors_as.simps [of P e])

lemma errors_as_sound: "errors_as P e = Some e' \<Longrightarrow> P e'"
proof (induction P e rule: errors_as.induct)
  case (1 P e)
  then show ?case
    by (cases "P e") (auto simp: errors_as_there split: option.splits)
qed

lemmas error_lookup_defs =
  as_protocol_def as_configuration_def as_permanent_def as_pending_def

lemmas error_constructor_defs =
  permanent_def retryable_def security_def permanentConfiguration_def retryableConfiguration_def

end
