(* ===== verification/Names.thy ===== *)
theory Names
  imports Errors
begin

text \<open>
  Distinguished names: the parser of \<^verbatim>\<open>src/internal/protocol/parse.go\<close> for
  configured sender and recipient names, and the order-independent comparison of names in
  \<^verbatim>\<open>src/internal/protocol/client.go\<close> that decides which authority may answer. The
  parameter \<open>upper\<close> is \<^verbatim>\<open>unicode.ToUpper\<close> above ASCII, the parameter
  \<open>directory_name\<close> the encoding of a name as a sequence of attribute sets by the CMP
  library.
\<close>

type_synonym oid = "nat list"

record attribute_type_and_value =
  atv_Type :: oid
  atv_Value :: bytes

type_synonym rdn_sequence = "attribute_type_and_value list list"

record pkix_name =
  CommonName :: bytes
  SerialNumber :: bytes
  Country :: "bytes list"
  Organization :: "bytes list"
  OrganizationalUnit :: "bytes list"
  Locality :: "bytes list"
  Province :: "bytes list"
  StreetAddress :: "bytes list"
  ExtraNames :: "attribute_type_and_value list"

definition empty_name :: pkix_name where
  "empty_name = \<lparr>CommonName = [], SerialNumber = [], Country = [], Organization = [],
     OrganizationalUnit = [], Locality = [], Province = [], StreetAddress = [], ExtraNames = []\<rparr>"

definition oidDomainComponent :: oid where
  "oidDomainComponent = [0, 9, 2342, 19200300, 100, 1, 25]"

definition oidUserID :: oid where
  "oidUserID = [0, 9, 2342, 19200300, 100, 1, 1]"

definition oidEmailAddress :: oid where
  "oidEmailAddress = [1, 2, 840, 113549, 1, 9, 1]"

subsection \<open>Splitting and unescaping\<close>

text \<open>
  The loop of \<^verbatim>\<open>splitDN\<close>: \<open>cur\<close> holds the bytes from \<^verbatim>\<open>start\<close> to the
  current index, so a comma appends the trimmed component and an escape keeps the next rune.
\<close>

fun split_loop :: "(rune \<times> nat list) list \<Rightarrow> bool \<Rightarrow> nat list \<Rightarrow> bytes list
    \<Rightarrow> bytes list \<times> nat list \<times> bool" where
  "split_loop [] escaped cur parts = (parts, cur, escaped)"
| "split_loop ((r, bs) # cs) escaped cur parts =
     (if escaped then split_loop cs False (cur @ bs) parts
      else if r = 92 then split_loop cs True (cur @ bs) parts
      else if r = 44 then split_loop cs False [] (parts @ [trim_space (of_byte_values cur)])
      else split_loop cs False (cur @ bs) parts)"

definition splitDN :: "bytes \<Rightarrow> go_error + bytes list" where
  "splitDN val =
     (if trim_space val = [] then Inl (TextError ''distinguished name is empty'')
      else (case split_loop (rune_cells (byte_values val)) False [] [] of
              (parts, cur, escaped) \<Rightarrow>
                if escaped then Inl (TextError ''distinguished name ends with an escape'')
                else (let parts' = parts @ [trim_space (of_byte_values cur)]
                      in if [] \<in> set parts'
                         then Inl (TextError ''distinguished name contains an empty component'')
                         else Inr parts')))"

fun unescape_loop :: "rune list \<Rightarrow> bool \<Rightarrow> rune list \<Rightarrow> rune list \<times> bool" where
  "unescape_loop [] escaped out = (out, escaped)"
| "unescape_loop (r # rs) escaped out =
     (if escaped then unescape_loop rs False (out @ [r])
      else if r = 92 then unescape_loop rs True out
      else unescape_loop rs False (out @ [r]))"

definition unescapeDNValue :: "bytes \<Rightarrow> go_error + bytes" where
  "unescapeDNValue val =
     (case unescape_loop (runes val) False [] of
        (out, escaped) \<Rightarrow>
          if escaped then Inl (TextError ''distinguished name value ends with an escape'')
          else Inr (encode_runes out))"

subsection \<open>Attributes\<close>

definition addNameAttribute :: "pkix_name \<Rightarrow> bytes \<Rightarrow> bytes \<Rightarrow> go_error + pkix_name" where
  "addNameAttribute name key val =
     (if key = ''CN'' then Inr (name\<lparr>CommonName := val\<rparr>)
      else if key = ''C'' then Inr (name\<lparr>Country := Country name @ [val]\<rparr>)
      else if key = ''L'' then Inr (name\<lparr>Locality := Locality name @ [val]\<rparr>)
      else if key = ''ST'' then Inr (name\<lparr>Province := Province name @ [val]\<rparr>)
      else if key = ''STREET'' then Inr (name\<lparr>StreetAddress := StreetAddress name @ [val]\<rparr>)
      else if key = ''O'' then Inr (name\<lparr>Organization := Organization name @ [val]\<rparr>)
      else if key = ''OU'' then Inr (name\<lparr>OrganizationalUnit := OrganizationalUnit name @ [val]\<rparr>)
      else if key = ''SERIALNUMBER'' then Inr (name\<lparr>SerialNumber := val\<rparr>)
      else if key = ''DC'' then
        Inr (name\<lparr>ExtraNames := ExtraNames name @ [\<lparr>atv_Type = oidDomainComponent, atv_Value = val\<rparr>]\<rparr>)
      else if key = ''UID'' then
        Inr (name\<lparr>ExtraNames := ExtraNames name @ [\<lparr>atv_Type = oidUserID, atv_Value = val\<rparr>]\<rparr>)
      else if key = ''EMAILADDRESS'' \<or> key = ''E'' then
        Inr (name\<lparr>ExtraNames := ExtraNames name @ [\<lparr>atv_Type = oidEmailAddress, atv_Value = val\<rparr>]\<rparr>)
      else Inl (TextError ''unsupported distinguished name attribute %q''))"

definition upper_rune :: "(rune \<Rightarrow> rune) \<Rightarrow> rune \<Rightarrow> rune" where
  "upper_rune upper r =
     (if r < 128 then (if 97 \<le> r \<and> r \<le> 122 then r - 32 else r) else upper r)"

text \<open>\<^verbatim>\<open>strings.ToUpper\<close>\<close>

definition to_upper :: "(rune \<Rightarrow> rune) \<Rightarrow> bytes \<Rightarrow> bytes" where
  "to_upper upper s = encode_runes (map (upper_rune upper) (runes s))"

definition parse_component :: "(rune \<Rightarrow> rune) \<Rightarrow> bytes \<Rightarrow> pkix_name \<Rightarrow> go_error + pkix_name" where
  "parse_component upper part name =
     (case cut part (CHR ''='') of
        (key, raw, found) \<Rightarrow>
          if \<not> found then Inl (TextError ''distinguished name component lacks ='')
          else rbind (unescapeDNValue (trim_space raw)) (\<lambda>decoded.
            if decoded = [] then Inl (TextError ''distinguished name value is empty'')
            else addNameAttribute name (to_upper upper (trim_space key)) decoded))"

fun parse_components :: "(rune \<Rightarrow> rune) \<Rightarrow> bytes list \<Rightarrow> pkix_name \<Rightarrow> go_error + pkix_name" where
  "parse_components upper [] name = Inr name"
| "parse_components upper (part # parts) name =
     rbind (parse_component upper part name) (parse_components upper parts)"

definition ParseDistinguishedName :: "(rune \<Rightarrow> rune) \<Rightarrow> bytes \<Rightarrow> go_error + pkix_name" where
  "ParseDistinguishedName upper val =
     rbind (splitDN val) (\<lambda>parts. parse_components upper parts empty_name)"

subsection \<open>Comparing names\<close>

definition oid_string :: "oid \<Rightarrow> bytes" where
  "oid_string arcs = join ''.'' (map itoa_nat arcs)"

definition attribute_key :: "attribute_type_and_value \<Rightarrow> bytes" where
  "attribute_key a = oid_string (atv_Type a) @ ''='' @ atv_Value a"

definition attributeSet :: "rdn_sequence \<Rightarrow> bytes list" where
  "attributeSet sequence = sort (map attribute_key (concat sequence))"

definition senderMatchesRecipient ::
    "(pkix_name \<Rightarrow> rdn_sequence) \<Rightarrow> rdn_sequence \<Rightarrow> pkix_name \<Rightarrow> bool" where
  "senderMatchesRecipient directory_name sender recipient =
     (if sender = [] then False
      else (let configured = directory_name recipient
            in if configured = [] then True
               else attributeSet sender = attributeSet configured))"

subsection \<open>Comparison is equality of attribute multisets\<close>

lemma itoa_nat_digits: "c \<in> set (itoa_nat n) \<Longrightarrow> digit_value c \<noteq> None"
proof (induction n rule: itoa_nat.induct)
  case (1 n)
  show ?case
  proof (cases "n < 10")
    case True
    then show ?thesis using "1.prems" by (simp add: itoa_nat.simps [of n])
  next
    case False
    then have "c = digit_char (n mod 10) \<or> c \<in> set (itoa_nat (n div 10))"
      using "1.prems" by (simp add: itoa_nat.simps [of n])
    then show ?thesis using "1.IH" [OF False] by auto
  qed
qed

lemma itoa_nat_inj: "itoa_nat m = itoa_nat n \<longleftrightarrow> m = n"
proof
  assume "itoa_nat m = itoa_nat n"
  then have "digits_value 0 (itoa_nat m) = digits_value 0 (itoa_nat n)" by (rule arg_cong)
  then show "m = n" unfolding digits_value_itoa by (rule option.inject [THEN iffD1])
qed (rule arg_cong)

lemma itoa_nat_no_separator: "CHR ''.'' \<notin> set (itoa_nat n)" "CHR ''='' \<notin> set (itoa_nat n)"
  using itoa_nat_digits [of "CHR ''.''" n] itoa_nat_digits [of "CHR ''=''" n]
  by (auto simp: digit_value_def)

lemma prefix_until_unique:
  fixes a b :: bytes
  assumes "c \<notin> set a" "c \<notin> set b" "a @ c # xs = b @ c # ys"
  shows "a = b \<and> xs = ys"
proof -
  have "cut (a @ c # xs) c = cut (b @ c # ys) c" using assms(3) by (rule arg_cong)
  then show ?thesis unfolding cut_found [OF assms(1)] cut_found [OF assms(2)] by blast
qed

lemma oid_string_Cons:
  "oid_string (n # ns) = (if ns = [] then itoa_nat n else itoa_nat n @ CHR ''.'' # oid_string ns)"
  by (cases ns) (simp_all add: oid_string_def)

lemma oid_string_Nil: "oid_string [] = []"
  by (simp add: oid_string_def)

lemma oid_string_dot: "CHR ''.'' \<in> set (oid_string (n # ns)) \<longleftrightarrow> ns \<noteq> []"
  by (simp add: oid_string_Cons itoa_nat_no_separator)

lemma oid_string_inj: "oid_string a = oid_string b \<Longrightarrow> a = b"
proof (induction a arbitrary: b)
  case Nil
  then show ?case by (cases b) (auto simp: oid_string_Cons oid_string_Nil split: if_splits)
next
  case (Cons m ms)
  from Cons.prems obtain n ns where b: "b = n # ns"
    by (cases b) (auto simp: oid_string_Cons oid_string_Nil split: if_splits)
  have sep: "CHR ''.'' \<notin> set (itoa_nat m)" "CHR ''.'' \<notin> set (itoa_nat n)"
    by (simp_all add: itoa_nat_no_separator)
  have "ms = [] \<longleftrightarrow> ns = []"
    using arg_cong [OF Cons.prems, of "\<lambda>s. CHR ''.'' \<in> set s"] unfolding b oid_string_dot by blast
  then consider "ms = []" "ns = []" | "ms \<noteq> []" "ns \<noteq> []" by blast
  then show ?case
  proof cases
    case 1
    then show ?thesis using Cons.prems b by (simp add: oid_string_Cons itoa_nat_inj)
  next
    case 2
    then have "itoa_nat m = itoa_nat n \<and> oid_string ms = oid_string ns"
      using Cons.prems b prefix_until_unique [OF sep] by (simp add: oid_string_Cons)
    then show ?thesis using Cons.IH b by (simp add: itoa_nat_inj)
  qed
qed

lemma oid_string_no_equals: "CHR ''='' \<notin> set (oid_string a)"
  by (induction a) (auto simp: oid_string_Cons oid_string_Nil itoa_nat_no_separator)

lemma attribute_key_inj:
  assumes "attribute_key a = attribute_key b"
  shows "a = b"
proof -
  have "oid_string (atv_Type a) = oid_string (atv_Type b) \<and> atv_Value a = atv_Value b"
    by (rule prefix_until_unique [OF oid_string_no_equals oid_string_no_equals])
      (use assms in \<open>simp add: attribute_key_def\<close>)
  then show ?thesis by (auto dest: oid_string_inj intro: attribute_type_and_value.equality)
qed

lemma attributeSet_eq:
  "attributeSet a = attributeSet b \<longleftrightarrow> mset (concat a) = mset (concat b)"
proof -
  have inj: "inj attribute_key" by (auto intro: injI attribute_key_inj)
  have "attributeSet a = attributeSet b \<longleftrightarrow>
      image_mset attribute_key (mset (concat a)) = image_mset attribute_key (mset (concat b))"
    unfolding attributeSet_def sort_eq_iff_mset mset_map ..
  then show ?thesis unfolding image_mset_inj_eq [OF inj] .
qed

subsection \<open>Reading back a rendered name\<close>

text \<open>
  A reference printer: values escape the comma and the backslash, components are joined by
  commas. The parser reads back every name so rendered, in the order of its components.
\<close>

definition escape_runes :: "rune list \<Rightarrow> rune list" where
  "escape_runes rs = concat (map (\<lambda>r. if r = 92 \<or> r = 44 then [92, r] else [r]) rs)"

definition component_runes :: "bytes \<times> rune list \<Rightarrow> rune list" where
  "component_runes c = byte_values (fst c) @ 61 # escape_runes (snd c)"

definition render_component :: "bytes \<times> rune list \<Rightarrow> bytes" where
  "render_component c = encode_runes (component_runes c)"

fun name_runes :: "(bytes \<times> rune list) list \<Rightarrow> rune list" where
  "name_runes [] = []"
| "name_runes [c] = component_runes c"
| "name_runes (c # d # cs) = component_runes c @ 44 # name_runes (d # cs)"

definition render_name :: "(bytes \<times> rune list) list \<Rightarrow> bytes" where
  "render_name cs = encode_runes (name_runes cs)"

fun add_attributes :: "(bytes \<times> rune list) list \<Rightarrow> pkix_name \<Rightarrow> go_error + pkix_name" where
  "add_attributes [] name = Inr name"
| "add_attributes (c # cs) name =
     rbind (addNameAttribute name (fst c) (encode_runes (snd c))) (add_attributes cs)"

definition supported_keys :: "bytes list" where
  "supported_keys = [''CN'', ''C'', ''L'', ''ST'', ''STREET'', ''O'', ''OU'', ''SERIALNUMBER'',
     ''DC'', ''UID'', ''EMAILADDRESS'', ''E'']"

definition plain_value :: "rune list \<Rightarrow> bool" where
  "plain_value rs \<longleftrightarrow>
     rs \<noteq> [] \<and> (\<forall>r \<in> set rs. valid_rune r) \<and> \<not> is_space (hd rs) \<and> \<not> is_space (last rs)"

definition plain_component :: "bytes \<times> rune list \<Rightarrow> bool" where
  "plain_component c \<longleftrightarrow> fst c \<in> set supported_keys \<and> plain_value (snd c)"

text \<open>A key is upper-case ASCII letters.\<close>

definition key_ok :: "bytes \<Rightarrow> bool" where
  "key_ok k \<longleftrightarrow> k \<noteq> [] \<and> (\<forall>c \<in> set k. 65 \<le> (of_char c :: nat) \<and> (of_char c :: nat) \<le> 90)"

lemma supported_key_ok: "k \<in> set supported_keys \<Longrightarrow> key_ok k"
  by (auto simp: supported_keys_def key_ok_def)

lemma addNameAttribute_supported:
  "k \<in> set supported_keys \<Longrightarrow> \<exists>name'. addNameAttribute name k val = Inr name'"
  unfolding supported_keys_def addNameAttribute_def by auto

lemma key_ok_bytes:
  assumes "key_ok k" and "r \<in> set (byte_values k)"
  shows "65 \<le> r" "r \<le> 90"
  using assms by (auto simp: key_ok_def byte_values_def)

lemma key_ok_ascii: "key_ok k \<Longrightarrow> ascii k"
  by (force simp: key_ok_def ascii_def)

lemma escape_runes_valid: "\<forall>r \<in> set rs. valid_rune r \<Longrightarrow> r \<in> set (escape_runes rs) \<Longrightarrow> valid_rune r"
  by (auto simp: escape_runes_def valid_rune_def split: if_splits)

lemma escape_runes_Nil_iff [simp]: "escape_runes rs = [] \<longleftrightarrow> rs = []"
  by (cases rs) (auto simp: escape_runes_def)

lemma escape_runes_Cons:
  "escape_runes (r # rs) = (if r = 92 \<or> r = 44 then [92, r] else [r]) @ escape_runes rs"
  by (simp add: escape_runes_def)

lemma hd_escape_runes: "plain_value rs \<Longrightarrow> \<not> is_space (hd (escape_runes rs))"
  by (cases rs) (auto simp: plain_value_def escape_runes_Cons is_space_def)

lemma last_escape_runes: "rs \<noteq> [] \<Longrightarrow> last (escape_runes rs) = last rs"
proof (induction rs)
  case Nil
  then show ?case by simp
next
  case (Cons r rs)
  then show ?case by (cases "rs = []") (auto simp: escape_runes_Cons)
qed

lemma unescape_escape: "unescape_loop (escape_runes rs) False out = (out @ rs, False)"
  by (induction rs arbitrary: out) (auto simp: escape_runes_def)

lemma plain_component_valid:
  assumes "plain_component c" and "r \<in> set (component_runes c)"
  shows "valid_rune r"
proof -
  have "key_ok (fst c)" using assms(1) by (simp add: plain_component_def supported_key_ok)
  then show ?thesis
    using assms key_ok_bytes [of "fst c" r] escape_runes_valid [of "snd c" r]
    by (auto simp: component_runes_def plain_component_def plain_value_def valid_rune_def)
qed

lemma name_runes_valid:
  "\<forall>c \<in> set cs. plain_component c \<Longrightarrow> r \<in> set (name_runes cs) \<Longrightarrow> valid_rune r"
  by (induction cs rule: name_runes.induct)
    (auto dest: plain_component_valid simp: valid_rune_def [of 44])

definition cells :: "rune list \<Rightarrow> (rune \<times> nat list) list" where
  "cells rs = map (\<lambda>r. (r, encode_rune_values r)) rs"

lemma cells_simps [simp]:
  "cells [] = []"
  "cells (r # rs) = (r, encode_rune_values r) # cells rs"
  "cells (rs @ qs) = cells rs @ cells qs"
  by (simp_all add: cells_def)

lemma split_plain:
  "\<forall>r \<in> set ks. r \<noteq> 92 \<and> r \<noteq> 44 \<Longrightarrow>
     split_loop (cells ks @ cs) False cur parts
       = split_loop cs False (cur @ concat (map encode_rune_values ks)) parts"
  by (induction ks arbitrary: cur) auto

lemma split_escape:
  "split_loop (cells (escape_runes rs) @ cs) False cur parts
     = split_loop cs False (cur @ concat (map encode_rune_values (escape_runes rs))) parts"
  by (induction rs arbitrary: cur) (auto simp: escape_runes_def)

lemma split_component:
  assumes "plain_component c"
  shows "split_loop (cells (component_runes c) @ cs) False [] parts
     = split_loop cs False (concat (map encode_rune_values (component_runes c))) parts"
proof -
  have "key_ok (fst c)" using assms by (simp add: plain_component_def supported_key_ok)
  then have "\<forall>r \<in> set (byte_values (fst c) @ [61]). r \<noteq> 92 \<and> r \<noteq> 44"
    by (force dest: key_ok_bytes)
  from split_plain [OF this, of "cells (escape_runes (snd c)) @ cs" "[]" parts]
  show ?thesis by (simp add: component_runes_def split_escape)
qed

lemma component_trim:
  assumes "plain_component c"
  shows "trim_space (render_component c) = render_component c"
  unfolding render_component_def
proof (rule trim_space_encode)
  show "\<forall>r \<in> set (component_runes c). valid_rune r"
    using plain_component_valid [OF assms] by blast
  have k: "key_ok (fst c)" using assms by (simp add: plain_component_def supported_key_ok)
  then have "hd (component_runes c) \<in> set (byte_values (fst c))"
    by (cases "fst c") (auto simp: component_runes_def key_ok_def byte_values_def)
  from key_ok_bytes [OF k this] show "\<not> is_space (hd (component_runes c))"
    by (auto simp: is_space_def)
  have "snd c \<noteq> []" using assms by (simp add: plain_component_def plain_value_def)
  then have "last (component_runes c) = last (snd c)"
    by (simp add: component_runes_def last_escape_runes)
  then show "\<not> is_space (last (component_runes c))"
    using assms by (simp add: plain_component_def plain_value_def)
qed

lemma split_name:
  assumes "cs \<noteq> []" and "\<forall>c \<in> set cs. plain_component c"
  shows "split_loop (cells (name_runes cs)) False [] parts
    = (parts @ map render_component (butlast cs),
       concat (map encode_rune_values (component_runes (last cs))), False)"
  using assms
proof (induction cs arbitrary: parts rule: name_runes.induct)
  case 1
  then show ?case by simp
next
  case (2 c)
  then show ?case using split_component [of c "[]"] by simp
next
  case (3 c d cs)
  let ?enc = "concat (map encode_rune_values (component_runes c))"
  have c: "plain_component c" using 3 by simp
  have "trim_space (of_byte_values ?enc) = render_component c"
    using component_trim [OF c] by (simp add: render_component_def encode_runes_def)
  then have "split_loop (cells (name_runes (c # d # cs))) False [] parts
      = split_loop (cells (name_runes (d # cs))) False [] (parts @ [render_component c])"
    by (simp add: split_component [OF c])
  also have "\<dots> = (parts @ [render_component c] @ map render_component (butlast (d # cs)),
      concat (map encode_rune_values (component_runes (last (d # cs)))), False)"
    using "3.IH" "3.prems" by simp
  finally show ?case by simp
qed

lemma render_component_nonempty [simp]: "render_component c \<noteq> []"
  by (simp add: render_component_def encode_runes_def component_runes_def of_byte_values_def)

lemma Nil_neq_render_component [simp]: "[] \<noteq> render_component c"
  by (rule render_component_nonempty [THEN not_sym])

lemma hd_name_runes: "hd (name_runes (c # cs)) = hd (component_runes c)"
  by (cases cs) (simp_all add: component_runes_def hd_append)

lemma trim_render_name:
  assumes "cs \<noteq> []" and "\<forall>c \<in> set cs. plain_component c"
  shows "trim_space (render_name cs) \<noteq> []"
proof -
  obtain c cs' where cs: "cs = c # cs'" using assms(1) by (cases cs) auto
  have k: "key_ok (fst c)" using assms(2) cs by (simp add: plain_component_def supported_key_ok)
  then have "hd (component_runes c) \<in> set (byte_values (fst c))"
    by (cases "fst c") (auto simp: component_runes_def key_ok_def byte_values_def)
  then have nsp: "\<not> is_space (hd (name_runes cs))"
    using key_ok_bytes [OF k] hd_name_runes [of c cs'] cs by (fastforce simp: is_space_def)
  have ne: "name_runes cs \<noteq> []" using cs by (cases cs rule: name_runes.cases) (auto simp: component_runes_def)
  have "rune_cells (byte_values (render_name cs)) = cells (name_runes cs)"
    using rune_cells_encode [of "name_runes cs" "[]"] name_runes_valid [OF assms(2)]
    by (simp add: render_name_def cells_def)
  then have trim: "trim_space (render_name cs)
      = of_byte_values (concat (map snd (trim_cells (cells (name_runes cs)))))"
    by (simp add: trim_space_def)
  have "trim_cells (cells (name_runes cs)) \<noteq> []"
    using nsp ne by (cases "name_runes cs") (auto simp: trim_cells_def dropWhile_eq_Nil_conv)
  then obtain x xs where x: "trim_cells (cells (name_runes cs)) = x # xs"
    by (cases "trim_cells (cells (name_runes cs))") auto
  then have "x \<in> set (trim_cells (cells (name_runes cs)))" by simp
  then have "snd x \<noteq> []"
    by (auto simp: trim_cells_def cells_def dest!: set_dropWhileD)
  then show ?thesis by (simp add: trim x of_byte_values_def)
qed

lemma splitDN_render:
  assumes "cs \<noteq> []" and "\<forall>c \<in> set cs. plain_component c"
  shows "splitDN (render_name cs) = Inr (map render_component cs)"
proof -
  have "rune_cells (byte_values (render_name cs)) = cells (name_runes cs)"
    using rune_cells_encode [of "name_runes cs" "[]"] name_runes_valid [OF assms(2)]
    by (simp add: render_name_def cells_def)
  moreover have "trim_space (of_byte_values (concat (map encode_rune_values (component_runes (last cs)))))
      = render_component (last cs)"
    using component_trim [of "last cs"] assms by (simp add: render_component_def encode_runes_def)
  moreover have "map render_component (butlast cs) @ [render_component (last cs)]
      = map render_component cs"
    using assms(1) by (metis append_butlast_last_id list.simps(8,9) map_append)
  ultimately show ?thesis
    using assms trim_render_name [OF assms] by (auto simp: splitDN_def split_name Let_def)
qed

lemma upper_key: "key_ok k \<Longrightarrow> to_upper upper k = k"
proof -
  assume k: "key_ok k"
  have "map (upper_rune upper) (byte_values k) = byte_values k"
    by (rule map_idI) (use key_ok_bytes [OF k] in \<open>fastforce simp: upper_rune_def\<close>)
  then show ?thesis
    using key_ok_ascii [OF k] by (simp add: to_upper_def ascii_runes ascii_encode)
qed

lemma trim_key: "key_ok k \<Longrightarrow> trim_space k = k"
proof -
  assume k: "key_ok k"
  have ne: "byte_values k \<noteq> []" using k by (simp add: key_ok_def byte_values_def)
  have "trim_space (encode_runes (byte_values k)) = encode_runes (byte_values k)"
    by (rule trim_space_encode)
      (use key_ok_bytes [OF k] hd_in_set [OF ne] last_in_set [OF ne] in
        \<open>fastforce simp: valid_rune_def is_space_def\<close>)+
  then show ?thesis using key_ok_ascii [OF k] by (simp add: ascii_encode)
qed

lemma trim_value:
  assumes "plain_value rs"
  shows "trim_space (encode_runes (escape_runes rs)) = encode_runes (escape_runes rs)"
  by (rule trim_space_encode)
    (use assms escape_runes_valid [of rs] hd_escape_runes [OF assms] last_escape_runes [of rs] in
      \<open>auto simp: plain_value_def\<close>)

lemma char_equals: "char_of (61 :: nat) = CHR ''=''"
proof -
  have "char_of (of_char (CHR ''='') :: nat) = CHR ''=''" by (rule char_of_char)
  moreover have "(of_char (CHR ''='') :: nat) = 61" by simp
  ultimately show ?thesis by (simp only:)
qed

lemma parse_component_render:
  assumes "plain_component c"
  shows "parse_component upper (render_component c) name
    = addNameAttribute name (fst c) (encode_runes (snd c))"
proof -
  have k: "key_ok (fst c)" and v: "plain_value (snd c)"
    using assms by (simp_all add: plain_component_def supported_key_ok)
  have "render_component c = fst c @ CHR ''='' # encode_runes (escape_runes (snd c))"
    using ascii_encode [OF key_ok_ascii [OF k]]
    by (simp add: render_component_def component_runes_def encode_runes_append
        encode_runes_def [of "61 # escape_runes (snd c)"] encode_rune_values_def valid_rune_def
        encode_runes_def [of "escape_runes (snd c)"] of_byte_values_def char_equals)
  moreover have "CHR ''='' \<notin> set (fst c)" using k by (auto simp: key_ok_def)
  ultimately have "cut (render_component c) (CHR ''='')
      = (fst c, encode_runes (escape_runes (snd c)), True)"
    by (simp add: cut_found)
  moreover have "runes (encode_runes (escape_runes (snd c))) = escape_runes (snd c)"
    by (rule runes_encode_runes)
      (use v escape_runes_valid [of "snd c"] in \<open>auto simp: plain_value_def\<close>)
  moreover have "encode_runes (snd c) \<noteq> []"
    using v by (cases "snd c") (auto simp: plain_value_def encode_runes_def of_byte_values_def)
  ultimately show ?thesis
    by (simp add: parse_component_def trim_value [OF v] unescapeDNValue_def unescape_escape
        trim_key [OF k] upper_key [OF k])
qed

lemma parse_components_render:
  "\<forall>c \<in> set cs. plain_component c \<Longrightarrow>
     parse_components upper (map render_component cs) name = add_attributes cs name"
proof (induction cs arbitrary: name)
  case Nil
  then show ?case by simp
next
  case (Cons c cs)
  then have "parse_components upper (map render_component cs) = add_attributes cs" by auto
  then show ?case using Cons.prems by (simp add: parse_component_render)
qed

lemma add_attributes_total:
  "\<forall>c \<in> set cs. plain_component c \<Longrightarrow> \<exists>name'. add_attributes cs name = Inr name'"
proof (induction cs arbitrary: name)
  case Nil
  then show ?case by simp
next
  case (Cons c cs)
  then obtain name' where "addNameAttribute name (fst c) (encode_runes (snd c)) = Inr name'"
    using addNameAttribute_supported [of "fst c" name "encode_runes (snd c)"]
    by (auto simp: plain_component_def)
  then show ?case using Cons by simp
qed

subsection \<open>Properties\<close>




end
