(* ===== verification/Certificates.thy ===== *)
theory Certificates
  imports Names "HOL-Library.Word"
begin

text \<open>
  Certificates, certificate requests and keys as the program reads them, with the parsing
  helpers of \<^verbatim>\<open>src/internal/protocol/parse.go\<close> and the checks of
  \<^verbatim>\<open>src/internal/protocol/certificate.go\<close>. The cryptographic primitives and the
  DER and PEM decoders are parameters, collected in the record \<open>x509_lib\<close>; a
  certificate pool is the list of its certificates. A public key carries its
  SubjectPublicKeyInfo encoding, absent for a key type the encoder does not support.
\<close>

unbundle bit_operations_syntax

datatype key_kind = KeyRSA | KeyECDSA | KeyEd25519 | KeyMLDSA | KeyOther

record public_key =
  pk_Kind :: key_kind
  pk_DER :: "bytes option"

record signer =
  signer_Public :: public_key
  signer_Secret :: bytes

record extension =
  ext_Id :: oid
  ext_Value :: bytes

type_synonym key_usage = "64 word"

record certificate =
  cert_Raw :: bytes
  cert_RawSubject :: bytes
  cert_RawIssuer :: bytes
  cert_Subject :: pkix_name
  cert_NotBefore :: time
  cert_NotAfter :: time
  cert_PublicKey :: public_key
  cert_KeyUsage :: key_usage
  cert_Extensions :: "extension list"

record certificate_request =
  csr_Raw :: bytes
  csr_RawSubject :: bytes
  csr_PublicKey :: public_key
  csr_Extensions :: "extension list"

record pem_block =
  block_Type :: bytes
  block_Bytes :: bytes

text \<open>
  The standard library functions the program calls. \<open>x509_PemDecode\<close> stands for
  \<^verbatim>\<open>pem.Decode\<close> on non-empty input and returns the block with the number of bytes
  consumed beyond the first, so that the rest is always shorter than the input.
  A private key parser may return a key that is no signer (\<open>None\<close>).
\<close>

record x509_lib =
  x509_ParseCertificate :: "bytes \<Rightarrow> go_error + certificate"
  x509_ParseCertificateRequest :: "bytes \<Rightarrow> go_error + certificate_request"
  x509_CheckSignature :: "certificate_request \<Rightarrow> go_error option"
  x509_CheckSignatureFrom :: "certificate \<Rightarrow> certificate \<Rightarrow> go_error option"
  x509_Verify ::
    "certificate \<Rightarrow> certificate list \<Rightarrow> certificate list \<Rightarrow> go_error + certificate list list"
  x509_PemDecode :: "bytes \<Rightarrow> (pem_block \<times> nat) option"
  x509_ParsePKCS8 :: "bytes \<Rightarrow> go_error + signer option"
  x509_ParsePKCS1 :: "bytes \<Rightarrow> go_error + signer option"
  x509_ParseEC :: "bytes \<Rightarrow> go_error + signer option"
  x509_Sha256 :: "bytes \<Rightarrow> bytes"

definition pem_decode :: "x509_lib \<Rightarrow> bytes \<Rightarrow> (pem_block \<times> bytes) option" where
  "pem_decode lib data =
     (if data = [] then None
      else (case x509_PemDecode lib data of
              None \<Rightarrow> None
            | Some (block, k) \<Rightarrow> Some (block, drop (Suc k) data)))"

subsection \<open>Keys\<close>

definition PublicKeysEqual :: "public_key \<Rightarrow> public_key \<Rightarrow> bool" where
  "PublicKeysEqual first_key second_key =
     (case (pk_DER first_key, pk_DER second_key) of
        (Some firstDER, Some secondDER) \<Rightarrow> firstDER = secondDER
      | _ \<Rightarrow> False)"

definition oidKeyUsage :: oid where
  "oidKeyUsage = [2, 5, 29, 15]"

definition oidSubjectAltName :: oid where
  "oidSubjectAltName = [2, 5, 29, 17]"

fun has_extension :: "extension list \<Rightarrow> oid \<Rightarrow> bool" where
  "has_extension [] oid = False"
| "has_extension (e # es) oid = (if ext_Id e = oid then True else has_extension es oid)"

definition certificateHasExtension :: "certificate \<Rightarrow> oid \<Rightarrow> bool" where
  "certificateHasExtension certificate oid = has_extension (cert_Extensions certificate) oid"

definition KeyUsageDigitalSignature :: key_usage where "KeyUsageDigitalSignature = 1"
definition KeyUsageContentCommitment :: key_usage where "KeyUsageContentCommitment = 2"
definition KeyUsageCertSign :: key_usage where "KeyUsageCertSign = 32"
definition KeyUsageCRLSign :: key_usage where "KeyUsageCRLSign = 64"

definition mldsa_allowed :: key_usage where
  "mldsa_allowed = KeyUsageDigitalSignature OR KeyUsageContentCommitment OR KeyUsageCertSign
     OR KeyUsageCRLSign"

definition ValidateMLDSAKeyUsage :: "certificate option \<Rightarrow> go_error + unit" where
  "ValidateMLDSAKeyUsage certificate =
     (case certificate of
        None \<Rightarrow> Inl (TextError ''certificate is required'')
      | Some c \<Rightarrow>
          if pk_Kind (cert_PublicKey c) \<noteq> KeyMLDSA \<or> \<not> certificateHasExtension c oidKeyUsage
          then Inr ()
          else if cert_KeyUsage c = 0
          then Inl (TextError ''ML-DSA keyUsage extension must contain a signature usage'')
          else if cert_KeyUsage c AND NOT mldsa_allowed \<noteq> 0
          then Inl (TextError
            ''ML-DSA keyUsage extension must not contain encipherment or key agreement usages'')
          else Inr ())"

definition ValidateSignerCertificate :: "signer option \<Rightarrow> certificate option \<Rightarrow> go_error + unit" where
  "ValidateSignerCertificate key certificate =
     (case (key, certificate) of
        (Some k, Some c) \<Rightarrow>
          if \<not> PublicKeysEqual (signer_Public k) (cert_PublicKey c)
          then Inl (TextError ''private key does not match certificate public key'')
          else ValidateMLDSAKeyUsage (Some c)
      | _ \<Rightarrow> Inl (TextError ''signer and certificate are required''))"

subsection \<open>Parsing\<close>

function pem_certificates ::
    "x509_lib \<Rightarrow> bytes \<Rightarrow> certificate list \<Rightarrow> go_error + certificate list \<times> bytes" where
  "pem_certificates lib remaining certificates =
     (case pem_decode lib remaining of
        None \<Rightarrow> Inr (certificates, remaining)
      | Some (block, rest) \<Rightarrow>
          if block_Type block \<noteq> ''CERTIFICATE'' then pem_certificates lib rest certificates
          else (case x509_ParseCertificate lib (block_Bytes block) of
                  Inl e \<Rightarrow> Inl (WrapError ''parse PEM certificate: %w'' e)
                | Inr certificate \<Rightarrow> pem_certificates lib rest (certificates @ [certificate])))"
  by pat_completeness auto
termination
  by (relation "measure (\<lambda>(lib, remaining, certificates). length remaining)")
    (auto simp: pem_decode_def split: if_splits option.splits)

declare pem_certificates.simps [simp del]

definition ParseCertificates :: "x509_lib \<Rightarrow> bytes \<Rightarrow> go_error + certificate list" where
  "ParseCertificates lib data =
     rbind (pem_certificates lib data []) (\<lambda>(certificates, remaining).
       if certificates \<noteq> []
       then (if trim_space remaining \<noteq> []
             then Inl (TextError ''certificate bundle contains trailing non-PEM data'')
             else Inr certificates)
       else (case x509_ParseCertificate lib data of
               Inl e \<Rightarrow> Inl (WrapError ''parse DER certificate: %w'' e)
             | Inr certificate \<Rightarrow> Inr [certificate]))"

definition ParseCertificateRequestDER :: "x509_lib \<Rightarrow> bytes \<Rightarrow> go_error + bytes" where
  "ParseCertificateRequestDER lib data =
     rbind
       (case pem_decode lib data of
          None \<Rightarrow> Inr data
        | Some (block, rest) \<Rightarrow>
            if block_Type block \<noteq> ''CERTIFICATE REQUEST''
               \<and> block_Type block \<noteq> ''NEW CERTIFICATE REQUEST''
            then Inl (TextError ''PEM block is not a certificate request'')
            else if trim_space rest \<noteq> []
            then Inl (TextError ''certificate request contains trailing data'')
            else Inr (block_Bytes block))
       (\<lambda>requestDER.
          case x509_ParseCertificateRequest lib requestDER of
            Inl e \<Rightarrow> Inl (WrapError ''parse certificate request: %w'' e)
          | Inr request \<Rightarrow>
              (case x509_CheckSignature lib request of
                 Some e \<Rightarrow> Inl (WrapError ''verify certificate request signature: %w'' e)
               | None \<Rightarrow> Inr (csr_Raw request)))"

fun try_parsers :: "(bytes \<Rightarrow> go_error + signer option) list \<Rightarrow> bytes \<Rightarrow> go_error + signer" where
  "try_parsers [] keyDER = Inl (TextError ''parse private key: %w'')"
| "try_parsers (parser # parsers) keyDER =
     (case parser keyDER of
        Inl _ \<Rightarrow> try_parsers parsers keyDER
      | Inr None \<Rightarrow> Inl (TextError ''private key type does not implement crypto.Signer'')
      | Inr (Some key) \<Rightarrow> Inr key)"

definition ParseSigner :: "x509_lib \<Rightarrow> bytes \<Rightarrow> go_error + signer" where
  "ParseSigner lib data =
     rbind
       (case pem_decode lib data of
          None \<Rightarrow> Inr data
        | Some (block, rest) \<Rightarrow>
            if trim_space rest \<noteq> [] then Inl (TextError ''private key contains trailing data'')
            else Inr (block_Bytes block))
       (try_parsers [x509_ParsePKCS8 lib, x509_ParsePKCS1 lib, x509_ParseEC lib])"

subsection \<open>Chains\<close>

fun first_usage_error :: "certificate list \<Rightarrow> go_error option" where
  "first_usage_error [] = None"
| "first_usage_error (c # cs) =
     (case ValidateMLDSAKeyUsage (Some c) of
        Inl e \<Rightarrow> Some e
      | Inr _ \<Rightarrow> first_usage_error cs)"

fun select_chain :: "go_error option \<Rightarrow> certificate list list \<Rightarrow> go_error + certificate list" where
  "select_chain usageErr [] =
     (case usageErr of
        Some e \<Rightarrow> Inl e
      | None \<Rightarrow> Inl (TextError ''certificate verification returned no chain''))"
| "select_chain usageErr (chain # rest) =
     (case first_usage_error chain of
        None \<Rightarrow> Inr chain
      | Some e \<Rightarrow> select_chain (Some e) rest)"

definition verifyCertificateChain ::
    "x509_lib \<Rightarrow> certificate \<Rightarrow> certificate list \<Rightarrow> certificate list \<Rightarrow> go_error + certificate list"
where
  "verifyCertificateChain lib certificate roots intermediates =
     rbind (x509_Verify lib certificate roots intermediates) (select_chain None)"

definition self_signed :: "x509_lib \<Rightarrow> certificate \<Rightarrow> bool" where
  "self_signed lib c \<longleftrightarrow>
     cert_RawSubject c = cert_RawIssuer c \<and> x509_CheckSignatureFrom lib c c = None"

definition validateAndOrderChain ::
    "x509_lib \<Rightarrow> certificate \<Rightarrow> certificate list \<Rightarrow> certificate list \<Rightarrow> go_error + certificate list"
where
  "validateAndOrderChain lib leaf candidates roots =
     rbind (verifyCertificateChain lib leaf roots
              (filter (\<lambda>candidate. cert_Raw candidate \<noteq> cert_Raw leaf) candidates))
       (\<lambda>verifiedChain. Inr (leaf # takeWhile (\<lambda>c. \<not> self_signed lib c) (tl verifiedChain)))"

definition ValidateIssuedChain ::
    "x509_lib \<Rightarrow> certificate list \<Rightarrow> certificate list \<Rightarrow> certificate list option
      \<Rightarrow> go_error + certificate list"
where
  "ValidateIssuedChain lib chain candidates roots =
     (case chain of
        [] \<Rightarrow> Inl (TextError ''certificate chain is empty'')
      | leaf # rest \<Rightarrow>
          (case roots of
             None \<Rightarrow> Inl (TextError ''CMP trust anchors are absent'')
           | Some pool \<Rightarrow> validateAndOrderChain lib leaf (rest @ candidates) pool))"

subsection \<open>Key comparison\<close>

lemma PublicKeysEqual_iff:
  "PublicKeysEqual a b \<longleftrightarrow> (\<exists>der. pk_DER a = Some der \<and> pk_DER b = Some der)"
  by (auto simp: PublicKeysEqual_def split: option.splits)

lemma PublicKeysEqual_sym: "PublicKeysEqual a b \<Longrightarrow> PublicKeysEqual b a"
  by (auto simp: PublicKeysEqual_iff)

lemma PublicKeysEqual_trans: "PublicKeysEqual a b \<Longrightarrow> PublicKeysEqual b c \<Longrightarrow> PublicKeysEqual a c"
  by (auto simp: PublicKeysEqual_iff)

lemma has_extension_iff: "has_extension es oid \<longleftrightarrow> oid \<in> ext_Id ` set es"
  by (induction es) auto

subsection \<open>The ML-DSA key usage rule\<close>

text \<open>
  The rule as a set of bits: a certificate for an ML-DSA key with a key usage extension
  names at least one usage, and only signature usages (bits 0, 1, 5 and 6).
\<close>

definition mldsa_usage_ok :: "certificate \<Rightarrow> bool" where
  "mldsa_usage_ok c \<longleftrightarrow>
     (pk_Kind (cert_PublicKey c) = KeyMLDSA \<and> oidKeyUsage \<in> ext_Id ` set (cert_Extensions c) \<longrightarrow>
      (\<exists>n. bit (cert_KeyUsage c) n) \<and> (\<forall>n. bit (cert_KeyUsage c) n \<longrightarrow> n \<in> {0, 1, 5, 6}))"

lemma word_subset_bits: "(x :: 'a::len word) AND NOT m = 0 \<longleftrightarrow> (\<forall>n. bit x n \<longrightarrow> bit m n)"
proof
  assume "x AND NOT m = 0"
  then have "\<not> bit (x AND NOT m) n" for n by simp
  then show "\<forall>n. bit x n \<longrightarrow> bit m n"
    by (auto simp: bit_simps dest: bit_imp_le_length)
next
  assume "\<forall>n. bit x n \<longrightarrow> bit m n"
  then show "x AND NOT m = 0" by (auto intro!: bit_eqI simp: bit_simps)
qed

lemma word_zero_bits: "(x :: 'a::len word) = 0 \<longleftrightarrow> (\<forall>n. \<not> bit x n)"
  by (auto intro: bit_eqI)

lemma mldsa_allowed_bits: "bit mldsa_allowed n \<longleftrightarrow> n \<in> {0, 1, 5, 6}"
proof -
  have "mldsa_allowed = 2 ^ 0 OR 2 ^ 1 OR 2 ^ 5 OR 2 ^ 6"
    by (simp add: mldsa_allowed_def KeyUsageDigitalSignature_def KeyUsageContentCommitment_def
        KeyUsageCertSign_def KeyUsageCRLSign_def)
  then have "bit mldsa_allowed n \<longleftrightarrow> bit (2 ^ 0 OR 2 ^ 1 OR 2 ^ 5 OR 2 ^ 6 :: key_usage) n"
    by (rule arg_cong)
  also have "\<dots> \<longleftrightarrow> n \<in> {0, 1, 5, 6}"
    unfolding bit_or_iff bit_exp_iff possible_bit_word by auto
  finally show ?thesis .
qed

lemma ValidateMLDSAKeyUsage_iff:
  "ValidateMLDSAKeyUsage (Some c) = Inr () \<longleftrightarrow> mldsa_usage_ok c"
  unfolding ValidateMLDSAKeyUsage_def mldsa_usage_ok_def certificateHasExtension_def has_extension_iff
  using word_subset_bits [of "cert_KeyUsage c" mldsa_allowed] word_zero_bits [of "cert_KeyUsage c"]
  by (auto simp: mldsa_allowed_bits)

lemma ValidateMLDSAKeyUsage_Inr [result_simps]:
  "ValidateMLDSAKeyUsage (Some c) = Inr u \<longleftrightarrow> mldsa_usage_ok c"
  using ValidateMLDSAKeyUsage_iff [of c] by (cases u) simp

lemma ValidateSignerCertificate_Inr [result_simps]:
  "ValidateSignerCertificate key certificate = Inr u \<longleftrightarrow>
     (\<exists>k c. key = Some k \<and> certificate = Some c
        \<and> PublicKeysEqual (signer_Public k) (cert_PublicKey c) \<and> mldsa_usage_ok c)"
  by (auto simp: ValidateSignerCertificate_def result_simps split: option.splits)

subsection \<open>Parsed certificates\<close>

lemma pem_certificates_parsed:
  assumes "pem_certificates lib remaining acc = Inr (cs, rest)"
    and "\<forall>c \<in> set acc. \<exists>der. x509_ParseCertificate lib der = Inr c"
  shows "\<forall>c \<in> set cs. \<exists>der. x509_ParseCertificate lib der = Inr c"
  using assms
proof (induction lib remaining acc rule: pem_certificates.induct)
  case (1 lib remaining acc)
  show ?case
  proof (cases "pem_decode lib remaining")
    case None
    with "1.prems" show ?thesis by (simp add: pem_certificates.simps [of lib remaining])
  next
    case (Some p)
    obtain block r where p: "p = (block, r)" by force
    show ?thesis
    proof (cases "block_Type block = ''CERTIFICATE''")
      case False
      with "1.prems" Some p "1.IH"(1) [OF Some [unfolded p] refl False] show ?thesis
        by (simp add: pem_certificates.simps [of lib remaining])
    next
      case True
      with "1.prems"(1) Some p obtain c where
        c: "x509_ParseCertificate lib (block_Bytes block) = Inr c"
        and rec: "pem_certificates lib r (acc @ [c]) = Inr (cs, rest)"
        by (auto simp: pem_certificates.simps [of lib remaining] split: sum.splits)
      show ?thesis
      proof (rule "1.IH"(2) [OF Some [unfolded p] refl _ c rec])
        show "\<not> block_Type block \<noteq> ''CERTIFICATE''" using True by simp
        show "\<forall>c \<in> set (acc @ [c]). \<exists>der. x509_ParseCertificate lib der = Inr c"
          using "1.prems"(2) c by auto
      qed
    qed
  qed
qed

lemma ParseCertificates_parsed:
  assumes "ParseCertificates lib data = Inr cs"
  shows "cs \<noteq> [] \<and> (\<forall>c \<in> set cs. \<exists>der. x509_ParseCertificate lib der = Inr c)"
  using assms
  by (auto simp: ParseCertificates_def result_simps split: if_splits sum.splits
      dest: pem_certificates_parsed)

lemma ParseCertificateRequestDER_Inr:
  assumes "ParseCertificateRequestDER lib data = Inr der"
  shows "\<exists>raw request. x509_ParseCertificateRequest lib raw = Inr request
    \<and> x509_CheckSignature lib request = None \<and> der = csr_Raw request"
  using assms unfolding ParseCertificateRequestDER_def rbind_Inr
  by (elim exE conjE) (auto split: sum.split_asm option.split_asm)

subsection \<open>Verified chains\<close>

lemma first_usage_error_None: "first_usage_error cs = None \<longleftrightarrow> (\<forall>c \<in> set cs. mldsa_usage_ok c)"
proof (induction cs)
  case Nil
  then show ?case by simp
next
  case (Cons c cs)
  then show ?case
    using ValidateMLDSAKeyUsage_iff [of c]
    by (cases "ValidateMLDSAKeyUsage (Some c)") auto
qed

lemma select_chain_Inr:
  "select_chain e candidates = Inr chain \<Longrightarrow>
     chain \<in> set candidates \<and> (\<forall>c \<in> set chain. mldsa_usage_ok c)"
  by (induction candidates arbitrary: e)
    (auto simp: first_usage_error_None split: option.splits)

lemma select_chain_total:
  "chain \<in> set candidates \<Longrightarrow> \<forall>c \<in> set chain. mldsa_usage_ok c \<Longrightarrow> \<exists>r. select_chain e candidates = Inr r"
proof (induction candidates arbitrary: e)
  case Nil
  then show ?case by simp
next
  case (Cons ch candidates)
  then show ?case
    using first_usage_error_None [of ch] by (cases "first_usage_error ch") auto
qed

lemma verifyCertificateChain_Inr:
  assumes "verifyCertificateChain lib c roots intermediates = Inr chain"
  obtains candidates where "x509_Verify lib c roots intermediates = Inr candidates"
    and "chain \<in> set candidates" and "\<forall>c \<in> set chain. mldsa_usage_ok c"
  using assms by (auto simp: verifyCertificateChain_def result_simps dest: select_chain_Inr)

lemma validateAndOrderChain_Inr:
  assumes "validateAndOrderChain lib leaf candidates roots = Inr chain"
  obtains verified where
    "verifyCertificateChain lib leaf roots
       (filter (\<lambda>c. cert_Raw c \<noteq> cert_Raw leaf) candidates) = Inr verified"
    and "chain = leaf # takeWhile (\<lambda>c. \<not> self_signed lib c) (tl verified)"
  using assms by (auto simp: validateAndOrderChain_def result_simps)

lemma validateAndOrderChain_hd:
  "validateAndOrderChain lib leaf candidates roots = Inr chain \<Longrightarrow> chain \<noteq> [] \<and> hd chain = leaf"
  by (elim validateAndOrderChain_Inr) simp

lemma ValidateIssuedChain_hd:
  "ValidateIssuedChain lib chain candidates roots = Inr chain' \<Longrightarrow>
     chain \<noteq> [] \<and> chain' \<noteq> [] \<and> hd chain' = hd chain"
  by (auto simp: ValidateIssuedChain_def split: list.splits option.splits
      dest: validateAndOrderChain_hd)

text \<open>
  The contract of \<^verbatim>\<open>Certificate.Verify\<close>: every returned chain starts with the
  verified certificate and ends with one of the roots.
\<close>

definition verify_contract :: "x509_lib \<Rightarrow> bool" where
  "verify_contract lib \<longleftrightarrow>
     (\<forall>c roots intermediates candidates chain.
        x509_Verify lib c roots intermediates = Inr candidates \<and> chain \<in> set candidates \<longrightarrow>
        chain \<noteq> [] \<and> hd chain = c \<and> last chain \<in> set roots)"

end
