(* ===== verification/Cmp_Types.thy ===== *)
theory Cmp_Types
  imports Certificates
begin

text \<open>
  The request and result types of \<^verbatim>\<open>src/internal/protocol/types.go\<close>, the CMP
  messages the client exchanges, and the interface of the pkicmp library. The library itself
  is not part of the repository: its operations are the fields of the record
  \<open>cmp_lib\<close>, an argument of every definition that uses them. So are the functions of
  net/url, net/http and mime that the client calls.
\<close>

subsection \<open>Operations and limits\<close>

definition OperationP10CR :: bytes where "OperationP10CR = ''P10CR''"
definition OperationIR :: bytes where "OperationIR = ''IR''"
definition OperationKUR :: bytes where "OperationKUR = ''KUR''"
definition ResponseCertReqIDStandard :: int where "ResponseCertReqIDStandard = -1"
definition ResponseCertReqIDLegacyZero :: int where "ResponseCertReqIDLegacyZero = 0"
definition minPBMIterationCount :: int where "minPBMIterationCount = 100"
definition maxPBMIterationCount :: int where "maxPBMIterationCount = 1048575"

lemmas operation_defs = OperationP10CR_def OperationIR_def OperationKUR_def

text \<open>The hashes of package crypto; \<open>HashNone\<close> is the zero value.\<close>

datatype hash = HashNone | SHA256 | SHA384 | SHA512 | HashOther nat

fun hash_Size :: "hash \<Rightarrow> nat" where
  "hash_Size SHA256 = 32"
| "hash_Size SHA384 = 48"
| "hash_Size SHA512 = 64"
| "hash_Size _ = 0"

subsection \<open>Requests and results\<close>

record password_protection =
  pw_Reference :: bytes
  pw_Secret :: bytes
  pw_IterationCount :: int
  pw_OWF :: hash
  pw_MAC :: hash

record signature_protection =
  sig_PrivateKey :: "signer option"
  sig_Certificate :: "certificate option"
  sig_Chain :: "certificate list"

record protection =
  Password :: "password_protection option"
  Signature :: "signature_protection option"

text \<open>A certificate pool is the list of its certificates.\<close>

record enrollment_request =
  Operation :: bytes
  EndpointURL :: bytes
  Timeout :: duration
  MaxResponseSize :: int
  Sender :: "pkix_name option"
  Recipient :: pkix_name
  ImplicitConfirm :: bool
  RejectGrantedMods :: bool
  AllowSignedMACResponse :: bool
  RequireMACIterationFloor :: bool
  ResponseCertReqID :: "int option"
  RequireKUPCAPubsAbsent :: bool
  TransactionID :: bytes
  CSRDER :: bytes
  RequestedPrivateKey :: "signer option"
  SignatureDigest :: hash
  RequestedNotAfter :: time
  Protection :: protection
  CMPTrust :: "certificate list option"
  CMPTrustCertificates :: "certificate list"
  CMPResponseCertificates :: "certificate list"
  TLSRoots :: "certificate list option"

record poll_request =
  poll_Enrollment :: enrollment_request
  poll_RecipNonce :: bytes
  poll_CertReqID :: int
  poll_ResponseSigner :: "certificate option"
  poll_RequestNonce :: bytes

record confirm_request =
  confirm_Enrollment :: enrollment_request
  confirm_Certificate :: "certificate option"
  confirm_CertReqID :: int
  confirm_RecipNonce :: bytes
  confirm_ResponseSigner :: "certificate option"
  confirm_RequestNonce :: bytes

record pending_transaction =
  pending_CertReqID :: int
  pending_RecipNonce :: bytes
  pending_ResponseSigner :: "certificate option"
  pending_CheckAfter :: duration
  pending_RequestNonce :: bytes

record enrollment_result =
  Chain :: "certificate list"
  ExtraCertificateCount :: nat
  ExplicitConfirmation :: bool
  result_CertReqID :: int
  Pending :: "pending_transaction option"
  PendingConfirmation :: "pending_transaction option"

definition empty_result :: enrollment_result where
  "empty_result = \<lparr>Chain = [], ExtraCertificateCount = 0, ExplicitConfirmation = False,
     result_CertReqID = 0, Pending = None, PendingConfirmation = None\<rparr>"

subsection \<open>CMP messages\<close>

text \<open>
  A \<open>general_name\<close> holds the encoding the library keeps and the parsed directory name.
  A \<open>CMPCertificate\<close> is its raw encoding. The library decodes the content of a
  received body on access, which may fail, so the content of a response body is a sum.
\<close>

record general_name =
  gn_Raw :: bytes
  gn_DirectoryName :: rdn_sequence

definition empty_general_name :: general_name where
  "empty_general_name = \<lparr>gn_Raw = [], gn_DirectoryName = []\<rparr>"

type_synonym cmp_certificate = bytes

record cert_template =
  tmpl_Subject :: general_name
  tmpl_PublicKey :: bytes
  tmpl_Extensions :: "bytes option"
  tmpl_NotAfter :: "time option"

record cert_req_msg =
  crm_CertReqID :: int
  crm_CertTemplate :: cert_template
  crm_Controls :: "bytes list"
  crm_POP :: "bytes option"

record cert_response =
  rsp_CertReqID :: int
  rsp_Status :: pki_status_info
  rsp_CertifiedKeyPair :: "cmp_certificate option option"

record cert_rep_message =
  rep_CAPubs :: "cmp_certificate list"
  rep_Response :: "cert_response list"

record cert_status =
  cs_CertReqID :: int
  cs_CertHash :: bytes
  cs_HashAlg :: "oid option"
  cs_StatusInfo :: "pki_status_info option"

datatype pki_body =
    BodyP10CR certificate_request
  | BodyIR "cert_req_msg list"
  | BodyKUR "cert_req_msg list"
  | BodyPollReq "int list"
  | BodyCertConf "cert_status list"
  | BodyCP "go_error + cert_rep_message"
  | BodyIP "go_error + cert_rep_message"
  | BodyKUP "go_error + cert_rep_message"
  | BodyPollRep "go_error + (int \<times> int) list"
  | BodyPKIConf
  | BodyError "go_error + pki_status_info"
  | BodyOther nat

datatype body_kind =
    BodyTypeCP | BodyTypeIP | BodyTypeKUP | BodyTypePollRep | BodyTypePKIConf | BodyTypeError
  | BodyTypeRequest | BodyTypeOther nat

fun body_type :: "pki_body \<Rightarrow> body_kind" where
  "body_type (BodyCP _) = BodyTypeCP"
| "body_type (BodyIP _) = BodyTypeIP"
| "body_type (BodyKUP _) = BodyTypeKUP"
| "body_type (BodyPollRep _) = BodyTypePollRep"
| "body_type BodyPKIConf = BodyTypePKIConf"
| "body_type (BodyError _) = BodyTypeError"
| "body_type (BodyOther n) = BodyTypeOther n"
| "body_type _ = BodyTypeRequest"

record pki_header =
  hdr_PVNO :: int
  hdr_Sender :: general_name
  hdr_Recipient :: general_name
  hdr_ProtectionAlg :: "oid option"
  hdr_SenderKID :: bytes
  hdr_TransactionID :: bytes
  hdr_SenderNonce :: bytes
  hdr_RecipNonce :: bytes
  hdr_GeneralInfo :: "oid list"

record pki_message =
  Header :: pki_header
  Body :: pki_body
  PKIProtection :: bytes
  ExtraCerts :: "cmp_certificate list"

record message_options =
  opt_Sender :: general_name
  opt_Recipient :: general_name
  opt_TransactionID :: bytes
  opt_RecipNonce :: bytes

subsection \<open>The library interface\<close>

text \<open>
  Credentials are the arguments they were built from; \<open>cmp_NewCredentials\<close> is the
  check their constructors make.
\<close>

datatype credentials =
    MACCredentials (mac_Secret: bytes) (mac_OWF: hash) (mac_MAC: hash) (mac_Iterations: int)
      (mac_Min: int) (mac_Max: int)
  | SignatureCredentials (sc_Key: "signer option") (sc_Certificate: "certificate option")
      (sc_Chain: "certificate list") (sc_Hash: hash)

datatype protection_kind = ProtectionMAC | ProtectionSignature

record verify_options =
  vo_RequiredProtection :: protection_kind
  vo_SharedSecret :: bytes
  vo_TrustPool :: "certificate list option"
  vo_ExtraCerts :: "cmp_certificate list"
  vo_SenderKID :: bytes
  vo_TrustedCert :: "certificate option"
  vo_MinMACIterationCount :: int
  vo_MaxMACIterationCount :: int

definition trusted_cert_options :: "certificate \<Rightarrow> verify_options" where
  "trusted_cert_options c = \<lparr>vo_RequiredProtection = ProtectionSignature, vo_SharedSecret = [],
     vo_TrustPool = None, vo_ExtraCerts = [], vo_SenderKID = [], vo_TrustedCert = Some c,
     vo_MinMACIterationCount = 0, vo_MaxMACIterationCount = 0\<rparr>"

record parsed_url =
  url_Scheme :: bytes
  url_Host :: bytes
  url_User :: bool
  url_Fragment :: bytes

text \<open>The answer of the HTTP client: an error, or a response with its body stream, which
  delivers some bytes and then ends or fails.\<close>

datatype http_result =
    HttpFailed go_error
  | HttpResponse (http_StatusCode: int) (http_ContentType: bytes) (http_Body: bytes)
      (http_BodyError: "go_error option")

text \<open>The settings of an HTTP client, and one POST it makes.\<close>

record http_client =
  hc_Timeout :: duration
  hc_RootCAs :: "certificate list option"
  hc_MinVersionTLS12 :: bool
  hc_FollowRedirects :: bool

record http_post =
  post_Client :: http_client
  post_Endpoint :: bytes
  post_Body :: bytes

text \<open>
  \<open>cmp_NewPKIMessage\<close> takes the entropy of the call first: the library draws the
  sender nonce, and the transaction ID when the options carry none, from the system's random
  source. \<open>cmp_bit_name\<close> is \<^verbatim>\<open>PKIFailureInfo.String\<close> of a single bit and
  \<open>cmp_body_name\<close> the String method of a body type. \<open>cmp_Server\<close> answers the last of a
  sequence of POSTs, so an answer may depend on everything sent before. \<open>cmp_Clock\<close> is
  the time the n-th reading of the clock returns.
\<close>

record cmp_lib =
  cmp_x509 :: x509_lib
  cmp_graphic :: "rune \<Rightarrow> bool"
  cmp_url_Parse :: "bytes \<Rightarrow> go_error + parsed_url"
  cmp_NewRequest :: "bytes \<Rightarrow> go_error option"
  cmp_ParseMediaType :: "bytes \<Rightarrow> go_error + bytes"
  cmp_NewDirectoryName :: "pkix_name \<Rightarrow> general_name"
  cmp_NewDirectoryNameFromRawDER :: "bytes \<Rightarrow> general_name"
  cmp_NewCredentials :: "credentials \<Rightarrow> go_error option"
  cmp_NewPKIMessage :: "nat \<Rightarrow> pki_body \<Rightarrow> message_options \<Rightarrow> pki_message"
  cmp_Protect :: "credentials \<Rightarrow> pki_message \<Rightarrow> go_error + pki_message"
  cmp_MarshalBinary :: "pki_message \<Rightarrow> go_error + bytes"
  cmp_ParsePKIMessage :: "bytes \<Rightarrow> go_error + pki_message"
  cmp_Verify :: "pki_message \<Rightarrow> verify_options \<Rightarrow> go_error option"
  cmp_ParseCertificate :: "cmp_certificate \<Rightarrow> go_error + certificate"
  cmp_ImplicitConfirm :: oid
  cmp_bit_name :: "failure_bit \<Rightarrow> bytes"
  cmp_body_name :: "body_kind \<Rightarrow> bytes"
  cmp_Server :: "http_post list \<Rightarrow> http_result"
  cmp_Clock :: "nat \<Rightarrow> time"
  cmp_NewCertStatus :: "certificate \<Rightarrow> int \<Rightarrow> go_error + cert_status"
  cmp_NewOldCertIDControl :: "certificate \<Rightarrow> go_error + bytes"
  cmp_GeneratePOP :: "cert_req_msg \<Rightarrow> signer \<Rightarrow> hash \<Rightarrow> go_error + cert_req_msg"
  cmp_MarshalExtensions :: "extension list \<Rightarrow> go_error + bytes"
  cmp_UnmarshalRDN :: "bytes \<Rightarrow> go_error + rdn_sequence \<times> bytes"
  cmp_UnmarshalNames :: "bytes \<Rightarrow> go_error + bytes list \<times> bytes"

subsection \<open>Effects of the client\<close>

text \<open>
  The state the client changes: the POSTs made so far, and how much randomness and how many
  clock readings were used. The controller's state extends it.
\<close>

record net_state =
  net_Posts :: "http_post list"
  net_Entropy :: nat
  net_Ticks :: nat

definition time_Now :: "cmp_lib \<Rightarrow> ('a net_state_scheme, go_error, time) action" where
  "time_Now lib s = (Inr (cmp_Clock lib (net_Ticks s)), s\<lparr>net_Ticks := Suc (net_Ticks s)\<rparr>)"

definition new_message ::
    "cmp_lib \<Rightarrow> pki_body \<Rightarrow> message_options \<Rightarrow> ('a net_state_scheme, go_error, pki_message) action"
where
  "new_message lib body options s =
     (Inr (cmp_NewPKIMessage lib (net_Entropy s) body options),
      s\<lparr>net_Entropy := Suc (net_Entropy s)\<rparr>)"

end
