(* ===== verification/Samples.thy ===== *)
theory Samples
  imports Cmp_Types
begin

text \<open>
  A small concrete instance of the library interfaces and of the data they work on. It
  models no code: it shows that the hypotheses on the libraries can hold together, and gives
  the witnesses of the properties inputs to evaluate.
\<close>

definition sample_directory_name :: "pkix_name \<Rightarrow> rdn_sequence" where
  "sample_directory_name name =
     (if CommonName name = [] then []
      else [[\<lparr>atv_Type = [2, 5, 4, 3], atv_Value = CommonName name\<rparr>]])"

definition sample_name :: pkix_name where
  "sample_name = empty_name\<lparr>CommonName := ''ca''\<rparr>"

definition sample_public :: public_key where
  "sample_public = \<lparr>pk_Kind = KeyECDSA, pk_DER = Some ''key''\<rparr>"

definition sample_signer :: signer where
  "sample_signer = \<lparr>signer_Public = sample_public, signer_Secret = ''secret''\<rparr>"

definition sample_certificate :: "bytes \<Rightarrow> certificate" where
  "sample_certificate raw =
     \<lparr>cert_Raw = raw, cert_RawSubject = raw, cert_RawIssuer = ''root'', cert_Subject = sample_name,
      cert_NotBefore = 0, cert_NotAfter = 1000, cert_PublicKey = sample_public,
      cert_KeyUsage = 1, cert_Extensions = []\<rparr>"

definition sample_root :: certificate where "sample_root = sample_certificate ''root''"
definition sample_leaf :: certificate where "sample_leaf = sample_certificate ''leaf''"

definition sample_csr :: certificate_request where
  "sample_csr = \<lparr>csr_Raw = ''csr'', csr_RawSubject = ''leaf'', csr_PublicKey = sample_public,
     csr_Extensions = []\<rparr>"

definition sample_x509 :: x509_lib where
  "sample_x509 =
     \<lparr>x509_ParseCertificate = (\<lambda>der.
        if der = ''root'' then Inr sample_root
        else if der = ''leaf'' then Inr sample_leaf
        else Inl (TextError ''x509: malformed certificate'')),
      x509_ParseCertificateRequest = (\<lambda>der.
        if der = ''csr'' then Inr sample_csr else Inl (TextError ''asn1: structure error'')),
      x509_CheckSignature = (\<lambda>csr. None),
      x509_CheckSignatureFrom = (\<lambda>c parent.
        if cert_RawIssuer c = cert_RawSubject parent then None
        else Some (TextError ''x509: signature error'')),
      x509_Verify = (\<lambda>c roots intermediates.
        if roots = [] then Inl (TextError ''x509: unknown authority'') else Inr [[c, hd roots]]),
      x509_PemDecode = (\<lambda>data. None),
      x509_ParsePKCS8 = (\<lambda>der.
        if der = ''key'' then Inr (Some sample_signer) else Inl (TextError ''asn1: structure error'')),
      x509_ParsePKCS1 = (\<lambda>der. Inl (TextError ''asn1: structure error'')),
      x509_ParseEC = (\<lambda>der. Inl (TextError ''asn1: structure error'')),
      x509_Sha256 = (\<lambda>data. data)\<rparr>"

definition sample_general_name :: "pkix_name \<Rightarrow> general_name" where
  "sample_general_name name = \<lparr>gn_Raw = [], gn_DirectoryName = sample_directory_name name\<rparr>"

definition sample_header :: pki_header where
  "sample_header =
     \<lparr>hdr_PVNO = 2, hdr_Sender = sample_general_name sample_name,
      hdr_Recipient = sample_general_name sample_name, hdr_ProtectionAlg = Some [1, 2],
      hdr_SenderKID = [], hdr_TransactionID = ''tid'', hdr_SenderNonce = ''nonce'',
      hdr_RecipNonce = ''nonce'', hdr_GeneralInfo = []\<rparr>"

definition sample_message :: "pki_body \<Rightarrow> pki_message" where
  "sample_message body =
     \<lparr>Header = sample_header, Body = body, PKIProtection = ''mac'', ExtraCerts = [''root'']\<rparr>"

definition sample_status :: "pki_status \<Rightarrow> pki_status_info" where
  "sample_status status = \<lparr>Status = status, StatusString = [], FailInfo = []\<rparr>"

definition sample_issued :: pki_message where
  "sample_issued = sample_message (BodyCP (Inr \<lparr>rep_CAPubs = [''root''],
     rep_Response = [\<lparr>rsp_CertReqID = 0, rsp_Status = sample_status StatusAccepted,
       rsp_CertifiedKeyPair = Some (Some ''leaf'')\<rparr>]\<rparr>))"

definition sample_updated :: pki_message where
  "sample_updated = sample_message (BodyKUP (Inr \<lparr>rep_CAPubs = [],
     rep_Response = [\<lparr>rsp_CertReqID = 0, rsp_Status = sample_status StatusAccepted,
       rsp_CertifiedKeyPair = Some (Some ''leaf'')\<rparr>]\<rparr>))"

definition sample_waiting :: pki_message where
  "sample_waiting = sample_message (BodyCP (Inr \<lparr>rep_CAPubs = [],
     rep_Response = [\<lparr>rsp_CertReqID = 0, rsp_Status = sample_status StatusWaiting,
       rsp_CertifiedKeyPair = None\<rparr>]\<rparr>))"

text \<open>The server answers the first POST with the given message and later ones with pkiConf.\<close>

definition sample_server :: "http_post list \<Rightarrow> http_result" where
  "sample_server posts =
     HttpResponse 200 ''application/pkixcmp'' (if length posts = 1 then ''first'' else ''conf'') None"

definition sample_lib :: "pki_message \<Rightarrow> cmp_lib" where
  "sample_lib first =
     \<lparr>cmp_x509 = sample_x509,
      cmp_graphic = (\<lambda>r. True),
      cmp_url_Parse = (\<lambda>u. Inr \<lparr>url_Scheme = ''https'', url_Host = u, url_User = False, url_Fragment = []\<rparr>),
      cmp_NewRequest = (\<lambda>u. None),
      cmp_ParseMediaType = (\<lambda>t. Inr t),
      cmp_NewDirectoryName = sample_general_name,
      cmp_NewDirectoryNameFromRawDER = (\<lambda>raw. \<lparr>gn_Raw = raw, gn_DirectoryName = []\<rparr>),
      cmp_NewCredentials = (\<lambda>c. None),
      cmp_NewPKIMessage = (\<lambda>n body options.
        \<lparr>Header = sample_header\<lparr>hdr_Sender := opt_Sender options, hdr_Recipient := opt_Recipient options,
           hdr_RecipNonce := opt_RecipNonce options,
           hdr_TransactionID := (if opt_TransactionID options = [] then ''random'' else opt_TransactionID options)\<rparr>,
         Body = body, PKIProtection = [], ExtraCerts = []\<rparr>),
      cmp_Protect = (\<lambda>c m. Inr (m\<lparr>PKIProtection := ''mac''\<rparr>)),
      cmp_MarshalBinary = (\<lambda>m. Inr ''der''),
      cmp_ParsePKIMessage = (\<lambda>der.
        if der = ''first'' then Inr first
        else if der = ''conf'' then Inr (sample_message BodyPKIConf)
        else Inl (TextError ''asn1: structure error'')),
      cmp_Verify = (\<lambda>m options. None),
      cmp_ParseCertificate = x509_ParseCertificate sample_x509,
      cmp_ImplicitConfirm = [1, 3, 6],
      cmp_bit_name = (\<lambda>b. ''badRequest''),
      cmp_body_name = (\<lambda>b. ''cp''),
      cmp_Server = sample_server,
      cmp_Clock = (\<lambda>n. int n),
      cmp_NewCertStatus = (\<lambda>c i. Inr \<lparr>cs_CertReqID = i, cs_CertHash = cert_Raw c, cs_HashAlg = None, cs_StatusInfo = None\<rparr>),
      cmp_NewOldCertIDControl = (\<lambda>c. Inr (cert_Raw c)),
      cmp_GeneratePOP = (\<lambda>m key h. Inr (m\<lparr>crm_POP := Some (signer_Secret key)\<rparr>)),
      cmp_MarshalExtensions = (\<lambda>es. Inr ''ext''),
      cmp_UnmarshalRDN = (\<lambda>raw. Inr ([[\<lparr>atv_Type = [2, 5, 4, 3], atv_Value = raw\<rparr>]], [])),
      cmp_UnmarshalNames = (\<lambda>raw. Inr ([raw], []))\<rparr>"

definition sample_request :: enrollment_request where
  "sample_request =
     \<lparr>Operation = OperationP10CR, EndpointURL = ''ca.example'', Timeout = second, MaxResponseSize = 1000,
      Sender = None, Recipient = sample_name, ImplicitConfirm = False, RejectGrantedMods = False,
      AllowSignedMACResponse = False, RequireMACIterationFloor = False, ResponseCertReqID = None,
      RequireKUPCAPubsAbsent = False, TransactionID = ''tid'', CSRDER = ''csr'',
      RequestedPrivateKey = Some sample_signer, SignatureDigest = HashNone,
      RequestedNotAfter = zero_time,
      Protection = \<lparr>Password = Some \<lparr>pw_Reference = ''ref'', pw_Secret = ''shared'',
        pw_IterationCount = 1024, pw_OWF = SHA256, pw_MAC = SHA256\<rparr>, Signature = None\<rparr>,
      CMPTrust = Some [sample_root], CMPTrustCertificates = [sample_root],
      CMPResponseCertificates = [], TLSRoots = None\<rparr>"

text \<open>A request protected by the certificate it updates.\<close>

definition sample_kur_request :: enrollment_request where
  "sample_kur_request = sample_request\<lparr>Operation := OperationKUR,
     Protection := \<lparr>Password = None, Signature = Some \<lparr>sig_PrivateKey = Some sample_signer,
       sig_Certificate = Some (sample_leaf\<lparr>cert_NotAfter := 500\<rparr>), sig_Chain = []\<rparr>\<rparr>\<rparr>"

definition sample_net :: net_state where
  "sample_net = \<lparr>net_Posts = [], net_Entropy = 0, net_Ticks = 0\<rparr>"

lemmas sample_data =
  sample_name_def sample_directory_name_def sample_public_def sample_signer_def
  sample_certificate_def sample_root_def sample_leaf_def sample_csr_def sample_general_name_def
  sample_header_def sample_message_def sample_status_def empty_name_def

lemmas sample_messages = sample_issued_def sample_updated_def sample_waiting_def

lemmas sample_libs = sample_x509_def sample_server_def sample_lib_def

lemmas sample_requests = sample_request_def sample_kur_request_def sample_net_def

end
