(* ===== verification/Cmp_Response.thy ===== *)
theory Cmp_Response
  imports Samples
begin

text \<open>
  The pure part of \<^verbatim>\<open>src/internal/protocol/client.go\<close>: the check of a request before
  anything is sent, credentials, the authentication of a response, the extraction of an
  issued certificate, the classification of PKI statuses, and the decision what an
  authenticated response means for the transaction.
\<close>

subsection \<open>Requests and credentials\<close>

definition pbmAlgorithms :: "password_protection \<Rightarrow> go_error + hash \<times> hash" where
  "pbmAlgorithms password =
     (let owf = (if pw_OWF password = HashNone then SHA256 else pw_OWF password);
          mac = (if pw_MAC password = HashNone then SHA256 else pw_MAC password)
      in if list_ex (\<lambda>h. h \<noteq> SHA256 \<and> h \<noteq> SHA384 \<and> h \<noteq> SHA512) [owf, mac]
         then Inl (TextError ''PasswordBasedMac requires SHA-256, SHA-384 or SHA-512'')
         else if hash_Size mac > hash_Size owf
         then Inl (TextError ''PasswordBasedMac MAC digest must not be longer than the OWF output'')
         else Inr (owf, mac))"

fun validateSignatureDigest :: "hash \<Rightarrow> go_error + unit" where
  "validateSignatureDigest (HashOther _) =
     Inl (TextError ''signature digest must be SHA-256, SHA-384 or SHA-512'')"
| "validateSignatureDigest _ = Inr ()"

definition signatureDigestFor :: "signer \<Rightarrow> hash \<Rightarrow> hash" where
  "signatureDigestFor key digest =
     (case pk_Kind (signer_Public key) of
        KeyRSA \<Rightarrow> digest
      | KeyECDSA \<Rightarrow> digest
      | _ \<Rightarrow> HashNone)"

definition validatePassword :: "password_protection option \<Rightarrow> go_error + unit" where
  "validatePassword password =
     (case password of
        None \<Rightarrow> Inr ()
      | Some p \<Rightarrow>
          rbind (ensure (pw_Reference p \<noteq> [] \<and> pw_Secret p \<noteq> [])
            (permanent ''validate PasswordBasedMac'' ''badRequest''
               (TextError ''reference and shared secret are required''))) (\<lambda>_.
          rbind (ensure (minPBMIterationCount \<le> pw_IterationCount p
                  \<and> pw_IterationCount p \<le> maxPBMIterationCount)
            (permanent ''validate PasswordBasedMac'' ''badRequest''
               (TextError ''iteration count is outside supported bounds''))) (\<lambda>_.
          rbind (map_err (permanent ''validate PasswordBasedMac'' ''badRequest'') (pbmAlgorithms p)) (\<lambda>_.
          Inr ()))))"

definition validateSignature :: "signature_protection option \<Rightarrow> go_error + unit" where
  "validateSignature signature =
     (case signature of
        None \<Rightarrow> Inr ()
      | Some sp \<Rightarrow>
          map_err (permanent ''validate signature credentials'' ''badRequest'')
            (ValidateSignerCertificate (sig_PrivateKey sp) (sig_Certificate sp)))"

definition valid_endpoint :: "cmp_lib \<Rightarrow> bytes \<Rightarrow> bool" where
  "valid_endpoint lib endpoint =
     (case cmp_url_Parse lib endpoint of
        Inl _ \<Rightarrow> False
      | Inr u \<Rightarrow> url_Host u \<noteq> [] \<and> (url_Scheme u = ''http'' \<or> url_Scheme u = ''https''))"

definition validateEnrollmentRequest :: "cmp_lib \<Rightarrow> enrollment_request \<Rightarrow> go_error + unit" where
  "validateEnrollmentRequest lib request =
     (let operation = (if Operation request = [] then OperationP10CR else Operation request) in
      rbind (ensure (operation = OperationP10CR \<or> operation = OperationIR \<or> operation = OperationKUR)
        (permanent ''validate operation'' ''badRequest''
           (TextError ''unsupported enrollment operation %q''))) (\<lambda>_.
      rbind (ensure (valid_endpoint lib (EndpointURL request))
        (permanent ''validate endpoint'' ''badRequest''
           (TextError ''endpoint must be a complete HTTP or HTTPS URL''))) (\<lambda>_.
      rbind (map_err (permanent ''validate signature digest'' ''badAlg'')
        (validateSignatureDigest (SignatureDigest request))) (\<lambda>_.
      rbind (ensure (0 < Timeout request \<and> 0 < MaxResponseSize request)
        (permanent ''validate transport limits'' ''badRequest''
           (TextError ''positive timeout and response size are required''))) (\<lambda>_.
      rbind (ensure (CSRDER request \<noteq> [] \<and> CMPTrust request \<noteq> None)
        (permanent ''validate request'' ''badRequest''
           (TextError ''CSR and CMP trust are required''))) (\<lambda>_.
      rbind (ensure ((Password (Protection request) = None) \<noteq> (Signature (Protection request) = None))
        (permanent ''validate protection'' ''badRequest''
           (TextError ''exactly one protection mode is required''))) (\<lambda>_.
      rbind (validatePassword (Password (Protection request))) (\<lambda>_.
      validateSignature (Signature (Protection request))))))))))"

text \<open>
  The dereferences of a nil \<^verbatim>\<open>Signature\<close> and of a nil signing key in the source are not
  reached: every caller has validated the request. The model panics there, as Go would.
\<close>

definition checked_credentials :: "cmp_lib \<Rightarrow> credentials \<Rightarrow> go_error + credentials" where
  "checked_credentials lib c = (case cmp_NewCredentials lib c of Some e \<Rightarrow> Inl e | None \<Rightarrow> Inr c)"

definition credentialsFor :: "cmp_lib \<Rightarrow> enrollment_request \<Rightarrow> go_error + credentials" where
  "credentialsFor lib request =
     (case Password (Protection request) of
        Some p \<Rightarrow>
          rbind (pbmAlgorithms p) (\<lambda>(owf, mac).
            checked_credentials lib (MACCredentials (pw_Secret p) owf mac (pw_IterationCount p)
              minPBMIterationCount maxPBMIterationCount))
      | None \<Rightarrow>
          (case Signature (Protection request) of
             None \<Rightarrow> Inl (Panic ''nil pointer dereference'')
           | Some sp \<Rightarrow>
               rbind (checked_credentials lib
                   (SignatureCredentials (sig_PrivateKey sp) (sig_Certificate sp) (sig_Chain sp) HashNone))
                 (\<lambda>c. case sig_PrivateKey sp of
                    None \<Rightarrow> Inl (Panic ''nil pointer dereference'')
                  | Some key \<Rightarrow>
                      (let digest = signatureDigestFor key (SignatureDigest request) in
                       if digest = HashNone then Inr c
                       else checked_credentials lib
                         (SignatureCredentials (sig_PrivateKey sp) (sig_Certificate sp)
                            (sig_Chain sp) digest)))))"

definition certificateSubject :: "cmp_lib \<Rightarrow> certificate \<Rightarrow> general_name" where
  "certificateSubject lib c =
     (if cert_RawSubject c = [] then cmp_NewDirectoryName lib (cert_Subject c)
      else cmp_NewDirectoryNameFromRawDER lib (cert_RawSubject c))"

definition requestSender :: "cmp_lib \<Rightarrow> enrollment_request \<Rightarrow> general_name" where
  "requestSender lib request =
     (case Sender request of
        Some name \<Rightarrow> cmp_NewDirectoryName lib name
      | None \<Rightarrow>
          (case Signature (Protection request) of
             Some sp \<Rightarrow> (case sig_Certificate sp of
                 Some c \<Rightarrow> certificateSubject lib c
               | None \<Rightarrow> empty_general_name)
           | None \<Rightarrow> empty_general_name))"

subsection \<open>HTTP\<close>

definition newHTTPClient :: "enrollment_request \<Rightarrow> http_client" where
  "newHTTPClient request = \<lparr>hc_Timeout = Timeout request, hc_RootCAs = TLSRoots request,
     hc_MinVersionTLS12 = True, hc_FollowRedirects = False\<rparr>"

text \<open>
  \<open>read_limited\<close> is \<^verbatim>\<open>io.ReadAll(io.LimitReader(body, limit))\<close>: a stream that delivers at
  least the limit is cut there, and its error is not seen.
\<close>

definition read_limited :: "int \<Rightarrow> bytes \<Rightarrow> go_error option \<Rightarrow> go_error + bytes" where
  "read_limited limit stream failure =
     (if limit \<le> int (length stream) then Inr (take (nat limit) stream)
      else (case failure of Some e \<Rightarrow> Inl e | None \<Rightarrow> Inr stream))"

definition cmp_media_type :: bytes where "cmp_media_type = ''application/pkixcmp''"

definition http_response_body :: "cmp_lib \<Rightarrow> int \<Rightarrow> http_result \<Rightarrow> go_error + bytes" where
  "http_response_body lib maximum result =
     (case result of
        HttpFailed e \<Rightarrow> Inl (retryable ''HTTP exchange'' ''systemUnavail'' e)
      | HttpResponse code contentType stream failure \<Rightarrow>
          if 300 \<le> code \<and> code < 400
          then Inl (permanent ''HTTP exchange'' ''redirectRejected''
                 (TextError ''redirect response rejected''))
          else if cmp_ParseMediaType lib contentType \<noteq> Inr cmp_media_type
          then (if code = 408 \<or> code = 425 \<or> code = 429 \<or> code \<ge> 500
                then Inl (retryable ''HTTP exchange'' ''systemUnavail''
                       (TextError ''server returned HTTP %d without a CMP body''))
                else Inl (permanent ''HTTP exchange'' ''badDataFormat''
                       (TextError ''response is not application/pkixcmp'')))
          else
            rbind (map_err (retryable ''read HTTP response'' ''systemUnavail'')
                     (read_limited (wrap64 (maximum + 1)) stream failure)) (\<lambda>body.
            rbind (ensure (int (length body) \<le> maximum)
              (permanent ''read HTTP response'' ''responseTooLarge''
                 (TextError ''CMP response exceeds configured limit''))) (\<lambda>_.
            rbind (ensure (body \<noteq> [])
              (permanent ''read HTTP response'' ''badDataFormat''
                 (TextError ''CMP response is empty''))) (\<lambda>_.
            Inr body))))"

definition sendCMP ::
    "cmp_lib \<Rightarrow> http_client \<Rightarrow> bytes \<Rightarrow> bytes \<Rightarrow> int
      \<Rightarrow> ('a net_state_scheme, go_error, bytes) action"
where
  "sendCMP lib client endpoint requestDER maximum s =
     (case cmp_NewRequest lib endpoint of
        Some e \<Rightarrow> (Inl (permanent ''create HTTP request'' ''badRequest'' e), s)
      | None \<Rightarrow>
          (let posts = net_Posts s @
                 [\<lparr>post_Client = client, post_Endpoint = endpoint, post_Body = requestDER\<rparr>]
           in (http_response_body lib maximum (cmp_Server lib posts), s\<lparr>net_Posts := posts\<rparr>)))"

subsection \<open>Authentication of a response\<close>

fun parse_all :: "cmp_lib \<Rightarrow> cmp_certificate list \<Rightarrow> certificate list" where
  "parse_all lib [] = []"
| "parse_all lib (encoded # rest) =
     (case cmp_ParseCertificate lib encoded of
        Inl _ \<Rightarrow> parse_all lib rest
      | Inr c \<Rightarrow> c # parse_all lib rest)"

fun first_signer ::
    "cmp_lib \<Rightarrow> pki_message \<Rightarrow> certificate list \<Rightarrow> certificate list \<Rightarrow> certificate list
      \<Rightarrow> go_error + certificate"
where
  "first_signer lib message roots intermediates [] =
     Inl (TextError ''no response signer has a valid signature and chain'')"
| "first_signer lib message roots intermediates (c # cs) =
     (case verifyCertificateChain (cmp_x509 lib) c roots intermediates of
        Inl _ \<Rightarrow> first_signer lib message roots intermediates cs
      | Inr _ \<Rightarrow>
          if cmp_Verify lib message (trusted_cert_options c) = None then Inr c
          else first_signer lib message roots intermediates cs)"

definition verifyTrustedSignature ::
    "cmp_lib \<Rightarrow> pki_message \<Rightarrow> certificate list option \<Rightarrow> cmp_certificate list
      \<Rightarrow> go_error + certificate"
where
  "verifyTrustedSignature lib message roots candidates =
     (case roots of
        None \<Rightarrow> Inl (TextError ''CMP trust anchors are absent'')
      | Some rs \<Rightarrow>
          (let parsed = parse_all lib candidates in first_signer lib message rs parsed parsed))"

definition acceptableRecipNonce :: "bytes \<Rightarrow> bytes \<Rightarrow> bytes \<Rightarrow> bool" where
  "acceptableRecipNonce recipNonce requestNonce delayedRequestNonce =
     (if recipNonce = requestNonce then True
      else delayedRequestNonce \<noteq> [] \<and> recipNonce = delayedRequestNonce)"

text \<open>
  The protection of a response, in the order the code tries: the required protection, for a
  signature also the chain of the signer; then the signer of an earlier response; then any
  candidate with a valid chain and signature. The result is the signer, absent for a MAC.
\<close>

definition verify_options_for :: "pki_message \<Rightarrow> enrollment_request \<Rightarrow> cmp_certificate list \<Rightarrow> verify_options" where
  "verify_options_for response request candidates =
     \<lparr>vo_RequiredProtection =
        (if Password (Protection request) \<noteq> None then ProtectionMAC else ProtectionSignature),
      vo_SharedSecret =
        (case Password (Protection request) of Some p \<Rightarrow> pw_Secret p | None \<Rightarrow> []),
      vo_TrustPool = CMPTrust request,
      vo_ExtraCerts = candidates,
      vo_SenderKID = hdr_SenderKID (Header response),
      vo_TrustedCert = None,
      vo_MinMACIterationCount =
        (if RequireMACIterationFloor request then minPBMIterationCount else 1),
      vo_MaxMACIterationCount = maxPBMIterationCount\<rparr>"

definition response_candidates :: "pki_message \<Rightarrow> enrollment_request \<Rightarrow> cmp_certificate list" where
  "response_candidates response request =
     ExtraCerts response @ map cert_Raw (CMPTrustCertificates request)
       @ map cert_Raw (CMPResponseCertificates request)"

definition verify_protection ::
    "cmp_lib \<Rightarrow> pki_message \<Rightarrow> enrollment_request \<Rightarrow> certificate option
      \<Rightarrow> go_error + certificate option"
where
  "verify_protection lib response request previousSigner =
     (let candidates = response_candidates response request;
          options = verify_options_for response request candidates;
          signed = vo_RequiredProtection options = ProtectionSignature;
          signatureAccepted = (signed \<or> AllowSignedMACResponse request);
          trusted = rbind (verifyTrustedSignature lib response (CMPTrust request) candidates)
                      (\<lambda>c. Inr (Some c));
          first = (case cmp_Verify lib response options of
                     Some e \<Rightarrow> Inl e
                   | None \<Rightarrow> if signed then trusted else Inr None);
          second = (case (first, previousSigner) of
                      (Inl e, Some previous) \<Rightarrow>
                        if signatureAccepted
                          \<and> cmp_Verify lib response (trusted_cert_options previous) = None
                        then Inr (Some previous) else first
                    | _ \<Rightarrow> first)
      in (case second of
            Inr signer \<Rightarrow> Inr signer
          | Inl e \<Rightarrow>
              if signatureAccepted
              then (case trusted of Inr signer \<Rightarrow> Inr signer | Inl _ \<Rightarrow> Inl e)
              else Inl e))"

definition PVNO2 :: int where "PVNO2 = 2"
definition PVNO3 :: int where "PVNO3 = 3"

definition verifyResponse ::
    "cmp_lib \<Rightarrow> pki_message \<Rightarrow> pki_message \<Rightarrow> enrollment_request \<Rightarrow> certificate option \<Rightarrow> bytes
      \<Rightarrow> go_error + certificate option"
where
  "verifyResponse lib requestMessage response request previousSigner delayedRequestNonce =
     rbind (ensure (hdr_ProtectionAlg (Header response) \<noteq> None \<and> PKIProtection response \<noteq> [])
       (security ''verify response protection'' ''missingProtection''
          (TextError ''response has no PKIProtection''))) (\<lambda>_.
     rbind (map_err (security ''verify response protection'' ''badMessageCheck'')
       (verify_protection lib response request previousSigner)) (\<lambda>responseSigner.
     rbind (case responseSigner of
         None \<Rightarrow> Inr ()
       | Some c \<Rightarrow> map_err (security ''verify response signer key usage'' ''badMessageCheck'')
           (ValidateMLDSAKeyUsage (Some c))) (\<lambda>_.
     rbind (ensure (hdr_TransactionID (Header response) = hdr_TransactionID (Header requestMessage))
       (security ''verify transaction ID'' ''transactionIdMismatch''
          (TextError ''response transaction ID does not match request''))) (\<lambda>_.
     rbind (ensure (acceptableRecipNonce (hdr_RecipNonce (Header response))
         (hdr_SenderNonce (Header requestMessage)) delayedRequestNonce)
       (security ''verify recipient nonce'' ''nonceMismatch''
          (TextError ''response recipient nonce does not match request sender nonce''))) (\<lambda>_.
     rbind (ensure (hdr_PVNO (Header response) = PVNO2
         \<or> hdr_PVNO (Header response) = hdr_PVNO (Header requestMessage))
       (permanent ''verify protocol version'' ''unsupportedVersion''
          (TextError ''response protocol version %d does not match the request version %d''))) (\<lambda>_.
     rbind (ensure (senderMatchesRecipient (gn_DirectoryName \<circ> cmp_NewDirectoryName lib)
         (gn_DirectoryName (hdr_Sender (Header response))) (Recipient request))
       (security ''verify response sender'' ''wrongAuthority''
          (TextError ''response sender does not name the configured recipient''))) (\<lambda>_.
     Inr responseSigner)))))))"

subsection \<open>Statuses\<close>

definition classifiedFailureBitOrder :: "failure_bit list" where
  "classifiedFailureBitOrder =
     [FailBadMessageCheck, FailSignerNotTrusted, FailNotAuthorized, FailBadPOP,
      FailBadCertTemplate, FailBadAlg, FailTransactionIdInUse, FailBadRequest,
      FailSystemUnavail, FailSystemFailure]"

definition boundedFailureName :: "cmp_lib \<Rightarrow> failure_bit list \<Rightarrow> bytes" where
  "boundedFailureName lib failInfo =
     (case find (\<lambda>b. b \<in> set failInfo) classifiedFailureBitOrder of
        Some b \<Rightarrow> cmp_bit_name lib b
      | None \<Rightarrow> ''unknownStatus'')"

definition boundedStatus :: "cmp_lib \<Rightarrow> pki_status_info \<Rightarrow> pki_status_info" where
  "boundedStatus lib status =
     (if StatusString status = [] then status
      else status\<lparr>StatusString := [Text (cmp_graphic lib) (join ''; '' (StatusString status))]\<rparr>)"

definition permanentBits :: "failure_bit list" where
  "permanentBits =
     [FailBadPOP, FailBadRequest, FailBadCertTemplate, FailNotAuthorized, FailBadAlg,
      FailBadMessageCheck, FailSignerNotTrusted, FailTransactionIdInUse]"

definition classifyStatus :: "cmp_lib \<Rightarrow> pki_status_info \<Rightarrow> go_error option" where
  "classifyStatus lib status =
     (if Status status = StatusAccepted \<or> Status status = StatusGrantedWithMods then None
      else
        (let statusErr = StatusError (boundedStatus lib status) in
         if Status status = StatusWaiting
         then Some (ProtocolError ErrorKindPending ''wait for certificate'' ''waiting'' second
                 (Some statusErr))
         else if \<exists>b \<in> set (FailInfo status). b \<in> set permanentBits
         then Some (permanent ''process PKIStatus'' (boundedFailureName lib (FailInfo status)) statusErr)
         else if FailSystemUnavail \<in> set (FailInfo status) \<or> FailSystemFailure \<in> set (FailInfo status)
         then Some (retryable ''process PKIStatus'' (boundedFailureName lib (FailInfo status)) statusErr)
         else Some (permanent ''process PKIStatus'' ''unknownStatus'' statusErr)))"

subsection \<open>The issued certificate\<close>

record issued_certificate =
  ic_Certificate :: "certificate option"
  ic_Candidates :: "certificate list"
  ic_CertReqID :: int
  ic_ImplicitGranted :: bool
  ic_GrantedWithMods :: bool
  ic_Waiting :: bool

fun parse_unseen ::
    "cmp_lib \<Rightarrow> bytes list \<Rightarrow> certificate list \<Rightarrow> cmp_certificate list \<Rightarrow> go_error + certificate list"
where
  "parse_unseen lib seen candidates [] = Inr candidates"
| "parse_unseen lib seen candidates (encoded # rest) =
     (if encoded \<in> set seen then parse_unseen lib seen candidates rest
      else (case cmp_ParseCertificate lib encoded of
              Inl e \<Rightarrow> Inl (permanent ''parse response certificate'' ''badDataFormat'' e)
            | Inr c \<Rightarrow> parse_unseen lib (encoded # seen) (candidates @ [c]) rest))"

definition parseResponseCertificates ::
    "cmp_lib \<Rightarrow> cmp_certificate list list \<Rightarrow> go_error + certificate list"
where
  "parseResponseCertificates lib groups = parse_unseen lib [] [] (concat groups)"

definition acceptResponseCertReqID :: "bytes \<Rightarrow> int \<Rightarrow> int option \<Rightarrow> go_error + unit" where
  "acceptResponseCertReqID operation observed pinned =
     (if operation = OperationIR
      then ensure (observed = 0) (security ''validate IP certReqId'' ''certReqIdMismatch''
             (TextError ''IR IP certReqId must be 0 but response contained %d''))
      else if operation = OperationKUR
      then ensure (observed = 0) (security ''validate KUP certReqId'' ''certReqIdMismatch''
             (TextError ''KUR KUP certReqId must be 0 but response contained %d''))
      else (case pinned of
              Some p \<Rightarrow> ensure (observed = p) (security ''validate CP certReqId'' ''certReqIdMismatch''
                (TextError ''P10CR CP certReqId must be %d but response contained %d''))
            | None \<Rightarrow> ensure (observed = ResponseCertReqIDStandard \<or> observed = ResponseCertReqIDLegacyZero)
                (security ''validate CP certReqId'' ''certReqIdUnsupported''
                  (TextError ''P10CR CP certReqId must be %d or %d but response contained %d''))))"

definition responseGrantsImplicitConfirm :: "cmp_lib \<Rightarrow> pki_message \<Rightarrow> bool" where
  "responseGrantsImplicitConfirm lib response =
     list_ex (\<lambda>info. info = cmp_ImplicitConfirm lib) (hdr_GeneralInfo (Header response))"

definition expected_body :: "bytes \<Rightarrow> body_kind" where
  "expected_body operation =
     (if operation = OperationIR then BodyTypeIP
      else if operation = OperationKUR then BodyTypeKUP
      else BodyTypeCP)"

text \<open>The content of a body of the expected type; the last case is not reached.\<close>

fun cert_rep_content :: "pki_body \<Rightarrow> go_error + cert_rep_message" where
  "cert_rep_content (BodyCP r) = r"
| "cert_rep_content (BodyIP r) = r"
| "cert_rep_content (BodyKUP r) = r"
| "cert_rep_content _ = Inl (TextError ''unexpected body type'')"

definition extract_certificate ::
    "cmp_lib \<Rightarrow> pki_message \<Rightarrow> enrollment_request \<Rightarrow> cert_rep_message \<Rightarrow> cert_response
      \<Rightarrow> go_error + issued_certificate"
where
  "extract_certificate lib response request reply certificateResponse =
     rbind (case classifyStatus lib (rsp_Status certificateResponse) of
         Some e \<Rightarrow> Inl e | None \<Rightarrow> Inr ()) (\<lambda>_.
     rbind (case rsp_CertifiedKeyPair certificateResponse of
         Some (Some encoded) \<Rightarrow> Inr encoded
       | _ \<Rightarrow> Inl (permanent ''extract certificate'' ''badDataFormat''
               (TextError ''%s does not contain a plaintext certificate''))) (\<lambda>encoded.
     rbind (map_err (permanent ''parse issued certificate'' ''badDataFormat'')
         (cmp_ParseCertificate lib encoded)) (\<lambda>certificate.
     rbind (ensure (\<not> (Operation request = OperationKUR \<and> RequireKUPCAPubsAbsent request
           \<and> rep_CAPubs reply \<noteq> []))
         (permanent ''validate KUP'' ''badDataFormat'' (TextError ''KUP caPubs must be absent''))) (\<lambda>_.
     rbind (parseResponseCertificates lib [rep_CAPubs reply, ExtraCerts response]) (\<lambda>candidates.
     Inr \<lparr>ic_Certificate = Some certificate, ic_Candidates = candidates,
          ic_CertReqID = rsp_CertReqID certificateResponse,
          ic_ImplicitGranted = responseGrantsImplicitConfirm lib response,
          ic_GrantedWithMods = (Status (rsp_Status certificateResponse) = StatusGrantedWithMods),
          ic_Waiting = False\<rparr>)))))"

definition extract_reply ::
    "cmp_lib \<Rightarrow> pki_message \<Rightarrow> enrollment_request \<Rightarrow> bytes \<Rightarrow> go_error + issued_certificate"
where
  "extract_reply lib response request operation =
     (let bodyName = cmp_body_name lib (expected_body operation) in
      rbind (ensure (body_type (Body response) = expected_body operation)
        (permanent ''validate response body'' ''unsupportedBody''
           (TextError ''expected %s response''))) (\<lambda>_.
      rbind (map_err (permanent (''parse '' @ bodyName) ''badDataFormat'')
        (cert_rep_content (Body response))) (\<lambda>reply.
      (case rep_Response reply of
         [certificateResponse] \<Rightarrow>
           rbind (acceptResponseCertReqID operation (rsp_CertReqID certificateResponse)
             (ResponseCertReqID request)) (\<lambda>_.
           if Status (rsp_Status certificateResponse) = StatusWaiting
           then Inr \<lparr>ic_Certificate = None, ic_Candidates = [],
                  ic_CertReqID = rsp_CertReqID certificateResponse,
                  ic_ImplicitGranted = False, ic_GrantedWithMods = False, ic_Waiting = True\<rparr>
           else extract_certificate lib response request reply certificateResponse)
       | _ \<Rightarrow> Inl (permanent (''validate '' @ bodyName) ''badRequest''
           (TextError ''%s must contain exactly one CertResponse''))))))"

definition extractEnrollmentResponse ::
    "cmp_lib \<Rightarrow> pki_message \<Rightarrow> enrollment_request \<Rightarrow> go_error + issued_certificate"
where
  "extractEnrollmentResponse lib response request =
     (case Body response of
        BodyError content \<Rightarrow>
          rbind (map_err (permanent ''parse error response'' ''badDataFormat'') content) (\<lambda>status.
            case classifyStatus lib status of
              Some e \<Rightarrow> Inl e
            | None \<Rightarrow> Inr \<lparr>ic_Certificate = None, ic_Candidates = [], ic_CertReqID = 0,
                 ic_ImplicitGranted = False, ic_GrantedWithMods = False, ic_Waiting = False\<rparr>)
      | _ \<Rightarrow> extract_reply lib response request
               (if Operation request = [] then OperationP10CR else Operation request))"

subsection \<open>The decision on a response\<close>

text \<open>
  Trust roots of a validated request are present. For absent roots the verification in the
  source would fall back to the roots of the system; the model has an empty pool there, which
  no validated request reaches.
\<close>

definition sameValidity :: "certificate \<Rightarrow> certificate \<Rightarrow> bool" where
  "sameValidity first_cert second_cert \<longleftrightarrow>
     cert_NotBefore first_cert = cert_NotBefore second_cert
     \<and> cert_NotAfter first_cert = cert_NotAfter second_cert"

record refused_certificate =
  refused_Certificate :: "certificate option"
  refused_CertReqID :: int
  refused_RecipNonce :: bytes
  refused_ResponseSigner :: "certificate option"
  refused_Reason :: bytes

text \<open>
  The three results of the source are a sum: the error with the refusal, or the result. An
  error body with an accepting status leaves the certificate nil, and the source dereferences
  it, which panics.
\<close>

definition refusal ::
    "enrollment_request \<Rightarrow> pki_message \<Rightarrow> certificate option \<Rightarrow> issued_certificate \<Rightarrow> bytes
      \<Rightarrow> refused_certificate option"
where
  "refusal request response responseSigner issued reason =
     (if ImplicitConfirm request \<and> ic_ImplicitGranted issued then None
      else Some \<lparr>refused_Certificate = ic_Certificate issued,
             refused_CertReqID = ic_CertReqID issued,
             refused_RecipNonce = hdr_SenderNonce (Header response),
             refused_ResponseSigner = responseSigner,
             refused_Reason = reason\<rparr>)"

definition keeps_validity :: "enrollment_request \<Rightarrow> certificate \<Rightarrow> bool" where
  "keeps_validity request c =
     (Operation request = OperationKUR
      \<and> (case Signature (Protection request) of
           Some sp \<Rightarrow> (case sig_Certificate sp of Some old \<Rightarrow> sameValidity c old | None \<Rightarrow> False)
         | None \<Rightarrow> False))"

definition trust_roots :: "enrollment_request \<Rightarrow> certificate list" where
  "trust_roots request = (case CMPTrust request of Some rs \<Rightarrow> rs | None \<Rightarrow> [])"

definition finish_issued ::
    "cmp_lib \<Rightarrow> enrollment_request \<Rightarrow> pki_message \<Rightarrow> certificate_request \<Rightarrow> certificate option
      \<Rightarrow> issued_certificate \<Rightarrow> certificate \<Rightarrow> (go_error \<times> refused_certificate option) + enrollment_result"
where
  "finish_issued lib request response csr responseSigner issued certificate =
     (let refuse = refusal request response responseSigner issued in
      if ic_GrantedWithMods issued \<and> RejectGrantedMods request
      then Inl (permanent ''apply granted modifications policy'' ''grantedWithMods''
               (TextError ''server granted the request with modifications''),
             refuse ''granted modifications are not accepted'')
      else if \<not> PublicKeysEqual (csr_PublicKey csr) (cert_PublicKey certificate)
      then Inl (security ''validate issued certificate'' ''publicKeyMismatch''
               (TextError ''issued certificate public key does not match CSR''),
             refuse ''certificate does not certify the requested public key'')
      else
        (case validateAndOrderChain (cmp_x509 lib) certificate
                (ic_Candidates issued @ CMPResponseCertificates request)
                (trust_roots request) of
           Inl e \<Rightarrow> Inl (security ''validate issued chain'' ''signerNotTrusted'' e,
                      refuse ''certificate validation failed'')
         | Inr chain \<Rightarrow>
             if keeps_validity request certificate
             then Inl (permanent ''validate issued certificate'' ''validityNotRenewed''
                      (TextError ''server issued the updated certificate with the notBefore and notAfter of the certificate it replaces, which would make cert-manager renew it again at once''),
                    refuse ''certificate keeps the validity of the certificate being updated'')
             else if ImplicitConfirm request \<and> ic_ImplicitGranted issued
             then Inr (empty_result\<lparr>Chain := chain,
                    ExtraCertificateCount := length (ic_Candidates issued),
                    result_CertReqID := ic_CertReqID issued\<rparr>)
             else Inr (empty_result\<lparr>Chain := chain,
                    ExtraCertificateCount := length (ic_Candidates issued),
                    result_CertReqID := ic_CertReqID issued,
                    PendingConfirmation := Some \<lparr>pending_CertReqID = ic_CertReqID issued,
                      pending_RecipNonce = hdr_SenderNonce (Header response),
                      pending_ResponseSigner = responseSigner, pending_CheckAfter = 0,
                      pending_RequestNonce = []\<rparr>\<rparr>)))"

definition finishTransaction ::
    "cmp_lib \<Rightarrow> enrollment_request \<Rightarrow> pki_message \<Rightarrow> certificate_request \<Rightarrow> certificate option \<Rightarrow> bytes
      \<Rightarrow> (go_error \<times> refused_certificate option) + enrollment_result"
where
  "finishTransaction lib request response csr responseSigner delayedRequestNonce =
     (case extractEnrollmentResponse lib response request of
        Inl e \<Rightarrow> Inl (e, None)
      | Inr issued \<Rightarrow>
          if ic_Waiting issued
          then Inr (empty_result\<lparr>Pending := Some \<lparr>pending_CertReqID = ic_CertReqID issued,
                 pending_RecipNonce = hdr_SenderNonce (Header response),
                 pending_ResponseSigner = responseSigner, pending_CheckAfter = 0,
                 pending_RequestNonce = delayedRequestNonce\<rparr>\<rparr>)
          else
            (case ic_Certificate issued of
               None \<Rightarrow> Inl (Panic ''nil pointer dereference'', None)
             | Some certificate \<Rightarrow>
                 finish_issued lib request response csr responseSigner issued certificate))"

definition check_after :: "int \<Rightarrow> duration" where
  "check_after seconds = wrap64 (seconds * second)"

definition extractPollRep ::
    "pki_message \<Rightarrow> int \<Rightarrow> certificate option \<Rightarrow> bytes \<Rightarrow> go_error + pending_transaction"
where
  "extractPollRep response expectedCertReqID responseSigner delayedRequestNonce =
     rbind (map_err (permanent ''parse pollRep'' ''badDataFormat'')
       (case Body response of
          BodyPollRep content \<Rightarrow> content
        | _ \<Rightarrow> Inl (TextError ''unexpected body type''))) (\<lambda>reply.
     (case reply of
        [(certReqID, checkAfter)] \<Rightarrow>
          rbind (ensure (certReqID = expectedCertReqID)
            (security ''validate pollRep certReqId'' ''certReqIdMismatch''
               (TextError ''pollRep certReqId does not match the polled request''))) (\<lambda>_.
          rbind (ensure (0 \<le> checkAfter)
            (permanent ''validate pollRep'' ''badRequest''
               (TextError ''pollRep checkAfter is negative''))) (\<lambda>_.
          Inr \<lparr>pending_CertReqID = certReqID,
               pending_RecipNonce = hdr_SenderNonce (Header response),
               pending_ResponseSigner = responseSigner,
               pending_CheckAfter = check_after checkAfter,
               pending_RequestNonce = delayedRequestNonce\<rparr>))
      | _ \<Rightarrow> Inl (permanent ''validate pollRep'' ''badRequest''
               (TextError ''pollRep must contain exactly one entry''))))"

definition confirmationDelay :: "cmp_lib \<Rightarrow> pki_message \<Rightarrow> go_error + duration" where
  "confirmationDelay lib response =
     (case Body response of
        BodyError content \<Rightarrow>
          rbind (map_err (permanent ''parse confirmation error'' ''badDataFormat'') content) (\<lambda>status.
          if Status status \<noteq> StatusWaiting
          then (case classifyStatus lib status of
                  Some e \<Rightarrow> Inl e
                | None \<Rightarrow> Inl (permanent ''validate confirmation'' ''unsupportedBody''
                             (TextError ''expected pkiConf response'')))
          else Inr 0)
      | BodyPollRep content \<Rightarrow>
          rbind (map_err (permanent ''parse confirmation pollRep'' ''badDataFormat'') content) (\<lambda>reply.
          (case reply of
             [(certReqID, checkAfter)] \<Rightarrow>
               rbind (ensure (certReqID = ResponseCertReqIDStandard)
                 (security ''validate confirmation pollRep certReqId'' ''certReqIdMismatch''
                    (TextError ''pollRep certReqId does not match the polled confirmation''))) (\<lambda>_.
               rbind (ensure (0 \<le> checkAfter)
                 (permanent ''validate confirmation pollRep'' ''badRequest''
                    (TextError ''pollRep checkAfter is negative''))) (\<lambda>_.
               Inr (check_after checkAfter)))
           | _ \<Rightarrow> Inl (permanent ''validate confirmation pollRep'' ''badRequest''
                    (TextError ''pollRep must contain exactly one entry''))))
      | _ \<Rightarrow> Inl (permanent ''validate confirmation'' ''unsupportedBody''
               (TextError ''expected pkiConf response'')))"

subsection \<open>Requests: what the check guarantees\<close>

definition pbm_hashes :: "hash set" where "pbm_hashes = {SHA256, SHA384, SHA512}"

definition hash_or_default :: "hash \<Rightarrow> hash" where
  "hash_or_default h = (if h = HashNone then SHA256 else h)"

lemma pbmAlgorithms_Inr:
  "pbmAlgorithms p = Inr (owf, mac) \<longleftrightarrow>
     owf = hash_or_default (pw_OWF p) \<and> mac = hash_or_default (pw_MAC p)
     \<and> owf \<in> pbm_hashes \<and> mac \<in> pbm_hashes \<and> hash_Size mac \<le> hash_Size owf"
  by (auto simp: pbmAlgorithms_def hash_or_default_def pbm_hashes_def Let_def)

lemma validateSignatureDigest_Inr:
  "validateSignatureDigest h = Inr () \<longleftrightarrow> (\<forall>n. h \<noteq> HashOther n)"
  by (cases h) auto

definition password_ok :: "password_protection \<Rightarrow> bool" where
  "password_ok p \<longleftrightarrow>
     pw_Reference p \<noteq> [] \<and> pw_Secret p \<noteq> []
     \<and> minPBMIterationCount \<le> pw_IterationCount p \<and> pw_IterationCount p \<le> maxPBMIterationCount
     \<and> hash_or_default (pw_OWF p) \<in> pbm_hashes \<and> hash_or_default (pw_MAC p) \<in> pbm_hashes
     \<and> hash_Size (hash_or_default (pw_MAC p)) \<le> hash_Size (hash_or_default (pw_OWF p))"

lemma validatePassword_Inr: "validatePassword (Some p) = Inr () \<longleftrightarrow> password_ok p"
  by (simp add: validatePassword_def password_ok_def result_simps pbmAlgorithms_Inr)

lemma validateEnrollmentRequest_Inr:
  "validateEnrollmentRequest lib request = Inr () \<longleftrightarrow>
     Operation request \<in> {[], OperationP10CR, OperationIR, OperationKUR}
     \<and> valid_endpoint lib (EndpointURL request)
     \<and> validateSignatureDigest (SignatureDigest request) = Inr ()
     \<and> 0 < Timeout request \<and> 0 < MaxResponseSize request
     \<and> CSRDER request \<noteq> [] \<and> CMPTrust request \<noteq> None
     \<and> (Password (Protection request) = None) \<noteq> (Signature (Protection request) = None)
     \<and> validatePassword (Password (Protection request)) = Inr ()
     \<and> validateSignature (Signature (Protection request)) = Inr ()"
  by (auto simp: validateEnrollmentRequest_def Let_def result_simps)

lemma signature_request:
  assumes "validateEnrollmentRequest lib request = Inr ()" and "Password (Protection request) = None"
  obtains sp key c where "Signature (Protection request) = Some sp" "sig_PrivateKey sp = Some key"
    "sig_Certificate sp = Some c" "ValidateSignerCertificate (Some key) (Some c) = Inr ()"
proof -
  from assms obtain sp where sp: "Signature (Protection request) = Some sp"
    by (auto simp: validateEnrollmentRequest_Inr)
  with assms(1) have ok: "ValidateSignerCertificate (sig_PrivateKey sp) (sig_Certificate sp) = Inr ()"
    by (simp add: validateEnrollmentRequest_Inr validateSignature_def map_err_Inr)
  then obtain key c where "sig_PrivateKey sp = Some key" "sig_Certificate sp = Some c"
    by (auto simp: ValidateSignerCertificate_def split: option.splits)
  with sp ok that show thesis
    by simp
qed

lemma credentialsFor_not_Panic:
  assumes ok: "validateEnrollmentRequest lib request = Inr ()"
    and lib: "\<And>c m. cmp_NewCredentials lib c \<noteq> Some (Panic m)"
  shows "credentialsFor lib request \<noteq> Inl (Panic m)"
proof (cases "Password (Protection request)")
  case None
  from signature_request [OF ok None] obtain sp key where
      "Signature (Protection request) = Some sp" "sig_PrivateKey sp = Some key"
    by metis
  with None lib show ?thesis
    by (auto simp: credentialsFor_def checked_credentials_def rbind_Inl Let_def
        split: option.splits if_splits)
next
  case (Some p)
  with lib show ?thesis
    by (auto simp: credentialsFor_def checked_credentials_def rbind_Inl pbmAlgorithms_def Let_def
        split: option.splits if_splits)
qed

subsection \<open>Limits on what is read\<close>

lemma http_response_body_Inr:
  assumes "http_response_body lib maximum result = Inr body"
  shows "body \<noteq> [] \<and> int (length body) \<le> maximum
    \<and> (\<exists>code contentType stream failure. result = HttpResponse code contentType stream failure
         \<and> \<not> (300 \<le> code \<and> code < 400) \<and> cmp_ParseMediaType lib contentType = Inr cmp_media_type
         \<and> body = take (length body) stream)"
  using assms
  by (auto simp: http_response_body_def read_limited_def result_simps
      split: http_result.splits if_splits option.splits)

subsection \<open>Authentication: what acceptance of a response means\<close>

lemma first_signer_Inr:
  "first_signer lib message roots intermediates cs = Inr c \<Longrightarrow>
   c \<in> set cs \<and> (\<exists>chain. verifyCertificateChain (cmp_x509 lib) c roots intermediates = Inr chain)
   \<and> cmp_Verify lib message (trusted_cert_options c) = None"
  by (induction cs) (auto split: sum.splits if_splits)

lemma parse_all_set: "set (parse_all lib es) = {c. \<exists>e \<in> set es. cmp_ParseCertificate lib e = Inr c}"
  by (induction es) (auto split: sum.splits)

definition trusted_signer :: "cmp_lib \<Rightarrow> pki_message \<Rightarrow> enrollment_request \<Rightarrow> certificate \<Rightarrow> bool" where
  "trusted_signer lib response request c \<longleftrightarrow>
     cmp_Verify lib response (trusted_cert_options c) = None
     \<and> (\<exists>e \<in> set (response_candidates response request). cmp_ParseCertificate lib e = Inr c)
     \<and> (\<exists>roots chain. CMPTrust request = Some roots
          \<and> verifyCertificateChain (cmp_x509 lib) c roots
              (parse_all lib (response_candidates response request)) = Inr chain)"

lemma verifyTrustedSignature_Inr:
  "verifyTrustedSignature lib response (CMPTrust request) (response_candidates response request) = Inr c
   \<Longrightarrow> trusted_signer lib response request c"
  unfolding verifyTrustedSignature_def trusted_signer_def Let_def
  by (auto dest!: first_signer_Inr simp: parse_all_set split: option.splits)

definition signature_accepted :: "enrollment_request \<Rightarrow> bool" where
  "signature_accepted request \<longleftrightarrow>
     Password (Protection request) = None \<or> AllowSignedMACResponse request"

text \<open>
  What authenticates an accepted response: the MAC under the shared secret of the request
  within the iteration limits, or, where a signature is acceptable, the signer already trusted
  in this transaction or a candidate that chains to the configured trust.
\<close>

definition authenticated ::
    "cmp_lib \<Rightarrow> pki_message \<Rightarrow> enrollment_request \<Rightarrow> certificate option \<Rightarrow> certificate option \<Rightarrow> bool"
where
  "authenticated lib response request previousSigner signer =
     (case signer of
        None \<Rightarrow>
          Password (Protection request) \<noteq> None
          \<and> cmp_Verify lib response
              (verify_options_for response request (response_candidates response request)) = None
      | Some c \<Rightarrow>
          signature_accepted request
          \<and> (trusted_signer lib response request c
             \<or> previousSigner = Some c
               \<and> cmp_Verify lib response (trusted_cert_options c) = None))"

lemma verify_protection_Inr:
  assumes "verify_protection lib response request previousSigner = Inr signer"
  shows "authenticated lib response request previousSigner signer"
proof -
  have "trusted_signer lib response request c"
    if "verifyTrustedSignature lib response (CMPTrust request) (response_candidates response request) = Inr c"
    for c
    using that by (rule verifyTrustedSignature_Inr)
  with assms show ?thesis
    unfolding verify_protection_def authenticated_def signature_accepted_def Let_def
    by (cases "Password (Protection request) = None";
        cases "verifyTrustedSignature lib response (CMPTrust request) (response_candidates response request)")
      (auto simp: verify_options_for_def split: option.splits if_splits)
qed

lemma verifyResponse_Inr:
  assumes "verifyResponse lib requestMessage response request previousSigner delayed = Inr signer"
  shows "PKIProtection response \<noteq> []"
    and "authenticated lib response request previousSigner signer"
    and "signer = Some c \<Longrightarrow> mldsa_usage_ok c"
    and "hdr_TransactionID (Header response) = hdr_TransactionID (Header requestMessage)"
    and "hdr_RecipNonce (Header response) = hdr_SenderNonce (Header requestMessage)
         \<or> delayed \<noteq> [] \<and> hdr_RecipNonce (Header response) = delayed"
    and "hdr_PVNO (Header response) \<in> {PVNO2, hdr_PVNO (Header requestMessage)}"
    and "senderMatchesRecipient (gn_DirectoryName \<circ> cmp_NewDirectoryName lib)
           (gn_DirectoryName (hdr_Sender (Header response))) (Recipient request)"
  using assms unfolding verifyResponse_def rbind_Inr ensure_Inr map_err_Inr
  by (auto simp: acceptableRecipNonce_def ValidateMLDSAKeyUsage_Inr map_err_Inr
      dest: verify_protection_Inr split: if_splits option.splits)

subsection \<open>Statuses\<close>

lemma boundedFailureName_cases:
  "boundedFailureName lib failInfo = ''unknownStatus'' \<and> set failInfo \<inter> set classifiedFailureBitOrder = {}
   \<or> (\<exists>b \<in> set failInfo \<inter> set classifiedFailureBitOrder. boundedFailureName lib failInfo = cmp_bit_name lib b)"
proof (cases "find (\<lambda>b. b \<in> set failInfo) classifiedFailureBitOrder")
  case None
  then have "set failInfo \<inter> set classifiedFailureBitOrder = {}"
    by (auto simp: find_None_iff)
  with None show ?thesis
    by (simp add: boundedFailureName_def)
next
  case (Some b)
  then have "b \<in> set failInfo" "b \<in> set classifiedFailureBitOrder"
    by (auto simp: find_Some_iff)
  with Some show ?thesis
    by (auto simp: boundedFailureName_def)
qed

lemma classified_bits:
  "set classifiedFailureBitOrder = set permanentBits \<union> {FailSystemUnavail, FailSystemFailure}"
  by (auto simp: classifiedFailureBitOrder_def permanentBits_def)

lemma boundedStatus_simps [simp]:
  "Status (boundedStatus lib status) = Status status"
  "FailInfo (boundedStatus lib status) = FailInfo status"
  by (simp_all add: boundedStatus_def)

lemma classifyStatus_None:
  "classifyStatus lib status = None \<longleftrightarrow> Status status \<in> {StatusAccepted, StatusGrantedWithMods}"
  by (simp add: classifyStatus_def Let_def)

lemma classifyStatus_Some:
  assumes "classifyStatus lib status = Some e"
  shows "as_protocol e = Some e
    \<and> (pe_Kind e = ErrorKindPending \<longleftrightarrow> Status status = StatusWaiting)
    \<and> (pe_Kind e = ErrorKindRetryable \<longleftrightarrow>
         Status status \<noteq> StatusWaiting \<and> set (FailInfo status) \<inter> set permanentBits = {}
         \<and> set (FailInfo status) \<inter> {FailSystemUnavail, FailSystemFailure} \<noteq> {})
    \<and> pe_Kind e \<in> {ErrorKindPending, ErrorKindRetryable, ErrorKindPermanent}
    \<and> pe_Err e = Some (StatusError (boundedStatus lib status))"
  using assms
  by (auto simp: classifyStatus_def Let_def permanent_def retryable_def as_protocol_def
      split: if_splits)

subsection \<open>Response certificates\<close>

text \<open>The distinct elements of a list in the order of their first occurrence.\<close>

fun first_occurrences :: "'a list \<Rightarrow> 'a list \<Rightarrow> 'a list" where
  "first_occurrences seen [] = []"
| "first_occurrences seen (x # xs) =
     (if x \<in> set seen then first_occurrences seen xs else x # first_occurrences (x # seen) xs)"

lemma first_occurrences_set: "set (first_occurrences seen xs) = set xs - set seen"
  by (induction xs arbitrary: seen) auto

lemma first_occurrences_distinct: "distinct (first_occurrences seen xs)"
  by (induction xs arbitrary: seen) (auto simp: first_occurrences_set)

lemma parse_unseen_Inr:
  "parse_unseen lib seen acc es = Inr cs \<longleftrightarrow>
     (\<exists>new. cs = acc @ new
        \<and> list_all2 (\<lambda>e c. cmp_ParseCertificate lib e = Inr c) (first_occurrences seen es) new)"
  by (induction es arbitrary: seen acc)
    (auto simp: list_all2_Cons1 split: sum.splits)

lemma parseResponseCertificates_Inr:
  "parseResponseCertificates lib groups = Inr cs \<longleftrightarrow>
     list_all2 (\<lambda>e c. cmp_ParseCertificate lib e = Inr c) (first_occurrences [] (concat groups)) cs"
  by (simp add: parseResponseCertificates_def parse_unseen_Inr)

subsection \<open>The decision: what a result guarantees\<close>

definition accepted_chain :: "cmp_lib \<Rightarrow> enrollment_request \<Rightarrow> certificate_request \<Rightarrow> certificate list \<Rightarrow> bool" where
  "accepted_chain lib request csr chain \<longleftrightarrow>
     (\<exists>leaf candidates. validateAndOrderChain (cmp_x509 lib) leaf candidates (trust_roots request) = Inr chain
        \<and> PublicKeysEqual (csr_PublicKey csr) (cert_PublicKey leaf)
        \<and> \<not> keeps_validity request leaf)"

lemma accepted_chainI:
  "validateAndOrderChain (cmp_x509 lib) leaf candidates (trust_roots request) = Inr chain \<Longrightarrow>
   PublicKeysEqual (csr_PublicKey csr) (cert_PublicKey leaf) \<Longrightarrow> \<not> keeps_validity request leaf \<Longrightarrow>
   accepted_chain lib request csr chain"
  by (auto simp: accepted_chain_def)

lemma extract_certificate_Inr:
  assumes "extract_certificate lib response request reply certificateResponse = Inr issued"
  shows "\<not> ic_Waiting issued" and "ic_Certificate issued \<noteq> None"
    and "ic_CertReqID issued = rsp_CertReqID certificateResponse"
    and "Status (rsp_Status certificateResponse) \<in> {StatusAccepted, StatusGrantedWithMods}"
    and "ic_GrantedWithMods issued \<longleftrightarrow> Status (rsp_Status certificateResponse) = StatusGrantedWithMods"
    and "ic_ImplicitGranted issued \<longleftrightarrow> responseGrantsImplicitConfirm lib response"
    and "Operation request = OperationKUR \<and> RequireKUPCAPubsAbsent request \<Longrightarrow> rep_CAPubs reply = []"
    and "parseResponseCertificates lib [rep_CAPubs reply, ExtraCerts response] = Inr (ic_Candidates issued)"
  using assms unfolding extract_certificate_def rbind_Inr ensure_Inr map_err_Inr
  by (auto simp: classifyStatus_None split: option.splits)

lemma extract_reply_Inr:
  assumes "extract_reply lib response request operation = Inr issued"
  obtains (waiting) "ic_Waiting issued"
  | (issued) reply r where "cert_rep_content (Body response) = Inr reply" "rep_Response reply = [r]"
      "extract_certificate lib response request reply r = Inr issued"
  using assms unfolding extract_reply_def Let_def rbind_Inr map_err_Inr
  by (elim exE conjE) (auto simp: rbind_Inr split: list.split_asm if_split_asm)

lemma extractEnrollmentResponse_Inr:
  assumes "extractEnrollmentResponse lib response request = Inr issued"
  obtains (accepted_error) status where "Body response = BodyError (Inr status)"
      "Status status \<in> {StatusAccepted, StatusGrantedWithMods}"
      "\<not> ic_Waiting issued" "ic_Certificate issued = None"
  | (waiting) "ic_Waiting issued"
  | (issued) reply r where "cert_rep_content (Body response) = Inr reply" "rep_Response reply = [r]"
      "extract_certificate lib response request reply r = Inr issued"
proof (cases "\<exists>content. Body response = BodyError content")
  case True
  with assms that(1) show thesis
    by (auto simp: extractEnrollmentResponse_def rbind_Inr map_err_Inr classifyStatus_None
        split: option.splits)
next
  case False
  with assms have "extract_reply lib response request
      (if Operation request = [] then OperationP10CR else Operation request) = Inr issued"
    unfolding extractEnrollmentResponse_def by (cases "Body response") simp_all
  then show thesis
    by (rule extract_reply_Inr) (auto intro: that)
qed

lemma finish_issued_Inr:
  assumes "finish_issued lib request response csr signer issued certificate = Inr result"
  shows "Pending result = None" and "accepted_chain lib request csr (Chain result)"
    and "if ImplicitConfirm request \<and> ic_ImplicitGranted issued then PendingConfirmation result = None
         else PendingConfirmation result = Some \<lparr>pending_CertReqID = ic_CertReqID issued,
                pending_RecipNonce = hdr_SenderNonce (Header response),
                pending_ResponseSigner = signer, pending_CheckAfter = 0, pending_RequestNonce = []\<rparr>"
    and "\<not> (ic_GrantedWithMods issued \<and> RejectGrantedMods request)"
    and "result_CertReqID result = ic_CertReqID issued"
  using assms unfolding finish_issued_def Let_def
  by (auto simp: empty_result_def intro: accepted_chainI split: if_split_asm sum.split_asm)

lemma finishTransaction_Inr:
  assumes "finishTransaction lib request response csr signer delayed = Inr result"
  obtains (pending) p where "Pending result = Some p" "Chain result = []" "PendingConfirmation result = None"
      "pending_RecipNonce p = hdr_SenderNonce (Header response)" "pending_RequestNonce p = delayed"
      "pending_ResponseSigner p = signer" "pending_CheckAfter p = 0"
  | (issued) "Pending result = None" "accepted_chain lib request csr (Chain result)"
      "if ImplicitConfirm request \<and> responseGrantsImplicitConfirm lib response
       then PendingConfirmation result = None
       else PendingConfirmation result = Some \<lparr>pending_CertReqID = result_CertReqID result,
              pending_RecipNonce = hdr_SenderNonce (Header response),
              pending_ResponseSigner = signer, pending_CheckAfter = 0, pending_RequestNonce = []\<rparr>"
proof -
  from assms obtain issued where
      issued: "extractEnrollmentResponse lib response request = Inr issued"
    by (auto simp: finishTransaction_def split: sum.splits)
  from issued show thesis
  proof (cases rule: extractEnrollmentResponse_Inr)
    case accepted_error
    with assms issued show thesis
      by (simp add: finishTransaction_def)
  next
    case waiting
    with assms issued show thesis
      by (auto simp: finishTransaction_def empty_result_def intro: that(1))
  next
    case (issued reply r)
    note facts = extract_certificate_Inr [OF issued(3)]
    from facts(2) obtain c where "ic_Certificate issued = Some c"
      by blast
    with assms \<open>extractEnrollmentResponse lib response request = Inr issued\<close> facts(1)
    have "finish_issued lib request response csr signer issued c = Inr result"
      by (simp add: finishTransaction_def)
    from finish_issued_Inr [OF this] show thesis
      by (intro that(2)) (simp_all add: facts(6) split: if_splits)
  qed
qed

text \<open>A refusal is reported only for a certificate the server still expects a certConf for.\<close>

lemma finishTransaction_refusal:
  assumes "finishTransaction lib request response csr signer delayed = Inl (e, Some r)"
  shows "\<exists>c. refused_Certificate r = Some c \<and> refused_ResponseSigner r = signer
      \<and> refused_RecipNonce r = hdr_SenderNonce (Header response)
      \<and> \<not> (ImplicitConfirm request \<and> responseGrantsImplicitConfirm lib response)
      \<and> is_ProtocolError e \<and> pe_Kind e \<in> {ErrorKindPermanent, ErrorKindSecurity}"
proof -
  from assms obtain issued c where
      issued: "extractEnrollmentResponse lib response request = Inr issued"
        "\<not> ic_Waiting issued" "ic_Certificate issued = Some c"
        "finish_issued lib request response csr signer issued c = Inl (e, Some r)"
    by (auto simp: finishTransaction_def split: sum.splits if_splits option.splits)
  from issued(1) have "ic_ImplicitGranted issued = responseGrantsImplicitConfirm lib response"
    using issued(2,3) by (cases rule: extractEnrollmentResponse_Inr) (auto simp: extract_certificate_Inr)
  with issued(3,4) show ?thesis
    unfolding finish_issued_def Let_def
    by (auto simp: refusal_def permanent_def security_def split: if_splits sum.splits)
qed

subsection \<open>Properties\<close>

text \<open>
  C26: A response is accepted only from the addressed authority and only for this request. When
  verifyResponse succeeds, the response is protected and authenticated: by a MAC under
  the shared secret of the request, or by a signer the request allows that chains to the
  configured trust or signed earlier in the transaction. Its signer obeys the
  ML-DSA key usage rule, it carries the transaction ID of the request, echoes the nonce of
  the request or of the delayed one, has an acceptable version, and its sender
  names the configured recipient.
\<close>

theorem verifyResponse_acceptance:
  assumes "verifyResponse lib requestMessage response request previousSigner delayed = Inr signer"
  shows "PKIProtection response \<noteq> []
    \<and> authenticated lib response request previousSigner signer
    \<and> (case signer of Some c \<Rightarrow> mldsa_usage_ok c | None \<Rightarrow> True)
    \<and> hdr_TransactionID (Header response) = hdr_TransactionID (Header requestMessage)
    \<and> (hdr_RecipNonce (Header response) = hdr_SenderNonce (Header requestMessage)
       \<or> delayed \<noteq> [] \<and> hdr_RecipNonce (Header response) = delayed)
    \<and> hdr_PVNO (Header response) \<in> {PVNO2, hdr_PVNO (Header requestMessage)}
    \<and> senderMatchesRecipient (gn_DirectoryName \<circ> cmp_NewDirectoryName lib)
        (gn_DirectoryName (hdr_Sender (Header response))) (Recipient request)"
  using verifyResponse_Inr [OF assms] by (auto split: option.split)

lemma sample_verified:
  "verifyResponse (sample_lib sample_issued) (sample_message BodyPKIConf) sample_issued
     sample_request None [] = Inr None"
  by (simp add: verifyResponse_def verify_protection_def verify_options_for_def
      acceptableRecipNonce_def senderMatchesRecipient_def attributeSet_def attribute_key_def
      PVNO2_def Let_def sample_requests sample_libs sample_messages sample_data)

theorem verifyResponse_acceptance_witness:
  "verifyResponse (sample_lib sample_issued) (sample_message BodyPKIConf) sample_issued
     sample_request None [] = Inr None
   \<and> authenticated (sample_lib sample_issued) sample_issued sample_request None None"
  using sample_verified verifyResponse_acceptance [OF sample_verified] by simp

text \<open>
  C27: An issued certificate is accepted only for the requested key. Whenever an authenticated
  response leads to a chain, the chain was verified against the configured
  trust roots with its first certificate as leaf, that certificate has the public key of the CSR, and for a
  KUR it does not keep the validity of the certificate it replaces.
\<close>

theorem finishTransaction_chain:
  assumes "finishTransaction lib request response csr signer delayed = Inr result"
    and "Chain result \<noteq> []"
  shows "(\<exists>candidates. validateAndOrderChain (cmp_x509 lib) (hd (Chain result)) candidates
            (trust_roots request) = Inr (Chain result))
    \<and> PublicKeysEqual (csr_PublicKey csr) (cert_PublicKey (hd (Chain result)))
    \<and> \<not> keeps_validity request (hd (Chain result))
    \<and> (PendingConfirmation result = None \<longrightarrow>
         ImplicitConfirm request \<and> responseGrantsImplicitConfirm lib response)"
proof -
  from assms have issued: "accepted_chain lib request csr (Chain result)"
      "PendingConfirmation result = None \<longrightarrow>
         ImplicitConfirm request \<and> responseGrantsImplicitConfirm lib response"
    by (auto elim!: finishTransaction_Inr split: if_split_asm)
  then show ?thesis
    by (auto simp: accepted_chain_def dest: validateAndOrderChain_hd)
qed

lemma sample_finished:
  "finishTransaction (sample_lib sample_issued) sample_request sample_issued sample_csr None ''n''
   = Inr (empty_result\<lparr>Chain := [sample_leaf], ExtraCertificateCount := 1,
       PendingConfirmation := Some \<lparr>pending_CertReqID = 0, pending_RecipNonce = ''nonce'',
         pending_ResponseSigner = None, pending_CheckAfter = 0, pending_RequestNonce = []\<rparr>\<rparr>)"
  by (simp add: finishTransaction_def extractEnrollmentResponse_def extract_reply_def expected_body_def
      acceptResponseCertReqID_def extract_certificate_def classifyStatus_def
      parseResponseCertificates_def responseGrantsImplicitConfirm_def finish_issued_def
      PublicKeysEqual_def validateAndOrderChain_def verifyCertificateChain_def
      ValidateMLDSAKeyUsage_def self_signed_def keeps_validity_def trust_roots_def
      operation_defs ResponseCertReqIDLegacyZero_def ResponseCertReqIDStandard_def
      empty_result_def Let_def sample_requests sample_libs sample_messages sample_data)

theorem finishTransaction_chain_witness:
  "\<exists>result. finishTransaction (sample_lib sample_issued) sample_request sample_issued sample_csr None ''n''
       = Inr result
     \<and> Chain result = [sample_leaf]
     \<and> PublicKeysEqual (csr_PublicKey sample_csr) (cert_PublicKey (hd (Chain result)))"
  using finishTransaction_chain [OF sample_finished] sample_finished by (simp add: empty_result_def)

text \<open>
  C32: A PKI status is classified consistently and within a fixed vocabulary. No error exactly
  for accepted and grantedWithMods; Pending exactly for waiting; Retryable exactly when the
  server reports its unavailability or failure and no permanent failure bit; every other status is
  Permanent. The failure name is the name of one of the ten classified bits that is set, or one
  of two fixed names, so a peer cannot mint names; the attached text is bounded.
\<close>

theorem classifyStatus_spec:
  "case classifyStatus lib status of
     None \<Rightarrow> Status status \<in> {StatusAccepted, StatusGrantedWithMods}
   | Some e \<Rightarrow>
       Status status \<notin> {StatusAccepted, StatusGrantedWithMods}
       \<and> pe_Kind e =
           (if Status status = StatusWaiting then ErrorKindPending
            else if set (FailInfo status) \<inter> set permanentBits = {}
              \<and> set (FailInfo status) \<inter> {FailSystemUnavail, FailSystemFailure} \<noteq> {}
            then ErrorKindRetryable else ErrorKindPermanent)
       \<and> pe_Failure e \<in> {''waiting'', ''unknownStatus''}
           \<union> cmp_bit_name lib ` (set (FailInfo status) \<inter> set classifiedFailureBitOrder)
       \<and> pe_Err e = Some (StatusError (boundedStatus lib status))"
proof (cases "classifyStatus lib status")
  case None
  show ?thesis
    unfolding None option.case using None by (simp only: classifyStatus_None)
next
  case (Some e)
  have name: "boundedFailureName lib (FailInfo status) \<in> {''waiting'', ''unknownStatus''}
      \<union> cmp_bit_name lib ` (set (FailInfo status) \<inter> set classifiedFailureBitOrder)"
    using boundedFailureName_cases [of lib "FailInfo status"] by auto
  have "pe_Failure e \<in> {''waiting'', ''unknownStatus'', boundedFailureName lib (FailInfo status)}"
    using Some by (auto simp: classifyStatus_def Let_def permanent_def retryable_def split: if_split_asm)
  moreover have "Status status \<notin> {StatusAccepted, StatusGrantedWithMods}"
    using Some classifyStatus_None [of lib status] by simp
  ultimately show ?thesis
    unfolding Some option.case using classifyStatus_Some [OF Some] name by auto
qed

text \<open>
  C36: The certificates of a response are parsed once each. When all of them parse,
  parseResponseCertificates returns the parsed certificates of the distinct
  encodings in the order of their first occurrence, and it succeeds exactly when all parse.
\<close>

theorem parseResponseCertificates_dedup:
  "parseResponseCertificates lib groups = Inr cs \<longleftrightarrow>
     list_all2 (\<lambda>e c. cmp_ParseCertificate lib e = Inr c) (first_occurrences [] (concat groups)) cs
     \<and> distinct (first_occurrences [] (concat groups))
     \<and> set (first_occurrences [] (concat groups)) = set (concat groups)"
  by (simp add: parseResponseCertificates_Inr first_occurrences_distinct first_occurrences_set)

text \<open>
  C39: An authenticated error message whose status is accepted or grantedWithMods makes the
  client panic: classifyStatus reports no error for it, so the extraction returns an empty
  result without an error, and the decision then dereferences the missing certificate.
\<close>

theorem accepted_error_panics:
  assumes "Body response = BodyError (Inr status)"
    and "Status status = StatusAccepted \<or> Status status = StatusGrantedWithMods"
  shows "finishTransaction lib request response csr signer delayed
    = Inl (Panic ''nil pointer dereference'', None)"
  using assms
  by (auto simp: finishTransaction_def extractEnrollmentResponse_def classifyStatus_def)

theorem accepted_error_panics_witness:
  "finishTransaction (sample_lib sample_issued) sample_request
     (sample_message (BodyError (Inr (sample_status StatusAccepted)))) sample_csr None ''n''
   = Inl (Panic ''nil pointer dereference'', None)"
  by (rule accepted_error_panics [of _ "sample_status StatusAccepted"])
    (simp_all add: sample_data)



text \<open>
  C37: What is read from the network is bounded. A body that is returned is not empty, at most
  the configured maximum long, a prefix of what the server sent, and comes from an
  application/pkixcmp answer that is no redirect.
\<close>

theorem http_response_body_bounded:
  assumes "http_response_body lib maximum result = Inr body"
  shows "body \<noteq> [] \<and> int (length body) \<le> maximum
    \<and> (\<exists>code contentType stream failure. result = HttpResponse code contentType stream failure
         \<and> \<not> (300 \<le> code \<and> code < 400) \<and> cmp_ParseMediaType lib contentType = Inr cmp_media_type
         \<and> body = take (length body) stream)"
  by (rule http_response_body_Inr [OF assms])

theorem http_response_body_bounded_witness:
  "\<exists>body. http_response_body (sample_lib sample_issued) 1000 (sample_server []) = Inr body
     \<and> int (length body) \<le> 1000"
proof -
  have "http_response_body (sample_lib sample_issued) 1000 (sample_server []) = Inr ''conf''"
    by (simp add: http_response_body_def read_limited_def wrap64_def cmp_media_type_def sample_libs)
  from http_response_body_bounded [OF this] this show ?thesis
    by blast
qed

end
