(* ===== verification/Cmp_Client.thy ===== *)
theory Cmp_Client
  imports Cmp_Response
begin

text \<open>
  The exchanges of \<^verbatim>\<open>src/internal/protocol/client.go\<close>, \<^verbatim>\<open>ir.go\<close> and
  \<^verbatim>\<open>kur.go\<close>: building and protecting a message, sending it, authenticating the answer,
  rejecting a refused certificate, and the five operations of the Client interface. They
  are actions on the client's state, so the sequence of POSTs is part of the result.
\<close>

subsection \<open>Building messages\<close>

definition message_options_for :: "cmp_lib \<Rightarrow> enrollment_request \<Rightarrow> general_name \<Rightarrow> bytes \<Rightarrow> message_options" where
  "message_options_for lib request sender recipNonce =
     \<lparr>opt_Sender = sender, opt_Recipient = cmp_NewDirectoryName lib (Recipient request),
      opt_TransactionID = TransactionID request, opt_RecipNonce = recipNonce\<rparr>"

definition set_sender_kid :: "enrollment_request \<Rightarrow> pki_message \<Rightarrow> pki_message" where
  "set_sender_kid request message =
     (case Password (Protection request) of
        Some p \<Rightarrow> message\<lparr>Header := (Header message)\<lparr>hdr_SenderKID := pw_Reference p\<rparr>\<rparr>
      | None \<Rightarrow> message)"

definition add_implicit_confirm :: "cmp_lib \<Rightarrow> enrollment_request \<Rightarrow> pki_message \<Rightarrow> pki_message" where
  "add_implicit_confirm lib request message =
     (if ImplicitConfirm request
      then message\<lparr>Header := (Header message)\<lparr>hdr_GeneralInfo :=
             hdr_GeneralInfo (Header message) @ [cmp_ImplicitConfirm lib]\<rparr>\<rparr>
      else message)"

definition protect_and_encode ::
    "cmp_lib \<Rightarrow> credentials \<Rightarrow> bytes \<Rightarrow> pki_message \<Rightarrow> go_error + pki_message \<times> bytes"
where
  "protect_and_encode lib credentials what message =
     rbind (map_err (permanent (''protect '' @ what) ''badAlg'') (cmp_Protect lib credentials message)) (\<lambda>message'.
     rbind (map_err (permanent (''encode '' @ what) ''badDataFormat'') (cmp_MarshalBinary lib message')) (\<lambda>requestDER.
     Inr (message', requestDER)))"

definition protectedEnrollment ::
    "cmp_lib \<Rightarrow> enrollment_request \<Rightarrow> certificate_request \<Rightarrow> credentials
      \<Rightarrow> ('a net_state_scheme, go_error, pki_message \<times> bytes) action"
where
  "protectedEnrollment lib request csr credentials =
     sbind (new_message lib (BodyP10CR csr)
       (message_options_for lib request (requestSender lib request) [])) (\<lambda>message.
     slift (protect_and_encode lib credentials ''P10CR''
       (add_implicit_confirm lib request (set_sender_kid request message))))"

definition certificateTemplate ::
    "cmp_lib \<Rightarrow> enrollment_request \<Rightarrow> certificate_request \<Rightarrow> general_name \<Rightarrow> go_error + cert_template"
where
  "certificateTemplate lib request csr subject =
     rbind (case RequestedPrivateKey request of
         None \<Rightarrow> Inl (Panic ''nil pointer dereference'')
       | Some key \<Rightarrow> (case pk_DER (signer_Public key) of
             None \<Rightarrow> Inl (permanent ''encode requested public key'' ''badCertTemplate''
                        (TextError ''x509: unsupported public key type''))
           | Some der \<Rightarrow> Inr der)) (\<lambda>publicKey.
     rbind (if csr_Extensions csr \<noteq> []
         then rbind (map_err (permanent ''encode requested extensions'' ''badCertTemplate'')
                (cmp_MarshalExtensions lib (csr_Extensions csr))) (\<lambda>der. Inr (Some der))
         else Inr None) (\<lambda>extensions.
     Inr \<lparr>tmpl_Subject = subject, tmpl_PublicKey = publicKey, tmpl_Extensions = extensions,
          tmpl_NotAfter = (if RequestedNotAfter request = zero_time then None
                           else Some (RequestedNotAfter request))\<rparr>))"

definition generate_pop ::
    "cmp_lib \<Rightarrow> enrollment_request \<Rightarrow> bytes \<Rightarrow> cert_req_msg \<Rightarrow> go_error + cert_req_msg"
where
  "generate_pop lib request what message =
     (case RequestedPrivateKey request of
        None \<Rightarrow> Inl (Panic ''nil pointer dereference'')
      | Some key \<Rightarrow>
          map_err (permanent what ''badPOP'')
            (cmp_GeneratePOP lib message key (signatureDigestFor key (SignatureDigest request))))"

definition protectedIR ::
    "cmp_lib \<Rightarrow> enrollment_request \<Rightarrow> certificate_request \<Rightarrow> credentials
      \<Rightarrow> ('a net_state_scheme, go_error, pki_message \<times> bytes) action"
where
  "protectedIR lib request csr credentials =
     sbind (slift (certificateTemplate lib request csr
       (cmp_NewDirectoryNameFromRawDER lib (csr_RawSubject csr)))) (\<lambda>template.
     sbind (slift (generate_pop lib request ''generate IR proof of possession''
       \<lparr>crm_CertReqID = 0, crm_CertTemplate = template, crm_Controls = [], crm_POP = None\<rparr>)) (\<lambda>messageRequest.
     sbind (new_message lib (BodyIR [messageRequest])
       (message_options_for lib request (requestSender lib request) [])) (\<lambda>message.
     slift (protect_and_encode lib credentials ''IR''
       (add_implicit_confirm lib request (set_sender_kid request message))))))"

definition protectedKUR ::
    "cmp_lib \<Rightarrow> enrollment_request \<Rightarrow> certificate \<Rightarrow> certificate_request \<Rightarrow> credentials
      \<Rightarrow> ('a net_state_scheme, go_error, pki_message \<times> bytes) action"
where
  "protectedKUR lib request old csr credentials =
     sbind (slift (certificateTemplate lib request csr (certificateSubject lib old))) (\<lambda>template.
     sbind (slift (map_err (permanent ''encode KUR oldCertID'' ''badRequest'')
       (cmp_NewOldCertIDControl lib old))) (\<lambda>oldCertID.
     sbind (slift (generate_pop lib request ''generate KUR proof of possession''
       \<lparr>crm_CertReqID = 0, crm_CertTemplate = template, crm_Controls = [oldCertID], crm_POP = None\<rparr>)) (\<lambda>messageRequest.
     sbind (new_message lib (BodyKUR [messageRequest])
       (message_options_for lib request (certificateSubject lib old) [])) (\<lambda>message.
     slift (protect_and_encode lib credentials ''KUR''
       (add_implicit_confirm lib request message))))))"

subsection \<open>Checks of IR and KUR requests\<close>

definition checked_csr :: "cmp_lib \<Rightarrow> enrollment_request \<Rightarrow> go_error + certificate_request" where
  "checked_csr lib request =
     rbind (map_err (permanent ''parse CSR'' ''badRequest'')
       (x509_ParseCertificateRequest (cmp_x509 lib) (CSRDER request))) (\<lambda>csr.
     (case x509_CheckSignature (cmp_x509 lib) csr of
        Some e \<Rightarrow> Inl (permanent ''verify CSR signature'' ''badPOP'' e)
      | None \<Rightarrow> Inr csr))"

definition requested_key_matches :: "enrollment_request \<Rightarrow> certificate_request \<Rightarrow> bool" where
  "requested_key_matches request csr =
     (case RequestedPrivateKey request of
        None \<Rightarrow> False
      | Some key \<Rightarrow> PublicKeysEqual (signer_Public key) (csr_PublicKey csr))"

definition ValidateIRRequest :: "cmp_lib \<Rightarrow> enrollment_request \<Rightarrow> go_error + certificate_request" where
  "ValidateIRRequest lib request =
     rbind (validateEnrollmentRequest lib (request\<lparr>Operation := OperationIR\<rparr>)) (\<lambda>_.
     rbind (checked_csr lib request) (\<lambda>csr.
     rbind (ensure (requested_key_matches request csr)
       (permanent ''validate IR proof of possession'' ''badPOP''
          (TextError ''requested private key does not match the CSR public key''))) (\<lambda>_.
     Inr csr)))"

definition rawAttributeSet :: "cmp_lib \<Rightarrow> bytes \<Rightarrow> bytes list option" where
  "rawAttributeSet lib raw =
     (case cmp_UnmarshalRDN lib raw of
        Inr (sequence, []) \<Rightarrow> Some (attributeSet sequence)
      | _ \<Rightarrow> None)"

fun generalNameSet :: "cmp_lib \<Rightarrow> extension list \<Rightarrow> bytes list option" where
  "generalNameSet lib [] = Some []"
| "generalNameSet lib (e # es) =
     (if ext_Id e \<noteq> oidSubjectAltName then generalNameSet lib es
      else (case cmp_UnmarshalNames lib (ext_Value e) of
              Inr (names, []) \<Rightarrow> Some (sort (map hex_encode names))
            | _ \<Rightarrow> None))"

definition sameKURIdentity :: "cmp_lib \<Rightarrow> certificate \<Rightarrow> certificate_request \<Rightarrow> bool" where
  "sameKURIdentity lib certificate csr =
     ((case (rawAttributeSet lib (cert_RawSubject certificate), rawAttributeSet lib (csr_RawSubject csr)) of
         (Some a, Some b) \<Rightarrow> a = b
       | _ \<Rightarrow> False)
      \<and> (case (generalNameSet lib (cert_Extensions certificate), generalNameSet lib (csr_Extensions csr)) of
           (Some a, Some b) \<Rightarrow> a = b
         | _ \<Rightarrow> False))"

definition validateKURProofs ::
    "cmp_lib \<Rightarrow> enrollment_request \<Rightarrow> certificate_request \<Rightarrow> time \<Rightarrow> go_error + certificate"
where
  "validateKURProofs lib request csr now =
     (case (Password (Protection request), Signature (Protection request)) of
        (None, Some sp) \<Rightarrow>
          rbind (ensure (requested_key_matches request csr)
            (permanent ''validate KUR proof of possession'' ''badPOP''
               (TextError ''requested private key does not match the CSR public key''))) (\<lambda>_.
          (case sig_Certificate sp of
             None \<Rightarrow> Inl (Panic ''nil pointer dereference'')
           | Some certificate \<Rightarrow>
               rbind (ensure (\<not> (now < cert_NotBefore certificate \<or> \<not> now < cert_NotAfter certificate))
                 (permanent ''validate KUR protection certificate'' ''badTime''
                    (TextError ''certificate being updated is not currently valid''))) (\<lambda>_.
               rbind (ensure (\<not> (certificateHasExtension certificate oidKeyUsage
                     \<and> cert_KeyUsage certificate AND KeyUsageDigitalSignature = 0))
                 (permanent ''validate KUR protection certificate'' ''badAlg''
                    (TextError ''certificate being updated does not permit digital signatures''))) (\<lambda>_.
               rbind (ensure (sameKURIdentity lib certificate csr)
                 (permanent ''validate KUR certificate identity'' ''badCertTemplate''
                    (TextError ''CSR subject or subject alternative names differ from the certificate being updated''))) (\<lambda>_.
               Inr certificate)))))
      | _ \<Rightarrow> Inl (permanent ''validate KUR protection'' ''badRequest''
               (TextError ''KUR requires signature protection with the certificate being updated'')))"

text \<open>
  The validations return what the callers read again after them: the parsed CSR and, for a
  KUR, the certificate being updated.
\<close>

definition ValidateKURRequest ::
    "cmp_lib \<Rightarrow> enrollment_request
      \<Rightarrow> ('a net_state_scheme, go_error, certificate_request \<times> certificate) action"
where
  "ValidateKURRequest lib request =
     sbind (slift (validateEnrollmentRequest lib (request\<lparr>Operation := OperationKUR\<rparr>))) (\<lambda>_.
     sbind (slift (checked_csr lib request)) (\<lambda>csr.
     sbind (time_Now lib) (\<lambda>now.
     sbind (slift (validateKURProofs lib request csr now)) (\<lambda>old.
     slift (Inr (csr, old))))))"

subsection \<open>Confirmation and rejection\<close>

definition operationPoll :: bytes where "operationPoll = ''pollReq''"
definition operationConfirmation :: bytes where "operationConfirmation = ''certConf''"

definition confirmationMessage ::
    "cmp_lib \<Rightarrow> enrollment_request \<Rightarrow> certificate \<Rightarrow> confirm_request \<Rightarrow> pki_status_info option
      \<Rightarrow> ('a net_state_scheme, go_error, pki_message \<times> bytes) action"
where
  "confirmationMessage lib request certificate confirm statusInfo =
     (let options = message_options_for lib request (requestSender lib request)
            (confirm_RecipNonce confirm)
      in
      sbind (slift (map_err (permanent ''compute certificate hash'' ''badAlg'')
        (cmp_NewCertStatus lib certificate (confirm_CertReqID confirm)))) (\<lambda>status.
      if confirm_RequestNonce confirm \<noteq> []
      then
        sbind (new_message lib (BodyPollReq [ResponseCertReqIDStandard]) options) (\<lambda>message.
        slift (Inr (set_sender_kid request
          (if cs_HashAlg status \<noteq> None
           then message\<lparr>Header := (Header message)\<lparr>hdr_PVNO := PVNO3\<rparr>\<rparr>
           else message), operationPoll)))
      else
        sbind (new_message lib (BodyCertConf [status\<lparr>cs_StatusInfo := statusInfo\<rparr>]) options) (\<lambda>message.
        slift (Inr (set_sender_kid request message, operationConfirmation)))))"

text \<open>
  One round trip of an encoded message: POST, parse the answer and authenticate it. The
  source repeats this sequence in each operation, with the description of the parse error
  \<open>what\<close>.
\<close>

definition round_trip ::
    "cmp_lib \<Rightarrow> enrollment_request \<Rightarrow> bytes \<Rightarrow> certificate option \<Rightarrow> bytes \<Rightarrow> pki_message \<times> bytes
      \<Rightarrow> ('a net_state_scheme, go_error, pki_message \<times> certificate option) action"
where
  "round_trip lib request what previousSigner delayedRequestNonce encoded =
     sbind (sendCMP lib (newHTTPClient request) (EndpointURL request) (snd encoded)
       (MaxResponseSize request)) (\<lambda>responseDER.
     sbind (slift (map_err (security what ''badDataFormat'')
       (cmp_ParsePKIMessage lib responseDER))) (\<lambda>response.
     sbind (slift (verifyResponse lib (fst encoded) response request previousSigner
       delayedRequestNonce)) (\<lambda>responseSigner.
     slift (Inr (response, responseSigner)))))"

definition exchangeProtected ::
    "cmp_lib \<Rightarrow> enrollment_request \<Rightarrow> credentials \<Rightarrow> pki_message \<Rightarrow> certificate option \<Rightarrow> bytes \<Rightarrow> bytes
      \<Rightarrow> ('a net_state_scheme, go_error, pki_message) action"
where
  "exchangeProtected lib request credentials message responseSigner delayedRequestNonce operation =
     sbind (slift (protect_and_encode lib credentials operation message)) (\<lambda>encoded.
     sbind (round_trip lib request (''parse '' @ operation @ '' response'') responseSigner
       delayedRequestNonce encoded) (\<lambda>answer.
     slift (Inr (fst answer))))"

definition not_confirmed_format :: string where
  "not_confirmed_format = ''%w (rejection not confirmed by the server: %v)''"

definition annotate_refusal :: "go_error \<Rightarrow> go_error" where
  "annotate_refusal reason =
     (case as_protocol reason of
        Some (ProtocolError kind operation failure requeueAfter err) \<Rightarrow>
          ProtocolError kind operation failure requeueAfter
            (Some (case err of
                     Some e \<Rightarrow> WrapError not_confirmed_format e
                   | None \<Rightarrow> TextError not_confirmed_format))
      | _ \<Rightarrow> WrapError not_confirmed_format reason)"

definition deliver_rejection ::
    "cmp_lib \<Rightarrow> enrollment_request \<Rightarrow> credentials \<Rightarrow> refused_certificate \<Rightarrow> certificate
      \<Rightarrow> ('a net_state_scheme, go_error, unit) action"
where
  "deliver_rejection lib request credentials refused certificate =
     sbind (confirmationMessage lib request certificate
       \<lparr>confirm_Enrollment = request, confirm_Certificate = Some certificate,
        confirm_CertReqID = refused_CertReqID refused, confirm_RecipNonce = refused_RecipNonce refused,
        confirm_ResponseSigner = refused_ResponseSigner refused, confirm_RequestNonce = []\<rparr>
       (Some \<lparr>Status = StatusRejection, StatusString = [refused_Reason refused], FailInfo = []\<rparr>))
       (\<lambda>(message, operation).
     sbind (exchangeProtected lib request credentials message (refused_ResponseSigner refused) []
       operation) (\<lambda>response.
     slift (ensure (body_type (Body response) = BodyTypePKIConf)
       (TextError ''server answered with %s instead of pkiConf''))))"

definition rejectCertificate ::
    "cmp_lib \<Rightarrow> enrollment_request \<Rightarrow> credentials \<Rightarrow> refused_certificate \<Rightarrow> go_error
      \<Rightarrow> ('a net_state_scheme, go_error, enrollment_result) action"
where
  "rejectCertificate lib request credentials refused reason =
     (case refused_Certificate refused of
        None \<Rightarrow> slift (Inl (Panic ''nil pointer dereference''))
      | Some certificate \<Rightarrow>
          sbind (stry (deliver_rejection lib request credentials refused certificate)) (\<lambda>delivered.
          slift (Inl (case delivered of Inr _ \<Rightarrow> reason | Inl _ \<Rightarrow> annotate_refusal reason))))"

definition completeOrRefuse ::
    "cmp_lib \<Rightarrow> enrollment_request \<Rightarrow> credentials \<Rightarrow> pki_message \<Rightarrow> certificate_request
      \<Rightarrow> certificate option \<Rightarrow> bytes \<Rightarrow> ('a net_state_scheme, go_error, enrollment_result) action"
where
  "completeOrRefuse lib request credentials response csr responseSigner delayedRequestNonce =
     (case finishTransaction lib request response csr responseSigner delayedRequestNonce of
        Inl (e, Some refused) \<Rightarrow> rejectCertificate lib request credentials refused e
      | Inl (e, None) \<Rightarrow> slift (Inl e)
      | Inr result \<Rightarrow> slift (Inr result))"

subsection \<open>The operations of the Client interface\<close>

text \<open>The part EnrollP10CR, EnrollIR and EnrollKUR share once the request is encoded.\<close>

definition enroll_exchange ::
    "cmp_lib \<Rightarrow> enrollment_request \<Rightarrow> credentials \<Rightarrow> certificate_request \<Rightarrow> bytes \<Rightarrow> pki_message \<times> bytes
      \<Rightarrow> ('a net_state_scheme, go_error, enrollment_result) action"
where
  "enroll_exchange lib request credentials csr what encoded =
     sbind (round_trip lib request what None [] encoded) (\<lambda>answer.
     completeOrRefuse lib request credentials (fst answer) csr (snd answer)
       (hdr_SenderNonce (Header (fst encoded))))"

definition EnrollP10CR ::
    "cmp_lib \<Rightarrow> enrollment_request \<Rightarrow> ('a net_state_scheme, go_error, enrollment_result) action"
where
  "EnrollP10CR lib request0 =
     sbind (slift (ensure (Operation request0 = [] \<or> Operation request0 = OperationP10CR)
       (permanent ''validate P10CR operation'' ''badRequest''
          (TextError ''P10CR enrollment cannot execute operation %q'')))) (\<lambda>_.
     let request = request0\<lparr>Operation := OperationP10CR\<rparr> in
     sbind (slift (validateEnrollmentRequest lib request)) (\<lambda>_.
     sbind (slift (checked_csr lib request)) (\<lambda>csr.
     sbind (slift (map_err (permanent ''configure protection'' ''badAlg'')
       (credentialsFor lib request))) (\<lambda>credentials.
     sbind (protectedEnrollment lib request csr credentials) (\<lambda>encoded.
     enroll_exchange lib request credentials csr ''parse CP'' encoded)))))"

definition EnrollIR ::
    "cmp_lib \<Rightarrow> enrollment_request \<Rightarrow> ('a net_state_scheme, go_error, enrollment_result) action"
where
  "EnrollIR lib request0 =
     (let request = request0\<lparr>Operation := OperationIR\<rparr> in
      sbind (slift (ValidateIRRequest lib request)) (\<lambda>csr.
      sbind (slift (map_err (permanent ''configure protection'' ''badAlg'')
        (credentialsFor lib request))) (\<lambda>credentials.
      sbind (protectedIR lib request csr credentials) (\<lambda>encoded.
      enroll_exchange lib request credentials csr ''parse IP'' encoded))))"

definition EnrollKUR ::
    "cmp_lib \<Rightarrow> enrollment_request \<Rightarrow> ('a net_state_scheme, go_error, enrollment_result) action"
where
  "EnrollKUR lib request0 =
     (let request = request0\<lparr>Operation := OperationKUR\<rparr> in
      sbind (ValidateKURRequest lib request) (\<lambda>(csr, old).
      sbind (slift (map_err (permanent ''configure KUR protection'' ''badAlg'')
        (credentialsFor lib request))) (\<lambda>credentials.
      sbind (protectedKUR lib request old csr credentials) (\<lambda>encoded.
      enroll_exchange lib request credentials csr ''parse KUP'' encoded))))"

definition PollP10CR ::
    "cmp_lib \<Rightarrow> poll_request \<Rightarrow> ('a net_state_scheme, go_error, enrollment_result) action"
where
  "PollP10CR lib poll =
     (let request = poll_Enrollment poll in
      sbind (slift (validateEnrollmentRequest lib request)) (\<lambda>_.
      sbind (slift (ensure (TransactionID request \<noteq> [] \<and> poll_RecipNonce poll \<noteq> [])
        (permanent ''validate poll request'' ''badRequest''
           (TextError ''transaction ID and recipient nonce are required to poll'')))) (\<lambda>_.
      sbind (slift (map_err (permanent ''parse CSR'' ''badRequest'')
        (x509_ParseCertificateRequest (cmp_x509 lib) (CSRDER request)))) (\<lambda>csr.
      sbind (slift (map_err (permanent ''configure protection'' ''badAlg'')
        (credentialsFor lib request))) (\<lambda>credentials.
      sbind (new_message lib (BodyPollReq [poll_CertReqID poll])
        (message_options_for lib request (requestSender lib request) (poll_RecipNonce poll))) (\<lambda>message0.
      sbind (slift (protect_and_encode lib credentials ''pollReq''
        (set_sender_kid request message0))) (\<lambda>encoded.
      sbind (round_trip lib request ''parse poll response'' (poll_ResponseSigner poll)
        (poll_RequestNonce poll) encoded) (\<lambda>answer.
      if body_type (Body (fst answer)) = BodyTypePollRep
      then
        sbind (slift (extractPollRep (fst answer) (poll_CertReqID poll) (snd answer)
          (poll_RequestNonce poll))) (\<lambda>pending.
        slift (Inr (empty_result\<lparr>Pending := Some pending\<rparr>)))
      else completeOrRefuse lib request credentials (fst answer) csr (snd answer)
        (poll_RequestNonce poll)))))))))"

definition ConfirmP10CR ::
    "cmp_lib \<Rightarrow> confirm_request \<Rightarrow> ('a net_state_scheme, go_error, enrollment_result) action"
where
  "ConfirmP10CR lib confirm =
     (let request = confirm_Enrollment confirm in
      sbind (slift (validateEnrollmentRequest lib request)) (\<lambda>_.
      (case confirm_Certificate confirm of
         None \<Rightarrow> slift (Inl (permanent ''validate confirmation request'' ''badRequest''
                  (TextError ''certificate and transaction ID are required to confirm'')))
       | Some certificate \<Rightarrow>
           sbind (slift (ensure (TransactionID request \<noteq> [])
             (permanent ''validate confirmation request'' ''badRequest''
                (TextError ''certificate and transaction ID are required to confirm'')))) (\<lambda>_.
           sbind (slift (map_err (permanent ''validate confirmation certificate'' ''badCertTemplate'')
             (ValidateMLDSAKeyUsage (Some certificate)))) (\<lambda>_.
           sbind (slift (map_err (permanent ''configure protection'' ''badAlg'')
             (credentialsFor lib request))) (\<lambda>credentials.
           sbind (confirmationMessage lib request certificate confirm None) (\<lambda>(message, operation).
           let confirmationNonce =
                 (if confirm_RequestNonce confirm = [] then hdr_SenderNonce (Header message)
                  else confirm_RequestNonce confirm)
           in
           sbind (exchangeProtected lib request credentials message (confirm_ResponseSigner confirm)
             (confirm_RequestNonce confirm) operation) (\<lambda>response.
           if body_type (Body response) = BodyTypePKIConf
           then slift (Inr (empty_result\<lparr>ExplicitConfirmation := True,
                  result_CertReqID := confirm_CertReqID confirm\<rparr>))
           else
             sbind (slift (confirmationDelay lib response)) (\<lambda>checkAfter.
             slift (Inr (empty_result\<lparr>PendingConfirmation := Some
               \<lparr>pending_CertReqID = confirm_CertReqID confirm,
                pending_RecipNonce = hdr_SenderNonce (Header response),
                pending_ResponseSigner = confirm_ResponseSigner confirm,
                pending_CheckAfter = checkAfter,
                pending_RequestNonce = confirmationNonce\<rparr>\<rparr>)))))))))))"

subsection \<open>Errors of the client are typed\<close>

definition typed_error :: "go_error \<Rightarrow> bool" where
  "typed_error e \<longleftrightarrow> is_ProtocolError e \<or> is_Panic e"

definition fails_typed :: "go_error + 'a \<Rightarrow> bool" where
  "fails_typed r \<longleftrightarrow> (\<forall>e. r = Inl e \<longrightarrow> typed_error e)"

named_theorems typed_intros

lemma typed_error_simps [simp, typed_intros]:
  "typed_error (permanent a b e)" "typed_error (security a b e)" "typed_error (retryable a b e)"
  "typed_error (Panic m)" "typed_error (ProtocolError k a b q e')"
  by (simp_all add: typed_error_def error_constructor_defs)

lemma fails_typed_Inr [simp, typed_intros]: "fails_typed (Inr x)"
  by (simp add: fails_typed_def)

lemma fails_typed_Inl [simp]: "fails_typed (Inl e) \<longleftrightarrow> typed_error e"
  by (simp add: fails_typed_def)

lemma fails_typed_rbind [typed_intros]:
  "fails_typed r \<Longrightarrow> (\<And>x. fails_typed (f x)) \<Longrightarrow> fails_typed (rbind r f)"
  by (cases r) (auto simp: fails_typed_def)

lemma fails_typed_map_err [typed_intros]: "(\<And>e. typed_error (h e)) \<Longrightarrow> fails_typed (map_err h r)"
  by (cases r) simp_all

lemma fails_typed_ensure [typed_intros]: "typed_error e \<Longrightarrow> fails_typed (ensure b e)"
  by (auto simp: fails_typed_def ensure_Inl)

lemma validateEnrollmentRequest_typed [typed_intros]:
  "fails_typed (validateEnrollmentRequest lib request)"
  unfolding validateEnrollmentRequest_def validatePassword_def validateSignature_def Let_def
  by (intro typed_intros) (auto intro!: typed_intros split: option.split)

lemma checked_csr_typed [typed_intros]: "fails_typed (checked_csr lib request)"
  unfolding checked_csr_def by (auto intro!: typed_intros split: option.split)

lemma ValidateIRRequest_typed [typed_intros]: "fails_typed (ValidateIRRequest lib request)"
  unfolding ValidateIRRequest_def by (intro typed_intros)

lemma validateKURProofs_typed [typed_intros]: "fails_typed (validateKURProofs lib request csr now)"
  unfolding validateKURProofs_def by (auto intro!: typed_intros split: option.split)

lemma certificateTemplate_typed [typed_intros]: "fails_typed (certificateTemplate lib request csr subject)"
  unfolding certificateTemplate_def by (auto intro!: typed_intros split: option.split)

lemma generate_pop_typed [typed_intros]: "fails_typed (generate_pop lib request what message)"
  unfolding generate_pop_def by (auto intro!: typed_intros split: option.split)

lemma protect_and_encode_typed [typed_intros]: "fails_typed (protect_and_encode lib credentials what message)"
  unfolding protect_and_encode_def by (intro typed_intros)

lemma http_response_body_typed [typed_intros]: "fails_typed (http_response_body lib maximum result)"
  unfolding http_response_body_def by (auto intro!: typed_intros split: http_result.split)

lemma verifyResponse_typed [typed_intros]:
  "fails_typed (verifyResponse lib requestMessage response request previous delayed)"
  unfolding verifyResponse_def
  by (intro typed_intros; auto intro!: typed_intros split: option.split)

lemma classifyStatus_typed: "classifyStatus lib status = Some e \<Longrightarrow> typed_error e"
  by (auto simp: classifyStatus_def Let_def split: if_splits)

lemma extractPollRep_typed [typed_intros]: "fails_typed (extractPollRep response i signer delayed)"
  unfolding extractPollRep_def by (intro typed_intros) (auto intro!: typed_intros split: list.split)

lemma confirmationDelay_typed [typed_intros]: "fails_typed (confirmationDelay lib response)"
  unfolding confirmationDelay_def
  by (auto intro!: typed_intros split: pki_body.split option.split list.split dest: classifyStatus_typed)

lemma extract_certificate_typed [typed_intros]:
  "fails_typed (extract_certificate lib response request reply r)"
proof -
  have parse: "fails_typed (parse_unseen lib seen acc es)" for seen acc es
    by (induction es arbitrary: seen acc) (auto split: sum.split)
  show ?thesis
    unfolding extract_certificate_def parseResponseCertificates_def
    by (intro typed_intros parse) (auto intro!: typed_intros split: option.split dest: classifyStatus_typed)
qed

lemma acceptResponseCertReqID_typed [typed_intros]: "fails_typed (acceptResponseCertReqID operation i pinned)"
  unfolding acceptResponseCertReqID_def by (auto intro!: typed_intros split: option.split)

lemma extractEnrollmentResponse_typed: "fails_typed (extractEnrollmentResponse lib response request)"
proof -
  have "fails_typed (extract_reply lib response request operation)" for operation
    unfolding extract_reply_def Let_def
    by (intro typed_intros) (auto intro!: typed_intros split: list.split)
  then show ?thesis
    unfolding extractEnrollmentResponse_def
    by (auto intro!: typed_intros split: pki_body.split option.split dest: classifyStatus_typed)
qed

lemma finishTransaction_typed:
  assumes "finishTransaction lib request response csr signer delayed = Inl (e, refused)"
  shows "typed_error e"
proof (cases "extractEnrollmentResponse lib response request")
  case (Inl e')
  with assms extractEnrollmentResponse_typed [of lib response request] show ?thesis
    by (simp add: finishTransaction_def)
next
  case (Inr issued)
  with assms show ?thesis
    unfolding finishTransaction_def finish_issued_def Let_def
    by (auto split: if_split_asm option.split_asm sum.split_asm)
qed

lemma annotate_refusal_typed: "typed_error e \<Longrightarrow> is_ProtocolError e \<Longrightarrow> typed_error (annotate_refusal e)"
  by (cases e) (auto simp: annotate_refusal_def as_protocol_def)

subsection \<open>What the client sends\<close>

text \<open>
  What the client relies on in the library: a new message carries the given body, a non-empty
  sender nonce and, when one is given, the transaction ID, and protecting a message keeps
  these three.
\<close>

definition message_contract :: "cmp_lib \<Rightarrow> bool" where
  "message_contract lib \<longleftrightarrow>
     (\<forall>n body options. Body (cmp_NewPKIMessage lib n body options) = body
        \<and> hdr_SenderNonce (Header (cmp_NewPKIMessage lib n body options)) \<noteq> []
        \<and> (opt_TransactionID options \<noteq> [] \<longrightarrow>
             hdr_TransactionID (Header (cmp_NewPKIMessage lib n body options)) = opt_TransactionID options))
     \<and> (\<forall>c m m'. cmp_Protect lib c m = Inr m' \<longrightarrow>
          Body m' = Body m \<and> hdr_SenderNonce (Header m') = hdr_SenderNonce (Header m)
          \<and> hdr_TransactionID (Header m') = hdr_TransactionID (Header m))"

definition transaction_message :: "bytes \<Rightarrow> (pki_body \<Rightarrow> bool) \<Rightarrow> pki_message \<Rightarrow> bool" where
  "transaction_message tid P m \<longleftrightarrow>
     hdr_TransactionID (Header m) = tid \<and> hdr_SenderNonce (Header m) \<noteq> [] \<and> P (Body m)"

text \<open>
  \<open>sends lib P\<close>: the POSTs made are encodings of messages that satisfy \<open>P\<close>, and nothing
  outside the client's state changes; the clock is only read forwards.
\<close>

definition sends ::
    "cmp_lib \<Rightarrow> (pki_message \<Rightarrow> bool) \<Rightarrow> 'a net_state_scheme \<Rightarrow> 'a net_state_scheme \<Rightarrow> bool"
where
  "sends lib P s s' \<longleftrightarrow>
     net_state.more s' = net_state.more s \<and> net_Ticks s \<le> net_Ticks s'
     \<and> (\<exists>new. net_Posts s' = net_Posts s @ new
          \<and> (\<forall>p \<in> set new. \<exists>m. P m \<and> cmp_MarshalBinary lib m = Inr (post_Body p)))"

lemma sends_refl: "reflp (sends lib P)"
  by (simp add: reflp_def sends_def)

lemma sends_trans: "transp (sends lib P)"
proof (rule transpI)
  fix s s' s'' :: "'a net_state_scheme"
  assume "sends lib P s s'" "sends lib P s' s''"
  then obtain new new' where
      new: "net_Posts s' = net_Posts s @ new"
        "\<forall>p \<in> set new. \<exists>m. P m \<and> cmp_MarshalBinary lib m = Inr (post_Body p)"
      and new': "net_Posts s'' = net_Posts s' @ new'"
        "\<forall>p \<in> set new'. \<exists>m. P m \<and> cmp_MarshalBinary lib m = Inr (post_Body p)"
      and more: "net_state.more s'' = net_state.more s" "net_Ticks s \<le> net_Ticks s''"
    unfolding sends_def by (elim conjE exE) simp
  then have "\<forall>p \<in> set (new @ new'). \<exists>m. P m \<and> cmp_MarshalBinary lib m = Inr (post_Body p)"
    by auto
  with new(1) new'(1) more show "sends lib P s s''"
    unfolding sends_def by (intro conjI exI [of _ "new @ new'"]) simp_all
qed

lemma sends_mono: "(\<And>m. P m \<Longrightarrow> Q m) \<Longrightarrow> sends lib P s s' \<Longrightarrow> sends lib Q s s'"
  unfolding sends_def by blast

lemmas sends_bind = behaves_sbind [OF sends_trans]

lemma sends_pure: "fails_typed r \<Longrightarrow> behaves (sends lib P) (slift r) typed_error (\<lambda>x. r = Inr x)"
  by (rule behaves_slift [OF sends_refl]) (auto simp: fails_typed_def)

lemma sends_time_Now: "behaves (sends lib P) (time_Now lib') typed_error (\<lambda>_. True)"
  by (rule behavesI) (simp_all add: time_Now_def sends_def)

lemma sends_new_message:
  assumes "message_contract lib" and "opt_TransactionID options = tid" and "tid \<noteq> []"
  shows "behaves (sends lib P) (new_message lib body options) typed_error
           (transaction_message tid (\<lambda>b. b = body))"
  using assms
  by (intro behavesI) (auto simp: new_message_def sends_def message_contract_def transaction_message_def)

lemma sends_sendCMP:
  assumes "P m" and "cmp_MarshalBinary lib m = Inr der"
  shows "behaves (sends lib P) (sendCMP lib client endpoint der maximum) typed_error (\<lambda>_. True)"
proof (rule behavesI)
  fix s :: "'a net_state_scheme"
  show "sends lib P s (snd (sendCMP lib client endpoint der maximum s))"
    using assms by (auto simp: sendCMP_def sends_def Let_def split: option.split)
  show "fst (sendCMP lib client endpoint der maximum s) = Inl e \<Longrightarrow> typed_error e" for e
    using http_response_body_typed unfolding fails_typed_def
    by (auto simp: sendCMP_def Let_def split: option.split_asm)
qed simp

lemma protect_and_encode_Inr:
  assumes "message_contract lib" and "protect_and_encode lib credentials what message = Inr (m, der)"
  shows "cmp_MarshalBinary lib m = Inr der"
    and "transaction_message tid P message \<Longrightarrow> transaction_message tid P m"
  using assms
  by (auto simp: protect_and_encode_def result_simps message_contract_def transaction_message_def)

lemma header_updates_keep [simp]:
  "transaction_message tid P (set_sender_kid request m) = transaction_message tid P m"
  "transaction_message tid P (add_implicit_confirm lib request m) = transaction_message tid P m"
  "transaction_message tid P (m\<lparr>Header := (Header m)\<lparr>hdr_PVNO := v\<rparr>\<rparr>) = transaction_message tid P m"
  by (auto simp: transaction_message_def set_sender_kid_def add_implicit_confirm_def split: option.split)

lemma message_options_for_simps [simp]:
  "opt_TransactionID (message_options_for lib request sender nonce) = TransactionID request"
  by (simp add: message_options_for_def)

definition encodes :: "cmp_lib \<Rightarrow> bytes \<Rightarrow> (pki_body \<Rightarrow> bool) \<Rightarrow> pki_message \<times> bytes \<Rightarrow> bool" where
  "encodes lib tid P encoded \<longleftrightarrow>
     transaction_message tid P (fst encoded) \<and> cmp_MarshalBinary lib (fst encoded) = Inr (snd encoded)"

lemma sends_protect:
  assumes "message_contract lib" and "transaction_message tid P message"
  shows "behaves (sends lib Q) (slift (protect_and_encode lib credentials what message)) typed_error
           (encodes lib tid P)"
  by (rule behaves_mono [OF sends_pure [OF protect_and_encode_typed]])
    (auto simp: encodes_def dest: protect_and_encode_Inr [OF assms(1)] intro: assms(2))

subsection \<open>Bodies by purpose\<close>

definition enrollment_body :: "bytes \<Rightarrow> pki_body \<Rightarrow> bool" where
  "enrollment_body operation body =
     (case body of
        BodyP10CR _ \<Rightarrow> operation = OperationP10CR
      | BodyIR [_] \<Rightarrow> operation = OperationIR
      | BodyKUR [_] \<Rightarrow> operation = OperationKUR
      | _ \<Rightarrow> False)"

definition rejecting_body :: "pki_body \<Rightarrow> bool" where
  "rejecting_body body =
     (case body of
        BodyCertConf [status] \<Rightarrow>
          (case cs_StatusInfo status of Some info \<Rightarrow> Status info = StatusRejection | None \<Rightarrow> False)
      | _ \<Rightarrow> False)"

definition accepting_body :: "pki_body \<Rightarrow> bool" where
  "accepting_body body =
     (case body of BodyCertConf [status] \<Rightarrow> cs_StatusInfo status = None | _ \<Rightarrow> False)"

definition polling_body :: "int \<Rightarrow> pki_body \<Rightarrow> bool" where
  "polling_body certReqID body \<longleftrightarrow> body = BodyPollReq [certReqID]"

definition sound_result ::
    "cmp_lib \<Rightarrow> enrollment_request \<Rightarrow> certificate_request \<Rightarrow> enrollment_result \<Rightarrow> bool"
where
  "sound_result lib request csr result =
     (case Pending result of
        Some _ \<Rightarrow> Chain result = [] \<and> PendingConfirmation result = None
      | None \<Rightarrow>
          accepted_chain lib request csr (Chain result)
          \<and> (case PendingConfirmation result of
               None \<Rightarrow> ImplicitConfirm request
             | Some p \<Rightarrow> pending_RequestNonce p = []))"

lemma finishTransaction_sound:
  "finishTransaction lib request response csr signer delayed = Inr result \<Longrightarrow>
   sound_result lib request csr result"
  by (erule finishTransaction_Inr) (auto simp: sound_result_def split: if_split_asm)

lemma fails_typed_NewCertStatus:
  "fails_typed (map_err (permanent a b) (cmp_NewCertStatus lib certificate certReqID))"
  by (intro typed_intros typed_error_simps)

subsection \<open>Behaviour of the exchanges\<close>

lemma confirmationMessage_behaves:
  assumes "message_contract lib" and "TransactionID request = tid" and "tid \<noteq> []"
  shows "behaves (sends lib Q) (confirmationMessage lib request certificate confirm statusInfo) typed_error
    (\<lambda>(message, operation). transaction_message tid
       (\<lambda>b. if confirm_RequestNonce confirm \<noteq> [] then b = BodyPollReq [ResponseCertReqIDStandard]
            else \<exists>status. b = BodyCertConf [status] \<and> cs_StatusInfo status = statusInfo) message)"
proof -
  have new: "behaves (sends lib Q)
      (sbind (new_message lib body (message_options_for lib request sender nonce))
         (\<lambda>message. slift (Inr (set_sender_kid request (f message), operation)))) typed_error
      (\<lambda>(message, operation). transaction_message tid (\<lambda>b. b = body) message)"
    if "\<And>m P. transaction_message tid P (f m) = transaction_message tid P m" for body sender nonce operation f
    by (rule sends_bind [OF sends_new_message [OF assms(1) _ assms(3)]], simp add: assms(2),
        rule behaves_slift [OF sends_refl]) (auto simp: that)
  show ?thesis
  proof (cases "confirm_RequestNonce confirm \<noteq> []")
    case True
    then show ?thesis
      unfolding confirmationMessage_def Let_def
      by (intro sends_bind [OF sends_pure [OF fails_typed_NewCertStatus]])
        (simp, rule behaves_mono [OF new], auto simp: transaction_message_def)
  next
    case False
    then show ?thesis
      unfolding confirmationMessage_def Let_def
      by (intro sends_bind [OF sends_pure [OF fails_typed_NewCertStatus]])
        (simp, rule behaves_mono [OF new], auto simp: transaction_message_def)
  qed
qed

lemma round_trip_behaves:
  assumes "encodes lib tid P encoded"
  shows "behaves (sends lib (transaction_message tid P))
    (round_trip lib request what previous delayed encoded) typed_error
    (\<lambda>answer. verifyResponse lib (fst encoded) (fst answer) request previous delayed = Inr (snd answer))"
proof -
  from assms have m: "transaction_message tid P (fst encoded)"
      "cmp_MarshalBinary lib (fst encoded) = Inr (snd encoded)"
    by (simp_all add: encodes_def)
  show ?thesis
    unfolding round_trip_def
    by (intro sends_bind [OF sends_sendCMP [where P = "transaction_message tid P", OF m]]
        sends_bind [OF sends_pure] behaves_slift [OF sends_refl] typed_intros typed_error_simps) auto
qed

lemma exchangeProtected_behaves:
  assumes "message_contract lib" and "transaction_message tid P message"
  shows "behaves (sends lib (transaction_message tid P))
    (exchangeProtected lib request credentials message signer delayed operation) typed_error (\<lambda>_. True)"
  unfolding exchangeProtected_def
  by (rule sends_bind [OF sends_protect [OF assms]], rule sends_bind [OF round_trip_behaves])
    (auto intro: behaves_slift [OF sends_refl])

lemma deliver_rejection_behaves:
  assumes "message_contract lib" and "TransactionID request = tid" and "tid \<noteq> []"
    and "\<And>b. rejecting_body b \<Longrightarrow> P b"
  shows "behaves (sends lib (transaction_message tid P))
    (deliver_rejection lib request credentials refused certificate) (\<lambda>_. True) (\<lambda>_. True)"
proof -
  have exchange: "behaves (sends lib (transaction_message tid P))
      (exchangeProtected lib request credentials message signer delayed operation) (\<lambda>_. True) (\<lambda>_. True)"
    if "transaction_message tid rejecting_body message" for message signer delayed operation
    by (rule behaves_mono [OF exchangeProtected_behaves [OF assms(1) that]], erule sends_mono [rotated])
      (simp_all add: transaction_message_def assms(4))
  show ?thesis
    unfolding deliver_rejection_def
  proof (rule sends_bind [where P = "\<lambda>x. transaction_message tid rejecting_body (fst x)"])
    fix x :: "pki_message \<times> bytes"
    assume "transaction_message tid rejecting_body (fst x)"
    then show "behaves (sends lib (transaction_message tid P))
        (case x of (message, operation) \<Rightarrow>
           sbind (exchangeProtected lib request credentials message (refused_ResponseSigner refused) [] operation)
             (\<lambda>response. slift (ensure (body_type (Body response) = BodyTypePKIConf)
                (TextError ''server answered with %s instead of pkiConf'')))) (\<lambda>_. True) (\<lambda>_. True)"
      by (cases x) (simp, rule sends_bind [OF exchange], assumption, rule behaves_slift [OF sends_refl], simp_all)
  qed (rule behaves_mono [OF confirmationMessage_behaves [OF assms(1,2,3)]],
       auto simp: transaction_message_def rejecting_body_def)
qed

lemma annotate_refusal_kind:
  "is_ProtocolError e \<Longrightarrow> is_ProtocolError (annotate_refusal e)
     \<and> pe_Kind (annotate_refusal e) = pe_Kind e \<and> pe_Failure (annotate_refusal e) = pe_Failure e"
  by (cases e) (auto simp: annotate_refusal_def as_protocol_def)

lemma completeOrRefuse_behaves:
  assumes "message_contract lib" and "TransactionID request = tid" and "tid \<noteq> []"
    and "\<And>b. rejecting_body b \<Longrightarrow> P b"
  shows "behaves (sends lib (transaction_message tid P))
    (completeOrRefuse lib request credentials response csr signer delayed) typed_error
    (sound_result lib request csr)"
proof (cases "finishTransaction lib request response csr signer delayed")
  case (Inl failure)
  obtain e refused where failure: "failure = (e, refused)"
    by fastforce
  show ?thesis
  proof (cases refused)
    case None
    with Inl failure show ?thesis
      by (auto simp: completeOrRefuse_def intro!: behaves_slift [OF sends_refl]
          dest: finishTransaction_typed)
  next
    case (Some r)
    with Inl failure finishTransaction_refusal obtain c where
        r: "refused_Certificate r = Some c" "is_ProtocolError e"
      by fastforce
    then have typed: "typed_error e" "typed_error (annotate_refusal e)"
      using annotate_refusal_kind by (auto simp: typed_error_def)
    have "behaves (sends lib (transaction_message tid P))
        (rejectCertificate lib request credentials r e) typed_error (\<lambda>_. False)"
      unfolding rejectCertificate_def
      by (simp add: r, rule sends_bind, rule behaves_stry, rule deliver_rejection_behaves [OF assms])
        (auto simp: typed intro!: behaves_slift [OF sends_refl] split: sum.split)
    then show ?thesis
      using Inl failure Some by (auto simp: completeOrRefuse_def elim: behaves_mono)
  qed
next
  case (Inr result)
  then show ?thesis
    by (auto simp: completeOrRefuse_def intro!: behaves_slift [OF sends_refl] dest: finishTransaction_sound)
qed

subsection \<open>Behaviour of the operations\<close>

lemma encodes_mono: "encodes lib tid P encoded \<Longrightarrow> (\<And>b. P b \<Longrightarrow> Q b) \<Longrightarrow> encodes lib tid Q encoded"
  by (auto simp: encodes_def transaction_message_def)

lemma checked_csr_Inr:
  "checked_csr lib request = Inr csr \<Longrightarrow>
   x509_ParseCertificateRequest (cmp_x509 lib) (CSRDER request) = Inr csr
   \<and> x509_CheckSignature (cmp_x509 lib) csr = None"
  by (auto simp: checked_csr_def result_simps split: option.splits)

lemma new_protected_behaves:
  assumes "message_contract lib" and "TransactionID request = tid" and "tid \<noteq> []"
    and "\<And>m P. transaction_message tid P (f m) = transaction_message tid P m"
  shows "behaves (sends lib Q)
    (sbind (new_message lib body (message_options_for lib request sender nonce))
       (\<lambda>message. slift (protect_and_encode lib credentials what (f message)))) typed_error
    (encodes lib tid (\<lambda>b. b = body))"
  by (rule sends_bind [OF sends_new_message [OF assms(1) _ assms(3)]], simp add: assms(2),
      rule sends_protect [OF assms(1)]) (simp add: assms(4))

lemma protectedEnrollment_behaves:
  assumes "message_contract lib" and "TransactionID request = tid" and "tid \<noteq> []"
  shows "behaves (sends lib Q) (protectedEnrollment lib request csr credentials) typed_error
    (encodes lib tid (enrollment_body OperationP10CR))"
  unfolding protectedEnrollment_def
  by (rule behaves_mono [OF new_protected_behaves [OF assms]])
    (auto elim: encodes_mono simp: enrollment_body_def)

lemma protectedIR_behaves:
  assumes "message_contract lib" and "TransactionID request = tid" and "tid \<noteq> []"
  shows "behaves (sends lib Q) (protectedIR lib request csr credentials) typed_error
    (encodes lib tid (enrollment_body OperationIR))"
  unfolding protectedIR_def
  by (intro sends_bind [OF sends_pure] typed_intros, rule behaves_mono [OF new_protected_behaves [OF assms]])
    (auto elim: encodes_mono simp: enrollment_body_def)

lemma protectedKUR_behaves:
  assumes "message_contract lib" and "TransactionID request = tid" and "tid \<noteq> []"
  shows "behaves (sends lib Q) (protectedKUR lib request old csr credentials) typed_error
    (encodes lib tid (enrollment_body OperationKUR))"
  unfolding protectedKUR_def
  by (intro sends_bind [OF sends_pure] typed_intros typed_error_simps,
      rule behaves_mono [OF new_protected_behaves [OF assms]])
    (auto elim: encodes_mono simp: enrollment_body_def)

lemma enroll_exchange_behaves:
  assumes "message_contract lib" and "TransactionID request = tid" and "tid \<noteq> []"
    and "encodes lib tid P encoded" and "\<And>b. rejecting_body b \<Longrightarrow> P b"
  shows "behaves (sends lib (transaction_message tid P))
    (enroll_exchange lib request credentials csr what encoded) typed_error (sound_result lib request csr)"
  unfolding enroll_exchange_def
  by (rule sends_bind [OF round_trip_behaves [OF assms(4)]],
      rule completeOrRefuse_behaves [OF assms(1,2,3,5)])

definition enrolls :: "bytes \<Rightarrow> bytes \<Rightarrow> pki_message \<Rightarrow> bool" where
  "enrolls tid operation = transaction_message tid (\<lambda>b. enrollment_body operation b \<or> rejecting_body b)"

definition enrollment_outcome :: "cmp_lib \<Rightarrow> enrollment_request \<Rightarrow> enrollment_result \<Rightarrow> bool" where
  "enrollment_outcome lib request result \<longleftrightarrow>
     (\<exists>csr. x509_ParseCertificateRequest (cmp_x509 lib) (CSRDER request) = Inr csr
        \<and> sound_result lib request csr result)"

lemma enroll_exchange_outcome:
  assumes "message_contract lib" and "TransactionID request = tid" and "tid \<noteq> []"
    and "encodes lib tid (enrollment_body operation) encoded"
    and "x509_ParseCertificateRequest (cmp_x509 lib) (CSRDER request) = Inr csr"
  shows "behaves (sends lib (enrolls tid operation))
    (enroll_exchange lib request credentials csr what encoded) typed_error (enrollment_outcome lib request)"
  unfolding enrolls_def
  by (rule behaves_mono [OF enroll_exchange_behaves [OF assms(1,2,3) encodes_mono [OF assms(4)]]])
    (auto simp: enrollment_outcome_def assms(5))

lemma EnrollP10CR_behaves:
  assumes "message_contract lib" and "TransactionID request = tid" and "tid \<noteq> []"
  shows "behaves (sends lib (enrolls tid OperationP10CR)) (EnrollP10CR lib request) typed_error
    (enrollment_outcome lib (request\<lparr>Operation := OperationP10CR\<rparr>))"
  unfolding EnrollP10CR_def Let_def
  by (intro sends_bind [OF sends_pure] sends_bind [OF protectedEnrollment_behaves [OF assms(1) _ assms(3)]]
      typed_intros typed_error_simps, simp add: assms(2),
      rule enroll_exchange_outcome [OF assms(1) _ assms(3)])
    (auto simp: assms(2) dest: checked_csr_Inr)

lemma ValidateIRRequest_Inr:
  "ValidateIRRequest lib request = Inr csr \<Longrightarrow>
   validateEnrollmentRequest lib (request\<lparr>Operation := OperationIR\<rparr>) = Inr ()
   \<and> checked_csr lib request = Inr csr \<and> requested_key_matches request csr"
  by (auto simp: ValidateIRRequest_def result_simps)

lemma EnrollIR_behaves:
  assumes "message_contract lib" and "TransactionID request = tid" and "tid \<noteq> []"
  shows "behaves (sends lib (enrolls tid OperationIR)) (EnrollIR lib request) typed_error
    (enrollment_outcome lib (request\<lparr>Operation := OperationIR\<rparr>))"
  unfolding EnrollIR_def Let_def
  by (intro sends_bind [OF sends_pure] sends_bind [OF protectedIR_behaves [OF assms(1) _ assms(3)]]
      typed_intros typed_error_simps, simp add: assms(2),
      rule enroll_exchange_outcome [OF assms(1) _ assms(3)])
    (auto simp: assms(2) dest!: ValidateIRRequest_Inr checked_csr_Inr)

lemma ValidateKURRequest_behaves:
  "behaves (sends lib P) (ValidateKURRequest lib request) typed_error
     (\<lambda>x. checked_csr lib request = Inr (fst x)
        \<and> (\<exists>now. validateKURProofs lib request (fst x) now = Inr (snd x)))"
  unfolding ValidateKURRequest_def
  by (intro sends_bind [OF sends_pure] sends_bind [OF sends_time_Now] typed_intros,
      rule behaves_slift [OF sends_refl]) auto

lemma EnrollKUR_behaves:
  assumes "message_contract lib" and "TransactionID request = tid" and "tid \<noteq> []"
  shows "behaves (sends lib (enrolls tid OperationKUR)) (EnrollKUR lib request) typed_error
    (enrollment_outcome lib (request\<lparr>Operation := OperationKUR\<rparr>))"
  unfolding EnrollKUR_def Let_def
proof (rule sends_bind [OF ValidateKURRequest_behaves])
  fix x :: "certificate_request \<times> certificate"
  let ?request = "request\<lparr>Operation := OperationKUR\<rparr>"
  assume x: "checked_csr lib ?request = Inr (fst x)
    \<and> (\<exists>now. validateKURProofs lib ?request (fst x) now = Inr (snd x))"
  show "behaves (sends lib (enrolls tid OperationKUR))
      (case x of (csr, old) \<Rightarrow>
        sbind (slift (map_err (permanent ''configure KUR protection'' ''badAlg'') (credentialsFor lib ?request)))
          (\<lambda>credentials. sbind (protectedKUR lib ?request old csr credentials)
            (enroll_exchange lib ?request credentials csr ''parse KUP''))) typed_error
      (enrollment_outcome lib ?request)"
    using x
    by (cases x) (simp, intro sends_bind [OF sends_pure]
        sends_bind [OF protectedKUR_behaves [OF assms(1) _ assms(3)]] typed_intros typed_error_simps,
        simp add: assms(2), rule enroll_exchange_outcome [OF assms(1) _ assms(3)],
        auto simp: assms(2) dest!: checked_csr_Inr)
qed

definition polls :: "bytes \<Rightarrow> int \<Rightarrow> pki_message \<Rightarrow> bool" where
  "polls tid certReqID = transaction_message tid (\<lambda>b. polling_body certReqID b \<or> rejecting_body b)"

lemma PollP10CR_behaves:
  assumes "message_contract lib" and "TransactionID (poll_Enrollment poll) = tid"
  shows "behaves (sends lib (polls tid (poll_CertReqID poll))) (PollP10CR lib poll) typed_error
    (\<lambda>result. enrollment_outcome lib (poll_Enrollment poll) result)"
proof -
  let ?request = "poll_Enrollment poll"
  have encode: "behaves (sends lib Q)
      (sbind (new_message lib (BodyPollReq [poll_CertReqID poll])
         (message_options_for lib ?request (requestSender lib ?request) (poll_RecipNonce poll)))
       (\<lambda>message0. sbind (slift (protect_and_encode lib credentials ''pollReq'' (set_sender_kid ?request message0))) k))
      typed_error R"
    if "tid \<noteq> []"
      and "\<And>encoded. encodes lib tid (\<lambda>b. polling_body (poll_CertReqID poll) b \<or> rejecting_body b) encoded \<Longrightarrow>
             behaves (sends lib Q) (k encoded) typed_error R" for credentials k Q R
    by (rule sends_bind [OF sends_new_message [OF assms(1) _ that(1)]], simp add: assms(2),
        rule sends_bind [OF sends_protect [OF assms(1)]], simp, rule that(2))
      (auto elim: encodes_mono simp: polling_body_def)
  show ?thesis
    unfolding PollP10CR_def Let_def polls_def
  proof (intro sends_bind [OF sends_pure] typed_intros typed_error_simps encode
      sends_bind [OF round_trip_behaves] behaves_if)
    fix u :: unit and csr credentials
    assume parsed: "map_err (permanent ''parse CSR'' ''badRequest'')
        (x509_ParseCertificateRequest (cmp_x509 lib) (CSRDER ?request)) = Inr csr"
    assume "ensure (TransactionID ?request \<noteq> [] \<and> poll_RecipNonce poll \<noteq> [])
        (permanent ''validate poll request'' ''badRequest''
          (TextError ''transaction ID and recipient nonce are required to poll'')) = Inr u"
    then have tid: "tid \<noteq> []"
      by (simp add: ensure_Inr assms(2))
    then show "tid \<noteq> []" .
    show "behaves (sends lib (transaction_message tid (\<lambda>b. polling_body (poll_CertReqID poll) b \<or> rejecting_body b)))
        (slift (Inr (empty_result\<lparr>Pending := Some pending\<rparr>))) typed_error (enrollment_outcome lib ?request)" for pending
      using parsed by (intro behaves_slift [OF sends_refl])
        (auto simp: enrollment_outcome_def sound_result_def empty_result_def map_err_Inr)
    show "behaves (sends lib (transaction_message tid (\<lambda>b. polling_body (poll_CertReqID poll) b \<or> rejecting_body b)))
        (completeOrRefuse lib ?request credentials response csr signer (poll_RequestNonce poll)) typed_error
        (enrollment_outcome lib ?request)" for response signer
      using parsed
      by (intro behaves_mono [OF completeOrRefuse_behaves [OF assms(1,2) tid]])
        (auto simp: enrollment_outcome_def map_err_Inr)
  qed
qed

definition confirms :: "confirm_request \<Rightarrow> pki_message \<Rightarrow> bool" where
  "confirms confirm =
     transaction_message (TransactionID (confirm_Enrollment confirm))
       (\<lambda>b. if confirm_RequestNonce confirm \<noteq> [] then polling_body ResponseCertReqIDStandard b
            else accepting_body b)"

definition confirmation_outcome :: "enrollment_result \<Rightarrow> bool" where
  "confirmation_outcome result \<longleftrightarrow>
     Chain result = [] \<and> Pending result = None
     \<and> (case PendingConfirmation result of
          None \<Rightarrow> ExplicitConfirmation result
        | Some p \<Rightarrow> \<not> ExplicitConfirmation result \<and> pending_RequestNonce p \<noteq> [])"

lemma confirm_exchange_behaves:
  assumes "message_contract lib" and "confirms confirm message" and "nonce \<noteq> []"
  shows "behaves (sends lib (confirms confirm))
    (sbind (exchangeProtected lib request credentials message signer delayed operation) (\<lambda>response.
       if body_type (Body response) = BodyTypePKIConf
       then slift (Inr (empty_result\<lparr>ExplicitConfirmation := True, result_CertReqID := certReqID\<rparr>))
       else sbind (slift (confirmationDelay lib response)) (\<lambda>checkAfter.
         slift (Inr (empty_result\<lparr>PendingConfirmation := Some \<lparr>pending_CertReqID = certReqID,
           pending_RecipNonce = hdr_SenderNonce (Header response), pending_ResponseSigner = signer',
           pending_CheckAfter = checkAfter, pending_RequestNonce = nonce\<rparr>\<rparr>)))))
    typed_error confirmation_outcome"
  unfolding confirms_def
  by (rule sends_bind [OF exchangeProtected_behaves [OF assms(1) assms(2) [unfolded confirms_def]]],
      intro behaves_if sends_bind [OF sends_pure] typed_intros behaves_slift [OF sends_refl])
    (auto simp: confirmation_outcome_def empty_result_def assms(3))

lemma ConfirmP10CR_behaves:
  assumes "message_contract lib"
  shows "behaves (sends lib (confirms confirm)) (ConfirmP10CR lib confirm) typed_error confirmation_outcome"
proof -
  let ?request = "confirm_Enrollment confirm"
  have message: "behaves (sends lib (confirms confirm))
      (confirmationMessage lib ?request certificate confirm None) typed_error
      (\<lambda>x. confirms confirm (fst x) \<and> hdr_SenderNonce (Header (fst x)) \<noteq> [])"
    if "TransactionID ?request \<noteq> []" for certificate
    by (rule behaves_mono [OF confirmationMessage_behaves [OF assms refl that]])
      (auto simp: confirms_def transaction_message_def polling_body_def accepting_body_def split: if_split_asm)
  show ?thesis
  proof (cases "confirm_Certificate confirm")
    case None
    show ?thesis
      unfolding ConfirmP10CR_def Let_def None option.case
      by (intro sends_bind [OF sends_pure] typed_intros behaves_slift [OF sends_refl]) auto
  next
    case (Some c)
    show ?thesis
      unfolding ConfirmP10CR_def Let_def Some option.case case_prod_beta
      by (intro sends_bind [OF sends_pure] sends_bind [OF message] typed_intros typed_error_simps
          confirm_exchange_behaves [OF assms]) (auto simp: ensure_Inr)
  qed
qed

subsection \<open>Properties\<close>

lemma sample_contract: "message_contract (sample_lib m)"
  by (simp add: message_contract_def sample_lib_def sample_header_def)



text \<open>
  C29: A KUR is sent only with both key proofs. When EnrollKUR returns a result, the request was
  protected by a certificate that is valid at the time of the check, permits
  digital signatures and names the same subject attributes and alternative names as the CSR, and
  the requested private key belongs to the CSR. The messages sent are those of a KUR
  transaction, and the chain is verified for the key of the CSR.
\<close>

theorem EnrollKUR_safe:
  assumes "message_contract lib" and "TransactionID request \<noteq> []"
    and "EnrollKUR lib request s = (Inr result, s')"
  shows "sends lib (enrolls (TransactionID request) OperationKUR) s s'
    \<and> enrollment_outcome lib (request\<lparr>Operation := OperationKUR\<rparr>) result
    \<and> (\<exists>sp old csr. Password (Protection request) = None \<and> Signature (Protection request) = Some sp
        \<and> sig_Certificate sp = Some old
        \<and> x509_ParseCertificateRequest (cmp_x509 lib) (CSRDER request) = Inr csr
        \<and> requested_key_matches request csr
        \<and> cert_NotBefore old \<le> cmp_Clock lib (net_Ticks s) \<and> cmp_Clock lib (net_Ticks s) < cert_NotAfter old
        \<and> sameKURIdentity lib old csr)"
proof -
  let ?request = "request\<lparr>Operation := OperationKUR\<rparr>"
  from assms(3) obtain csr old s1 where
      "ValidateKURRequest lib ?request s = (Inr (csr, old), s1)"
    by (auto simp: EnrollKUR_def Let_def sbind_Inr)
  then have checked: "checked_csr lib ?request = Inr csr"
      and proofs: "validateKURProofs lib ?request csr (cmp_Clock lib (net_Ticks s)) = Inr old"
    by (auto simp: ValidateKURRequest_def sbind_Inr slift_def time_Now_def)
  from proofs obtain sp where "Password (Protection request) = None"
      "Signature (Protection request) = Some sp" "sig_Certificate sp = Some old"
      "requested_key_matches ?request csr" "sameKURIdentity lib old csr"
      "cert_NotBefore old \<le> cmp_Clock lib (net_Ticks s)" "cmp_Clock lib (net_Ticks s) < cert_NotAfter old"
    by (auto simp: validateKURProofs_def result_simps split: option.splits)
  moreover have "requested_key_matches ?request csr = requested_key_matches request csr"
    by (simp add: requested_key_matches_def)
  moreover have "x509_ParseCertificateRequest (cmp_x509 lib) (CSRDER request) = Inr csr"
    using checked_csr_Inr [OF checked] by simp
  moreover have "sends lib (enrolls (TransactionID request) OperationKUR) s s'"
      "enrollment_outcome lib ?request result"
    using behaves_state [OF EnrollKUR_behaves [OF assms(1) refl assms(2)] assms(3)]
      behaves_success [OF EnrollKUR_behaves [OF assms(1) refl assms(2)] assms(3)] by simp_all
  ultimately show ?thesis
    by blast
qed

lemma sample_kur_enrolled:
  "\<exists>result s'. EnrollKUR (sample_lib sample_updated) sample_kur_request sample_net = (Inr result, s')
     \<and> Chain result = [sample_leaf]"
  by (simp add: EnrollKUR_def ValidateKURRequest_def validateEnrollmentRequest_def valid_endpoint_def
      validatePassword_def validateSignature_def ValidateSignerCertificate_def ValidateMLDSAKeyUsage_def
      PublicKeysEqual_def checked_csr_def validateKURProofs_def requested_key_matches_def
      certificateHasExtension_def sameKURIdentity_def rawAttributeSet_def credentialsFor_def
      checked_credentials_def signatureDigestFor_def protectedKUR_def certificateTemplate_def
      generate_pop_def new_message_def add_implicit_confirm_def protect_and_encode_def
      enroll_exchange_def round_trip_def sendCMP_def http_response_body_def read_limited_def
      cmp_media_type_def verifyResponse_def verify_protection_def verify_options_for_def
      verifyTrustedSignature_def response_candidates_def verifyCertificateChain_def
      acceptableRecipNonce_def senderMatchesRecipient_def attributeSet_def PVNO2_def
      completeOrRefuse_def finishTransaction_def extractEnrollmentResponse_def extract_reply_def
      expected_body_def acceptResponseCertReqID_def extract_certificate_def classifyStatus_def
      parseResponseCertificates_def responseGrantsImplicitConfirm_def finish_issued_def
      validateAndOrderChain_def self_signed_def keeps_validity_def sameValidity_def trust_roots_def
      message_options_for_def certificateSubject_def newHTTPClient_def time_Now_def sbind_def slift_def
      operation_defs empty_result_def second_def zero_time_def wrap64_def Let_def
      sample_requests sample_libs sample_messages sample_data)

theorem EnrollKUR_safe_witness:
  "\<exists>result s'. EnrollKUR (sample_lib sample_updated) sample_kur_request sample_net = (Inr result, s')
     \<and> sends (sample_lib sample_updated) (enrolls ''tid'' OperationKUR) sample_net s'
     \<and> Chain result = [sample_leaf]"
  using sample_kur_enrolled EnrollKUR_safe [OF sample_contract, of sample_kur_request sample_updated sample_net]
  by (fastforce simp: sample_kur_request_def sample_request_def)


definition sample_poll :: poll_request where
  "sample_poll = \<lparr>poll_Enrollment = sample_request, poll_RecipNonce = ''nonce'', poll_CertReqID = 0,
     poll_ResponseSigner = None, poll_RequestNonce = ''nonce''\<rparr>"



definition sample_confirm :: confirm_request where
  "sample_confirm = \<lparr>confirm_Enrollment = sample_request, confirm_Certificate = Some sample_leaf,
     confirm_CertReqID = 0, confirm_RecipNonce = ''nonce'', confirm_ResponseSigner = None,
     confirm_RequestNonce = []\<rparr>"


end
