(* ===== verification/Api.thy ===== *)
theory Api
  imports Certificates
begin

text \<open>
  The API types of \<^verbatim>\<open>src/api/v1alpha1\<close>: the issuer spec with its parts, the
  CMPTransaction record, the issuers, and the Kubernetes and cert-manager objects the
  controller reads (object metadata, Secrets, Certificates and CertificateRequests, with the
  fields the program uses). Enumerated fields are strings, as in the API. A field named
  after a Go field \<^verbatim>\<open>F\<close> is written with a short prefix of its type.
\<close>

subsection \<open>Constants\<close>

definition ProtectionTypePasswordBasedMac :: bytes where
  "ProtectionTypePasswordBasedMac = ''PasswordBasedMac''"
definition ProtectionTypeSignature :: bytes where "ProtectionTypeSignature = ''Signature''"
definition TransactionOperationP10CR :: bytes where
  "TransactionOperationP10CR = ''P10CR''"
definition TransactionOperationIR :: bytes where
  "TransactionOperationIR = ''IR''"
definition TransactionOperationKUR :: bytes where
  "TransactionOperationKUR = ''KUR''"
definition RequestedValidityOmit :: bytes where "RequestedValidityOmit = ''Omit''"
definition RequestedValidityDuration :: bytes where "RequestedValidityDuration = ''Duration''"
definition RenewalFallbackNone :: bytes where "RenewalFallbackNone = ''None''"
definition RenewalFallbackInitialEnrollment :: bytes where
  "RenewalFallbackInitialEnrollment = ''InitialEnrollment''"
definition ValidationProfileInteroperable :: bytes where
  "ValidationProfileInteroperable = ''Interoperable''"
definition ValidationProfileRFC9483 :: bytes where "ValidationProfileRFC9483 = ''RFC9483''"
definition KURResponseCAPubsAccept :: bytes where "KURResponseCAPubsAccept = ''Accept''"
definition KURResponseCAPubsRequireAbsent :: bytes where
  "KURResponseCAPubsRequireAbsent = ''RequireAbsent''"
definition P10CRResponseCertReqIDStandard :: int where "P10CRResponseCertReqIDStandard = -1"
definition P10CRResponseCertReqIDLegacyZero :: int where "P10CRResponseCertReqIDLegacyZero = 0"
definition MACResponseProtectionStrict :: bytes where "MACResponseProtectionStrict = ''Strict''"
definition MACResponseProtectionAllowSignature :: bytes where
  "MACResponseProtectionAllowSignature = ''AllowSignature''"
definition GrantedModificationsReject :: bytes where "GrantedModificationsReject = ''Reject''"
definition GrantedModificationsAccept :: bytes where "GrantedModificationsAccept = ''Accept''"
definition PasswordBasedMacIterationCountMinimum :: int where
  "PasswordBasedMacIterationCountMinimum = 100"
definition PasswordBasedMacIterationCountMaximum :: int where
  "PasswordBasedMacIterationCountMaximum = 1048575"

definition TransactionPhaseEnrolling :: bytes where "TransactionPhaseEnrolling = ''Enrolling''"
definition TransactionPhasePolling :: bytes where "TransactionPhasePolling = ''Polling''"
definition TransactionPhaseConfirming :: bytes where "TransactionPhaseConfirming = ''Confirming''"
definition TransactionPhaseIssued :: bytes where "TransactionPhaseIssued = ''Issued''"
definition RenewalFallbackCurrentCertificateMissing :: bytes where
  "RenewalFallbackCurrentCertificateMissing = ''CurrentCertificateMissing''"
definition RenewalFallbackCurrentCertificateExpired :: bytes where
  "RenewalFallbackCurrentCertificateExpired = ''CurrentCertificateExpired''"
definition TransactionIssuerKindNamespaced :: bytes where
  "TransactionIssuerKindNamespaced = ''CMPIssuer''"
definition TransactionIssuerKindCluster :: bytes where
  "TransactionIssuerKindCluster = ''CMPClusterIssuer''"

lemmas phase_defs =
  TransactionPhaseEnrolling_def TransactionPhasePolling_def TransactionPhaseConfirming_def
  TransactionPhaseIssued_def

lemmas transaction_operation_defs =
  TransactionOperationP10CR_def TransactionOperationIR_def TransactionOperationKUR_def

lemmas fallback_reason_defs =
  RenewalFallbackCurrentCertificateMissing_def RenewalFallbackCurrentCertificateExpired_def

subsection \<open>Issuer spec\<close>

record endpoint_spec =
  ep_URL :: bytes
  ep_RenewalURL :: bytes
  ep_Timeout :: duration
  ep_MaxResponseSize :: int

record protocol_spec =
  ps_Version :: int
  ps_InitialEnrollment :: bytes
  ps_Renewal :: bytes
  ps_RequestedValidity :: bytes
  ps_RenewalFallback :: bytes
  ps_ValidationProfile :: bytes
  ps_KURResponseCAPubs :: bytes
  ps_P10CRResponseCertReqID :: "int option"
  ps_MACResponseProtection :: bytes
  ps_SignatureDigest :: bytes
  ps_CertProfile :: bytes
  ps_Sender :: bytes
  ps_Recipient :: bytes
  ps_Confirmation :: bytes

record pbm_algorithm_spec =
  pa_OWF :: bytes
  pa_MAC :: bytes
  pa_IterationCount :: int

text \<open>A Secret reference is the name of the Secret.\<close>

record pbm_spec =
  pb_SecretRef :: bytes
  pb_ReferenceKey :: bytes
  pb_SecretKey :: bytes
  pb_Algorithm :: pbm_algorithm_spec

record signature_spec =
  sg_SecretRef :: bytes
  sg_CertificateKey :: bytes
  sg_PrivateKeyKey :: bytes
  sg_ChainKey :: bytes

record protection_spec =
  pr_Type :: bytes
  pr_PasswordBasedMac :: "pbm_spec option"
  pr_Signature :: "signature_spec option"

record secret_key_reference =
  sk_Name :: bytes
  sk_Key :: bytes

record cmp_trust_spec =
  ct_CASecretRef :: secret_key_reference
  ct_SignerCertificatesSecretRef :: "secret_key_reference option"

record tls_spec =
  tls_CASecretRef :: "secret_key_reference option"
  tls_ClientCertificateSecretRef :: "bytes option"

record transport_spec =
  trn_TLS :: "tls_spec option"

record transaction_limits =
  tl_MaximumDuration :: duration
  tl_MinimumPollInterval :: duration
  tl_MaximumPollInterval :: duration
  tl_MaximumPolls :: int

record policy_spec =
  pol_GrantedModifications :: bytes

record cmp_issuer_spec =
  is_Endpoint :: endpoint_spec
  is_Protocol :: protocol_spec
  is_Protection :: protection_spec
  is_CMPTrust :: cmp_trust_spec
  is_Transport :: transport_spec
  is_Transaction :: transaction_limits
  is_Policy :: policy_spec

subsection \<open>Kubernetes objects\<close>

record condition =
  cond_Type :: bytes
  cond_Status :: bytes
  cond_ObservedGeneration :: int

text \<open>
  The issuer an issuer-lib call passes: a CMPIssuer, a CMPClusterIssuer or another type,
  with the accessors the program calls.
\<close>

datatype issuer_type = CMPIssuer | CMPClusterIssuer | OtherIssuer

record issuer =
  iss_Type :: issuer_type
  iss_Name :: bytes
  iss_Namespace :: bytes
  iss_UID :: bytes
  iss_Generation :: int
  iss_Spec :: cmp_issuer_spec
  iss_Conditions :: "condition list"

record owner_reference =
  own_APIVersion :: bytes
  own_Kind :: bytes
  own_Name :: bytes
  own_UID :: bytes
  own_Controller :: "bool option"

type_synonym namespaced_name = "bytes \<times> bytes"

record secret =
  sec_UID :: bytes
  sec_ResourceVersion :: bytes
  sec_Data :: "bytes \<rightharpoonup> bytes"
  sec_Labels :: "bytes \<rightharpoonup> bytes"
  sec_Annotations :: "bytes \<rightharpoonup> bytes"
  sec_OwnerReferences :: "owner_reference list"

record issuer_object_reference =
  ior_Name :: bytes
  ior_Kind :: bytes
  ior_Group :: bytes

text \<open>A cert-manager Certificate.\<close>

record cm_certificate =
  cm_Name :: bytes
  cm_UID :: bytes
  cm_Deleted :: bool
  cm_SecretName :: bytes
  cm_IssuerRef :: issuer_object_reference
  cm_Revision :: "int option"
  cm_NextPrivateKeySecretName :: "bytes option"

text \<open>
  The request object of issuer-lib. \<open>cr_CSR\<close> is the CSR of
  \<^verbatim>\<open>GetCertificateDetails\<close>, which may fail; \<open>cr_Duration\<close> is
  \<^verbatim>\<open>spec.duration\<close> of the wrapped CertificateRequest, absent when it is unset or when
  the object wraps none.
\<close>

record request_object =
  cr_Namespace :: bytes
  cr_Name :: bytes
  cr_UID :: bytes
  cr_Annotations :: "bytes \<rightharpoonup> bytes"
  cr_OwnerReferences :: "owner_reference list"
  cr_CSR :: "go_error + bytes"
  cr_Wrapped :: bool
  cr_Duration :: "duration option"

subsection \<open>The CMPTransaction resource\<close>

record issuer_reference =
  ir_Name :: bytes
  ir_Kind :: bytes
  ir_UID :: bytes
  ir_Generation :: int

record cmp_transaction_spec =
  ts_CertificateRequestName :: bytes
  ts_CertificateRequestUID :: bytes
  ts_TransactionID :: bytes
  ts_Deadline :: time
  ts_CSRDigest :: bytes
  ts_IssuerRef :: "issuer_reference option"
  ts_ConfigurationDigest :: bytes
  ts_Operation :: bytes
  ts_RenewalFallback :: bytes
  ts_ProtocolVersion :: int

record cmp_transaction_status =
  st_Phase :: bytes
  st_IssuedChain :: "bytes list"
  st_CompletionTime :: time
  st_RecipNonce :: bytes
  st_RequestNonce :: bytes
  st_CertReqID :: "int option"
  st_ResponseSigner :: bytes
  st_Polls :: int
  st_LastTransitionTime :: time

record cmp_transaction =
  tx_Namespace :: bytes
  tx_Name :: bytes
  tx_UID :: bytes
  tx_ResourceVersion :: nat
  tx_CreationTimestamp :: time
  tx_OwnerReferences :: "owner_reference list"
  tx_Spec :: cmp_transaction_spec
  tx_Status :: cmp_transaction_status

text \<open>
  The names that cert-manager, issuer-lib and Kubernetes define and the program uses: annotation and
  label keys of cert-manager, its API version, the keys of a TLS Secret, the ready condition
  and its true status, the type of a Warning event.
\<close>

record api_names =
  nm_Revision :: bytes
  nm_PrivateKey :: bytes
  nm_NextPrivateKey :: bytes
  nm_CertificateName :: bytes
  nm_APIVersion :: bytes
  nm_TLSCert :: bytes
  nm_TLSPrivateKey :: bytes
  nm_Ready :: bytes
  nm_ConditionTrue :: bytes
  nm_Warning :: bytes

text \<open>Go reads a missing key of a string map as the empty string.\<close>

definition lookup_string :: "(bytes \<rightharpoonup> bytes) \<Rightarrow> bytes \<Rightarrow> bytes" where
  "lookup_string m key = (case m key of None \<Rightarrow> [] | Some val \<Rightarrow> val)"

definition empty_status :: cmp_transaction_status where
  "empty_status = \<lparr>st_Phase = [], st_IssuedChain = [], st_CompletionTime = zero_time,
     st_RecipNonce = [], st_RequestNonce = [], st_CertReqID = None, st_ResponseSigner = [],
     st_Polls = 0, st_LastTransitionTime = zero_time\<rparr>"

end
