(* ===== verification/Metrics.thy ===== *)
theory Metrics
  imports Api
begin

text \<open>
  The enrollment metrics: the collectors of \<^verbatim>\<open>src/internal/metrics/metrics.go\<close> as maps from
  label values to counts or observations, and the labels that
  \<^verbatim>\<open>src/internal/controller/metrics.go\<close> gives them. A histogram keeps its observations,
  as durations.
\<close>

subsection \<open>Collectors\<close>

definition metrics_OperationEnrollment :: bytes where "metrics_OperationEnrollment = ''enrollment''"
definition metrics_OperationRenewal :: bytes where "metrics_OperationRenewal = ''renewal''"
definition ResultIssued :: bytes where "ResultIssued = ''issued''"
definition ResultFailed :: bytes where "ResultFailed = ''failed''"

record metric_labels =
  lb_IssuerKind :: bytes
  lb_Issuer :: bytes
  lb_Operation :: bytes

definition label_values :: "metric_labels \<Rightarrow> bytes list" where
  "label_values l = [lb_IssuerKind l, lb_Issuer l, lb_Operation l]"

definition labels_complete :: "metric_labels \<Rightarrow> bool" where
  "labels_complete l \<longleftrightarrow> lb_IssuerKind l \<noteq> [] \<and> lb_Issuer l \<noteq> [] \<and> lb_Operation l \<noteq> []"

record metrics_registry =
  enrollmentTotal :: "bytes list \<Rightarrow> nat"
  enrollmentDuration :: "bytes list \<Rightarrow> duration list"
  enrollmentFailures :: "bytes list \<Rightarrow> nat"
  enrollmentPolls :: "bytes list \<Rightarrow> nat"
  enrollmentConfirmations :: "bytes list \<Rightarrow> nat"

definition increment :: "bytes list \<Rightarrow> (bytes list \<Rightarrow> nat) \<Rightarrow> bytes list \<Rightarrow> nat" where
  "increment values counter = counter(values := Suc (counter values))"

definition observe :: "bytes list \<Rightarrow> duration \<Rightarrow> (bytes list \<Rightarrow> duration list) \<Rightarrow> bytes list \<Rightarrow> duration list" where
  "observe values d histogram = histogram(values := histogram values @ [d])"

definition RecordOutcome :: "metric_labels \<Rightarrow> bytes \<Rightarrow> duration \<Rightarrow> metrics_registry \<Rightarrow> metrics_registry" where
  "RecordOutcome l result elapsed m =
     (if \<not> labels_complete l then m
      else (let values = label_values l @ [result] in
            m\<lparr>enrollmentTotal := increment values (enrollmentTotal m),
              enrollmentDuration := observe values elapsed (enrollmentDuration m)\<rparr>))"

definition RecordFailure :: "metric_labels \<Rightarrow> bytes \<Rightarrow> bytes \<Rightarrow> metrics_registry \<Rightarrow> metrics_registry" where
  "RecordFailure l failure classification m =
     (if \<not> labels_complete l then m
      else m\<lparr>enrollmentFailures :=
               increment (label_values l @ [failure, classification]) (enrollmentFailures m)\<rparr>)"

definition RecordPoll :: "metric_labels \<Rightarrow> metrics_registry \<Rightarrow> metrics_registry" where
  "RecordPoll l m =
     (if \<not> labels_complete l then m
      else m\<lparr>enrollmentPolls := increment (label_values l) (enrollmentPolls m)\<rparr>)"

definition RecordConfirmation :: "metric_labels \<Rightarrow> bytes \<Rightarrow> metrics_registry \<Rightarrow> metrics_registry" where
  "RecordConfirmation l confirmation m =
     (if \<not> labels_complete l then m
      else m\<lparr>enrollmentConfirmations :=
               increment (label_values l @ [confirmation]) (enrollmentConfirmations m)\<rparr>)"

subsection \<open>Labels\<close>

definition issuerKindNamespaced :: bytes where "issuerKindNamespaced = ''CMPIssuer''"
definition issuerKindCluster :: bytes where "issuerKindCluster = ''CMPClusterIssuer''"
definition failureIssuerConfiguration :: bytes where "failureIssuerConfiguration = ''issuerConfiguration''"
definition failureUnclassified :: bytes where "failureUnclassified = ''unclassified''"
definition classificationUnknown :: bytes where "classificationUnknown = ''Unknown''"

definition enrollmentOperation :: "api_names \<Rightarrow> request_object \<Rightarrow> bytes" where
  "enrollmentOperation names request =
     (case atoi (lookup_string (cr_Annotations request) (nm_Revision names)) of
        Some revision \<Rightarrow> if revision > 1 then metrics_OperationRenewal else metrics_OperationEnrollment
      | None \<Rightarrow> metrics_OperationEnrollment)"

definition enrollmentMetricLabels :: "api_names \<Rightarrow> issuer \<Rightarrow> request_object \<Rightarrow> metric_labels" where
  "enrollmentMetricLabels names issuer request =
     (if iss_Type issuer = CMPClusterIssuer
      then \<lparr>lb_IssuerKind = issuerKindCluster, lb_Issuer = iss_Name issuer,
            lb_Operation = enrollmentOperation names request\<rparr>
      else \<lparr>lb_IssuerKind = issuerKindNamespaced, lb_Issuer = iss_Namespace issuer @ ''/'' @ iss_Name issuer,
            lb_Operation = enrollmentOperation names request\<rparr>)"

fun kind_name :: "error_kind \<Rightarrow> bytes" where
  "kind_name ErrorKindPermanent = ''Permanent''"
| "kind_name ErrorKindRetryable = ''Retryable''"
| "kind_name ErrorKindPending = ''Pending''"
| "kind_name ErrorKindSecurity = ''Security''"
| "kind_name (ErrorKindOther name) = name"

definition configurationClassification :: "go_error \<Rightarrow> bytes" where
  "configurationClassification err =
     (if ce_Permanent err then kind_name ErrorKindPermanent else kind_name ErrorKindRetryable)"

definition failureLabels :: "go_error \<Rightarrow> bytes \<times> bytes" where
  "failureLabels err =
     (case as_protocol err of
        Some protocolError \<Rightarrow> (pe_Failure protocolError, kind_name (pe_Kind protocolError))
      | None \<Rightarrow>
          (case as_configuration err of
             Some configurationErr \<Rightarrow>
               (failureIssuerConfiguration, configurationClassification configurationErr)
           | None \<Rightarrow> (failureUnclassified, classificationUnknown)))"

end
