(* ===== verification/Cluster.thy ===== *)
theory Cluster
  imports Cmp_Client Metrics
begin

text \<open>
  The Kubernetes side of the controller's world: the objects the API server holds, and the
  calls the program makes through its clients, with the parts of their documented behaviour the
  program relies on. Every call can meet a fault before the server acts or after it (the write
  is stored, its answer lost). Interference between the calls of one reconcile
  is not modelled; between reconciles the objects may change in any way.
\<close>

subsection \<open>State and interface\<close>

text \<open>
  An event is the type, reason and format string of an \<^verbatim>\<open>Eventf\<close> call. The controller's
  state extends the client's.
\<close>

record kube_event =
  ev_Type :: bytes
  ev_Reason :: bytes
  ev_Note :: string

text \<open>
  The writes the API server made to CMPTransactions and the Secrets read through it, each with
  the number of CMP messages posted before it: an audit log that fixes the order of
  messages and API calls. It models no code and no definition reads it.
\<close>

datatype api_access =
    Created cmp_transaction
  | Updated cmp_transaction cmp_transaction
  | Deleted cmp_transaction
  | ReadSecret namespaced_name

record cluster = net_state +
  k_Transactions :: "namespaced_name \<Rightarrow> cmp_transaction option"
  k_Secrets :: "namespaced_name \<Rightarrow> secret option"
  k_Certificates :: "namespaced_name \<Rightarrow> cm_certificate option"
  k_Calls :: nat
  k_Events :: "kube_event list"
  k_Metrics :: metrics_registry
  k_Log :: "(nat \<times> api_access) list"

datatype api_fault = BeforeCall string | AfterCall string

text \<open>The identity of a Secret as it enters the configuration digest.\<close>

record secret_identity =
  si_Namespace :: bytes
  si_Name :: bytes
  si_UID :: bytes
  si_ResourceVersion :: bytes
  si_DataDigest :: bytes

text \<open>
  \<open>kube_Fault\<close> and \<open>kube_UID\<close> are indexed by the number of API calls made before, \<open>kube_Random\<close>
  (the bytes crypto/rand fills a buffer with, or its error) by the entropy used. A fault is neither a
  NotFound nor a Conflict.
  \<open>kube_ToUpper\<close> is unicode.ToUpper on non-ASCII runes, \<open>kube_JSON\<close> the encoding of a configuration
  identity, \<open>kube_EncodePEM\<close> the PEM block of a type and its bytes.
\<close>

record kube_lib =
  kube_cmp :: cmp_lib
  kube_names :: api_names
  kube_ToUpper :: "rune \<Rightarrow> rune"
  kube_Fault :: "nat \<Rightarrow> api_fault option"
  kube_UID :: "nat \<Rightarrow> bytes"
  kube_Random :: "nat \<Rightarrow> go_error + (nat \<Rightarrow> char)"
  kube_JSON :: "issuer_reference \<Rightarrow> secret_identity list \<Rightarrow> go_error + bytes"
  kube_EncodePEM :: "bytes \<Rightarrow> bytes \<Rightarrow> bytes"

abbreviation lib_x509 :: "kube_lib \<Rightarrow> x509_lib" where
  "lib_x509 kl \<equiv> cmp_x509 (kube_cmp kl)"

type_synonym 'a io = "(cluster, go_error, 'a) action"

subsection \<open>Calls\<close>

text \<open>
  \<open>api_call kl serve\<close>: one API call, where \<open>serve n\<close> is the server's answer as an action and \<open>n\<close>
  the number of the call.
\<close>

definition api_call :: "kube_lib \<Rightarrow> (nat \<Rightarrow> 'a io) \<Rightarrow> 'a io" where
  "api_call kl serve s =
     (let n = k_Calls s; s1 = s\<lparr>k_Calls := Suc n\<rparr> in
      case kube_Fault kl n of
        None \<Rightarrow> serve n s1
      | Some (BeforeCall reason) \<Rightarrow> (Inl (ApiError (OtherReason reason)), s1)
      | Some (AfterCall reason) \<Rightarrow> (Inl (ApiError (OtherReason reason)), snd (serve n s1)))"

definition found :: "'a option \<Rightarrow> go_error + 'a" where
  "found x = (case x of None \<Rightarrow> Inl (ApiError NotFound) | Some v \<Rightarrow> Inr v)"

definition record_access :: "api_access \<Rightarrow> cluster \<Rightarrow> cluster" where
  "record_access a s = s\<lparr>k_Log := k_Log s @ [(length (net_Posts s), a)]\<rparr>"

definition get_transaction :: "kube_lib \<Rightarrow> namespaced_name \<Rightarrow> cmp_transaction io" where
  "get_transaction kl key = api_call kl (\<lambda>n s. (found (k_Transactions s key), s))"

definition get_secret_object :: "kube_lib \<Rightarrow> namespaced_name \<Rightarrow> secret io" where
  "get_secret_object kl key = api_call kl (\<lambda>n s.
     (found (k_Secrets s key), record_access (ReadSecret key) s))"

definition get_certificate_object :: "kube_lib \<Rightarrow> namespaced_name \<Rightarrow> cm_certificate io" where
  "get_certificate_object kl key = api_call kl (\<lambda>n s. (found (k_Certificates s key), s))"

text \<open>
  A write is logged and the object replaced at its key. Times cross the wire with a precision of
  seconds.
\<close>

definition write_transaction ::
    "api_access \<Rightarrow> namespaced_name \<Rightarrow> cmp_transaction option \<Rightarrow> cluster \<Rightarrow> cluster"
where
  "write_transaction a key stored s =
     record_access a (s\<lparr>k_Transactions := (k_Transactions s)(key := stored)\<rparr>)"

definition wire_time :: "time \<Rightarrow> time" where
  "wire_time t = t - t mod second"

definition wire_spec :: "cmp_transaction_spec \<Rightarrow> cmp_transaction_spec" where
  "wire_spec spec = spec\<lparr>ts_Deadline := wire_time (ts_Deadline spec)\<rparr>"

definition wire_status :: "cmp_transaction_status \<Rightarrow> cmp_transaction_status" where
  "wire_status status = status\<lparr>st_CompletionTime := wire_time (st_CompletionTime status),
     st_LastTransitionTime := wire_time (st_LastTransitionTime status)\<rparr>"

abbreviation tx_key :: "cmp_transaction \<Rightarrow> namespaced_name" where
  "tx_key tx \<equiv> (tx_Namespace tx, tx_Name tx)"

text \<open>Create drops the status, which is a subresource, and assigns UID, version and time.\<close>

definition create_transaction :: "kube_lib \<Rightarrow> cmp_transaction \<Rightarrow> cmp_transaction io" where
  "create_transaction kl tx = api_call kl (\<lambda>n s.
     if k_Transactions s (tx_key tx) \<noteq> None
     then (Inl (ApiError (OtherReason ''AlreadyExists'')), s)
     else
       (let stored = tx\<lparr>tx_UID := kube_UID kl n, tx_ResourceVersion := Suc n,
              tx_CreationTimestamp := wire_time (cmp_Clock (kube_cmp kl) (net_Ticks s)),
              tx_Spec := wire_spec (tx_Spec tx), tx_Status := empty_status\<rparr>
        in (Inr stored, write_transaction (Created stored) (tx_key tx) (Some stored) s)))"

text \<open>A status update replaces the status alone, and only of the version it was based on.\<close>

definition update_status :: "kube_lib \<Rightarrow> cmp_transaction \<Rightarrow> cmp_transaction io" where
  "update_status kl tx = api_call kl (\<lambda>n s.
     case k_Transactions s (tx_key tx) of
       None \<Rightarrow> (Inl (ApiError NotFound), s)
     | Some current \<Rightarrow>
         if tx_ResourceVersion current \<noteq> tx_ResourceVersion tx \<or> tx_UID current \<noteq> tx_UID tx
         then (Inl (ApiError Conflict), s)
         else
           (let stored = current\<lparr>tx_Status := wire_status (tx_Status tx), tx_ResourceVersion := Suc n\<rparr>
            in (Inr stored, write_transaction (Updated current stored) (tx_key tx) (Some stored) s)))"

definition delete_transaction :: "kube_lib \<Rightarrow> namespaced_name \<Rightarrow> bytes option \<Rightarrow> unit io" where
  "delete_transaction kl key uid = api_call kl (\<lambda>n s.
     case k_Transactions s key of
       None \<Rightarrow> (Inl (ApiError NotFound), s)
     | Some current \<Rightarrow>
         if uid \<noteq> None \<and> uid \<noteq> Some (tx_UID current)
         then (Inl (ApiError Conflict), s)
         else (Inr (), write_transaction (Deleted current) key None s))"

definition emit_event :: "kube_event \<Rightarrow> unit io" where
  "emit_event e s = (Inr (), s\<lparr>k_Events := k_Events s @ [e]\<rparr>)"

definition now :: "kube_lib \<Rightarrow> time io" where
  "now kl = time_Now (kube_cmp kl)"

definition random_bytes :: "kube_lib \<Rightarrow> nat \<Rightarrow> bytes io" where
  "random_bytes kl n s =
     (rbind (kube_Random kl (net_Entropy s)) (\<lambda>fill. Inr (map fill [0..<n])),
      s\<lparr>net_Entropy := Suc (net_Entropy s)\<rparr>)"

subsection \<open>Calls that only read\<close>

text \<open>
  \<open>reads Q\<close>: no message is sent, no object, event or metric changes, and the Secrets read have
  keys that satisfy \<open>Q\<close>.
\<close>

definition reads :: "(namespaced_name \<Rightarrow> bool) \<Rightarrow> cluster \<Rightarrow> cluster \<Rightarrow> bool" where
  "reads Q s s' \<longleftrightarrow>
     net_Posts s' = net_Posts s \<and> net_Ticks s \<le> net_Ticks s'
     \<and> k_Transactions s' = k_Transactions s \<and> k_Secrets s' = k_Secrets s
     \<and> k_Certificates s' = k_Certificates s \<and> k_Events s' = k_Events s \<and> k_Metrics s' = k_Metrics s
     \<and> (\<exists>new. k_Log s' = k_Log s @ new \<and> set new \<subseteq> {(length (net_Posts s), ReadSecret key) | key. Q key})"

lemma reads_refl: "reflp (reads Q)"
  by (simp add: reflp_def reads_def)

lemma reads_same [simp]: "reads Q s s"
  by (rule reflpD [OF reads_refl])

lemma reads_trans: "transp (reads Q)"
proof (rule transpI)
  fix s s' s''
  assume "reads Q s s'" and "reads Q s' s''"
  moreover obtain new new' where
      "k_Log s' = k_Log s @ new" "set new \<subseteq> {(length (net_Posts s), ReadSecret key) | key. Q key}"
      "k_Log s'' = k_Log s' @ new'" "set new' \<subseteq> {(length (net_Posts s'), ReadSecret key) | key. Q key}"
    using calculation unfolding reads_def by blast
  ultimately show "reads Q s s''"
    unfolding reads_def by (intro conjI exI [of _ "new @ new'"]) simp_all
qed

lemma reads_mono: "reads Q s s' \<Longrightarrow> (\<And>k. Q k \<Longrightarrow> Q' k) \<Longrightarrow> reads Q' s s'"
  unfolding reads_def by (elim conjE exE, intro conjI exI, assumption+) auto

lemmas reads_bind = behaves_sbind [OF reads_trans]
lemmas reads_pure = behaves_slift [OF reads_refl]

lemma api_call_behaves:
  assumes "transp R" and "\<And>(s :: cluster) n. R s (s\<lparr>k_Calls := n\<rparr>)" and "\<And>n. behaves R (serve n) E P"
    and "\<And>reason. E (ApiError (OtherReason reason))"
  shows "behaves R (api_call kl serve) E P"
proof (rule behavesI)
  fix s :: cluster
  let ?s = "s\<lparr>k_Calls := Suc (k_Calls s)\<rparr>"
  have "R s (snd (serve (k_Calls s) ?s))"
    using assms(2) [of s] behaves_state [OF assms(3) surjective_pairing] transpD [OF assms(1)] by metis
  then show "R s (snd (api_call kl serve s))"
    using assms(2) [of s] by (auto simp: api_call_def Let_def split: option.split api_fault.split)
  show "fst (api_call kl serve s) = Inl e \<Longrightarrow> E e" for e
    using assms(4) behaves_error [OF assms(3), of "k_Calls s" ?s e]
    by (cases "serve (k_Calls s) ?s")
      (auto simp: api_call_def Let_def split: option.split_asm api_fault.split_asm)
  show "fst (api_call kl serve s) = Inr x \<Longrightarrow> P x" for x
    using behaves_success [OF assms(3), of "k_Calls s" ?s x]
    by (cases "serve (k_Calls s) ?s")
      (auto simp: api_call_def Let_def split: option.split_asm api_fault.split_asm)
qed

lemma reads_calls [simp]: "reads Q s (s\<lparr>k_Calls := n\<rparr>)"
  by (simp add: reads_def)

lemma reads_access [simp]: "reads Q s (record_access (ReadSecret key) s) \<longleftrightarrow> Q key"
  by (cases key) (auto simp: reads_def record_access_def)

lemma get_secret_object_reads:
  "Q key \<Longrightarrow> behaves (reads Q) (get_secret_object kl key) is_ApiError (\<lambda>_. True)"
  unfolding get_secret_object_def
  by (rule api_call_behaves [OF reads_trans reads_calls], rule behavesI)
    (auto simp: found_def split: option.split_asm)

lemma get_certificate_object_reads:
  "behaves (reads Q) (get_certificate_object kl key) is_ApiError (\<lambda>_. True)"
  unfolding get_certificate_object_def
  by (rule api_call_behaves [OF reads_trans reads_calls], rule behavesI)
    (auto simp: found_def split: option.split_asm)

lemma now_reads: "behaves (reads Q) (now kl) (\<lambda>_. False) (\<lambda>_. True)"
  by (rule behavesI) (simp_all add: now_def time_Now_def reads_def)

text \<open>What a successful read returns is what the API server holds.\<close>

lemma api_call_Inr:
  assumes "api_call kl serve s = (Inr x, s')"
  shows "serve (k_Calls s) (s\<lparr>k_Calls := Suc (k_Calls s)\<rparr>) = (Inr x, s')"
  using assms by (auto simp: api_call_def Let_def split: option.split_asm api_fault.split_asm)

lemma found_Inr [simp]: "found x = Inr v \<longleftrightarrow> x = Some v"
  by (cases x) (auto simp: found_def)

lemma get_secret_object_Inr: "get_secret_object kl key s = (Inr v, s') \<Longrightarrow> k_Secrets s key = Some v"
  unfolding get_secret_object_def by (drule api_call_Inr) simp

lemma get_certificate_object_Inr:
  "get_certificate_object kl key s = (Inr v, s') \<Longrightarrow> k_Certificates s key = Some v"
  unfolding get_certificate_object_def by (drule api_call_Inr) simp

end
