(* ===== verification/Controller_Samples.thy ===== *)
theory Controller_Samples
  imports Cluster
begin

text \<open>
  A concrete cluster, issuer and request. It models no code: the witnesses of the properties of the
  controller evaluate the definitions on it.
\<close>

definition sample_id :: bytes where
  "sample_id = ''tttttttttttttttt''"

definition sample_answer :: "pki_message \<Rightarrow> pki_message" where
  "sample_answer message = message\<lparr>Header := (Header message)\<lparr>hdr_TransactionID := sample_id\<rparr>\<rparr>"

definition sample_cmp :: "pki_message \<Rightarrow> cmp_lib" where
  "sample_cmp first = (sample_lib first)\<lparr>cmp_ParsePKIMessage := (\<lambda>der.
     if der = ''first'' then Inr (sample_answer first)
     else if der = ''conf'' then Inr (sample_answer (sample_message BodyPKIConf))
     else Inl (TextError ''asn1: structure error''))\<rparr>"

definition sample_api_names :: api_names where
  "sample_api_names =
     \<lparr>nm_Revision = ''revision'', nm_PrivateKey = ''private-key'', nm_NextPrivateKey = ''next-private-key'',
      nm_CertificateName = ''certificate-name'', nm_APIVersion = ''cert-manager.io/v1'',
      nm_TLSCert = ''tls.crt'', nm_TLSPrivateKey = ''tls.key'', nm_Ready = ''Ready'',
      nm_ConditionTrue = ''True'', nm_Warning = ''Warning''\<rparr>"

definition sample_kube :: "pki_message \<Rightarrow> kube_lib" where
  "sample_kube first =
     \<lparr>kube_cmp = sample_cmp first, kube_names = sample_api_names, kube_ToUpper = (\<lambda>r. r),
      kube_Fault = (\<lambda>n. None), kube_UID = (\<lambda>n. ''uid''), kube_Random = (\<lambda>n. Inr (\<lambda>i. CHR ''t'')),
      kube_JSON = (\<lambda>reference secrets. Inr ''{}''), kube_EncodePEM = (\<lambda>kind der. kind @ der)\<rparr>"

definition sample_spec :: cmp_issuer_spec where
  "sample_spec =
     \<lparr>is_Endpoint = \<lparr>ep_URL = ''ca.example'', ep_RenewalURL = [], ep_Timeout = second, ep_MaxResponseSize = 4096\<rparr>,
      is_Protocol = \<lparr>ps_Version = 2, ps_InitialEnrollment = ''P10CR'', ps_Renewal = [],
        ps_RequestedValidity = [], ps_RenewalFallback = [], ps_ValidationProfile = [],
        ps_KURResponseCAPubs = [], ps_P10CRResponseCertReqID = None, ps_MACResponseProtection = [],
        ps_SignatureDigest = [], ps_CertProfile = [], ps_Sender = [], ps_Recipient = ''CN=ca'',
        ps_Confirmation = ''Explicit''\<rparr>,
      is_Protection = \<lparr>pr_Type = ProtectionTypePasswordBasedMac,
        pr_PasswordBasedMac = Some \<lparr>pb_SecretRef = ''mac'', pb_ReferenceKey = ''reference'', pb_SecretKey = ''secret'',
          pb_Algorithm = \<lparr>pa_OWF = ''SHA256'', pa_MAC = ''HMACSHA256'', pa_IterationCount = 1024\<rparr>\<rparr>,
        pr_Signature = None\<rparr>,
      is_CMPTrust = \<lparr>ct_CASecretRef = \<lparr>sk_Name = ''trust'', sk_Key = ''ca.crt''\<rparr>,
        ct_SignerCertificatesSecretRef = None\<rparr>,
      is_Transport = \<lparr>trn_TLS = None\<rparr>,
      is_Transaction = \<lparr>tl_MaximumDuration = 0, tl_MinimumPollInterval = 0, tl_MaximumPollInterval = 0,
        tl_MaximumPolls = 0\<rparr>,
      is_Policy = \<lparr>pol_GrantedModifications = []\<rparr>\<rparr>"

definition sample_issuer :: issuer where
  "sample_issuer = \<lparr>iss_Type = CMPIssuer, iss_Name = ''issuer'', iss_Namespace = ''ns'', iss_UID = ''issuer-uid'',
     iss_Generation = 1, iss_Spec = sample_spec, iss_Conditions = []\<rparr>"

definition sample_issuer_reference :: issuer_reference where
  "sample_issuer_reference = \<lparr>ir_Name = ''issuer'', ir_Kind = TransactionIssuerKindNamespaced, ir_UID = ''issuer-uid'',
     ir_Generation = 1\<rparr>"

definition sample_secret :: "(bytes \<rightharpoonup> bytes) \<Rightarrow> secret" where
  "sample_secret data = \<lparr>sec_UID = ''secret-uid'', sec_ResourceVersion = ''1'', sec_Data = data,
     sec_Labels = Map.empty, sec_Annotations = Map.empty, sec_OwnerReferences = []\<rparr>"

definition sample_trust_secret :: secret where
  "sample_trust_secret = sample_secret [''ca.crt'' \<mapsto> ''root'']"

definition sample_mac_secret :: secret where
  "sample_mac_secret = sample_secret [''reference'' \<mapsto> ''ref'', ''secret'' \<mapsto> ''shared'']"

definition sample_secrets :: "namespaced_name \<Rightarrow> secret option" where
  "sample_secrets key =
     (if key = (''ns'', ''trust'') then Some sample_trust_secret
      else if key = (''ns'', ''mac'') then Some sample_mac_secret
      else None)"

definition sample_cr :: request_object where
  "sample_cr = \<lparr>cr_Namespace = ''ns'', cr_Name = ''web'', cr_UID = ''cr-uid'', cr_Annotations = Map.empty,
     cr_OwnerReferences = [], cr_CSR = Inr ''csr'', cr_Wrapped = True, cr_Duration = None\<rparr>"

text \<open>The record of the request in a given state.\<close>

definition sample_transaction :: "cmp_transaction_status \<Rightarrow> cmp_transaction" where
  "sample_transaction status = \<lparr>tx_Namespace = ''ns'', tx_Name = ''web'', tx_UID = ''uid'', tx_ResourceVersion = 1,
     tx_CreationTimestamp = 0, tx_OwnerReferences = [],
     tx_Spec = \<lparr>ts_CertificateRequestName = ''web'', ts_CertificateRequestUID = ''cr-uid'', ts_TransactionID = sample_id,
       ts_Deadline = 600 * second, ts_CSRDigest = ''637372'', ts_IssuerRef = Some sample_issuer_reference,
       ts_ConfigurationDigest = ''7b7d'', ts_Operation = TransactionOperationP10CR, ts_RenewalFallback = [],
       ts_ProtocolVersion = 2\<rparr>,
     tx_Status = status\<rparr>"

definition sample_issued_status :: cmp_transaction_status where
  "sample_issued_status = empty_status\<lparr>st_Phase := TransactionPhaseIssued, st_IssuedChain := [''leaf'']\<rparr>"

definition sample_polling_status :: cmp_transaction_status where
  "sample_polling_status = empty_status\<lparr>st_Phase := TransactionPhasePolling, st_RecipNonce := ''nonce'',
     st_RequestNonce := ''nonce'', st_CertReqID := Some 0\<rparr>"

definition sample_registry :: metrics_registry where
  "sample_registry = \<lparr>enrollmentTotal = (\<lambda>l. 0), enrollmentDuration = (\<lambda>l. []), enrollmentFailures = (\<lambda>l. 0),
     enrollmentPolls = (\<lambda>l. 0), enrollmentConfirmations = (\<lambda>l. 0)\<rparr>"

definition sample_cluster :: "(namespaced_name \<Rightarrow> cmp_transaction option) \<Rightarrow> cluster" where
  "sample_cluster transactions = \<lparr>net_Posts = [], net_Entropy = 0, net_Ticks = 0,
     k_Transactions = transactions, k_Secrets = sample_secrets, k_Certificates = (\<lambda>key. None),
     k_Calls = 0, k_Events = [], k_Metrics = sample_registry, k_Log = []\<rparr>"

lemma sample_kube_contract: "message_contract (kube_cmp (sample_kube m))"
  using sample_contract [of m] by (simp add: message_contract_def sample_kube_def sample_cmp_def)

end
