(* ===== verification/Transaction_Store.thy ===== *)
theory Transaction_Store
  imports Controller_Samples
begin

text \<open>
  The durable record of a CMP transaction, \<^verbatim>\<open>src/internal/controller/transaction_store.go\<close>. The
  source mutates the transaction it is given and stores it; the model returns the stored one.
\<close>

subsection \<open>Operations\<close>

definition certificateRequestAPIVersion :: bytes where
  "certificateRequestAPIVersion = ''cert-manager.io/v1''"

definition certificateRequestKind :: bytes where
  "certificateRequestKind = ''CertificateRequest''"

record transaction_detail =
  td_CSRDigest :: bytes
  td_IssuerRef :: issuer_reference
  td_ConfigurationDigest :: bytes
  td_Operation :: bytes
  td_ProtocolVersion :: int
  td_RenewalFallback :: bytes

definition deletePreconditions :: "cmp_transaction \<Rightarrow> bytes option" where
  "deletePreconditions transaction =
     (if tx_UID transaction = [] then None else Some (tx_UID transaction))"

text \<open>\<^verbatim>\<open>fmt.Errorf\<close> around an error of a call.\<close>

definition wrapping :: "string \<Rightarrow> 'a io \<Rightarrow> 'a io" where
  "wrapping text m s = (case m s of (Inl e, s') \<Rightarrow> (Inl (WrapError text e), s') | (Inr x, s') \<Rightarrow> (Inr x, s'))"

definition store_load ::
    "kube_lib \<Rightarrow> bytes \<Rightarrow> bytes \<Rightarrow> bytes \<Rightarrow> cmp_transaction option io"
where
  "store_load kl namespace name uid =
     sbind (stry (get_transaction kl (namespace, name))) (\<lambda>answer.
     case answer of
       Inl e \<Rightarrow> slift (if is_not_found e then Inr None
                       else Inl (WrapError ''read CMP transaction state: %w'' e))
     | Inr transaction \<Rightarrow>
         if ts_CertificateRequestUID (tx_Spec transaction) \<noteq> uid
         then
           sbind (stry (delete_transaction kl (tx_key transaction) (deletePreconditions transaction))) (\<lambda>deleted.
           slift (case deleted of
                    Inl e \<Rightarrow> if is_not_found e then Inr None
                            else Inl (WrapError ''remove stale CMP transaction state: %w'' e)
                  | Inr _ \<Rightarrow> Inr None))
         else slift (Inr (Some transaction)))"

definition new_transaction ::
    "bytes \<Rightarrow> bytes \<Rightarrow> bytes \<Rightarrow> time \<Rightarrow> transaction_detail \<Rightarrow> bytes \<Rightarrow> cmp_transaction"
where
  "new_transaction namespace name uid deadline detail transactionID =
     \<lparr>tx_Namespace = namespace, tx_Name = name, tx_UID = [], tx_ResourceVersion = 0,
      tx_CreationTimestamp = zero_time,
      tx_OwnerReferences = [\<lparr>own_APIVersion = certificateRequestAPIVersion,
        own_Kind = certificateRequestKind, own_Name = name, own_UID = uid, own_Controller = None\<rparr>],
      tx_Spec = \<lparr>ts_CertificateRequestName = name, ts_CertificateRequestUID = uid,
        ts_TransactionID = transactionID, ts_Deadline = deadline,
        ts_CSRDigest = td_CSRDigest detail, ts_IssuerRef = Some (td_IssuerRef detail),
        ts_ConfigurationDigest = td_ConfigurationDigest detail,
        ts_Operation = td_Operation detail, ts_RenewalFallback = td_RenewalFallback detail,
        ts_ProtocolVersion = td_ProtocolVersion detail\<rparr>,
      tx_Status = empty_status\<rparr>"

definition transactionIDLength :: nat where
  "transactionIDLength = 16"

definition store_create ::
    "kube_lib \<Rightarrow> bytes \<Rightarrow> bytes \<Rightarrow> bytes \<Rightarrow> time \<Rightarrow> transaction_detail \<Rightarrow> cmp_transaction io"
where
  "store_create kl namespace name uid deadline detail =
     sbind (wrapping ''generate CMP transaction ID: %w'' (random_bytes kl transactionIDLength)) (\<lambda>transactionID.
     sbind (wrapping ''record CMP transaction state: %w''
       (create_transaction kl (new_transaction namespace name uid deadline detail transactionID))) (\<lambda>transaction.
     sbind (now kl) (\<lambda>time.
     wrapping ''record CMP transaction phase: %w''
       (update_status kl (transaction\<lparr>tx_Status := (tx_Status transaction)\<lparr>
          st_Phase := TransactionPhaseEnrolling, st_LastTransitionTime := time\<rparr>\<rparr>)))))"

definition encodeChain :: "certificate list \<Rightarrow> bytes list" where
  "encodeChain chain = map cert_Raw chain"

definition retain_signer :: "pending_transaction \<Rightarrow> cmp_transaction_status \<Rightarrow> cmp_transaction_status" where
  "retain_signer pending status =
     (case pending_ResponseSigner pending of
        None \<Rightarrow> status
      | Some c \<Rightarrow> status\<lparr>st_ResponseSigner := cert_Raw c\<rparr>)"

definition recordConfirming ::
    "kube_lib \<Rightarrow> cmp_transaction \<Rightarrow> certificate list \<Rightarrow> pending_transaction \<Rightarrow> cmp_transaction io"
where
  "recordConfirming kl transaction chain pending =
     sbind (now kl) (\<lambda>time.
     wrapping ''record CMP confirmation state: %w''
       (update_status kl (transaction\<lparr>tx_Status := retain_signer pending ((tx_Status transaction)\<lparr>
          st_Phase := TransactionPhaseConfirming,
          st_IssuedChain := encodeChain chain,
          st_RecipNonce := pending_RecipNonce pending,
          st_RequestNonce := pending_RequestNonce pending,
          st_CertReqID := Some (pending_CertReqID pending),
          st_LastTransitionTime := time\<rparr>)\<rparr>)))"

definition recordIssued :: "kube_lib \<Rightarrow> cmp_transaction \<Rightarrow> certificate list \<Rightarrow> cmp_transaction io" where
  "recordIssued kl transaction chain =
     sbind (now kl) (\<lambda>time.
     wrapping ''record issued CMP certificate chain: %w''
       (update_status kl (transaction\<lparr>tx_Status := (tx_Status transaction)\<lparr>
          st_Phase := TransactionPhaseIssued,
          st_IssuedChain := encodeChain chain,
          st_CompletionTime := time,
          st_LastTransitionTime := time\<rparr>\<rparr>)))"

definition recordPending ::
    "kube_lib \<Rightarrow> cmp_transaction \<Rightarrow> pending_transaction \<Rightarrow> cmp_transaction io"
where
  "recordPending kl transaction pending =
     sbind (now kl) (\<lambda>time.
     wrapping ''record CMP poll state: %w''
       (update_status kl (transaction\<lparr>tx_Status := retain_signer pending ((tx_Status transaction)\<lparr>
          st_Phase := TransactionPhasePolling,
          st_RecipNonce := pending_RecipNonce pending,
          st_RequestNonce :=
            (if pending_RequestNonce pending \<noteq> [] then pending_RequestNonce pending
             else st_RequestNonce (tx_Status transaction)),
          st_CertReqID := Some (pending_CertReqID pending),
          st_LastTransitionTime := time\<rparr>)\<rparr>)))"

definition store_remove :: "kube_lib \<Rightarrow> cmp_transaction \<Rightarrow> unit io" where
  "store_remove kl transaction =
     sbind (stry (delete_transaction kl (tx_key transaction) (deletePreconditions transaction))) (\<lambda>deleted.
     slift (case deleted of
              Inl e \<Rightarrow> if is_not_found e \<or> is_conflict e then Inr ()
                      else Inl (WrapError ''remove CMP transaction state: %w'' e)
            | Inr _ \<Rightarrow> Inr ()))"

subsection \<open>Life of a record\<close>

text \<open>
  The phases in the order a transaction passes them. A record with no phase, or one the program does
  not know, is enrolled.
\<close>

definition phase_rank :: "bytes \<Rightarrow> nat" where
  "phase_rank phase =
     (if phase = TransactionPhaseIssued then 3
      else if phase = TransactionPhaseConfirming then 2
      else if phase = TransactionPhasePolling then 1
      else 0)"

abbreviation tx_rank :: "cmp_transaction \<Rightarrow> nat" where
  "tx_rank tx \<equiv> phase_rank (st_Phase (tx_Status tx))"

definition same_record :: "cmp_transaction \<Rightarrow> cmp_transaction \<Rightarrow> bool" where
  "same_record old new \<longleftrightarrow>
     tx_key new = tx_key old \<and> tx_UID new = tx_UID old \<and> tx_Spec new = tx_Spec old
     \<and> tx_OwnerReferences new = tx_OwnerReferences old
     \<and> tx_CreationTimestamp new = tx_CreationTimestamp old"

text \<open>
  \<open>progress M\<close>: a status update keeps everything but the status, never goes back to an earlier
  phase, and counts at most one poll, up to the limit \<open>M\<close>.
\<close>

definition progress :: "int \<Rightarrow> cmp_transaction \<Rightarrow> cmp_transaction \<Rightarrow> bool" where
  "progress M old new \<longleftrightarrow>
     same_record old new \<and> tx_rank old \<le> tx_rank new
     \<and> (st_Polls (tx_Status new) = st_Polls (tx_Status old)
        \<or> st_Polls (tx_Status new) = st_Polls (tx_Status old) + 1 \<and> st_Polls (tx_Status new) \<le> M)"

definition new_record :: "namespaced_name \<Rightarrow> cmp_transaction \<Rightarrow> bool" where
  "new_record key tx \<longleftrightarrow>
     tx_key tx = key \<and> length (ts_TransactionID (tx_Spec tx)) = transactionIDLength \<and> tx_Status tx = empty_status"

inductive record_step ::
  "int \<Rightarrow> namespaced_name \<Rightarrow> cmp_transaction option \<Rightarrow> cmp_transaction option \<Rightarrow> bool" for M key
where
  created: "new_record key tx \<Longrightarrow> record_step M key None (Some tx)"
| advanced: "progress M old new \<Longrightarrow> record_step M key (Some old) (Some new)"
| removed: "record_step M key (Some old) None"

inductive_simps record_step_simps [simp]:
  "record_step M key None None" "record_step M key None (Some tx)"
  "record_step M key (Some old) (Some new)" "record_step M key (Some old) None"

definition access_ok ::
    "int \<Rightarrow> namespaced_name \<Rightarrow> bytes \<Rightarrow> (namespaced_name \<Rightarrow> bool) \<Rightarrow> api_access \<Rightarrow> bool"
where
  "access_ok M key uid Q a =
     (case a of
        Created tx \<Rightarrow> new_record key tx \<and> ts_CertificateRequestUID (tx_Spec tx) = uid
      | Updated old new \<Rightarrow> tx_key old = key \<and> progress M old new
      | Deleted tx \<Rightarrow> tx_key tx = key
      | ReadSecret k \<Rightarrow> Q k)"

subsection \<open>Trails\<close>

text \<open>
  The log of a run for one request determines the record at every moment of it: \<open>replay\<close> applies
  the writes to the record of the start, and \<open>before n\<close> selects those made before the message
  with index \<open>n\<close>.
\<close>

fun apply_access :: "cmp_transaction option \<Rightarrow> api_access \<Rightarrow> cmp_transaction option" where
  "apply_access rec (Created tx) = Some tx"
| "apply_access rec (Updated old new) = Some new"
| "apply_access rec (Deleted tx) = None"
| "apply_access rec (ReadSecret key) = rec"

definition replay :: "cmp_transaction option \<Rightarrow> (nat \<times> api_access) list \<Rightarrow> cmp_transaction option" where
  "replay rec log = foldl (\<lambda>r entry. apply_access r (snd entry)) rec log"

definition before :: "nat \<Rightarrow> (nat \<times> api_access) list \<Rightarrow> (nat \<times> api_access) list" where
  "before n log = filter (\<lambda>entry. fst entry \<le> n) log"

lemma replay_simps [simp]:
  "replay rec [] = rec" "replay rec (xs @ ys) = replay (replay rec xs) ys"
  "replay rec (entry # xs) = replay (apply_access rec (snd entry)) xs"
  by (simp_all add: replay_def)

lemma before_all: "\<forall>entry \<in> set log. fst entry \<le> n \<Longrightarrow> before n log = log"
  by (simp add: before_def filter_id_conv)

lemma before_none: "\<forall>entry \<in> set log. n < fst entry \<Longrightarrow> before n log = []"
  by (auto simp: before_def filter_empty_conv not_le)

lemma before_append [simp]: "before n (xs @ ys) = before n xs @ before n ys"
  by (simp add: before_def)

lemma replay_reads: "snd ` set log \<subseteq> {ReadSecret k | k. Q k} \<Longrightarrow> replay rec log = rec"
  by (induction log arbitrary: rec) auto

text \<open>
  \<open>trail lib key P A M\<close>: the effects of a run for one request. Each message sent satisfies \<open>P\<close> for the
  record held when it is sent, each API call satisfies \<open>A\<close>, and only the record at \<open>key\<close> changes,
  by steps of its life.
\<close>

definition effects ::
    "cmp_lib \<Rightarrow> namespaced_name \<Rightarrow> (cmp_transaction option \<Rightarrow> pki_message \<Rightarrow> bool) \<Rightarrow> (api_access \<Rightarrow> bool) \<Rightarrow> int \<Rightarrow>
     http_post list \<Rightarrow> (nat \<times> api_access) list \<Rightarrow> cluster \<Rightarrow> cluster \<Rightarrow> bool"
where
  "effects lib key P A M posts log s s' \<longleftrightarrow>
     net_Posts s' = net_Posts s @ posts \<and> k_Log s' = k_Log s @ log
     \<and> (\<forall>i < length posts. \<exists>m. P (replay (k_Transactions s key) (before (length (net_Posts s) + i) log)) m
          \<and> cmp_MarshalBinary lib m = Inr (post_Body (posts ! i)))
     \<and> (\<forall>entry \<in> set log. A (snd entry)
          \<and> length (net_Posts s) \<le> fst entry \<and> fst entry \<le> length (net_Posts s) + length posts)
     \<and> k_Transactions s' key = replay (k_Transactions s key) log
     \<and> (\<forall>k. k \<noteq> key \<longrightarrow> k_Transactions s' k = k_Transactions s k)
     \<and> k_Secrets s' = k_Secrets s \<and> k_Certificates s' = k_Certificates s \<and> net_Ticks s \<le> net_Ticks s'
     \<and> (record_step M key)\<^sup>*\<^sup>* (k_Transactions s key) (k_Transactions s' key)"

definition trail ::
    "cmp_lib \<Rightarrow> namespaced_name \<Rightarrow> (cmp_transaction option \<Rightarrow> pki_message \<Rightarrow> bool) \<Rightarrow> (api_access \<Rightarrow> bool) \<Rightarrow> int \<Rightarrow>
     cluster \<Rightarrow> cluster \<Rightarrow> bool"
where
  "trail lib key P A M s s' \<longleftrightarrow> (\<exists>posts log. effects lib key P A M posts log s s')"

lemma trailI: "effects lib key P A M posts log s s' \<Longrightarrow> trail lib key P A M s s'"
  unfolding trail_def by blast

lemma trail_refl: "reflp (trail lib key P A M)"
  by (rule reflpI, rule trailI [where posts = "[]" and log = "[]"]) (simp add: effects_def)

lemma trail_same [simp]: "trail lib key P A M s s"
  by (rule reflpD [OF trail_refl])

lemma effectsD:
  assumes "effects lib key P A M posts log s s'"
  shows "net_Posts s' = net_Posts s @ posts" and "k_Log s' = k_Log s @ log"
    and "i < length posts \<Longrightarrow> \<exists>m. P (replay (k_Transactions s key) (before (length (net_Posts s) + i) log)) m
      \<and> cmp_MarshalBinary lib m = Inr (post_Body (posts ! i))"
    and "entry \<in> set log \<Longrightarrow> A (snd entry)" and "entry \<in> set log \<Longrightarrow> length (net_Posts s) \<le> fst entry"
    and "entry \<in> set log \<Longrightarrow> fst entry \<le> length (net_Posts s) + length posts"
    and "k_Transactions s' key = replay (k_Transactions s key) log"
    and "k \<noteq> key \<Longrightarrow> k_Transactions s' k = k_Transactions s k"
    and "k_Secrets s' = k_Secrets s" and "k_Certificates s' = k_Certificates s"
    and "(record_step M key)\<^sup>*\<^sup>* (k_Transactions s key) (k_Transactions s' key)"
    and "net_Ticks s \<le> net_Ticks s'"
  using assms unfolding effects_def by blast+

lemma effects_messages:
  assumes first: "effects lib key P A M posts log s s'" and second: "effects lib key P A M posts' log' s' s''"
    and i: "i < length (posts @ posts')"
  shows "\<exists>m. P (replay (k_Transactions s key) (before (length (net_Posts s) + i) (log @ log'))) m
    \<and> cmp_MarshalBinary lib m = Inr (post_Body ((posts @ posts') ! i))"
proof (cases "i < length posts")
  case True
  have "before (length (net_Posts s) + i) log' = []"
    using effectsD(5) [OF second] effectsD(1) [OF first] True by (intro before_none ballI) fastforce
  with effectsD(3) [OF first True] True show ?thesis
    by (simp add: nth_append)
next
  case False
  then obtain j where j: "i = length posts + j" "j < length posts'"
    using i by (metis length_append le_Suc_ex nat_add_left_cancel_less not_less)
  have index: "length (net_Posts s) + i = length (net_Posts s') + j"
    using j by (simp add: effectsD(1) [OF first])
  have "before (length (net_Posts s) + i) log = log"
    using effectsD(6) [OF first] False by (intro before_all ballI) fastforce
  then have "replay (k_Transactions s key) (before (length (net_Posts s) + i) (log @ log'))
      = replay (k_Transactions s' key) (before (length (net_Posts s') + j) log')"
    by (simp add: effectsD(7) [OF first] flip: index)
  moreover have "(posts @ posts') ! i = posts' ! j"
    using j by (simp add: nth_append)
  ultimately show ?thesis
    using effectsD(3) [OF second j(2)] by simp
qed

lemma trail_trans: "transp (trail lib key P A M)"
proof (rule transpI)
  fix s s' s''
  assume "trail lib key P A M s s'" and "trail lib key P A M s' s''"
  then obtain posts log posts' log' where
      first: "effects lib key P A M posts log s s'" and second: "effects lib key P A M posts' log' s' s''"
    by (auto simp: trail_def)
  have "(record_step M key)\<^sup>*\<^sup>* (k_Transactions s key) (k_Transactions s'' key)"
    using effectsD(11) [OF first] effectsD(11) [OF second] by (rule rtranclp_trans)
  moreover have "net_Ticks s \<le> net_Ticks s''"
    using effectsD(12) [OF first] effectsD(12) [OF second] by (rule order_trans)
  moreover have "A (snd entry) \<and> length (net_Posts s) \<le> fst entry
      \<and> fst entry \<le> length (net_Posts s) + length (posts @ posts')" if "entry \<in> set (log @ log')" for entry
  proof (cases "entry \<in> set log")
    case True
    then show ?thesis
      using effectsD(4-6) [OF first True] by simp
  next
    case False
    with that have "entry \<in> set log'"
      by simp
    from effectsD(4-6) [OF second this] show ?thesis
      by (simp add: effectsD(1) [OF first])
  qed
  ultimately have "effects lib key P A M (posts @ posts') (log @ log') s s''"
    unfolding effects_def [of lib key P A M "posts @ posts'"]
    using effects_messages [OF first second]
    by (intro conjI ballI allI impI)
      (simp_all add: effectsD(1,2,7-10) [OF first] effectsD(1,2,7-10) [OF second])
  then show "trail lib key P A M s s''"
    by (rule trailI)
qed

lemma effects_mono:
  assumes "effects lib key P A M posts log s s'" and "\<And>rec m. P rec m \<Longrightarrow> P' rec m" and "\<And>a. A a \<Longrightarrow> A' a"
  shows "effects lib key P' A' M posts log s s'"
  using assms(1) unfolding effects_def
  by (elim conjE, intro conjI) (assumption | use assms(2,3) in blast)+

lemma trail_reads:
  assumes "reads Q s s'" and "\<And>k. Q k \<Longrightarrow> A (ReadSecret k)"
  shows "trail lib key P A M s s'"
proof -
  from assms(1) obtain log where log: "k_Log s' = k_Log s @ log"
      "set log \<subseteq> {(length (net_Posts s), ReadSecret k) | k. Q k}"
    unfolding reads_def by (elim conjE exE)
  then have "replay (k_Transactions s key) log = k_Transactions s key"
    by (intro replay_reads [of _ Q]) auto
  moreover have "\<forall>entry \<in> set log. A (snd entry) \<and> fst entry = length (net_Posts s)"
    using log(2) assms(2) by auto
  ultimately have "effects lib key P A M [] log s s'"
    using assms(1) log(1) by (simp add: effects_def reads_def)
  then show ?thesis
    by (rule trailI)
qed

lemma more_eq_fields:
  assumes "net_state.more s' = net_state.more (s :: cluster)"
  shows "k_Transactions s' = k_Transactions s" "k_Secrets s' = k_Secrets s"
    "k_Certificates s' = k_Certificates s" "k_Log s' = k_Log s" "k_Metrics s' = k_Metrics s"
    "k_Events s' = k_Events s" "k_Calls s' = k_Calls s"
  using assms by (cases s, cases s', simp)+

lemma trail_sends:
  assumes "sends lib P' s s'" and "\<And>m. P' m \<Longrightarrow> P (k_Transactions s key) m"
  shows "trail lib key P A M s s'"
proof -
  from assms(1) obtain posts where more: "net_state.more s' = net_state.more s"
      and posts: "net_Posts s' = net_Posts s @ posts" "net_Ticks s \<le> net_Ticks s'"
      and messages: "\<forall>p \<in> set posts. \<exists>m. P' m \<and> cmp_MarshalBinary lib m = Inr (post_Body p)"
    unfolding sends_def by (elim conjE exE)
  have "\<exists>m. P (k_Transactions s key) m \<and> cmp_MarshalBinary lib m = Inr (post_Body (posts ! i))"
    if "i < length posts" for i
    using messages assms(2) that nth_mem by blast
  with posts have "effects lib key P A M posts [] s s'"
    by (simp add: effects_def before_def more_eq_fields [OF more])
  then show ?thesis
    by (rule trailI)
qed

lemma trail_write:
  assumes "A a" and "record_step M key (k_Transactions s key) stored"
    and "apply_access (k_Transactions s key) a = stored"
  shows "trail lib key P A M s (write_transaction a key stored s)"
  using assms
  by (intro trailI [where posts = "[]" and log = "[(length (net_Posts s), a)]"])
    (auto simp: write_transaction_def record_access_def effects_def)

subsection \<open>Operations on a held record\<close>

lemma api_call_triple:
  assumes "\<And>s n. P s \<Longrightarrow> P (s\<lparr>k_Calls := n\<rparr>)" and "\<And>n. triple P (serve n) E Q"
    and "\<And>s r. P s \<Longrightarrow> E (ApiError (OtherReason r)) s"
    and "\<And>x s r. Q x s \<Longrightarrow> E (ApiError (OtherReason r)) s"
    and "\<And>e s r. E e s \<Longrightarrow> E (ApiError (OtherReason r)) s"
  shows "triple P (api_call kl serve) E Q"
  unfolding triple_def
proof (intro allI impI)
  fix s
  assume P: "P s"
  let ?s = "s\<lparr>k_Calls := Suc (k_Calls s)\<rparr>"
  obtain r s' where run: "serve (k_Calls s) ?s = (r, s')"
    by fastforce
  from P have "P ?s"
    by (rule assms(1))
  with triple_result [OF assms(2) _ run] have "case r of Inl e \<Rightarrow> E e s' | Inr x \<Rightarrow> Q x s'"
    by blast
  with \<open>P ?s\<close> assms(3-5) run
  show "case api_call kl serve s of (r, s') \<Rightarrow> case r of Inl e \<Rightarrow> E e s' | Inr x \<Rightarrow> Q x s'"
    by (auto simp: api_call_def Let_def split: option.split api_fault.split sum.split_asm)
qed

lemma wrapping_triple:
  assumes "triple P m E Q" and "\<And>e s. E e s \<Longrightarrow> E' (WrapError text e) s"
  shows "triple P (wrapping text m) E' Q"
  using assms by (auto simp: triple_def wrapping_def split: sum.split prod.split)

lemma trail_calls [simp]:
  "trail lib key P A M s0 (s\<lparr>k_Calls := n\<rparr>) \<longleftrightarrow> trail lib key P A M s0 s"
  by (simp add: trail_def effects_def)

lemma trail_step:
  "trail lib key P A M s0 s \<Longrightarrow> trail lib key P A M s s' \<Longrightarrow> trail lib key P A M s0 s'"
  by (rule transpD [OF trail_trans])

definition holds ::
    "(cluster \<Rightarrow> cluster \<Rightarrow> bool) \<Rightarrow> namespaced_name \<Rightarrow> cluster \<Rightarrow> cmp_transaction option \<Rightarrow> cluster \<Rightarrow> bool"
where
  "holds R key s0 held s \<longleftrightarrow> R s0 s \<and> k_Transactions s key = held"

lemma holds_behaves:
  assumes "behaves R m E V"
    and "\<And>s s'. R s s' \<Longrightarrow> trail lib key P A M s s' \<and> k_Transactions s' = k_Transactions s"
  shows "triple (holds (trail lib key P A M) key s0 held) m
    (\<lambda>e s. E e \<and> holds (trail lib key P A M) key s0 held s)
    (\<lambda>x s. V x \<and> holds (trail lib key P A M) key s0 held s)"
proof (rule tripleI)
  have step: "holds (trail lib key P A M) key s0 held s'"
    if "holds (trail lib key P A M) key s0 held s" "m s = (r, s')" for s r s'
    using that(1) assms(2) [OF behaves_state [OF assms(1) that(2)]] by (auto simp: holds_def intro: trail_step)
  fix s s'
  assume held: "holds (trail lib key P A M) key s0 held s"
  show "E e \<and> holds (trail lib key P A M) key s0 held s'" if "m s = (Inl e, s')" for e
    using step [OF held that] behaves_error [OF assms(1) that] by simp
  show "V x \<and> holds (trail lib key P A M) key s0 held s'" if "m s = (Inr x, s')" for x
    using step [OF held that] behaves_success [OF assms(1) that] by simp
qed

lemma holds_reads:
  assumes "behaves (reads Q) m E V" and "\<And>k. Q k \<Longrightarrow> A (ReadSecret k)"
  shows "triple (holds (trail lib key P A M) key s0 held) m
    (\<lambda>e s. E e \<and> holds (trail lib key P A M) key s0 held s)
    (\<lambda>x s. V x \<and> holds (trail lib key P A M) key s0 held s)"
  by (rule holds_behaves [OF assms(1)], rule conjI, erule trail_reads, rule assms(2)) (simp_all add: reads_def)

lemma holds_sends:
  assumes "behaves (sends lib P') m E V" and "\<And>m. P' m \<Longrightarrow> P held m"
  shows "triple (holds (trail lib key P A M) key s0 held) m
    (\<lambda>e s. E e \<and> holds (trail lib key P A M) key s0 held s)
    (\<lambda>x s. V x \<and> holds (trail lib key P A M) key s0 held s)"
proof (rule tripleI)
  have step: "holds (trail lib key P A M) key s0 held s'"
    if "holds (trail lib key P A M) key s0 held s" "m s = (r, s')" for s r s'
  proof -
    have sent: "sends lib P' s s'"
      using behaves_state [OF assms(1) that(2)] .
    then have "k_Transactions s' = k_Transactions s"
      unfolding sends_def by (elim conjE) (rule more_eq_fields)
    with that(1) trail_sends [OF sent, of P key A M] assms(2) show ?thesis
      by (auto simp: holds_def intro: trail_step)
  qed
  fix s s'
  assume held: "holds (trail lib key P A M) key s0 held s"
  show "E e \<and> holds (trail lib key P A M) key s0 held s'" if "m s = (Inl e, s')" for e
    using step [OF held that] behaves_error [OF assms(1) that] by simp
  show "V x \<and> holds (trail lib key P A M) key s0 held s'" if "m s = (Inr x, s')" for x
    using step [OF held that] behaves_success [OF assms(1) that] by simp
qed

text \<open>\<open>permits M key uid A\<close>: the writes that keep the life of the record are among the calls \<open>A\<close>.\<close>

definition permits :: "int \<Rightarrow> namespaced_name \<Rightarrow> bytes \<Rightarrow> (api_access \<Rightarrow> bool) \<Rightarrow> bool" where
  "permits M key uid A \<longleftrightarrow> (\<forall>a. access_ok M key uid (\<lambda>_. False) a \<longrightarrow> A a)"

lemma permitsD:
  assumes "permits M key uid A"
  shows "new_record key tx \<Longrightarrow> ts_CertificateRequestUID (tx_Spec tx) = uid \<Longrightarrow> A (Created tx)"
    and "tx_key old = key \<Longrightarrow> progress M old new \<Longrightarrow> A (Updated old new)"
    and "tx_key tx = key \<Longrightarrow> A (Deleted tx)"
  using assms by (simp_all add: permits_def access_ok_def)

lemma now_holds:
  "triple (holds (trail lib key P A M) key s0 held) (now kl) E
     (\<lambda>_. holds (trail lib key P A M) key s0 held)"
  by (rule triple_conseq [OF holds_reads [where Q = "\<lambda>_. False", OF now_reads]]) auto

lemma holds_write:
  assumes "trail lib key P A M s0 s" and "A a" and "record_step M key (k_Transactions s key) stored"
    and "apply_access (k_Transactions s key) a = stored"
  shows "holds (trail lib key P A M) key s0 stored (write_transaction a key stored s)"
proof -
  have "trail lib key P A M s (write_transaction a key stored s)"
    using assms(2,3,4) by (rule trail_write)
  from trail_step [OF assms(1) this] show ?thesis
    by (simp add: holds_def write_transaction_def record_access_def)
qed

lemma update_status_holds:
  assumes A: "permits M key uid A" and key: "tx_key tx = key"
    and progress: "progress M tx (tx\<lparr>tx_Status := wire_status st\<rparr>)"
  shows "triple (holds (trail lib key P A M) key s0 (Some tx)) (update_status kl (tx\<lparr>tx_Status := st\<rparr>))
    (\<lambda>e s. is_ApiError e \<and> trail lib key P A M s0 s)
    (\<lambda>tx' s. holds (trail lib key P A M) key s0 (Some tx') s \<and> same_record tx tx'
       \<and> tx_Status tx' = wire_status st)"
  unfolding update_status_def
proof (rule api_call_triple)
  fix n
  let ?stored = "tx\<lparr>tx_Status := wire_status st, tx_ResourceVersion := Suc n\<rparr>"
  have stored: "progress M tx ?stored"
    using progress by (simp add: progress_def same_record_def)
  have step: "holds (trail lib key P A M) key s0 (Some ?stored)
      (write_transaction (Updated tx ?stored) key (Some ?stored) s)"
    if "holds (trail lib key P A M) key s0 (Some tx) s" for s
    using that stored permitsD(2) [OF A key stored] by (intro holds_write) (auto simp: holds_def)
  show "triple (holds (trail lib key P A M) key s0 (Some tx))
      (\<lambda>s. case k_Transactions s (tx_key (tx\<lparr>tx_Status := st\<rparr>)) of
         None \<Rightarrow> (Inl (ApiError NotFound), s)
       | Some current \<Rightarrow>
           if tx_ResourceVersion current \<noteq> tx_ResourceVersion (tx\<lparr>tx_Status := st\<rparr>)
              \<or> tx_UID current \<noteq> tx_UID (tx\<lparr>tx_Status := st\<rparr>)
           then (Inl (ApiError Conflict), s)
           else let stored = current\<lparr>tx_Status := wire_status (tx_Status (tx\<lparr>tx_Status := st\<rparr>)),
                      tx_ResourceVersion := Suc n\<rparr>
                in (Inr stored, write_transaction (Updated current stored) (tx_key (tx\<lparr>tx_Status := st\<rparr>))
                      (Some stored) s))
      (\<lambda>e s. is_ApiError e \<and> trail lib key P A M s0 s)
      (\<lambda>tx' s. holds (trail lib key P A M) key s0 (Some tx') s \<and> same_record tx tx'
         \<and> tx_Status tx' = wire_status st)"
    by (rule tripleI)
      (use key in \<open>auto simp: holds_def [of _ _ _ "Some tx"] Let_def same_record_def intro: step [unfolded key [symmetric] holds_def [of _ _ _ "Some tx"]]\<close>)
qed (auto simp: holds_def)

definition polls_ok :: "int \<Rightarrow> cmp_transaction \<Rightarrow> cmp_transaction_status \<Rightarrow> bool" where
  "polls_ok M tx st \<longleftrightarrow>
     st_Polls st = st_Polls (tx_Status tx)
     \<or> st_Polls st = st_Polls (tx_Status tx) + 1 \<and> st_Polls st \<le> M"

lemma polls_ok_same [simp]: "polls_ok M tx (tx_Status tx)"
  by (simp add: polls_ok_def)

lemma retain_signer_simps [simp]:
  "st_Phase (retain_signer pending st) = st_Phase st"
  "st_Polls (retain_signer pending st) = st_Polls st"
  "st_IssuedChain (retain_signer pending st) = st_IssuedChain st"
  "st_RequestNonce (retain_signer pending st) = st_RequestNonce st"
  "st_CertReqID (retain_signer pending st) = st_CertReqID st"
  "st_RecipNonce (retain_signer pending st) = st_RecipNonce st"
  by (simp_all add: retain_signer_def split: option.split)

lemma wire_status_simps [simp]:
  "st_Phase (wire_status st) = st_Phase st" "st_Polls (wire_status st) = st_Polls st"
  "st_IssuedChain (wire_status st) = st_IssuedChain st" "st_RequestNonce (wire_status st) = st_RequestNonce st"
  "st_CertReqID (wire_status st) = st_CertReqID st" "st_RecipNonce (wire_status st) = st_RecipNonce st"
  by (simp_all add: wire_status_def)

lemma progress_status:
  "tx_rank tx \<le> phase_rank (st_Phase st) \<Longrightarrow> polls_ok M tx st \<Longrightarrow>
   progress M tx (tx\<lparr>tx_Status := wire_status st\<rparr>)"
  by (auto simp: progress_def same_record_def polls_ok_def)

lemma phase_rank_simps [simp]:
  "phase_rank TransactionPhaseEnrolling = 0" "phase_rank TransactionPhasePolling = 1"
  "phase_rank TransactionPhaseConfirming = 2" "phase_rank TransactionPhaseIssued = 3"
  "phase_rank [] = 0"
  by (simp_all add: phase_rank_def phase_defs)

lemma phase_rank_le_3: "phase_rank phase \<le> 3"
  by (simp add: phase_rank_def)

lemma status_updates:
  "tx\<lparr>tx_Status := st\<rparr>\<lparr>tx_Status := st'\<rparr> = tx\<lparr>tx_Status := st'\<rparr>"
  "tx_Status (tx\<lparr>tx_Status := st\<rparr>) = st"
  by simp_all

lemma record_holds:
  assumes "permits M key uid A" and "tx_key tx = key"
    and "\<And>time. tx_rank tx \<le> phase_rank (st_Phase (f time)) \<and> polls_ok M tx (f time)"
    and "\<And>time. V (wire_status (f time))"
  shows "triple (holds (trail lib key P A M) key s0 (Some tx))
    (sbind (now kl) (\<lambda>time. wrapping text (update_status kl (tx\<lparr>tx_Status := f time\<rparr>))))
    (\<lambda>e s. is_WrapError e \<and> trail lib key P A M s0 s)
    (\<lambda>tx' s. holds (trail lib key P A M) key s0 (Some tx') s \<and> same_record tx tx' \<and> V (tx_Status tx'))"
proof (rule triple_sbind [OF now_holds], rule triple_conseq [OF wrapping_triple [OF update_status_holds [OF assms(1,2)]]])
  show "progress M tx (tx\<lparr>tx_Status := wire_status (f time)\<rparr>)" for time
    using assms(3) [of time] by (intro progress_status) auto
qed (use assms(4) in auto)

lemma recordPending_holds:
  assumes "permits M key uid A" and "tx_key tx = key" and "tx_rank tx \<le> 1" and "polls_ok M tx st"
  shows "triple (holds (trail lib key P A M) key s0 (Some tx)) (recordPending kl (tx\<lparr>tx_Status := st\<rparr>) pending)
    (\<lambda>e s. is_WrapError e \<and> trail lib key P A M s0 s)
    (\<lambda>tx' s. holds (trail lib key P A M) key s0 (Some tx') s \<and> same_record tx tx'
       \<and> st_Phase (tx_Status tx') = TransactionPhasePolling)"
  unfolding recordPending_def status_updates
  by (rule triple_conseq [OF record_holds [where V = "\<lambda>st. st_Phase st = TransactionPhasePolling", OF assms(1,2)]])
    (use assms(3,4) in \<open>auto simp: polls_ok_def\<close>)

lemma recordConfirming_holds:
  assumes "permits M key uid A" and "tx_key tx = key" and "tx_rank tx \<le> 2" and "polls_ok M tx st"
  shows "triple (holds (trail lib key P A M) key s0 (Some tx))
    (recordConfirming kl (tx\<lparr>tx_Status := st\<rparr>) chain pending)
    (\<lambda>e s. is_WrapError e \<and> trail lib key P A M s0 s)
    (\<lambda>tx' s. holds (trail lib key P A M) key s0 (Some tx') s \<and> same_record tx tx'
       \<and> st_Phase (tx_Status tx') = TransactionPhaseConfirming
       \<and> st_IssuedChain (tx_Status tx') = encodeChain chain \<and> st_Polls (tx_Status tx') = st_Polls st
       \<and> st_RequestNonce (tx_Status tx') = pending_RequestNonce pending)"
  unfolding recordConfirming_def status_updates
  by (rule triple_conseq [OF record_holds [where V = "\<lambda>st'. st_Phase st' = TransactionPhaseConfirming
        \<and> st_IssuedChain st' = encodeChain chain \<and> st_Polls st' = st_Polls st
        \<and> st_RequestNonce st' = pending_RequestNonce pending", OF assms(1,2)]])
    (use assms(3,4) in \<open>auto simp: polls_ok_def\<close>)

lemma recordIssued_holds:
  assumes "permits M key uid A" and "tx_key tx = key"
  shows "triple (holds (trail lib key P A M) key s0 (Some tx)) (recordIssued kl tx chain)
    (\<lambda>e s. is_WrapError e \<and> trail lib key P A M s0 s)
    (\<lambda>tx' s. holds (trail lib key P A M) key s0 (Some tx') s \<and> same_record tx tx'
       \<and> st_Phase (tx_Status tx') = TransactionPhaseIssued
       \<and> st_IssuedChain (tx_Status tx') = encodeChain chain)"
  unfolding recordIssued_def
  by (rule triple_conseq [OF record_holds [where V = "\<lambda>st'. st_Phase st' = TransactionPhaseIssued
        \<and> st_IssuedChain st' = encodeChain chain", OF assms]])
    (auto simp: polls_ok_def phase_rank_le_3)

lemma api_reason_simps [simp]:
  "is_not_found (ApiError reason) \<longleftrightarrow> reason = NotFound"
  "is_conflict (ApiError reason) \<longleftrightarrow> reason = Conflict"
  by (simp_all add: is_not_found_def is_conflict_def)

lemma delete_transaction_holds:
  assumes A: "permits M key uid A" and key: "tx_key tx = key" and uid: "uid' = None \<or> uid' = Some (tx_UID tx)"
  shows "triple (holds (trail lib key P A M) key s0 (Some tx)) (delete_transaction kl key uid')
    (\<lambda>e s. (\<exists>r. e = ApiError (OtherReason r)) \<and> trail lib key P A M s0 s)
    (\<lambda>_. holds (trail lib key P A M) key s0 None)"
  unfolding delete_transaction_def
proof (rule api_call_triple)
  fix n
  have step: "holds (trail lib key P A M) key s0 None (write_transaction (Deleted tx) key None s)"
    if "holds (trail lib key P A M) key s0 (Some tx) s" for s
    using that permitsD(3) [OF A key] by (intro holds_write) (auto simp: holds_def)
  show "triple (holds (trail lib key P A M) key s0 (Some tx))
      (\<lambda>s. case k_Transactions s key of
         None \<Rightarrow> (Inl (ApiError NotFound), s)
       | Some current \<Rightarrow>
           if uid' \<noteq> None \<and> uid' \<noteq> Some (tx_UID current) then (Inl (ApiError Conflict), s)
           else (Inr (), write_transaction (Deleted current) key None s))
      (\<lambda>e s. (\<exists>r. e = ApiError (OtherReason r)) \<and> trail lib key P A M s0 s)
      (\<lambda>_. holds (trail lib key P A M) key s0 None)"
    by (rule tripleI)
      (use uid step in \<open>auto simp: holds_def [of _ _ _ "Some tx"]\<close>)
qed (auto simp: holds_def)

lemma deletePreconditions_match: "deletePreconditions tx = None \<or> deletePreconditions tx = Some (tx_UID tx)"
  by (simp add: deletePreconditions_def)

lemma store_remove_holds:
  assumes "permits M key uid A" and "tx_key tx = key"
  shows "triple (holds (trail lib key P A M) key s0 (Some tx)) (store_remove kl tx)
    (\<lambda>e s. is_WrapError e \<and> trail lib key P A M s0 s)
    (\<lambda>_. holds (trail lib key P A M) key s0 None)"
  unfolding store_remove_def assms(2)
  by (rule triple_sbind [OF triple_stry [OF delete_transaction_holds [OF assms deletePreconditions_match]]],
      rule triple_slift) (auto split: sum.split_asm)

lemma get_transaction_holds:
  "triple (holds R key s0 held) (get_transaction kl key)
     (\<lambda>e s. is_ApiError e \<and> (is_not_found e \<longrightarrow> held = None) \<and> holds R key s0 held s)
     (\<lambda>tx s. held = Some tx \<and> holds R key s0 held s)"
  if "\<And>s n. R s0 (s\<lparr>k_Calls := n\<rparr>) = R s0 s"
  unfolding get_transaction_def
  by (rule api_call_triple, simp add: holds_def that, rule tripleI)
    (auto simp: holds_def found_def split: option.split_asm)

lemma remove_stale_holds:
  assumes "permits M key uid' A" and "tx_key tx = key"
  shows "triple (holds (trail lib key P A M) key s0 (Some tx))
    (sbind (stry (delete_transaction kl key (deletePreconditions tx))) (\<lambda>deleted.
      slift (case deleted of
               Inl e \<Rightarrow> if is_not_found e then Inr None
                       else Inl (WrapError ''remove stale CMP transaction state: %w'' e)
             | Inr _ \<Rightarrow> Inr None)))
    (\<lambda>e s. is_WrapError e \<and> trail lib key P A M s0 s)
    (\<lambda>x s. x = None \<and> holds (trail lib key P A M) key s0 None s)"
  by (rule triple_sbind [OF triple_stry [OF delete_transaction_holds [OF assms deletePreconditions_match]]],
      rule triple_slift) (auto split: sum.split_asm)

text \<open>The record of a request with a given UID: one left by an earlier request of the same name is not seen.\<close>

definition record_for :: "bytes \<Rightarrow> cmp_transaction option \<Rightarrow> cmp_transaction option" where
  "record_for uid held =
     (case held of
        None \<Rightarrow> None
      | Some tx \<Rightarrow> if ts_CertificateRequestUID (tx_Spec tx) = uid then Some tx else None)"

lemma record_for_Some [simp]:
  "record_for uid held = Some tx \<longleftrightarrow> held = Some tx \<and> ts_CertificateRequestUID (tx_Spec tx) = uid"
  "Some tx = record_for uid held \<longleftrightarrow> held = Some tx \<and> ts_CertificateRequestUID (tx_Spec tx) = uid"
  by (auto simp: record_for_def split: option.split)

lemma store_load_holds:
  assumes A: "permits M key uid' A" and key: "key = (namespace, name)"
    and keyed: "\<And>tx. held = Some tx \<Longrightarrow> tx_key tx = key"
  shows "triple (holds (trail lib key P A M) key s0 held) (store_load kl namespace name uid)
    (\<lambda>e s. is_WrapError e \<and> trail lib key P A M s0 s)
    (\<lambda>x s. x = record_for uid held \<and> holds (trail lib key P A M) key s0 x s)"
  unfolding store_load_def key [symmetric]
  apply (rule triple_sbind [OF triple_stry [OF get_transaction_holds]])
   apply simp
  subgoal for answer
  proof (cases answer)
    case (Inl e)
    show ?thesis
      unfolding Inl sum.case by (intro triple_slift) (auto simp: holds_def record_for_def split: if_split_asm)
  next
    case (Inr tx)
    show ?thesis
      unfolding Inr sum.case
    proof (intro triple_pure triple_if)
      assume stored: "held = Some tx"
      note stale = triple_conseq [OF remove_stale_holds [OF A keyed [OF stored]]]
      show "triple (holds (trail lib key P A M) key s0 held)
          (sbind (stry (delete_transaction kl (tx_key tx) (deletePreconditions tx))) (\<lambda>deleted.
            slift (case deleted of
                     Inl e \<Rightarrow> if is_not_found e then Inr None
                             else Inl (WrapError ''remove stale CMP transaction state: %w'' e)
                   | Inr _ \<Rightarrow> Inr None)))
          (\<lambda>e s. is_WrapError e \<and> trail lib key P A M s0 s)
          (\<lambda>x s. x = record_for uid held \<and> holds (trail lib key P A M) key s0 x s)"
        if "ts_CertificateRequestUID (tx_Spec tx) \<noteq> uid"
        unfolding stored keyed [OF stored] by (rule stale) (use that in \<open>auto simp: record_for_def\<close>)
    qed (rule triple_slift, auto simp: record_for_def)
  qed
  done

lemma create_transaction_holds:
  assumes A: "permits M key uid A" and key: "tx_key tx = key" and uid: "ts_CertificateRequestUID (tx_Spec tx) = uid"
    and size: "length (ts_TransactionID (tx_Spec tx)) = transactionIDLength"
  shows "triple (holds (trail lib key P A M) key s0 None) (create_transaction kl tx)
    (\<lambda>e s. is_ApiError e \<and> trail lib key P A M s0 s)
    (\<lambda>tx' s. holds (trail lib key P A M) key s0 (Some tx') s \<and> tx_key tx' = key
       \<and> tx_Spec tx' = wire_spec (tx_Spec tx) \<and> tx_Status tx' = empty_status)"
  unfolding create_transaction_def key
proof (rule api_call_triple)
  fix n
  let ?stored = "\<lambda>s. tx\<lparr>tx_UID := kube_UID kl n, tx_ResourceVersion := Suc n,
    tx_CreationTimestamp := wire_time (cmp_Clock (kube_cmp kl) (net_Ticks s)),
    tx_Spec := wire_spec (tx_Spec tx), tx_Status := empty_status\<rparr>"
  have step: "holds (trail lib key P A M) key s0 (Some (?stored s))
      (write_transaction (Created (?stored s)) key (Some (?stored s)) s)"
    if "holds (trail lib key P A M) key s0 None s" for s
    using that key uid size by (intro holds_write permitsD(1) [OF A]) (auto simp: holds_def wire_spec_def new_record_def)
  show "triple (holds (trail lib key P A M) key s0 None)
      (\<lambda>s. if k_Transactions s key \<noteq> None then (Inl (ApiError (OtherReason ''AlreadyExists'')), s)
        else let stored = ?stored s
             in (Inr stored, write_transaction (Created stored) key (Some stored) s))
      (\<lambda>e s. is_ApiError e \<and> trail lib key P A M s0 s)
      (\<lambda>tx' s. holds (trail lib key P A M) key s0 (Some tx') s \<and> tx_key tx' = key
         \<and> tx_Spec tx' = wire_spec (tx_Spec tx) \<and> tx_Status tx' = empty_status)"
    by (rule tripleI) (use key step in \<open>auto simp: holds_def [of _ _ _ None] Let_def\<close>)
qed (auto simp: holds_def)

lemma random_bytes_reads:
  "behaves (reads Q) (random_bytes kl n) (\<lambda>_. True) (\<lambda>tid. length tid = n)"
  by (rule behavesI) (auto simp: random_bytes_def reads_def result_simps)

text \<open>The spec a new record carries.\<close>

definition created_spec ::
    "bytes \<Rightarrow> bytes \<Rightarrow> bytes \<Rightarrow> time \<Rightarrow> transaction_detail \<Rightarrow> cmp_transaction \<Rightarrow> bool"
where
  "created_spec namespace name uid deadline detail tx \<longleftrightarrow>
     (\<exists>tid. length tid = transactionIDLength
        \<and> tx_Spec tx = wire_spec (tx_Spec (new_transaction namespace name uid deadline detail tid)))"

lemma new_transaction_key [simp]:
  "tx_key (new_transaction namespace name uid deadline detail tid) = (namespace, name)"
  "ts_CertificateRequestUID (tx_Spec (new_transaction namespace name uid deadline detail tid)) = uid"
  by (simp_all add: new_transaction_def)

lemma store_create_holds:
  assumes A: "permits M key uid A" and key: "key = (namespace, name)"
  shows "triple (holds (trail lib key P A M) key s0 None) (store_create kl namespace name uid deadline detail)
    (\<lambda>e s. is_WrapError e \<and> trail lib key P A M s0 s)
    (\<lambda>tx s. holds (trail lib key P A M) key s0 (Some tx) s \<and> tx_key tx = key
       \<and> created_spec namespace name uid deadline detail tx
       \<and> st_Phase (tx_Status tx) = TransactionPhaseEnrolling \<and> st_Polls (tx_Status tx) = 0)"
  unfolding store_create_def
proof (rule triple_sbind [OF wrapping_triple [OF holds_reads [OF random_bytes_reads [of "\<lambda>_. False"]]]])
  fix tid
  let ?new = "new_transaction namespace name uid deadline detail tid"
  show "triple (\<lambda>s. length tid = transactionIDLength \<and> holds (trail lib key P A M) key s0 None s)
      (sbind (wrapping ''record CMP transaction state: %w'' (create_transaction kl ?new)) (\<lambda>transaction.
        sbind (now kl) (\<lambda>time. wrapping ''record CMP transaction phase: %w''
          (update_status kl (transaction\<lparr>tx_Status := (tx_Status transaction)\<lparr>
             st_Phase := TransactionPhaseEnrolling, st_LastTransitionTime := time\<rparr>\<rparr>)))))
      (\<lambda>e s. is_WrapError e \<and> trail lib key P A M s0 s)
      (\<lambda>tx s. holds (trail lib key P A M) key s0 (Some tx) s \<and> tx_key tx = key
         \<and> created_spec namespace name uid deadline detail tx
         \<and> st_Phase (tx_Status tx) = TransactionPhaseEnrolling \<and> st_Polls (tx_Status tx) = 0)"
  proof (rule triple_pure, rule triple_sbind [OF wrapping_triple [OF create_transaction_holds [OF A]]])
    fix tx
    assume tid: "length tid = transactionIDLength"
    show "triple (\<lambda>s. holds (trail lib key P A M) key s0 (Some tx) s \<and> tx_key tx = key
          \<and> tx_Spec tx = wire_spec (tx_Spec ?new) \<and> tx_Status tx = empty_status)
        (sbind (now kl) (\<lambda>time. wrapping ''record CMP transaction phase: %w''
          (update_status kl (tx\<lparr>tx_Status := (tx_Status tx)\<lparr>
             st_Phase := TransactionPhaseEnrolling, st_LastTransitionTime := time\<rparr>\<rparr>))))
        (\<lambda>e s. is_WrapError e \<and> trail lib key P A M s0 s)
        (\<lambda>tx s. holds (trail lib key P A M) key s0 (Some tx) s \<and> tx_key tx = key
           \<and> created_spec namespace name uid deadline detail tx
           \<and> st_Phase (tx_Status tx) = TransactionPhaseEnrolling \<and> st_Polls (tx_Status tx) = 0)"
    proof (cases "tx_key tx = key \<and> tx_Spec tx = wire_spec (tx_Spec ?new) \<and> tx_Status tx = empty_status")
      case True
      then have rank: "tx_rank tx = 0" and polls: "st_Polls (tx_Status tx) = 0"
        by (simp_all add: empty_status_def)
      show ?thesis
        by (rule triple_conseq [OF record_holds [where tx = tx and V = "\<lambda>st. st_Phase st = TransactionPhaseEnrolling \<and> st_Polls st = 0", OF A]])
          (use True rank polls tid in \<open>auto simp: polls_ok_def same_record_def created_spec_def\<close>)
    qed (auto simp: triple_def)
  qed (auto simp: key new_transaction_def)
qed (auto simp: holds_def)

subsection \<open>Sound records\<close>

text \<open>What the store relies on of a record it reads, and what every step of a life keeps.\<close>

definition sound_record :: "namespaced_name \<Rightarrow> cmp_transaction \<Rightarrow> bool" where
  "sound_record key tx \<longleftrightarrow>
     tx_key tx = key \<and> is_int32 (st_Polls (tx_Status tx)) \<and> ts_TransactionID (tx_Spec tx) \<noteq> []"

lemma record_step_sound:
  "record_step M key held held' \<Longrightarrow> is_int32 M \<Longrightarrow> pred_option (sound_record key) held \<Longrightarrow>
   pred_option (sound_record key) held'"
  by (cases rule: record_step.cases)
    (auto simp: sound_record_def new_record_def progress_def same_record_def empty_status_def transactionIDLength_def
      is_int32_def)

lemma record_steps_sound:
  assumes "(record_step M key)\<^sup>*\<^sup>* held held'" and "is_int32 M" and "pred_option (sound_record key) held"
  shows "pred_option (sound_record key) held'"
  using assms(1) by (induction rule: rtranclp_induct) (auto intro: record_step_sound assms(2,3))

end
