(* ===== verification/Configuration.thy ===== *)
theory Configuration
  imports Transaction_Store "HOL-Library.Product_Lexorder"
begin

text \<open>
  The issuer configuration, \<^verbatim>\<open>src/internal/controller/configuration.go\<close>: validation of the
  spec, loading of the referenced Secrets through a getter that reads each Secret once, the
  runtime configuration and its digest. The operation selectors of
  \<^verbatim>\<open>src/internal/controller/kur.go\<close> that the validation uses are here too.
\<close>

subsection \<open>Operations an issuer selects\<close>

definition schemeHTTP :: bytes where "schemeHTTP = ''http''"
definition schemeHTTPS :: bytes where "schemeHTTPS = ''https''"

definition cmpIssuerSpec :: "issuer \<Rightarrow> go_error + cmp_issuer_spec" where
  "cmpIssuerSpec issuer =
     (case iss_Type issuer of
        CMPIssuer \<Rightarrow> Inr (iss_Spec issuer)
      | CMPClusterIssuer \<Rightarrow> Inr (iss_Spec issuer)
      | OtherIssuer \<Rightarrow> Inl (TextError ''unsupported issuer type %T''))"

definition initialOperation :: "protocol_spec \<Rightarrow> bytes" where
  "initialOperation spec =
     (if ps_InitialEnrollment spec = ''IR'' then TransactionOperationIR else TransactionOperationP10CR)"

definition renewalOperation :: "protocol_spec \<Rightarrow> bytes" where
  "renewalOperation spec =
     (if ps_Renewal spec = ''KUR'' then TransactionOperationKUR
      else if ps_Renewal spec = ''P10CR'' then TransactionOperationP10CR
      else if ps_InitialEnrollment spec = ''IR'' then TransactionOperationKUR
      else TransactionOperationP10CR)"

definition issuerReference :: "issuer \<Rightarrow> issuer_reference" where
  "issuerReference issuer =
     \<lparr>ir_Name = iss_Name issuer,
      ir_Kind = (if iss_Type issuer = CMPClusterIssuer then TransactionIssuerKindCluster
                 else TransactionIssuerKindNamespaced),
      ir_UID = iss_UID issuer, ir_Generation = iss_Generation issuer\<rparr>"

subsection \<open>Validation of the spec\<close>

definition validateEndpointURL :: "cmp_lib \<Rightarrow> bytes \<Rightarrow> go_error + parsed_url" where
  "validateEndpointURL lib val =
     (case cmp_url_Parse lib val of
        Inl _ \<Rightarrow> Inl (TextError ''endpoint URL must be a complete HTTP or HTTPS URL'')
      | Inr endpoint \<Rightarrow>
          if url_Host endpoint = [] \<or> (url_Scheme endpoint \<noteq> schemeHTTP \<and> url_Scheme endpoint \<noteq> schemeHTTPS)
          then Inl (TextError ''endpoint URL must be a complete HTTP or HTTPS URL'')
          else if url_User endpoint \<or> url_Fragment endpoint \<noteq> []
          then Inl (TextError ''endpoint URL user information and fragments are not supported'')
          else Inr endpoint)"

definition validateEndpoint :: "cmp_lib \<Rightarrow> endpoint_spec \<Rightarrow> go_error + parsed_url" where
  "validateEndpoint lib spec =
     rbind (validateEndpointURL lib (ep_URL spec)) (\<lambda>endpoint.
     rbind (ensure (\<not> (ep_Timeout spec \<le> 0 \<or> ep_MaxResponseSize spec < 1024 \<or> ep_MaxResponseSize spec > 10485760))
       (TextError ''endpoint timeout or response size is outside supported bounds'')) (\<lambda>_.
     Inr endpoint))"

definition validateRequestedValidity :: "protocol_spec \<Rightarrow> go_error + unit" where
  "validateRequestedValidity spec =
     (if ps_RequestedValidity spec = [] \<or> ps_RequestedValidity spec = RequestedValidityOmit then Inr ()
      else if ps_RequestedValidity spec = RequestedValidityDuration
      then ensure (ps_InitialEnrollment spec = ''IR'' \<or> renewalOperation spec = TransactionOperationKUR)
             (TextError ''requestedValidity Duration needs IR initial enrollment or KUR renewal, because P10CR cannot carry it'')
      else Inl (TextError ''requestedValidity must be Omit or Duration''))"

definition validateRenewalFallback :: "protocol_spec \<Rightarrow> go_error + unit" where
  "validateRenewalFallback spec =
     (if ps_RenewalFallback spec = [] \<or> ps_RenewalFallback spec = RenewalFallbackNone then Inr ()
      else if ps_RenewalFallback spec = RenewalFallbackInitialEnrollment
      then ensure (renewalOperation spec = TransactionOperationKUR)
             (TextError ''renewalFallback InitialEnrollment needs KUR renewal, because only KUR depends on the current certificate'')
      else Inl (TextError ''renewalFallback must be None or InitialEnrollment''))"

definition signatureDigest :: "bytes \<Rightarrow> go_error + hash" where
  "signatureDigest val =
     (if val = [] then Inr HashNone
      else if val = ''SHA256'' then Inr SHA256
      else if val = ''SHA384'' then Inr SHA384
      else if val = ''SHA512'' then Inr SHA512
      else Inl (TextError ''signatureDigest must be SHA256, SHA384 or SHA512''))"

definition validateSpecDigest :: "protocol_spec \<Rightarrow> go_error + unit" where
  "validateSpecDigest spec = rbind (signatureDigest (ps_SignatureDigest spec)) (\<lambda>_. Inr ())"

definition validate_rfc9483 :: "protocol_spec \<Rightarrow> go_error + unit" where
  "validate_rfc9483 spec =
     (if ps_ValidationProfile spec = ValidationProfileRFC9483
      then
        rbind (ensure (\<not> (ps_P10CRResponseCertReqID spec \<noteq> None
              \<and> ps_P10CRResponseCertReqID spec \<noteq> Some P10CRResponseCertReqIDStandard))
          (TextError ''RFC9483 validation requires p10cr response certReqId -1'')) (\<lambda>_.
        rbind (ensure (\<not> (ps_MACResponseProtection spec \<noteq> []
              \<and> ps_MACResponseProtection spec \<noteq> MACResponseProtectionStrict))
          (TextError ''RFC9483 validation requires Strict macResponseProtection'')) (\<lambda>_.
        ensure (ps_KURResponseCAPubs spec \<noteq> KURResponseCAPubsAccept)
          (TextError ''RFC9483 validation requires KUP caPubs to be absent'')))
      else Inr ())"

definition validateProtocol :: "protocol_spec \<Rightarrow> go_error + unit" where
  "validateProtocol spec =
     rbind (ensure (ps_Version spec = 2) (TextError ''only CMPv2 is implemented'')) (\<lambda>_.
     rbind (ensure (ps_InitialEnrollment spec = ''P10CR'' \<or> ps_InitialEnrollment spec = ''IR'')
       (TextError ''initialEnrollment must be P10CR or IR'')) (\<lambda>_.
     rbind (ensure (ps_CertProfile spec = [])
       (TextError ''certProfile is reserved until its CMP encoding is implemented'')) (\<lambda>_.
     rbind (ensure (ps_Renewal spec = [] \<or> ps_Renewal spec = ''P10CR'' \<or> ps_Renewal spec = ''KUR'')
       (TextError ''renewal must be P10CR or KUR'')) (\<lambda>_.
     rbind (validateRequestedValidity spec) (\<lambda>_.
     rbind (validateRenewalFallback spec) (\<lambda>_.
     rbind (validateSpecDigest spec) (\<lambda>_.
     rbind (ensure (ps_ValidationProfile spec = []
           \<or> ps_ValidationProfile spec = ValidationProfileInteroperable
           \<or> ps_ValidationProfile spec = ValidationProfileRFC9483)
       (TextError ''validationProfile must be Interoperable or RFC9483'')) (\<lambda>_.
     rbind (ensure (ps_KURResponseCAPubs spec = []
           \<or> ps_KURResponseCAPubs spec = KURResponseCAPubsAccept
           \<or> ps_KURResponseCAPubs spec = KURResponseCAPubsRequireAbsent)
       (TextError ''kurResponseCaPubs must be Accept or RequireAbsent'')) (\<lambda>_.
     rbind (ensure (ps_Recipient spec \<noteq> []
           \<and> (ps_Confirmation spec = ''Explicit'' \<or> ps_Confirmation spec = ''Implicit''))
       (TextError ''recipient and a supported confirmation policy are required'')) (\<lambda>_.
     rbind (ensure (ps_P10CRResponseCertReqID spec \<in>
           {None, Some P10CRResponseCertReqIDStandard, Some P10CRResponseCertReqIDLegacyZero})
       (TextError ''p10cr response certReqId must be -1 or 0'')) (\<lambda>_.
     rbind (ensure (ps_MACResponseProtection spec = []
           \<or> ps_MACResponseProtection spec = MACResponseProtectionStrict
           \<or> ps_MACResponseProtection spec = MACResponseProtectionAllowSignature)
       (TextError ''macResponseProtection must be Strict or AllowSignature'')) (\<lambda>_.
     validate_rfc9483 spec))))))))))))"

definition owf_hash :: "bytes \<Rightarrow> hash" where
  "owf_hash val =
     (if val = ''SHA256'' then SHA256 else if val = ''SHA384'' then SHA384
      else if val = ''SHA512'' then SHA512 else HashNone)"

definition mac_hash :: "bytes \<Rightarrow> hash" where
  "mac_hash val =
     (if val = ''HMACSHA256'' then SHA256 else if val = ''HMACSHA384'' then SHA384
      else if val = ''HMACSHA512'' then SHA512 else HashNone)"

definition passwordBasedMacAlgorithms :: "pbm_algorithm_spec \<Rightarrow> go_error + hash \<times> hash" where
  "passwordBasedMacAlgorithms spec =
     (let owf = owf_hash (pa_OWF spec); mac = mac_hash (pa_MAC spec) in
      if owf = HashNone \<or> mac = HashNone \<or> hash_Size mac > hash_Size owf
      then Inl (TextError ''unsupported passwordBasedMac algorithm combination'')
      else Inr (owf, mac))"

definition validate_pbm :: "pbm_spec \<Rightarrow> go_error + unit" where
  "validate_pbm password =
     rbind (ensure (\<not> (pb_ReferenceKey password = [] \<or> pb_SecretKey password = []
           \<or> pb_ReferenceKey password = pb_SecretKey password))
       (TextError ''passwordBasedMac reference and secret must use separate Secret keys'')) (\<lambda>_.
     rbind (passwordBasedMacAlgorithms (pb_Algorithm password)) (\<lambda>_.
     ensure (\<not> (pa_IterationCount (pb_Algorithm password) < PasswordBasedMacIterationCountMinimum
           \<or> pa_IterationCount (pb_Algorithm password) > PasswordBasedMacIterationCountMaximum))
       (TextError ''unsupported passwordBasedMac algorithm parameters'')))"

definition validateProtection :: "protection_spec \<Rightarrow> go_error + unit" where
  "validateProtection spec =
     (if pr_Type spec = ProtectionTypePasswordBasedMac
      then (case (pr_PasswordBasedMac spec, pr_Signature spec) of
              (Some password, None) \<Rightarrow> validate_pbm password
            | _ \<Rightarrow> Inl (TextError ''passwordBasedMac requires only passwordBasedMac configuration''))
      else if pr_Type spec = ProtectionTypeSignature
      then (case (pr_Signature spec, pr_PasswordBasedMac spec) of
              (Some signature, None) \<Rightarrow>
                ensure (\<not> (sg_CertificateKey signature = [] \<or> sg_PrivateKeyKey signature = []
                      \<or> sg_CertificateKey signature = sg_PrivateKeyKey signature))
                  (TextError ''signature certificate and private key must use separate Secret keys'')
            | _ \<Rightarrow> Inl (TextError ''signature requires only signature configuration''))
      else Inl (TextError ''unsupported protection type''))"

definition validateTransport :: "transport_spec \<Rightarrow> bool \<Rightarrow> go_error + unit" where
  "validateTransport spec usesHTTPS =
     (case trn_TLS spec of
        None \<Rightarrow> Inr ()
      | Some tls \<Rightarrow>
          rbind (ensure (tls_ClientCertificateSecretRef tls = None)
            (TextError ''mTLS client certificates are reserved for a later release'')) (\<lambda>_.
          ensure (\<not> (\<not> usesHTTPS \<and> tls_CASecretRef tls \<noteq> None))
            (TextError ''TLS CA trust cannot be configured without an HTTPS endpoint'')))"

definition validateTransactionAndPolicy :: "transaction_limits \<Rightarrow> policy_spec \<Rightarrow> go_error + unit" where
  "validateTransactionAndPolicy transaction policy =
     (let transactionOmitted = (tl_MaximumDuration transaction = 0 \<and> tl_MinimumPollInterval transaction = 0
            \<and> tl_MaximumPollInterval transaction = 0 \<and> tl_MaximumPolls transaction = 0)
      in
      rbind (ensure (\<not> (\<not> transactionOmitted \<and> (tl_MaximumDuration transaction \<le> 0
            \<or> tl_MinimumPollInterval transaction \<le> 0
            \<or> tl_MaximumPollInterval transaction < tl_MinimumPollInterval transaction
            \<or> tl_MaximumPolls transaction < 1)))
        (TextError ''transaction limits are invalid'')) (\<lambda>_.
      ensure (pol_GrantedModifications policy = []
          \<or> pol_GrantedModifications policy = GrantedModificationsReject
          \<or> pol_GrantedModifications policy = GrantedModificationsAccept)
        (TextError ''granted modifications policy is invalid'')))"

definition renewal_scheme :: "cmp_lib \<Rightarrow> bytes \<Rightarrow> go_error + bytes" where
  "renewal_scheme lib renewalURL =
     (if renewalURL = [] then Inr []
      else rbind (validateEndpointURL lib renewalURL) (\<lambda>endpoint. Inr (url_Scheme endpoint)))"

definition validateSpec :: "cmp_lib \<Rightarrow> cmp_issuer_spec \<Rightarrow> go_error + parsed_url" where
  "validateSpec lib spec =
     rbind (validateEndpoint lib (is_Endpoint spec)) (\<lambda>endpoint.
     rbind (validateProtocol (is_Protocol spec)) (\<lambda>_.
     rbind (validateProtection (is_Protection spec)) (\<lambda>_.
     rbind (map_err (WrapError ''renewal %w'') (renewal_scheme lib (ep_RenewalURL (is_Endpoint spec)))) (\<lambda>renewalScheme.
     rbind (validateTransport (is_Transport spec)
       (url_Scheme endpoint = schemeHTTPS \<or> renewalScheme = schemeHTTPS)) (\<lambda>_.
     rbind (validateTransactionAndPolicy (is_Transaction spec) (is_Policy spec)) (\<lambda>_.
     Inr endpoint))))))"

subsection \<open>Limits\<close>

definition defaultMaximumDuration :: duration where "defaultMaximumDuration = 600 * second"
definition defaultMinimumPollInterval :: duration where "defaultMinimumPollInterval = second"
definition defaultMaximumPollInterval :: duration where "defaultMaximumPollInterval = 300 * second"
definition defaultMaximumPolls :: int where "defaultMaximumPolls = 60"

definition transactionLimitsWithDefaults :: "transaction_limits \<Rightarrow> transaction_limits" where
  "transactionLimitsWithDefaults spec =
     (let spec1 = (if tl_MaximumDuration spec \<le> 0
                   then spec\<lparr>tl_MaximumDuration := defaultMaximumDuration\<rparr> else spec);
          spec2 = (if tl_MinimumPollInterval spec1 \<le> 0
                   then spec1\<lparr>tl_MinimumPollInterval := defaultMinimumPollInterval\<rparr> else spec1);
          spec3 = (if tl_MaximumPollInterval spec2 < tl_MinimumPollInterval spec2
                   then spec2\<lparr>tl_MaximumPollInterval := defaultMaximumPollInterval\<rparr> else spec2)
      in if tl_MaximumPolls spec3 < 1 then spec3\<lparr>tl_MaximumPolls := defaultMaximumPolls\<rparr> else spec3)"

subsection \<open>Secrets\<close>

text \<open>
  \<^verbatim>\<open>secretGetter\<close> returns a closure over a map of the Secrets read so far. The loaders are
  actions on that map, kept as an association list with distinct keys, and the cluster.
\<close>

type_synonym secret_cache = "(namespaced_name \<times> secret) list"
type_synonym 'a loader = "(secret_cache \<times> cluster, go_error, 'a) action"

definition get_secret :: "kube_lib \<Rightarrow> bytes \<Rightarrow> bytes \<Rightarrow> secret loader" where
  "get_secret kl namespace name st =
     (case st of (cache, s) \<Rightarrow>
        case map_of cache (namespace, name) of
          Some secret \<Rightarrow> (Inr secret, st)
        | None \<Rightarrow>
            (case get_secret_object kl (namespace, name) s of
               (Inl e, s') \<Rightarrow>
                 (Inl (retryableConfiguration ''read credential Secret''
                   (if is_not_found e then TextError ''referenced Secret %q is not available'' else e)),
                  (cache, s'))
             | (Inr secret, s') \<Rightarrow> (Inr secret, (((namespace, name), secret) # cache, s'))))"

definition requiredSecretValue :: "secret \<Rightarrow> bytes \<Rightarrow> go_error + bytes" where
  "requiredSecretValue secret key =
     (case sec_Data secret key of
        Some val \<Rightarrow> if val = [] then Inl (TextError ''required key %q is absent or empty'') else Inr val
      | None \<Rightarrow> Inl (TextError ''required key %q is absent or empty''))"


definition issuerSpecAndNamespace :: "bytes \<Rightarrow> issuer \<Rightarrow> go_error + cmp_issuer_spec \<times> bytes" where
  "issuerSpecAndNamespace clusterResourceNamespace issuer =
     (case iss_Type issuer of
        CMPIssuer \<Rightarrow>
          if iss_Namespace issuer = [] then Inl (TextError ''CMPIssuer namespace is empty'')
          else Inr (iss_Spec issuer, iss_Namespace issuer)
      | CMPClusterIssuer \<Rightarrow>
          if clusterResourceNamespace = [] then Inl (TextError ''cluster resource namespace is empty'')
          else Inr (iss_Spec issuer, clusterResourceNamespace)
      | OtherIssuer \<Rightarrow> Inl (TextError ''unsupported issuer type %T''))"

definition permanently :: "string \<Rightarrow> go_error + 'a \<Rightarrow> 'a loader" where
  "permanently operation r = slift (map_err (permanentConfiguration operation) r)"

definition retryably :: "string \<Rightarrow> go_error + 'a \<Rightarrow> 'a loader" where
  "retryably operation r = slift (map_err (retryableConfiguration operation) r)"

definition loadTrustPool ::
    "kube_lib \<Rightarrow> bytes \<Rightarrow> secret_key_reference \<Rightarrow> (certificate list \<times> certificate list) loader"
where
  "loadTrustPool kl namespace reference =
     sbind (get_secret kl namespace (sk_Name reference)) (\<lambda>secret.
     sbind (retryably ''read CMP trust'' (requiredSecretValue secret (sk_Key reference))) (\<lambda>data.
     sbind (retryably ''parse CMP trust'' (ParseCertificates (lib_x509 kl) data)) (\<lambda>certificates.
     slift (Inr (certificates, certificates)))))"

definition loadResponseCertificates ::
    "kube_lib \<Rightarrow> bytes \<Rightarrow> secret_key_reference option \<Rightarrow> certificate list loader"
where
  "loadResponseCertificates kl namespace optional =
     (case optional of
        None \<Rightarrow> slift (Inr [])
      | Some reference \<Rightarrow>
          sbind (permanently ''validate CMP response signer reference''
            (ensure (\<not> (sk_Name reference = [] \<or> sk_Key reference = []))
              (TextError ''name and key are required''))) (\<lambda>_.
          sbind (get_secret kl namespace (sk_Name reference)) (\<lambda>secret.
          sbind (retryably ''read CMP response signers'' (requiredSecretValue secret (sk_Key reference))) (\<lambda>data.
          retryably ''parse CMP response signers'' (ParseCertificates (lib_x509 kl) data)))))"

definition tls_reference :: "cmp_issuer_spec \<Rightarrow> bool \<Rightarrow> secret_key_reference option" where
  "tls_reference spec usesHTTPS =
     (if \<not> usesHTTPS then None
      else (case trn_TLS (is_Transport spec) of None \<Rightarrow> None | Some tls \<Rightarrow> tls_CASecretRef tls))"

definition loadTLSRoots ::
    "kube_lib \<Rightarrow> bytes \<Rightarrow> cmp_issuer_spec \<Rightarrow> bool \<Rightarrow> certificate list option loader"
where
  "loadTLSRoots kl namespace spec usesHTTPS =
     (case tls_reference spec usesHTTPS of
        None \<Rightarrow> slift (Inr None)
      | Some reference \<Rightarrow>
          sbind (get_secret kl namespace (sk_Name reference)) (\<lambda>secret.
          sbind (retryably ''read TLS trust'' (requiredSecretValue secret (sk_Key reference))) (\<lambda>data.
          sbind (retryably ''parse TLS trust'' (ParseCertificates (lib_x509 kl) data)) (\<lambda>certificates.
          slift (Inr (Some certificates))))))"

definition load_password :: "kube_lib \<Rightarrow> bytes \<Rightarrow> pbm_spec \<Rightarrow> protection loader" where
  "load_password kl namespace password =
     sbind (get_secret kl namespace (pb_SecretRef password)) (\<lambda>secret.
     sbind (retryably ''read PasswordBasedMac reference'' (requiredSecretValue secret (pb_ReferenceKey password))) (\<lambda>reference.
     sbind (retryably ''read PasswordBasedMac secret'' (requiredSecretValue secret (pb_SecretKey password))) (\<lambda>sharedSecret.
     sbind (permanently ''validate PasswordBasedMac algorithms''
       (passwordBasedMacAlgorithms (pb_Algorithm password))) (\<lambda>(owf, mac).
     slift (Inr \<lparr>Password = Some \<lparr>pw_Reference = reference, pw_Secret = sharedSecret,
         pw_IterationCount = pa_IterationCount (pb_Algorithm password), pw_OWF = owf, pw_MAC = mac\<rparr>,
       Signature = None\<rparr>)))))"

definition single_certificate :: "x509_lib \<Rightarrow> bytes \<Rightarrow> go_error + certificate" where
  "single_certificate lib data =
     rbind (ParseCertificates lib data) (\<lambda>certificates.
     case certificates of
       [certificate] \<Rightarrow> Inr certificate
     | _ \<Rightarrow> Inl (TextError ''bootstrap certificate key must contain exactly one certificate''))"

definition load_chain :: "kube_lib \<Rightarrow> secret \<Rightarrow> bytes \<Rightarrow> certificate list loader" where
  "load_chain kl secret key =
     (if key = [] then slift (Inr [])
      else
        sbind (retryably ''read bootstrap chain'' (requiredSecretValue secret key)) (\<lambda>data.
        retryably ''parse bootstrap chain'' (ParseCertificates (lib_x509 kl) data)))"

definition load_signature :: "kube_lib \<Rightarrow> bytes \<Rightarrow> signature_spec \<Rightarrow> protection loader" where
  "load_signature kl namespace signature =
     sbind (get_secret kl namespace (sg_SecretRef signature)) (\<lambda>secret.
     sbind (retryably ''read bootstrap certificate'' (requiredSecretValue secret (sg_CertificateKey signature))) (\<lambda>certificateData.
     sbind (retryably ''parse bootstrap certificate'' (single_certificate (lib_x509 kl) certificateData)) (\<lambda>certificate.
     sbind (retryably ''read bootstrap private key'' (requiredSecretValue secret (sg_PrivateKeyKey signature))) (\<lambda>privateKeyData.
     sbind (retryably ''parse bootstrap private key'' (ParseSigner (lib_x509 kl) privateKeyData)) (\<lambda>privateKey.
     sbind (retryably ''validate bootstrap key pair''
       (ValidateSignerCertificate (Some privateKey) (Some certificate))) (\<lambda>_.
     sbind (load_chain kl secret (sg_ChainKey signature)) (\<lambda>chain.
     slift (Inr \<lparr>Password = None, Signature = Some \<lparr>sig_PrivateKey = Some privateKey,
       sig_Certificate = Some certificate, sig_Chain = chain\<rparr>\<rparr>))))))))"

text \<open>\<^verbatim>\<open>loadProtection\<close> dereferences a nil \<^verbatim>\<open>Signature\<close> when neither mode is configured.\<close>

definition loadProtection :: "kube_lib \<Rightarrow> bytes \<Rightarrow> protection_spec \<Rightarrow> protection loader" where
  "loadProtection kl namespace configured =
     (case pr_PasswordBasedMac configured of
        Some password \<Rightarrow> load_password kl namespace password
      | None \<Rightarrow>
          (case pr_Signature configured of
             None \<Rightarrow> slift (Inl (Panic ''nil pointer dereference''))
           | Some signature \<Rightarrow> load_signature kl namespace signature))"

subsection \<open>The configuration digest\<close>

record secret_fingerprint =
  fp_UID :: bytes
  fp_ResourceVersion :: bytes
  fp_DataDigest :: bytes

type_synonym fingerprints = "(namespaced_name \<times> secret_fingerprint) list"

definition credentialFingerprints :: "secret_cache \<Rightarrow> fingerprints" where
  "credentialFingerprints secrets =
     map (\<lambda>(key, secret). (key, \<lparr>fp_UID = sec_UID secret, fp_ResourceVersion = sec_ResourceVersion secret,
       fp_DataDigest = []\<rparr>)) secrets"

definition secret_identity_of :: "namespaced_name \<times> secret_fingerprint \<Rightarrow> secret_identity" where
  "secret_identity_of entry =
     (case entry of (key, fingerprint) \<Rightarrow>
        \<lparr>si_Namespace = fst key, si_Name = snd key, si_UID = fp_UID fingerprint,
         si_ResourceVersion = fp_ResourceVersion fingerprint, si_DataDigest = fp_DataDigest fingerprint\<rparr>)"

definition identity_key :: "secret_identity \<Rightarrow> bytes \<times> bytes" where
  "identity_key i = (si_Namespace i, si_Name i)"

definition runtimeConfigurationDigest ::
    "kube_lib \<Rightarrow> issuer_reference \<Rightarrow> fingerprints \<Rightarrow> go_error + bytes"
where
  "runtimeConfigurationDigest kl issuerRef secrets =
     (let identities = sort_key identity_key (map secret_identity_of secrets) in
      rbind (map_err (WrapError ''encode runtime configuration identity: %w'')
        (kube_JSON kl issuerRef identities)) (\<lambda>encoded.
      Inr (hex_encode (x509_Sha256 (lib_x509 kl) encoded))))"

subsection \<open>The runtime configuration\<close>

record runtime_configuration =
  rc_EndpointScheme :: bytes
  rc_RenewalEndpointURL :: bytes
  rc_EnrollmentRequest :: enrollment_request
  rc_Transaction :: transaction_limits
  rc_ConfigurationDigest :: bytes
  rc_ConfigurationSecrets :: fingerprints
  rc_RequestedValidity :: bytes

definition parse_sender :: "kube_lib \<Rightarrow> bytes \<Rightarrow> go_error + pkix_name option" where
  "parse_sender kl sender =
     (if sender = [] then Inr None
      else rbind (ParseDistinguishedName (kube_ToUpper kl) sender) (\<lambda>name. Inr (Some name)))"

definition response_cert_req_id :: "protocol_spec \<Rightarrow> int option" where
  "response_cert_req_id spec =
     (if ps_P10CRResponseCertReqID spec \<noteq> None then ps_P10CRResponseCertReqID spec
      else if ps_ValidationProfile spec = ValidationProfileRFC9483
      then Some P10CRResponseCertReqIDStandard
      else None)"

definition enrollment_request_for ::
    "cmp_issuer_spec \<Rightarrow> pkix_name \<Rightarrow> pkix_name option \<Rightarrow> hash \<Rightarrow> protection \<Rightarrow>
     certificate list \<times> certificate list \<Rightarrow> certificate list \<Rightarrow> certificate list option \<Rightarrow> enrollment_request"
where
  "enrollment_request_for spec recipient sender digest protection trust responseCertificates tlsRoots =
     (let protocol = is_Protocol spec;
          strictRFC9483 = (ps_ValidationProfile protocol = ValidationProfileRFC9483);
          strictMACResponses = (strictRFC9483 \<or> ps_MACResponseProtection protocol = MACResponseProtectionStrict)
      in
      \<lparr>Operation = [], EndpointURL = ep_URL (is_Endpoint spec), Timeout = ep_Timeout (is_Endpoint spec),
       MaxResponseSize = ep_MaxResponseSize (is_Endpoint spec), Sender = sender, Recipient = recipient,
       ImplicitConfirm = (ps_Confirmation protocol = ''Implicit''),
       RejectGrantedMods = (pol_GrantedModifications (is_Policy spec) \<noteq> GrantedModificationsAccept),
       AllowSignedMACResponse = (\<not> strictMACResponses), RequireMACIterationFloor = strictMACResponses,
       ResponseCertReqID = response_cert_req_id protocol,
       RequireKUPCAPubsAbsent = (strictRFC9483 \<or> ps_KURResponseCAPubs protocol = KURResponseCAPubsRequireAbsent),
       TransactionID = [], CSRDER = [], RequestedPrivateKey = None, SignatureDigest = digest,
       RequestedNotAfter = zero_time, Protection = protection, CMPTrust = Some (fst trust),
       CMPTrustCertificates = snd trust, CMPResponseCertificates = responseCertificates,
       TLSRoots = tlsRoots\<rparr>)"

definition load_credentials :: "kube_lib \<Rightarrow> cmp_issuer_spec \<Rightarrow> bytes \<Rightarrow> parsed_url \<Rightarrow>
    (enrollment_request \<times> bytes) loader"
where
  "load_credentials kl spec namespace parsedEndpoint =
     sbind (loadTrustPool kl namespace (ct_CASecretRef (is_CMPTrust spec))) (\<lambda>trust.
     sbind (loadResponseCertificates kl namespace (ct_SignerCertificatesSecretRef (is_CMPTrust spec))) (\<lambda>responseCertificates.
     sbind (permanently ''validate renewal endpoint''
       (renewal_scheme (kube_cmp kl) (ep_RenewalURL (is_Endpoint spec)))) (\<lambda>renewalScheme.
     sbind (loadTLSRoots kl namespace spec
       (url_Scheme parsedEndpoint = schemeHTTPS \<or> renewalScheme = schemeHTTPS)) (\<lambda>tlsRoots.
     sbind (loadProtection kl namespace (is_Protection spec)) (\<lambda>protection.
     sbind (permanently ''parse protocol recipient''
       (ParseDistinguishedName (kube_ToUpper kl) (ps_Recipient (is_Protocol spec)))) (\<lambda>recipient.
     sbind (permanently ''parse protocol sender'' (parse_sender kl (ps_Sender (is_Protocol spec)))) (\<lambda>sender.
     sbind (permanently ''validate protocol signatureDigest''
       (signatureDigest (ps_SignatureDigest (is_Protocol spec)))) (\<lambda>digest.
     slift (Inr (enrollment_request_for spec recipient sender digest protection trust responseCertificates tlsRoots,
       if renewalScheme = schemeHTTP then schemeHTTP else url_Scheme parsedEndpoint))))))))))"

text \<open>A loader starts with an empty cache; its caller sees the Secrets it read.\<close>

definition with_cache :: "'a loader \<Rightarrow> ('a \<times> secret_cache) io" where
  "with_cache m s =
     (case m ([], s) of
        (Inl e, (cache, s')) \<Rightarrow> (Inl e, s')
      | (Inr x, (cache, s')) \<Rightarrow> (Inr (x, cache), s'))"

definition loadRuntimeConfiguration :: "kube_lib \<Rightarrow> bytes \<Rightarrow> issuer \<Rightarrow> runtime_configuration io" where
  "loadRuntimeConfiguration kl clusterResourceNamespace issuer =
     sbind (slift (map_err (permanentConfiguration ''resolve issuer'')
       (issuerSpecAndNamespace clusterResourceNamespace issuer))) (\<lambda>(spec, namespace).
     sbind (slift (map_err (permanentConfiguration ''validate issuer spec'')
       (validateSpec (kube_cmp kl) spec))) (\<lambda>parsedEndpoint.
     sbind (with_cache (load_credentials kl spec namespace parsedEndpoint)) (\<lambda>((request, endpointScheme), secrets).
     let fingerprints = credentialFingerprints secrets in
     sbind (slift (map_err (permanentConfiguration ''identify issuer configuration'')
       (runtimeConfigurationDigest kl (issuerReference issuer) fingerprints))) (\<lambda>configurationDigest.
     slift (Inr \<lparr>rc_EndpointScheme = endpointScheme,
       rc_RenewalEndpointURL = ep_RenewalURL (is_Endpoint spec),
       rc_EnrollmentRequest = request,
       rc_Transaction = transactionLimitsWithDefaults (is_Transaction spec),
       rc_ConfigurationDigest = configurationDigest,
       rc_ConfigurationSecrets = fingerprints,
       rc_RequestedValidity = ps_RequestedValidity (is_Protocol spec)\<rparr>)))))"

definition loadCMPTrust :: "kube_lib \<Rightarrow> bytes \<Rightarrow> issuer \<Rightarrow> (certificate list \<times> certificate list) io" where
  "loadCMPTrust kl clusterResourceNamespace issuer =
     sbind (slift (map_err (permanentConfiguration ''resolve issuer'')
       (issuerSpecAndNamespace clusterResourceNamespace issuer))) (\<lambda>(spec, namespace).
     sbind (with_cache (
       sbind (loadTrustPool kl namespace (ct_CASecretRef (is_CMPTrust spec))) (\<lambda>(roots, anchors).
       sbind (loadResponseCertificates kl namespace (ct_SignerCertificatesSecretRef (is_CMPTrust spec))) (\<lambda>responseCertificates.
       slift (Inr (roots, anchors @ responseCertificates)))))) (\<lambda>(trust, secrets).
     slift (Inr trust)))"

subsection \<open>Loading\<close>

text \<open>
  \<open>loads namespace\<close>: a loader reads only Secrets of one namespace, and its cache holds each Secret
  read once, in the version the API server holds.
\<close>

definition cache_ok :: "bytes \<Rightarrow> cluster \<Rightarrow> secret_cache \<Rightarrow> bool" where
  "cache_ok namespace s cache \<longleftrightarrow>
     distinct (map fst cache) \<and> (\<forall>(key, secret) \<in> set cache. fst key = namespace \<and> k_Secrets s key = Some secret)"

definition loads :: "bytes \<Rightarrow> secret_cache \<times> cluster \<Rightarrow> secret_cache \<times> cluster \<Rightarrow> bool" where
  "loads namespace st st' \<longleftrightarrow>
     reads (\<lambda>key. fst key = namespace) (snd st) (snd st')
     \<and> (cache_ok namespace (snd st) (fst st) \<longrightarrow> cache_ok namespace (snd st') (fst st'))"

lemma loads_refl: "reflp (loads namespace)"
  by (simp add: reflp_def loads_def)

lemma loads_trans: "transp (loads namespace)"
  unfolding transp_def loads_def using transpD [OF reads_trans] by blast

lemmas loads_bind = behaves_sbind [OF loads_trans]
lemmas loads_pure = behaves_slift [OF loads_refl]

lemma permanently_loads:
  "behaves (loads namespace) (permanently operation r) is_ConfigurationError (\<lambda>x. r = Inr x)"
  unfolding permanently_def permanentConfiguration_def
  by (rule loads_pure) (auto simp: result_simps)

lemma retryably_loads:
  "behaves (loads namespace) (retryably operation r) is_ConfigurationError (\<lambda>x. r = Inr x)"
  unfolding retryably_def retryableConfiguration_def
  by (rule loads_pure) (auto simp: result_simps)

lemma get_secret_object_state:
  assumes "get_secret_object kl (namespace, name) s = (r, s')"
  shows "reads (\<lambda>key. fst key = namespace) s s'"
  by (rule behaves_state [OF get_secret_object_reads assms]) simp

lemma get_secret_loads:
  "behaves (loads namespace) (get_secret kl namespace name) is_ConfigurationError (\<lambda>_. True)"
proof (rule behavesI)
  fix st :: "secret_cache \<times> cluster"
  obtain cache s where st: "st = (cache, s)"
    by fastforce
  obtain r s' where call: "get_secret_object kl (namespace, name) s = (r, s')"
    by fastforce
  note state = get_secret_object_state [OF call]
  then have secrets: "k_Secrets s' = k_Secrets s"
    by (simp add: reads_def)
  show "loads namespace st (snd (get_secret kl namespace name st))"
  proof (cases "map_of cache (namespace, name)")
    case None
    then have fresh: "(namespace, name) \<notin> fst ` set cache"
      by (simp add: map_of_eq_None_iff)
    show ?thesis
    proof (cases r)
      case (Inl e)
      with None state secrets show ?thesis
        by (simp add: get_secret_def st call loads_def cache_ok_def)
    next
      case (Inr v)
      with call have "k_Secrets s (namespace, name) = Some v"
        by (simp add: get_secret_object_Inr)
      with None fresh Inr state secrets show ?thesis
        by (simp add: get_secret_def st call loads_def cache_ok_def)
    qed
  qed (simp add: get_secret_def st loads_def)
  show "fst (get_secret kl namespace name st) = Inl e \<Longrightarrow> is_ConfigurationError e" for e
    by (auto simp: get_secret_def st call retryableConfiguration_def
        split: option.split_asm sum.split_asm)
qed simp

lemmas loader_rules =
  loads_bind [OF get_secret_loads] loads_bind [OF permanently_loads] loads_bind [OF retryably_loads]
  behaves_mono [OF permanently_loads] behaves_mono [OF retryably_loads] loads_pure

lemma loadTrustPool_loads:
  "behaves (loads namespace) (loadTrustPool kl namespace reference) is_ConfigurationError (\<lambda>_. True)"
  unfolding loadTrustPool_def by (intro loader_rules) auto

lemma loadResponseCertificates_loads:
  "behaves (loads namespace) (loadResponseCertificates kl namespace reference) is_ConfigurationError (\<lambda>_. True)"
  unfolding loadResponseCertificates_def
  by (cases reference) (simp_all, (intro loader_rules; simp)+)

lemma loadTLSRoots_loads:
  "behaves (loads namespace) (loadTLSRoots kl namespace spec usesHTTPS) is_ConfigurationError (\<lambda>_. True)"
  unfolding loadTLSRoots_def
  by (cases "tls_reference spec usesHTTPS") (simp_all, (intro loader_rules; simp)+)

lemma load_chain_loads:
  "behaves (loads namespace) (load_chain kl secret key) is_ConfigurationError (\<lambda>_. True)"
  unfolding load_chain_def by (intro behaves_if loader_rules) auto

subsection \<open>Credentials\<close>

text \<open>What \<^verbatim>\<open>validateEnrollmentRequest\<close> of the protocol client asks of a protection.\<close>

definition usable_protection :: "protection \<Rightarrow> bool" where
  "usable_protection p \<longleftrightarrow>
     (Password p = None) \<noteq> (Signature p = None)
     \<and> validatePassword (Password p) = Inr () \<and> validateSignature (Signature p) = Inr ()"

lemma requiredSecretValue_Inr:
  "requiredSecretValue secret key = Inr val \<longleftrightarrow> sec_Data secret key = Some val \<and> val \<noteq> []"
  by (auto simp: requiredSecretValue_def split: option.split)

lemma passwordBasedMacAlgorithms_Inr:
  assumes "passwordBasedMacAlgorithms spec = Inr (owf, mac)"
  shows "owf \<in> pbm_hashes \<and> mac \<in> pbm_hashes \<and> hash_Size mac \<le> hash_Size owf
    \<and> owf \<noteq> HashNone \<and> mac \<noteq> HashNone"
  using assms
  by (auto simp: passwordBasedMacAlgorithms_def Let_def owf_hash_def mac_hash_def pbm_hashes_def
      split: if_split_asm)

lemma load_password_loads:
  assumes "validate_pbm password = Inr ()"
  shows "behaves (loads namespace) (load_password kl namespace password) is_ConfigurationError usable_protection"
proof -
  have bounds: "PasswordBasedMacIterationCountMinimum \<le> pa_IterationCount (pb_Algorithm password)"
      "pa_IterationCount (pb_Algorithm password) \<le> PasswordBasedMacIterationCountMaximum"
    using assms by (auto simp: validate_pbm_def result_simps)
  have usable: "usable_protection \<lparr>Password = Some \<lparr>pw_Reference = reference, pw_Secret = sharedSecret,
      pw_IterationCount = pa_IterationCount (pb_Algorithm password), pw_OWF = owf, pw_MAC = mac\<rparr>, Signature = None\<rparr>"
    if "requiredSecretValue secret rk = Inr reference" "requiredSecretValue secret sk = Inr sharedSecret"
      "passwordBasedMacAlgorithms (pb_Algorithm password) = Inr (owf, mac)"
    for secret rk sk reference sharedSecret owf mac
    using that bounds passwordBasedMacAlgorithms_Inr [OF that(3)]
    by (auto simp: usable_protection_def validatePassword_Inr validateSignature_def password_ok_def
        hash_or_default_def requiredSecretValue_Inr minPBMIterationCount_def maxPBMIterationCount_def
        PasswordBasedMacIterationCountMinimum_def PasswordBasedMacIterationCountMaximum_def)
  show ?thesis
    unfolding load_password_def case_prod_beta
    by (intro loader_rules) (auto intro: usable)
qed

lemma load_signature_loads:
  "behaves (loads namespace) (load_signature kl namespace signature) is_ConfigurationError usable_protection"
  unfolding load_signature_def
  by (intro loader_rules loads_bind [OF load_chain_loads])
    (auto simp: usable_protection_def validatePassword_def validateSignature_def result_simps)

lemma loadProtection_loads:
  assumes "validateProtection configured = Inr ()"
  shows "behaves (loads namespace) (loadProtection kl namespace configured) is_ConfigurationError usable_protection"
  using assms unfolding loadProtection_def validateProtection_def
  by (auto simp: load_password_loads load_signature_loads split: if_split_asm option.split_asm option.split)

subsection \<open>Validated specs\<close>

lemma validateEndpointURL_Inr:
  assumes "validateEndpointURL lib u = Inr endpoint"
  shows "valid_endpoint lib u" and "cmp_url_Parse lib u = Inr endpoint"
    and "url_Scheme endpoint = schemeHTTP \<or> url_Scheme endpoint = schemeHTTPS"
  using assms
  by (auto simp: validateEndpointURL_def valid_endpoint_def schemeHTTP_def schemeHTTPS_def
      split: sum.split_asm if_split_asm)

lemma validateSpec_Inr:
  assumes "validateSpec lib spec = Inr endpoint"
  shows "valid_endpoint lib (ep_URL (is_Endpoint spec))"
    and "0 < ep_Timeout (is_Endpoint spec)" and "1024 \<le> ep_MaxResponseSize (is_Endpoint spec)"
    and "ep_MaxResponseSize (is_Endpoint spec) \<le> 10485760"
    and "validateProtocol (is_Protocol spec) = Inr ()" and "validateProtection (is_Protection spec) = Inr ()"
    and "validateTransactionAndPolicy (is_Transaction spec) (is_Policy spec) = Inr ()"
    and "ep_RenewalURL (is_Endpoint spec) \<noteq> [] \<Longrightarrow> valid_endpoint lib (ep_RenewalURL (is_Endpoint spec))"
  using assms
  by (auto simp: validateSpec_def validateEndpoint_def renewal_scheme_def result_simps
      dest: validateEndpointURL_Inr split: if_split_asm)

lemma signatureDigest_Inr: "signatureDigest val = Inr h \<Longrightarrow> validateSignatureDigest h = Inr ()"
  by (auto simp: signatureDigest_def split: if_split_asm)

definition usable_limits :: "transaction_limits \<Rightarrow> bool" where
  "usable_limits limits \<longleftrightarrow>
     0 < tl_MaximumDuration limits \<and> 0 < tl_MinimumPollInterval limits
     \<and> tl_MinimumPollInterval limits \<le> tl_MaximumPollInterval limits \<and> 1 \<le> tl_MaximumPolls limits"

lemma transactionLimitsWithDefaults_usable:
  assumes "validateTransactionAndPolicy limits policy = Inr ()"
  shows "usable_limits (transactionLimitsWithDefaults limits)"
  using assms
  by (auto simp: validateTransactionAndPolicy_def transactionLimitsWithDefaults_def usable_limits_def Let_def
      result_simps defaultMaximumDuration_def defaultMinimumPollInterval_def defaultMaximumPollInterval_def
      defaultMaximumPolls_def second_def)

definition usable_request :: "cmp_lib \<Rightarrow> enrollment_request \<Rightarrow> bool" where
  "usable_request lib request \<longleftrightarrow>
     (\<forall>der operation. der \<noteq> [] \<longrightarrow> operation \<in> {OperationP10CR, OperationIR, OperationKUR} \<longrightarrow>
        validateEnrollmentRequest lib (request\<lparr>CSRDER := der, Operation := operation\<rparr>) = Inr ())"

lemma enrollment_request_for_usable:
  assumes "validateSpec lib spec = Inr endpoint" and "usable_protection protection"
    and "signatureDigest (ps_SignatureDigest (is_Protocol spec)) = Inr digest"
  shows "usable_request lib
    (enrollment_request_for spec recipient sender digest protection trust responseCertificates tlsRoots)"
  using assms(2) validateSpec_Inr [OF assms(1)] signatureDigest_Inr [OF assms(3)]
  by (auto simp: usable_request_def validateEnrollmentRequest_Inr enrollment_request_for_def Let_def
      usable_protection_def)

subsection \<open>The loaded configuration\<close>

lemma load_credentials_loads:
  assumes "validateSpec (kube_cmp kl) spec = Inr endpoint"
  shows "behaves (loads namespace) (load_credentials kl spec namespace endpoint) is_ConfigurationError
    (\<lambda>x. usable_request (kube_cmp kl) (fst x))"
  unfolding load_credentials_def
  by (intro loader_rules loads_bind [OF loadTrustPool_loads] loads_bind [OF loadResponseCertificates_loads]
      loads_bind [OF loadTLSRoots_loads] loads_bind [OF loadProtection_loads [OF validateSpec_Inr(6) [OF assms]]])
    (auto intro: enrollment_request_for_usable [OF assms])

lemma with_cache_reads:
  assumes "behaves (loads namespace) m E P"
  shows "behaves (reads (\<lambda>key. fst key = namespace)) (with_cache m) E (\<lambda>x. P (fst x))"
proof (rule behavesI)
  fix s
  obtain r cache s' where run: "m ([], s) = (r, (cache, s'))"
    using prod_cases3 by blast
  then show "reads (\<lambda>key. fst key = namespace) s (snd (with_cache m s))"
    using behaves_state [OF assms run] by (auto simp: with_cache_def loads_def split: sum.split)
  show "fst (with_cache m s) = Inl e \<Longrightarrow> E e" for e
    using behaves_error [OF assms, of "([], s)" e] run by (auto simp: with_cache_def split: sum.split_asm)
  show "fst (with_cache m s) = Inr x \<Longrightarrow> P (fst x)" for x
    using behaves_success [OF assms, of "([], s)"] run by (auto simp: with_cache_def split: sum.split_asm)
qed

lemma with_cache_cache_ok:
  assumes "behaves (loads namespace) m E P" and "with_cache m s = (Inr (x, cache), s')"
  shows "cache_ok namespace s' cache"
proof -
  from assms(2) have "m ([], s) = (Inr x, (cache, s'))"
    by (auto simp: with_cache_def split: prod.split_asm sum.split_asm)
  from behaves_state [OF assms(1) this] show ?thesis
    by (simp add: loads_def cache_ok_def)
qed

definition issuer_namespace :: "bytes \<Rightarrow> issuer \<Rightarrow> bytes" where
  "issuer_namespace clusterResourceNamespace issuer =
     (if iss_Type issuer = CMPClusterIssuer then clusterResourceNamespace else iss_Namespace issuer)"

definition sound_configuration :: "kube_lib \<Rightarrow> issuer \<Rightarrow> runtime_configuration \<Rightarrow> bool" where
  "sound_configuration kl issuer rc \<longleftrightarrow>
     usable_request (kube_cmp kl) (rc_EnrollmentRequest rc)
     \<and> rc_Transaction rc = transactionLimitsWithDefaults (is_Transaction (iss_Spec issuer))
     \<and> usable_limits (rc_Transaction rc)
     \<and> (rc_RenewalEndpointURL rc \<noteq> [] \<longrightarrow> valid_endpoint (kube_cmp kl) (rc_RenewalEndpointURL rc))
     \<and> runtimeConfigurationDigest kl (issuerReference issuer) (rc_ConfigurationSecrets rc)
         = Inr (rc_ConfigurationDigest rc)"

lemma issuerSpecAndNamespace_Inr:
  "issuerSpecAndNamespace crn issuer = Inr x \<longleftrightarrow>
     iss_Type issuer \<noteq> OtherIssuer \<and> issuer_namespace crn issuer \<noteq> []
     \<and> x = (iss_Spec issuer, issuer_namespace crn issuer)"
  by (cases "iss_Type issuer") (auto simp: issuerSpecAndNamespace_def issuer_namespace_def)

lemma resolve_reads:
  "behaves (reads Q) (slift (map_err (permanentConfiguration what) r)) is_ConfigurationError (\<lambda>x. r = Inr x)"
  by (rule reads_pure) (auto simp: result_simps permanentConfiguration_def)

lemma loadRuntimeConfiguration_behaves:
  "behaves (reads (\<lambda>key. fst key = issuer_namespace crn issuer)) (loadRuntimeConfiguration kl crn issuer)
     is_ConfigurationError (sound_configuration kl issuer)"
proof -
  have "behaves (reads (\<lambda>key. fst key = namespace))
      (case x of ((request, endpointScheme), secrets) \<Rightarrow>
         let fingerprints = credentialFingerprints secrets in
         sbind (slift (map_err (permanentConfiguration ''identify issuer configuration'')
           (runtimeConfigurationDigest kl (issuerReference issuer) fingerprints))) (\<lambda>configurationDigest.
         slift (Inr \<lparr>rc_EndpointScheme = endpointScheme,
           rc_RenewalEndpointURL = ep_RenewalURL (is_Endpoint (iss_Spec issuer)),
           rc_EnrollmentRequest = request,
           rc_Transaction = transactionLimitsWithDefaults (is_Transaction (iss_Spec issuer)),
           rc_ConfigurationDigest = configurationDigest,
           rc_ConfigurationSecrets = fingerprints,
           rc_RequestedValidity = ps_RequestedValidity (is_Protocol (iss_Spec issuer))\<rparr>)))
      is_ConfigurationError (sound_configuration kl issuer)"
    if spec: "validateSpec (kube_cmp kl) (iss_Spec issuer) = Inr endpoint"
      and x: "usable_request (kube_cmp kl) (fst (fst x))" for endpoint namespace x
    unfolding case_prod_beta Let_def
    by (intro reads_bind [OF resolve_reads] reads_pure)
      (use x transactionLimitsWithDefaults_usable [OF validateSpec_Inr(7) [OF spec]] validateSpec_Inr(8) [OF spec]
        in \<open>auto simp: sound_configuration_def\<close>)
  then show ?thesis
    unfolding loadRuntimeConfiguration_def
    by (intro reads_bind [OF resolve_reads])
      (auto simp: issuerSpecAndNamespace_Inr
        intro!: reads_bind [OF resolve_reads] reads_bind [OF with_cache_reads [OF load_credentials_loads]])
qed

lemma loadCMPTrust_behaves:
  "behaves (reads (\<lambda>key. fst key = issuer_namespace crn issuer)) (loadCMPTrust kl crn issuer)
     is_ConfigurationError (\<lambda>_. True)"
  unfolding loadCMPTrust_def case_prod_beta
  by (intro reads_bind [OF resolve_reads])
    (auto simp: issuerSpecAndNamespace_Inr
      intro!: reads_pure reads_bind [OF with_cache_reads] loads_pure loads_bind [OF loadTrustPool_loads]
        loads_bind [OF loadResponseCertificates_loads])

subsection \<open>What the digest identifies\<close>

lemma secret_identity_of_inj: "inj secret_identity_of"
  by (rule injI) (auto simp: secret_identity_of_def prod_eq_iff intro: secret_fingerprint.equality)

lemma identity_key_of: "identity_key (secret_identity_of entry) = fst entry"
  by (cases entry) (simp add: identity_key_def secret_identity_of_def)

text \<open>The order in which the map of Secrets is visited does not matter.\<close>

lemma sorted_identities_cong:
  assumes "distinct (map fst a)" and "distinct (map fst b)" and "map_of a = map_of b"
  shows "sort_key identity_key (map secret_identity_of a) = sort_key identity_key (map secret_identity_of b)"
    (is "?A = ?B")
proof -
  have key_map: "map identity_key (sort_key identity_key (map secret_identity_of c)) = sort (map fst c)" for c
    by (rule properties_for_sort [symmetric])
      (simp_all add: image_mset.compositionality comp_def identity_key_of)
  have same: "set a = set b"
    using assms by (metis map_of_inject_set)
  then have "mset (map fst a) = mset (map fst b)"
    using assms(1,2) by (subst set_eq_iff_mset_eq_distinct [symmetric]) simp_all
  then have "map identity_key ?A = map identity_key ?B"
    by (simp add: key_map sort_eq_iff_mset)
  moreover have "inj_on identity_key (set ?A \<union> set ?B)"
    using assms(1) same by (auto simp: inj_on_def identity_key_of distinct_map)
  ultimately show ?thesis
    by (rule map_inj_on)
qed

lemma sorted_identities_inject:
  assumes "distinct (map fst a)" and "distinct (map fst b)"
    and "sort_key identity_key (map secret_identity_of a) = sort_key identity_key (map secret_identity_of b)"
  shows "map_of a = map_of b"
proof -
  have "set (map secret_identity_of a) = set (map secret_identity_of b)"
    using arg_cong [OF assms(3), of set] by simp
  then have "set a = set b"
    using inj_image_eq_iff [OF secret_identity_of_inj] by simp
  with assms show ?thesis
    by (metis map_of_inject_set)
qed

definition json_injective :: "kube_lib \<Rightarrow> bool" where
  "json_injective kl \<longleftrightarrow>
     (\<forall>r ids r' ids' x. kube_JSON kl r ids = Inr x \<longrightarrow> kube_JSON kl r' ids' = Inr x \<longrightarrow> r = r' \<and> ids = ids')"

lemma runtimeConfigurationDigest_Inr:
  "runtimeConfigurationDigest kl r secrets = Inr d \<longleftrightarrow>
     (\<exists>x. kube_JSON kl r (sort_key identity_key (map secret_identity_of secrets)) = Inr x
        \<and> d = hex_encode (x509_Sha256 (lib_x509 kl) x))"
  by (auto simp: runtimeConfigurationDigest_def Let_def result_simps)

subsection \<open>Properties\<close>


definition sample_fingerprints :: fingerprints where
  "sample_fingerprints =
     [((''ns'', ''mac''), \<lparr>fp_UID = ''uid-1'', fp_ResourceVersion = ''1'', fp_DataDigest = []\<rparr>),
      ((''ns'', ''trust''), \<lparr>fp_UID = ''uid-2'', fp_ResourceVersion = ''7'', fp_DataDigest = []\<rparr>)]"

text \<open>An encoder that knows a single configuration is injective.\<close>

definition sample_json :: kube_lib where
  "sample_json = (sample_kube sample_issued)\<lparr>kube_JSON := (\<lambda>r ids.
     if r = sample_issuer_reference \<and> ids = map secret_identity_of sample_fingerprints then Inr ''{}''
     else Inl (TextError ''json: unsupported value''))\<rparr>"


end
