(* ===== verification/Workload_Keys.thy ===== *)
theory Workload_Keys
  imports Configuration
begin

text \<open>
  The workload keys of an IR or KUR, \<^verbatim>\<open>src/internal/controller/kur.go\<close>, and the fallback of a
  KUR renewal, \<^verbatim>\<open>src/internal/controller/renewal_fallback.go\<close>: which operation a request
  uses, the authorization of the Certificate that owns it, and the Secrets that may be read for it.
\<close>

subsection \<open>Operation of a request\<close>

definition certificateKind :: bytes where "certificateKind = ''Certificate''"

text \<open>\<^verbatim>\<open>GroupVersion.Group\<close> of \<^verbatim>\<open>src/api/v1alpha1/groupversion_info.go\<close>.\<close>

definition GroupVersion_Group :: bytes where
  "GroupVersion_Group = ''certmanager.misiektoja.github.io''"

definition certificateRequestRevision :: "api_names \<Rightarrow> request_object \<Rightarrow> go_error + int" where
  "certificateRequestRevision names request =
     (case atoi (lookup_string (cr_Annotations request) (nm_Revision names)) of
        None \<Rightarrow> Inl (TextError ''certificate revision annotation is absent or invalid'')
      | Some revision \<Rightarrow> Inr revision)"

definition positive_revision :: "api_names \<Rightarrow> request_object \<Rightarrow> go_error + int" where
  "positive_revision names request =
     rbind (certificateRequestRevision names request) (\<lambda>revision.
     if revision < 1 then Inl (TextError ''certificate revision annotation must be positive'')
     else Inr revision)"

definition selectedTransactionOperation :: "api_names \<Rightarrow> issuer \<Rightarrow> request_object \<Rightarrow> go_error + bytes" where
  "selectedTransactionOperation names issuer request =
     rbind (cmpIssuerSpec issuer) (\<lambda>spec.
     let initial = initialOperation (is_Protocol spec); renewal = renewalOperation (is_Protocol spec) in
     if initial = TransactionOperationP10CR \<and> renewal = TransactionOperationP10CR
     then Inr TransactionOperationP10CR
     else if lookup_string (cr_Annotations request) (nm_Revision names) = []
     then
       (if initial = TransactionOperationIR
        then Inl (TextError ''select enrollment operation: IR needs a CertificateRequest that cert-manager created for a Certificate, because the Certificate's staged private key signs the proof of possession'')
        else Inr TransactionOperationP10CR)
     else
       rbind (map_err (WrapError ''select enrollment operation: %w'') (positive_revision names request)) (\<lambda>revision.
       if revision > 1 then Inr renewal else Inr initial))"

definition renewalFallbackOperation :: "issuer \<Rightarrow> bytes" where
  "renewalFallbackOperation issuer =
     (case cmpIssuerSpec issuer of
        Inl _ \<Rightarrow> []
      | Inr spec \<Rightarrow>
          if ps_RenewalFallback (is_Protocol spec) \<noteq> RenewalFallbackInitialEnrollment
             \<or> renewalOperation (is_Protocol spec) \<noteq> TransactionOperationKUR
          then []
          else initialOperation (is_Protocol spec))"

subsection \<open>Authorization of the owning Certificate\<close>

definition is_controller :: "owner_reference \<Rightarrow> bool" where
  "is_controller owner \<longleftrightarrow> own_Controller owner = Some True"

text \<open>The loop over the owner references, with the controlling owner found so far.\<close>

fun controlling_owner :: "owner_reference option \<Rightarrow> owner_reference list \<Rightarrow> go_error + owner_reference option" where
  "controlling_owner owner [] = Inr owner"
| "controlling_owner owner (candidate # owners) =
     (if \<not> is_controller candidate then controlling_owner owner owners
      else if owner \<noteq> None then Inl (TextError ''CertificateRequest has more than one controlling owner'')
      else controlling_owner (Some candidate) owners)"

definition certificateOwnerReference :: "api_names \<Rightarrow> request_object \<Rightarrow> go_error + owner_reference" where
  "certificateOwnerReference names request =
     rbind (controlling_owner None (cr_OwnerReferences request)) (\<lambda>found.
     case found of
       None \<Rightarrow> Inl (TextError ''CertificateRequest is not controlled by a cert-manager.io/v1 Certificate'')
     | Some owner \<Rightarrow>
         if own_APIVersion owner \<noteq> nm_APIVersion names \<or> own_Kind owner \<noteq> certificateKind
            \<or> own_Name owner = [] \<or> own_UID owner = []
         then Inl (TextError ''CertificateRequest is not controlled by a cert-manager.io/v1 Certificate'')
         else Inr owner)"

definition certificateIssuerMatches :: "cm_certificate \<Rightarrow> issuer \<Rightarrow> bool" where
  "certificateIssuerMatches certificate issuer =
     (let expectedKind = (if iss_Type issuer = CMPClusterIssuer then TransactionIssuerKindCluster
                          else TransactionIssuerKindNamespaced);
          reference = cm_IssuerRef certificate
      in ior_Name reference = iss_Name issuer \<and> ior_Group reference = GroupVersion_Group
         \<and> ior_Kind reference = expectedKind)"

definition readOwningCertificate ::
    "kube_lib \<Rightarrow> namespaced_name \<Rightarrow> owner_reference \<Rightarrow> bytes \<Rightarrow> cm_certificate io"
where
  "readOwningCertificate kl key owner operation =
     sbind (stry (get_certificate_object kl key)) (\<lambda>answer.
     slift (case answer of
       Inl e \<Rightarrow>
         if is_not_found e then Inl (permanentConfiguration ''read owning Certificate'' e)
         else Inl (retryableConfiguration ''read owning Certificate'' e)
     | Inr certificate \<Rightarrow>
         if cm_UID certificate = [] \<or> own_UID owner \<noteq> cm_UID certificate \<or> cm_Deleted certificate
         then Inl (permanentConfiguration (''authorize '' @ operation @ '' CertificateRequest'')
                (TextError ''certificate owner identity is absent, deleted or mismatched''))
         else Inr certificate))"

definition authorized_revision :: "api_names \<Rightarrow> request_object \<Rightarrow> bool \<Rightarrow> go_error + int" where
  "authorized_revision names request renewal =
     rbind (certificateRequestRevision names request) (\<lambda>revision.
     if \<not> renewal \<and> revision \<noteq> 1 then Inl (TextError ''%s requires the first certificate revision'')
     else if renewal \<and> revision < 2
     then Inl (TextError ''%s renewal requires a certificate revision greater than one'')
     else Inr revision)"

definition authorizeOwningCertificate ::
    "kube_lib \<Rightarrow> request_object \<Rightarrow> issuer \<Rightarrow> bytes \<Rightarrow> bool \<Rightarrow> cm_certificate io"
where
  "authorizeOwningCertificate kl request issuer operation renewal =
     (let authorization = ''authorize '' @ operation @ '' CertificateRequest'' in
      sbind (slift (map_err (permanentConfiguration authorization)
        (authorized_revision (kube_names kl) request renewal))) (\<lambda>revision.
      sbind (slift (map_err (permanentConfiguration authorization)
        (certificateOwnerReference (kube_names kl) request))) (\<lambda>owner.
      sbind (readOwningCertificate kl (cr_Namespace request, own_Name owner) owner operation) (\<lambda>certificate.
      let previous = (case cm_Revision certificate of None \<Rightarrow> 0 | Some r \<Rightarrow> r) in
      sbind (slift (ensure (previous = revision - 1) (permanentConfiguration authorization
        (TextError ''CertificateRequest revision does not immediately follow the current Certificate revision'')))) (\<lambda>_.
      sbind (slift (ensure (certificateIssuerMatches certificate issuer) (permanentConfiguration authorization
        (TextError ''owning Certificate refers to a different issuer'')))) (\<lambda>_.
      slift (Inr certificate)))))))"

definition authorizedStagedKeyName ::
    "api_names \<Rightarrow> request_object \<Rightarrow> cm_certificate \<Rightarrow> bytes \<Rightarrow> go_error + bytes"
where
  "authorizedStagedKeyName names request certificate operation =
     (let stagedName = lookup_string (cr_Annotations request) (nm_PrivateKey names) in
      if stagedName = [] \<or> cm_NextPrivateKeySecretName certificate \<noteq> Some stagedName
      then Inl (permanentConfiguration (''authorize '' @ operation @ '' staged private key'')
             (TextError ''CertificateRequest private-key annotation does not match Certificate status.nextPrivateKeySecretName''))
      else Inr stagedName)"

subsection \<open>Secrets of a Certificate\<close>

definition controlled_by :: "api_names \<Rightarrow> cm_certificate \<Rightarrow> owner_reference \<Rightarrow> bool" where
  "controlled_by names certificate owner \<longleftrightarrow>
     own_APIVersion owner = nm_APIVersion names \<and> own_Kind owner = certificateKind
     \<and> own_Name owner = cm_Name certificate \<and> own_UID owner = cm_UID certificate"

definition secretControlledByCertificate :: "api_names \<Rightarrow> secret \<Rightarrow> cm_certificate \<Rightarrow> bool" where
  "secretControlledByCertificate names secret certificate =
     list_ex (\<lambda>owner. is_controller owner \<and> controlled_by names certificate owner) (sec_OwnerReferences secret)"

definition currentSecretIssuedForCertificate :: "api_names \<Rightarrow> secret \<Rightarrow> cm_certificate \<Rightarrow> go_error + unit" where
  "currentSecretIssuedForCertificate names secret certificate =
     (case sec_Annotations secret (nm_CertificateName names) of
        None \<Rightarrow> Inl (TextError ''current certificate Secret carries no %s annotation, so cert-manager did not write it for this Certificate'')
      | Some name \<Rightarrow>
          if name \<noteq> cm_Name certificate
          then Inl (TextError ''current certificate Secret was written for Certificate %q'')
          else ensure (list_all (\<lambda>owner. is_controller owner \<longrightarrow> controlled_by names certificate owner)
                 (sec_OwnerReferences secret))
               (TextError ''current certificate Secret is controlled by another resource''))"

definition readWorkloadSecret :: "kube_lib \<Rightarrow> namespaced_name \<Rightarrow> bytes \<Rightarrow> secret io" where
  "readWorkloadSecret kl key description =
     sbind (stry (get_secret_object kl key)) (\<lambda>answer.
     slift (case answer of
       Inl e \<Rightarrow> Inl (retryableConfiguration (''read '' @ description)
         (if is_not_found e then TextError ''secret %q is not available'' else e))
     | Inr secret \<Rightarrow> Inr secret))"

definition readCurrentSecret :: "kube_lib \<Rightarrow> namespaced_name \<Rightarrow> secret option io" where
  "readCurrentSecret kl key =
     sbind (stry (get_secret_object kl key)) (\<lambda>answer.
     slift (case answer of
       Inl e \<Rightarrow>
         if is_not_found e then Inr None
         else Inl (retryableConfiguration ''read current certificate Secret'' e)
     | Inr secret \<Rightarrow> Inr (Some secret)))"

definition currentCertificateUnavailable :: "string \<Rightarrow> go_error" where
  "currentCertificateUnavailable state =
     TextError (''current certificate Secret %q '' @ state @ '', so KUR cannot authenticate: set renewalFallback to InitialEnrollment, set renewal to P10CR or recreate the Certificate'')"

definition parseSecretSigner :: "x509_lib \<Rightarrow> secret \<Rightarrow> bytes \<Rightarrow> go_error + signer" where
  "parseSecretSigner lib secret key =
     rbind (requiredSecretValue secret key) (ParseSigner lib)"

text \<open>The digest is written key by key: the key, a zero byte and the hash of its value.\<close>

definition workloadSecretFingerprint :: "x509_lib \<Rightarrow> secret \<Rightarrow> bytes list \<Rightarrow> secret_fingerprint" where
  "workloadSecretFingerprint lib secret keys =
     \<lparr>fp_UID = sec_UID secret, fp_ResourceVersion = [],
      fp_DataDigest = hex_encode (x509_Sha256 lib (concat (map (\<lambda>key.
        key @ [char_of (0 :: nat)] @ x509_Sha256 lib (lookup_string (sec_Data secret) key)) keys)))\<rparr>"

definition loadStagedKey ::
    "kube_lib \<Rightarrow> namespaced_name \<Rightarrow> cm_certificate \<Rightarrow> bytes \<Rightarrow> bytes \<Rightarrow> (secret \<times> signer) io"
where
  "loadStagedKey kl key certificate csrDER operation =
     sbind (readWorkloadSecret kl key ''staged private-key Secret'') (\<lambda>stagedSecret.
     sbind (slift (ensure
       (\<not> (\<not> secretControlledByCertificate (kube_names kl) stagedSecret certificate
          \<or> lookup_string (sec_Labels stagedSecret) (nm_NextPrivateKey (kube_names kl)) \<noteq> ''true''))
       (permanentConfiguration (''authorize '' @ operation @ '' staged private key'')
         (TextError ''staged private-key Secret is not the cert-manager-owned next key for the Certificate'')))) (\<lambda>_.
     sbind (slift (map_err (retryableConfiguration (''parse '' @ operation @ '' staged private key''))
       (parseSecretSigner (lib_x509 kl) stagedSecret (nm_TLSPrivateKey (kube_names kl))))) (\<lambda>requestedKey.
     sbind (slift (map_err (permanentConfiguration (''validate '' @ operation @ '' staged private key''))
       (rbind (x509_ParseCertificateRequest (lib_x509 kl) csrDER) (\<lambda>csr.
          ensure (PublicKeysEqual (signer_Public requestedKey) (csr_PublicKey csr))
            (TextError ''staged private key does not match the CertificateRequest CSR''))))) (\<lambda>_.
     slift (Inr (stagedSecret, requestedKey))))))"

subsection \<open>Key material\<close>

record workload_key_material =
  wk_Protection :: "protection option"
  wk_RequestedPrivateKey :: signer
  wk_Secrets :: fingerprints

definition loadIRMaterial ::
    "kube_lib \<Rightarrow> request_object \<Rightarrow> issuer \<Rightarrow> bytes \<Rightarrow> bytes \<Rightarrow> workload_key_material io"
where
  "loadIRMaterial kl request issuer csrDER renewalFallbackReason =
     (let renewal = (renewalFallbackReason \<noteq> []) in
      sbind (slift (ensure (\<not> (renewal \<and> renewalFallbackOperation issuer \<noteq> TransactionOperationIR))
        (permanentConfiguration ''authorize IR CertificateRequest''
          (TextError ''issuer does not fall back from KUR to IR'')))) (\<lambda>_.
      sbind (authorizeOwningCertificate kl request issuer TransactionOperationIR renewal) (\<lambda>certificate.
      sbind (slift (authorizedStagedKeyName (kube_names kl) request certificate TransactionOperationIR)) (\<lambda>stagedName.
      let stagedKey = (cr_Namespace request, stagedName) in
      sbind (loadStagedKey kl stagedKey certificate csrDER TransactionOperationIR) (\<lambda>(stagedSecret, requestedKey).
      slift (Inr \<lparr>wk_Protection = None, wk_RequestedPrivateKey = requestedKey,
        wk_Secrets = [(stagedKey, workloadSecretFingerprint (lib_x509 kl) stagedSecret
          [nm_TLSPrivateKey (kube_names kl)])]\<rparr>))))))"

text \<open>The checks of \<^verbatim>\<open>loadKURMaterial\<close> on the current Secret, before and after the staged key is read.\<close>

definition authorized_current_secret ::
    "kube_lib \<Rightarrow> namespaced_name \<Rightarrow> cm_certificate \<Rightarrow> secret io"
where
  "authorized_current_secret kl currentKey certificate =
     sbind (readCurrentSecret kl currentKey) (\<lambda>answer.
     case answer of
       None \<Rightarrow> slift (Inl (permanentConfiguration ''read current certificate Secret''
         (currentCertificateUnavailable ''does not exist'')))
     | Some currentSecret \<Rightarrow>
         sbind (slift (map_err (permanentConfiguration ''authorize KUR current certificate'')
           (currentSecretIssuedForCertificate (kube_names kl) currentSecret certificate))) (\<lambda>_.
         slift (Inr currentSecret)))"

definition current_key_pair :: "kube_lib \<Rightarrow> secret \<Rightarrow> go_error + signer \<times> certificate \<times> certificate list" where
  "current_key_pair kl currentSecret =
     (let data = lookup_string (sec_Data currentSecret) (nm_TLSCert (kube_names kl)) in
      rbind (ensure (data \<noteq> []) (permanentConfiguration ''parse KUR current certificate''
        (currentCertificateUnavailable ''holds no certificate''))) (\<lambda>_.
      rbind (map_err (retryableConfiguration ''parse KUR current certificate'')
        (rbind (ParseCertificates (lib_x509 kl) data) (\<lambda>certificates.
           case certificates of
             [] \<Rightarrow> Inl (TextError ''current certificate Secret contains no certificate'')
           | c # cs \<Rightarrow> Inr (c, cs)))) (\<lambda>(certificate, chain).
      rbind (map_err (retryableConfiguration ''parse KUR current private key'')
        (parseSecretSigner (lib_x509 kl) currentSecret (nm_TLSPrivateKey (kube_names kl)))) (\<lambda>oldKey.
      rbind (map_err (permanentConfiguration ''validate KUR current key pair'')
        (ValidateSignerCertificate (Some oldKey) (Some certificate))) (\<lambda>_.
      Inr (oldKey, certificate, chain))))))"

definition loadKURMaterial :: "kube_lib \<Rightarrow> request_object \<Rightarrow> issuer \<Rightarrow> bytes \<Rightarrow> workload_key_material io" where
  "loadKURMaterial kl request issuer csrDER =
     sbind (authorizeOwningCertificate kl request issuer TransactionOperationKUR True) (\<lambda>certificate.
     sbind (slift (authorizedStagedKeyName (kube_names kl) request certificate TransactionOperationKUR)) (\<lambda>stagedName.
     sbind (slift (ensure (\<not> (cm_SecretName certificate = [] \<or> cm_SecretName certificate = stagedName))
       (permanentConfiguration ''authorize KUR current certificate''
         (TextError ''certificate current and staged Secret names must be distinct'')))) (\<lambda>_.
     let currentKey = (cr_Namespace request, cm_SecretName certificate);
         stagedKey = (cr_Namespace request, stagedName)
     in
     sbind (authorized_current_secret kl currentKey certificate) (\<lambda>currentSecret.
     sbind (loadStagedKey kl stagedKey certificate csrDER TransactionOperationKUR) (\<lambda>(stagedSecret, requestedKey).
     sbind (slift (current_key_pair kl currentSecret)) (\<lambda>(oldKey, current, chain).
     slift (Inr \<lparr>wk_Protection = Some \<lparr>Password = None, Signature = Some \<lparr>sig_PrivateKey = Some oldKey,
         sig_Certificate = Some current, sig_Chain = chain\<rparr>\<rparr>,
       wk_RequestedPrivateKey = requestedKey,
       wk_Secrets = [(currentKey, workloadSecretFingerprint (lib_x509 kl) currentSecret
            [nm_TLSCert (kube_names kl), nm_TLSPrivateKey (kube_names kl)]),
          (stagedKey, workloadSecretFingerprint (lib_x509 kl) stagedSecret
            [nm_TLSPrivateKey (kube_names kl)])]\<rparr>)))))))"

subsection \<open>Renewal fallback\<close>

record renewal_fallback =
  fb_Reason :: bytes
  fb_Certificate :: bytes
  fb_Secret :: bytes
  fb_Expired :: "certificate option"

definition classify_current ::
    "kube_lib \<Rightarrow> cm_certificate \<Rightarrow> time \<Rightarrow> secret option \<Rightarrow> renewal_fallback option"
where
  "classify_current kl certificate moment current =
     (let fallback = \<lparr>fb_Reason = RenewalFallbackCurrentCertificateMissing,
            fb_Certificate = cm_Name certificate, fb_Secret = cm_SecretName certificate, fb_Expired = None\<rparr>
      in case current of
        None \<Rightarrow> Some fallback
      | Some secret \<Rightarrow>
          (case currentSecretIssuedForCertificate (kube_names kl) secret certificate of
             Inl _ \<Rightarrow> None
           | Inr _ \<Rightarrow>
               (let data = lookup_string (sec_Data secret) (nm_TLSCert (kube_names kl)) in
                if data = [] then Some fallback
                else (case ParseCertificates (lib_x509 kl) data of
                        Inr (c # _) \<Rightarrow>
                          if moment < cert_NotAfter c then None
                          else Some (fallback\<lparr>fb_Reason := RenewalFallbackCurrentCertificateExpired,
                                 fb_Expired := Some c\<rparr>)
                      | _ \<Rightarrow> None))))"

definition classifyRenewalFallback ::
    "kube_lib \<Rightarrow> request_object \<Rightarrow> issuer \<Rightarrow> time \<Rightarrow> renewal_fallback option io"
where
  "classifyRenewalFallback kl request issuer moment =
     sbind (authorizeOwningCertificate kl request issuer TransactionOperationKUR True) (\<lambda>certificate.
     if cm_SecretName certificate = []
        \<or> cm_SecretName certificate = lookup_string (cr_Annotations request) (nm_PrivateKey (kube_names kl))
     then slift (Inr None)
     else
       sbind (readCurrentSecret kl (cr_Namespace request, cm_SecretName certificate)) (\<lambda>current.
       slift (Inr (classify_current kl certificate moment current))))"

subsection \<open>What an authorization establishes\<close>

text \<open>
  \<open>owning_certificate\<close>: the live Certificate that controls the request, issued by the issuer that
  serves it, and one revision behind it.
\<close>

definition owning_certificate ::
    "api_names \<Rightarrow> (namespaced_name \<Rightarrow> cm_certificate option) \<Rightarrow> request_object \<Rightarrow> issuer \<Rightarrow> bool \<Rightarrow> cm_certificate \<Rightarrow> bool"
where
  "owning_certificate names certificates request issuer renewal certificate \<longleftrightarrow>
     (\<exists>owner revision.
        certificateOwnerReference names request = Inr owner
        \<and> certificates (cr_Namespace request, own_Name owner) = Some certificate
        \<and> cm_UID certificate = own_UID owner \<and> \<not> cm_Deleted certificate
        \<and> certificateRequestRevision names request = Inr revision
        \<and> (if renewal then 2 \<le> revision else revision = 1)
        \<and> (case cm_Revision certificate of None \<Rightarrow> 0 | Some r \<Rightarrow> r) = revision - 1
        \<and> certificateIssuerMatches certificate issuer)"

text \<open>The Secrets that Certificate names: its current one, and the staged one the request agrees on.\<close>

definition authorized_secret ::
    "api_names \<Rightarrow> (namespaced_name \<Rightarrow> cm_certificate option) \<Rightarrow> request_object \<Rightarrow> issuer \<Rightarrow> namespaced_name \<Rightarrow> bool"
where
  "authorized_secret names certificates request issuer key \<longleftrightarrow>
     fst key = cr_Namespace request
     \<and> (\<exists>certificate renewal. owning_certificate names certificates request issuer renewal certificate
          \<and> (renewal \<and> snd key = cm_SecretName certificate
             \<or> cm_NextPrivateKeySecretName certificate = Some (snd key)
               \<and> lookup_string (cr_Annotations request) (nm_PrivateKey names) = snd key))"

lemma reads_triple:
  assumes "behaves (reads Q) m E V"
  shows "triple (reads Q s0) m (\<lambda>e s. E e \<and> reads Q s0 s) (\<lambda>x s. V x \<and> reads Q s0 s)"
  by (rule triple_conseq [OF triple_behaves [OF assms, where P = "reads Q s0"]])
    (auto intro: transpD [OF reads_trans])

lemma reads_certificates: "reads Q s s' \<Longrightarrow> k_Certificates s' = k_Certificates s"
  by (simp add: reads_def)

lemma readOwningCertificate_reads:
  "triple (reads Q s0) (readOwningCertificate kl key owner operation)
     (\<lambda>e s. is_ConfigurationError e \<and> reads Q s0 s)
     (\<lambda>c s. reads Q s0 s \<and> k_Certificates s0 key = Some c \<and> cm_UID c = own_UID owner \<and> \<not> cm_Deleted c)"
proof -
  have get: "triple (reads Q s0) (get_certificate_object kl key) (\<lambda>e s. reads Q s0 s)
      (\<lambda>c s. reads Q s0 s \<and> k_Certificates s0 key = Some c)"
  proof (rule tripleI)
    fix s s'
    assume s: "reads Q s0 s"
    have "reads Q s s'" if "get_certificate_object kl key s = (r, s')" for r
      using behaves_state [OF get_certificate_object_reads that] .
    then show "reads Q s0 s'" if "get_certificate_object kl key s = (Inl e, s')" for e
      using s that transpD [OF reads_trans] by blast
    show "reads Q s0 s' \<and> k_Certificates s0 key = Some c" if "get_certificate_object kl key s = (Inr c, s')" for c
      using s that get_certificate_object_Inr [OF that] reads_certificates [OF s] transpD [OF reads_trans]
        behaves_state [OF get_certificate_object_reads that] by metis
  qed
  show ?thesis
    unfolding readOwningCertificate_def
    by (rule triple_sbind [OF triple_stry [OF get]], rule triple_slift)
      (auto simp: permanentConfiguration_def retryableConfiguration_def split: sum.split_asm if_split_asm)
qed

lemma configuration_slift:
  assumes "\<And>e. r = Inl e \<Longrightarrow> is_ConfigurationError e"
  shows "triple P (slift r) (\<lambda>e s. is_ConfigurationError e \<and> P s) (\<lambda>x s. r = Inr x \<and> P s)"
  by (rule triple_slift) (use assms in auto)

lemma authorizeOwningCertificate_reads:
  "triple (reads Q s0) (authorizeOwningCertificate kl request issuer operation renewal)
     (\<lambda>e s. is_ConfigurationError e \<and> reads Q s0 s)
     (\<lambda>c s. owning_certificate (kube_names kl) (k_Certificates s0) request issuer renewal c \<and> reads Q s0 s)"
  unfolding authorizeOwningCertificate_def Let_def
proof (rule triple_sbind [OF configuration_slift], simp add: permanentConfiguration_def map_err_Inl, clarsimp,
    rule triple_pure, rule triple_sbind [OF configuration_slift], clarsimp simp: permanentConfiguration_def map_err_Inl,
    rule triple_pure, rule triple_sbind [OF readOwningCertificate_reads])
  fix revision owner c
  assume revision: "map_err (permanentConfiguration (''authorize '' @ operation @ '' CertificateRequest''))
      (authorized_revision (kube_names kl) request renewal) = Inr revision"
    and owner: "map_err (permanentConfiguration (''authorize '' @ operation @ '' CertificateRequest''))
      (certificateOwnerReference (kube_names kl) request) = Inr owner"
  from revision have "certificateRequestRevision (kube_names kl) request = Inr revision"
      "if renewal then 2 \<le> revision else revision = 1"
    by (auto simp: authorized_revision_def result_simps split: if_split_asm)
  with owner show "triple
      (\<lambda>s. reads Q s0 s \<and> k_Certificates s0 (cr_Namespace request, own_Name owner) = Some c
         \<and> cm_UID c = own_UID owner \<and> \<not> cm_Deleted c)
      (sbind (slift (ensure ((case cm_Revision c of None \<Rightarrow> 0 | Some r \<Rightarrow> r) = revision - 1)
         (permanentConfiguration (''authorize '' @ operation @ '' CertificateRequest'')
           (TextError ''CertificateRequest revision does not immediately follow the current Certificate revision''))))
       (\<lambda>_. sbind (slift (ensure (certificateIssuerMatches c issuer)
         (permanentConfiguration (''authorize '' @ operation @ '' CertificateRequest'')
           (TextError ''owning Certificate refers to a different issuer''))))
       (\<lambda>_. slift (Inr c))))
      (\<lambda>e s. is_ConfigurationError e \<and> reads Q s0 s)
      (\<lambda>c s. owning_certificate (kube_names kl) (k_Certificates s0) request issuer renewal c \<and> reads Q s0 s)"
    by (auto simp: triple_def sbind_def slift_def ensure_def permanentConfiguration_def map_err_Inr
        owning_certificate_def)
qed

subsection \<open>Reading the keys\<close>

definition csr_key :: "x509_lib \<Rightarrow> bytes \<Rightarrow> signer \<Rightarrow> bool" where
  "csr_key lib csrDER key \<longleftrightarrow>
     (\<exists>csr. x509_ParseCertificateRequest lib csrDER = Inr csr
        \<and> PublicKeysEqual (signer_Public key) (csr_PublicKey csr))"

lemma readWorkloadSecret_reads:
  "Q key \<Longrightarrow> behaves (reads Q) (readWorkloadSecret kl key description) is_ConfigurationError (\<lambda>_. True)"
  unfolding readWorkloadSecret_def
  by (rule reads_bind [OF behaves_stry [OF get_secret_object_reads]], assumption, rule reads_pure)
    (auto simp: retryableConfiguration_def split: sum.split_asm)

lemma readCurrentSecret_reads:
  "Q key \<Longrightarrow> behaves (reads Q) (readCurrentSecret kl key) is_ConfigurationError (\<lambda>_. True)"
  unfolding readCurrentSecret_def
  by (rule reads_bind [OF behaves_stry [OF get_secret_object_reads]], assumption, rule reads_pure)
    (auto simp: retryableConfiguration_def split: sum.split_asm if_split_asm)

lemma configuration_reads:
  assumes "\<And>e. r = Inl e \<Longrightarrow> is_ConfigurationError e"
  shows "behaves (reads Q) (slift r) is_ConfigurationError (\<lambda>x. r = Inr x)"
  by (rule reads_pure) (use assms in auto)

lemma configuration_errors:
  "is_ConfigurationError (permanentConfiguration what e)" "is_ConfigurationError (retryableConfiguration what e)"
  by (simp_all add: permanentConfiguration_def retryableConfiguration_def)

lemma loadStagedKey_reads:
  "Q key \<Longrightarrow> behaves (reads Q) (loadStagedKey kl key certificate csrDER operation) is_ConfigurationError
     (\<lambda>x. csr_key (lib_x509 kl) csrDER (snd x)
        \<and> secretControlledByCertificate (kube_names kl) (fst x) certificate)"
  unfolding loadStagedKey_def
  by (rule reads_bind [OF readWorkloadSecret_reads], assumption,
      intro reads_bind [OF configuration_reads] reads_pure)
    (auto simp: result_simps configuration_errors csr_key_def)

lemma authorizedStagedKeyName_Inr:
  "authorizedStagedKeyName names request certificate operation = Inr stagedName \<longleftrightarrow>
     stagedName \<noteq> [] \<and> lookup_string (cr_Annotations request) (nm_PrivateKey names) = stagedName
     \<and> cm_NextPrivateKeySecretName certificate = Some stagedName"
  by (auto simp: authorizedStagedKeyName_def Let_def)

lemma authorizedStagedKeyName_error:
  "authorizedStagedKeyName names request certificate operation = Inl e \<Longrightarrow> is_ConfigurationError e"
  by (auto simp: authorizedStagedKeyName_def Let_def configuration_errors split: if_split_asm)

abbreviation workload_secret :: "kube_lib \<Rightarrow> cluster \<Rightarrow> request_object \<Rightarrow> issuer \<Rightarrow> namespaced_name \<Rightarrow> bool" where
  "workload_secret kl s0 request issuer \<equiv>
     authorized_secret (kube_names kl) (k_Certificates s0) request issuer"

lemma staged_authorized:
  "owning_certificate (kube_names kl) (k_Certificates s0) request issuer renewal c \<Longrightarrow>
   authorizedStagedKeyName (kube_names kl) request c operation = Inr stagedName \<Longrightarrow>
   workload_secret kl s0 request issuer (cr_Namespace request, stagedName)"
  by (auto simp: authorized_secret_def authorizedStagedKeyName_Inr)

lemma current_authorized:
  "owning_certificate (kube_names kl) (k_Certificates s0) request issuer True c \<Longrightarrow>
   workload_secret kl s0 request issuer (cr_Namespace request, cm_SecretName c)"
  by (auto simp: authorized_secret_def)

lemma loadIRMaterial_reads:
  "triple (reads (workload_secret kl s0 request issuer) s0) (loadIRMaterial kl request issuer csrDER reason)
     (\<lambda>e s. is_ConfigurationError e \<and> reads (workload_secret kl s0 request issuer) s0 s)
     (\<lambda>m s. (wk_Protection m = None \<and> csr_key (lib_x509 kl) csrDER (wk_RequestedPrivateKey m)
          \<and> (\<exists>c. owning_certificate (kube_names kl) (k_Certificates s0) request issuer (reason \<noteq> []) c)
          \<and> (reason \<noteq> [] \<longrightarrow> renewalFallbackOperation issuer = TransactionOperationIR))
        \<and> reads (workload_secret kl s0 request issuer) s0 s)"
  unfolding loadIRMaterial_def Let_def case_prod_beta
  apply (rule triple_sbind [OF configuration_slift], simp add: result_simps configuration_errors, rule triple_pure)
  apply (rule triple_sbind [OF authorizeOwningCertificate_reads], rule triple_pure)
  apply (rule triple_sbind [OF configuration_slift], erule authorizedStagedKeyName_error, rule triple_pure)
  apply (rule triple_sbind [OF reads_triple [OF loadStagedKey_reads]], erule (1) staged_authorized)
  by (rule triple_slift) (auto simp: ensure_Inr)

lemma authorized_current_secret_reads:
  "Q currentKey \<Longrightarrow> behaves (reads Q) (authorized_current_secret kl currentKey certificate) is_ConfigurationError
     (\<lambda>secret. currentSecretIssuedForCertificate (kube_names kl) secret certificate = Inr ())"
  unfolding authorized_current_secret_def
  apply (rule reads_bind [OF readCurrentSecret_reads], assumption)
  subgoal for answer
  proof (cases answer)
    case (Some secret)
    show ?thesis
      unfolding Some option.case
      by (intro reads_bind [OF configuration_reads] reads_pure) (auto simp: result_simps configuration_errors)
  qed (simp, rule reads_pure, auto simp: configuration_errors)
  done

lemma current_key_pair_error: "current_key_pair kl secret = Inl e \<Longrightarrow> is_ConfigurationError e"
  unfolding current_key_pair_def Let_def case_prod_beta by (auto simp: result_simps configuration_errors)

lemma current_key_pair_Inr:
  "current_key_pair kl secret = Inr (key, c, chain) \<Longrightarrow>
   ValidateSignerCertificate (Some key) (Some c) = Inr ()
   \<and> (\<exists>data. sec_Data secret (nm_TLSCert (kube_names kl)) = Some data \<and> ParseCertificates (lib_x509 kl) data = Inr (c # chain))"
  unfolding current_key_pair_def Let_def case_prod_beta
  by (auto simp: result_simps lookup_string_def neq_Nil_conv split: option.split_asm list.split_asm)

definition kur_material :: "kube_lib \<Rightarrow> bytes \<Rightarrow> workload_key_material \<Rightarrow> bool" where
  "kur_material kl csrDER m \<longleftrightarrow>
     csr_key (lib_x509 kl) csrDER (wk_RequestedPrivateKey m)
     \<and> (\<exists>key c chain. wk_Protection m = Some \<lparr>Password = None, Signature = Some \<lparr>sig_PrivateKey = Some key,
          sig_Certificate = Some c, sig_Chain = chain\<rparr>\<rparr> \<and> ValidateSignerCertificate (Some key) (Some c) = Inr ())"

lemma loadKURMaterial_reads:
  "triple (reads (workload_secret kl s0 request issuer) s0) (loadKURMaterial kl request issuer csrDER)
     (\<lambda>e s. is_ConfigurationError e \<and> reads (workload_secret kl s0 request issuer) s0 s)
     (\<lambda>m s. (kur_material kl csrDER m
          \<and> (\<exists>c. owning_certificate (kube_names kl) (k_Certificates s0) request issuer True c))
        \<and> reads (workload_secret kl s0 request issuer) s0 s)"
  unfolding loadKURMaterial_def Let_def case_prod_beta
  apply (rule triple_sbind [OF authorizeOwningCertificate_reads], rule triple_pure)
  apply (rule triple_sbind [OF configuration_slift], erule authorizedStagedKeyName_error, rule triple_pure)
  apply (rule triple_sbind [OF configuration_slift], simp add: result_simps configuration_errors, rule triple_pure)
  apply (rule triple_sbind [OF reads_triple [OF authorized_current_secret_reads]], erule current_authorized, rule triple_pure)
  apply (rule triple_sbind [OF reads_triple [OF loadStagedKey_reads]], erule (1) staged_authorized, rule triple_pure)
  apply (rule triple_sbind [OF configuration_slift], erule current_key_pair_error, rule triple_pure)
  apply (rule triple_slift, simp)
  subgoal for c stagedName u currentSecret staged pair s x
    by (cases pair) (auto simp: kur_material_def dest!: current_key_pair_Inr)
  done

lemma classifyRenewalFallback_reads:
  "triple (reads (workload_secret kl s0 request issuer) s0) (classifyRenewalFallback kl request issuer moment)
     (\<lambda>e s. is_ConfigurationError e \<and> reads (workload_secret kl s0 request issuer) s0 s)
     (\<lambda>x s. (\<forall>fb. x = Some fb \<longrightarrow>
            fb_Reason fb \<in> {RenewalFallbackCurrentCertificateMissing, RenewalFallbackCurrentCertificateExpired})
        \<and> reads (workload_secret kl s0 request issuer) s0 s)"
  unfolding classifyRenewalFallback_def
  apply (rule triple_sbind [OF authorizeOwningCertificate_reads], rule triple_pure, rule triple_if)
   apply (rule triple_slift; simp)
  apply (rule triple_sbind [OF reads_triple [OF readCurrentSecret_reads]], erule current_authorized)
  by (rule triple_slift)
    (auto simp: classify_current_def Let_def split: option.split_asm sum.split_asm if_split_asm list.split_asm)

end
