(* ===== verification/Signer.thy ===== *)
theory Signer
  imports Workload_Keys
begin

text \<open>
  The signer of \<^verbatim>\<open>src/internal/controller/signer.go\<close>: issuer-lib calls \<open>Check\<close> for an issuer and
  \<open>Sign\<close> for a CertificateRequest, and calls \<open>Sign\<close> again after the delay of a pending
  error. Its messages go through the protocol client, an interface in the source and a record of
  actions here; the state that must survive a restart is in the CMPTransaction.
  Log lines are left out, and with them the readings of the clock only they use.
\<close>

subsection \<open>The protocol client\<close>

record protocol_client =
  pc_EnrollP10CR :: "enrollment_request \<Rightarrow> enrollment_result io"
  pc_EnrollIR :: "enrollment_request \<Rightarrow> enrollment_result io"
  pc_EnrollKUR :: "enrollment_request \<Rightarrow> enrollment_result io"
  pc_PollP10CR :: "poll_request \<Rightarrow> enrollment_result io"
  pc_ConfirmP10CR :: "confirm_request \<Rightarrow> enrollment_result io"

definition CMPClient :: "cmp_lib \<Rightarrow> protocol_client" where
  "CMPClient lib =
     \<lparr>pc_EnrollP10CR = EnrollP10CR lib, pc_EnrollIR = EnrollIR lib, pc_EnrollKUR = EnrollKUR lib,
      pc_PollP10CR = PollP10CR lib, pc_ConfirmP10CR = ConfirmP10CR lib\<rparr>"

subsection \<open>Pure helpers\<close>

definition cmpProtocolVersion :: int where "cmpProtocolVersion = 2"
definition pemCertificateBlockType :: bytes where "pemCertificateBlockType = ''CERTIFICATE''"
definition eventHTTPNoConfidential :: bytes where "eventHTTPNoConfidential = ''HTTPTransportNoConfidentiality''"
definition eventRenewalFallback :: bytes where "eventRenewalFallback = ''RenewalFallback''"
definition confirmationExplicit :: bytes where "confirmationExplicit = ''Explicit''"
definition confirmationImplicit :: bytes where "confirmationImplicit = ''Implicit''"

definition csrDigestHex :: "x509_lib \<Rightarrow> bytes \<Rightarrow> bytes" where
  "csrDigestHex lib csrDER = hex_encode (x509_Sha256 lib csrDER)"

definition encodeChainPEM :: "kube_lib \<Rightarrow> certificate list \<Rightarrow> bytes" where
  "encodeChainPEM kl chain =
     concat (map (\<lambda>certificate. kube_EncodePEM kl pemCertificateBlockType (cert_Raw certificate)) chain)"

definition pollDelay :: "duration \<Rightarrow> transaction_limits \<Rightarrow> duration" where
  "pollDelay checkAfter limits =
     (if checkAfter < tl_MinimumPollInterval limits then tl_MinimumPollInterval limits
      else if checkAfter > tl_MaximumPollInterval limits then tl_MaximumPollInterval limits
      else checkAfter)"

definition mapProtocolError :: "go_error \<Rightarrow> go_error" where
  "mapProtocolError err =
     (case as_protocol err of
        None \<Rightarrow> err
      | Some protocolError \<Rightarrow>
          (case pe_Kind protocolError of
             ErrorKindPermanent \<Rightarrow> PermanentError protocolError
           | ErrorKindSecurity \<Rightarrow> PermanentError protocolError
           | ErrorKindPending \<Rightarrow> PendingError protocolError (pe_RequeueAfter protocolError)
           | ErrorKindRetryable \<Rightarrow> PendingError protocolError second
           | ErrorKindOther _ \<Rightarrow>
               PermanentError (WrapError ''unknown protocol error classification: %w'' protocolError)))"

definition workloadConfigurationError :: "go_error \<Rightarrow> go_error" where
  "workloadConfigurationError err =
     (if ce_Permanent err then PermanentError err else PendingError err second)"

definition shouldEmitHTTPWarning :: "api_names \<Rightarrow> issuer \<Rightarrow> bool" where
  "shouldEmitHTTPWarning names issuer =
     (case find (\<lambda>c. cond_Type c = nm_Ready names) (iss_Conditions issuer) of
        None \<Rightarrow> True
      | Some ready \<Rightarrow>
          cond_ObservedGeneration ready < iss_Generation issuer \<or> cond_Status ready \<noteq> nm_ConditionTrue names)"

definition certificateRequestDuration :: "request_object \<Rightarrow> duration" where
  "certificateRequestDuration request =
     (if \<not> cr_Wrapped request then 0
      else (case cr_Duration request of None \<Rightarrow> 0 | Some d \<Rightarrow> d))"

definition requestedNotAfter :: "bytes \<Rightarrow> bytes \<Rightarrow> request_object \<Rightarrow> time \<Rightarrow> time" where
  "requestedNotAfter requestedValidity operation request started =
     (if requestedValidity \<noteq> RequestedValidityDuration
         \<or> (operation \<noteq> TransactionOperationIR \<and> operation \<noteq> TransactionOperationKUR)
      then zero_time
      else (let d = certificateRequestDuration request in
            if d \<le> 0 then zero_time
            else (let t = started + d in t - (t - zero_time) mod second)))"

definition transactionStartTime :: "cmp_transaction \<Rightarrow> time \<Rightarrow> time" where
  "transactionStartTime transaction fallback =
     (if tx_CreationTimestamp transaction = zero_time then fallback else tx_CreationTimestamp transaction)"

definition validateResumedTransaction ::
    "cmp_transaction \<Rightarrow> bytes \<Rightarrow> bytes \<Rightarrow> bytes \<Rightarrow> issuer_reference \<Rightarrow> go_error + unit"
where
  "validateResumedTransaction transaction csrDigest operation fallbackOperation expectedIssuer =
     (let spec = tx_Spec transaction in
      rbind (ensure (\<not> (ts_CSRDigest spec = [] \<or> ts_ConfigurationDigest spec = [] \<or> ts_Operation spec = []))
        (TextError ''recorded CMP transaction is missing the request, configuration or operation binding'')) (\<lambda>_.
      rbind (ensure (ts_CSRDigest spec = csrDigest)
        (TextError ''recorded CMP transaction enrolls a different certificate signing request'')) (\<lambda>_.
      rbind (ensure (case ts_IssuerRef spec of
             None \<Rightarrow> False
           | Some ref \<Rightarrow> ir_Name ref = ir_Name expectedIssuer \<and> ir_Kind ref = ir_Kind expectedIssuer
               \<and> ir_UID ref = ir_UID expectedIssuer)
        (TextError ''recorded CMP transaction belongs to a different issuer identity'')) (\<lambda>_.
      if ts_RenewalFallback spec \<noteq> []
      then
        ensure (\<not> (\<not> (ts_RenewalFallback spec = RenewalFallbackCurrentCertificateMissing
                      \<or> ts_RenewalFallback spec = RenewalFallbackCurrentCertificateExpired)
                   \<or> operation \<noteq> TransactionOperationKUR \<or> fallbackOperation = []
                   \<or> ts_Operation spec \<noteq> fallbackOperation))
          (TextError ''recorded CMP transaction falls back from KUR to an operation the issuer does not allow'')
      else
        ensure (ts_Operation spec = operation)
          (TextError ''recorded CMP transaction uses a different enrollment operation'')))))"

fun parse_recorded :: "x509_lib \<Rightarrow> bytes list \<Rightarrow> go_error + certificate list" where
  "parse_recorded lib [] = Inr []"
| "parse_recorded lib (encoded # rest) =
     rbind (map_err (PermanentError \<circ> WrapError ''parse recorded CMP certificate chain: %w'')
       (x509_ParseCertificate lib encoded)) (\<lambda>certificate.
     rbind (map_err (PermanentError \<circ> WrapError ''validate recorded CMP certificate key usage: %w'')
       (ValidateMLDSAKeyUsage (Some certificate))) (\<lambda>_.
     rbind (parse_recorded lib rest) (\<lambda>chain.
     Inr (certificate # chain))))"

definition recordedChain :: "x509_lib \<Rightarrow> cmp_transaction \<Rightarrow> bytes \<Rightarrow> go_error + certificate list" where
  "recordedChain lib transaction csrDER =
     rbind (ensure (st_IssuedChain (tx_Status transaction) \<noteq> [])
       (PermanentError (TextError ''recorded CMP transaction reports an issued certificate without a chain''))) (\<lambda>_.
     rbind (parse_recorded lib (st_IssuedChain (tx_Status transaction))) (\<lambda>chain.
     rbind (map_err (PermanentError \<circ> WrapError ''parse CertificateRequest CSR: %w'')
       (x509_ParseCertificateRequest lib csrDER)) (\<lambda>csr.
     rbind (ensure (PublicKeysEqual (csr_PublicKey csr) (cert_PublicKey (hd chain)))
       (PermanentError (TextError ''recorded CMP certificate does not match the requested public key''))) (\<lambda>_.
     Inr chain))))"

definition trustedRecordedChain ::
    "x509_lib \<Rightarrow> certificate list \<Rightarrow> certificate list option \<Rightarrow> certificate list \<Rightarrow> go_error + certificate list"
where
  "trustedRecordedChain lib chain roots candidates =
     map_err (PermanentError \<circ> WrapError ''recorded CMP certificate chain does not chain to the configured CMP trust: %w'')
       (ValidateIssuedChain lib chain candidates roots)"

subsection \<open>Effects\<close>

text \<open>
  \<open>on_error m h\<close> is \<^verbatim>\<open>if err != nil\<close> around a call that may panic: a panic unwinds past the handler.
  \<open>time_Sub\<close> is \<^verbatim>\<open>Time.Sub\<close>, which saturates at the limits of a Duration.
\<close>

definition on_error :: "'a io \<Rightarrow> (go_error \<Rightarrow> 'a io) \<Rightarrow> 'a io" where
  "on_error m h s =
     (case m s of
        (Inl e, s') \<Rightarrow> if is_Panic e then (Inl e, s') else h e s'
      | (Inr x, s') \<Rightarrow> (Inr x, s'))"

definition time_Sub :: "time \<Rightarrow> time \<Rightarrow> duration" where
  "time_Sub t u = max (- (2 ^ 63)) (min (2 ^ 63 - 1) (t - u))"

definition record_metric :: "(metrics_registry \<Rightarrow> metrics_registry) \<Rightarrow> unit io" where
  "record_metric f s = (Inr (), s\<lparr>k_Metrics := f (k_Metrics s)\<rparr>)"

definition recordIssuedEnrollment :: "kube_lib \<Rightarrow> metric_labels \<Rightarrow> bytes \<Rightarrow> time \<Rightarrow> unit io" where
  "recordIssuedEnrollment kl labels confirmation started =
     sbind (now kl) (\<lambda>time.
     sbind (record_metric (RecordOutcome labels ResultIssued (time_Sub time started))) (\<lambda>_.
     record_metric (RecordConfirmation labels confirmation)))"

definition recordFailedEnrollment :: "kube_lib \<Rightarrow> metric_labels \<Rightarrow> go_error \<Rightarrow> time \<Rightarrow> unit io" where
  "recordFailedEnrollment kl labels err started =
     (if as_pending err \<noteq> None then slift (Inr ())
      else
        sbind (now kl) (\<lambda>time.
        sbind (record_metric (RecordOutcome labels ResultFailed (time_Sub time started))) (\<lambda>_.
        case failureLabels err of (failure, classification) \<Rightarrow>
          record_metric (RecordFailure labels failure classification))))"

definition recordEnrollmentPoll :: "metric_labels \<Rightarrow> unit io" where
  "recordEnrollmentPoll labels = record_metric (RecordPoll labels)"

text \<open>The deferred report of \<open>Sign\<close>, for the part of it that runs with one start time.\<close>

definition reporting :: "kube_lib \<Rightarrow> metric_labels \<Rightarrow> time \<Rightarrow> 'a io \<Rightarrow> 'a io" where
  "reporting kl labels started m =
     on_error m (\<lambda>err. sbind (recordFailedEnrollment kl labels err started) (\<lambda>_. slift (Inl err)))"

definition failTransaction :: "kube_lib \<Rightarrow> cmp_transaction \<Rightarrow> go_error \<Rightarrow> 'a io" where
  "failTransaction kl transaction err =
     (let mapped = mapProtocolError err in
      if as_permanent mapped \<noteq> None
      then sbind (store_remove kl transaction) (\<lambda>_. slift (Inl mapped))
      else slift (Inl mapped))"

subsection \<open>Check\<close>

definition Check :: "kube_lib \<Rightarrow> bytes \<Rightarrow> issuer \<Rightarrow> unit io" where
  "Check kl clusterResourceNamespace issuer =
     sbind (on_error (loadRuntimeConfiguration kl clusterResourceNamespace issuer) (\<lambda>configurationErr.
       slift (Inl (if ce_Permanent configurationErr then PermanentError configurationErr else configurationErr)))) (\<lambda>rc.
     if rc_EndpointScheme rc = schemeHTTP \<and> shouldEmitHTTPWarning (kube_names kl) issuer
     then emit_event \<lparr>ev_Type = nm_Warning (kube_names kl), ev_Reason = eventHTTPNoConfidential,
       ev_Note = ''CMP message authentication and integrity are active but HTTP transport confidentiality is absent''\<rparr>
     else slift (Inr ()))"

subsection \<open>Waiting and confirming\<close>

definition count_poll :: "bool \<Rightarrow> cmp_transaction \<Rightarrow> cmp_transaction" where
  "count_poll polled transaction =
     (if polled
      then transaction\<lparr>tx_Status := (tx_Status transaction)\<lparr>
             st_Polls := wrap32 (st_Polls (tx_Status transaction) + 1)\<rparr>\<rparr>
      else transaction)"

text \<open>The delay and the pending error that \<^verbatim>\<open>continuePolling\<close> and \<^verbatim>\<open>continueConfirming\<close> end with.\<close>

definition ask_for_retry ::
    "kube_lib \<Rightarrow> metric_labels \<Rightarrow> cmp_transaction \<Rightarrow> duration \<Rightarrow> transaction_limits \<Rightarrow> string \<Rightarrow> 'a io"
where
  "ask_for_retry kl labels transaction checkAfter limits text =
     (let delay = pollDelay checkAfter limits in
      sbind (now kl) (\<lambda>time.
      let deadlineDelay = time_Sub (ts_Deadline (tx_Spec transaction)) time;
          delay' = (if deadlineDelay > 0 \<and> deadlineDelay < delay then deadlineDelay else delay)
      in
      sbind (recordEnrollmentPoll labels) (\<lambda>_.
      slift (Inl (PendingError (TextError text) delay')))))"

definition continuePolling ::
    "kube_lib \<Rightarrow> metric_labels \<Rightarrow> cmp_transaction \<Rightarrow> pending_transaction \<Rightarrow> transaction_limits \<Rightarrow> bool \<Rightarrow> 'a io"
where
  "continuePolling kl labels transaction pending limits polled =
     sbind (recordPending kl (count_poll polled transaction) pending) (\<lambda>transaction'.
     ask_for_retry kl labels transaction' (pending_CheckAfter pending) limits
       ''CMP server has not issued the certificate yet, polling again in %s'')"

definition continueConfirming ::
    "kube_lib \<Rightarrow> metric_labels \<Rightarrow> cmp_transaction \<Rightarrow> certificate list \<Rightarrow> pending_transaction \<Rightarrow>
     transaction_limits \<Rightarrow> bool \<Rightarrow> 'a io"
where
  "continueConfirming kl labels transaction chain pending limits polled =
     sbind (recordConfirming kl (count_poll polled transaction) chain pending) (\<lambda>transaction'.
     ask_for_retry kl labels transaction' (pending_CheckAfter pending) limits
       ''CMP server has not confirmed the issued certificate yet, polling again in %s'')"

definition past_deadline :: go_error where
  "past_deadline = PermanentError (TextError ''CMP transaction exceeded the configured maximum duration of %s'')"

definition out_of_polls :: go_error where
  "out_of_polls = PermanentError (TextError ''CMP transaction reached the configured maximum of %d polls'')"

definition finish_enrollment ::
    "kube_lib \<Rightarrow> metric_labels \<Rightarrow> cmp_transaction \<Rightarrow> certificate list \<Rightarrow> bytes \<Rightarrow> time \<Rightarrow> bytes io"
where
  "finish_enrollment kl labels transaction chain confirmation started =
     sbind (recordIssued kl transaction chain) (\<lambda>_.
     sbind (recordIssuedEnrollment kl labels confirmation started) (\<lambda>_.
     slift (Inr (encodeChainPEM kl chain))))"

definition confirm ::
    "kube_lib \<Rightarrow> protocol_client \<Rightarrow> metric_labels \<Rightarrow> cmp_transaction \<Rightarrow> enrollment_request \<Rightarrow>
     transaction_limits \<Rightarrow> certificate list \<Rightarrow> pending_transaction \<Rightarrow> time \<Rightarrow> bytes io"
where
  "confirm kl client labels transaction enrollmentRequest limits chain pending started =
     sbind (now kl) (\<lambda>time.
     if time > ts_Deadline (tx_Spec transaction) then failTransaction kl transaction past_deadline
     else if st_Polls (tx_Status transaction) \<ge> tl_MaximumPolls limits
     then failTransaction kl transaction out_of_polls
     else case chain of
       [] \<Rightarrow> slift (Inl (Panic ''index out of range''))
     | leaf # _ \<Rightarrow>
         sbind (on_error (pc_ConfirmP10CR client
             \<lparr>confirm_Enrollment = enrollmentRequest, confirm_Certificate = Some leaf,
              confirm_CertReqID = pending_CertReqID pending, confirm_RecipNonce = pending_RecipNonce pending,
              confirm_ResponseSigner = pending_ResponseSigner pending,
              confirm_RequestNonce = pending_RequestNonce pending\<rparr>)
           (failTransaction kl transaction)) (\<lambda>result.
         case PendingConfirmation result of
           Some pending' \<Rightarrow>
             continueConfirming kl labels transaction chain pending' limits (pending_RequestNonce pending \<noteq> [])
         | None \<Rightarrow> finish_enrollment kl labels transaction chain confirmationExplicit started))"

text \<open>The response signer a record retains, parsed.\<close>

definition retained_signer :: "x509_lib \<Rightarrow> cmp_transaction \<Rightarrow> go_error + certificate option" where
  "retained_signer lib transaction =
     (if st_ResponseSigner (tx_Status transaction) = [] then Inr None
      else
        rbind (map_err (PermanentError \<circ> WrapError ''parse retained CMP response signer: %w'')
          (x509_ParseCertificate lib (st_ResponseSigner (tx_Status transaction)))) (\<lambda>c.
        Inr (Some c)))"

definition resumeConfirmation ::
    "kube_lib \<Rightarrow> protocol_client \<Rightarrow> metric_labels \<Rightarrow> cmp_transaction \<Rightarrow> enrollment_request \<Rightarrow>
     transaction_limits \<Rightarrow> bytes \<Rightarrow> time \<Rightarrow> bytes io"
where
  "resumeConfirmation kl client labels transaction enrollmentRequest limits csrDER started =
     sbind (on_error (slift (recordedChain (lib_x509 kl) transaction csrDER)) (failTransaction kl transaction)) (\<lambda>recorded.
     sbind (on_error (slift (trustedRecordedChain (lib_x509 kl) recorded (CMPTrust enrollmentRequest)
         (CMPTrustCertificates enrollmentRequest @ CMPResponseCertificates enrollmentRequest)))
       (failTransaction kl transaction)) (\<lambda>chain.
     case st_CertReqID (tx_Status transaction) of
       None \<Rightarrow> failTransaction kl transaction
         (PermanentError (TextError ''recorded CMP transaction is missing the state required to confirm''))
     | Some certReqID \<Rightarrow>
         sbind (slift (retained_signer (lib_x509 kl) transaction)) (\<lambda>signer.
         confirm kl client labels transaction enrollmentRequest limits chain
           \<lparr>pending_CertReqID = certReqID, pending_RecipNonce = st_RecipNonce (tx_Status transaction),
            pending_ResponseSigner = signer, pending_CheckAfter = 0,
            pending_RequestNonce = st_RequestNonce (tx_Status transaction)\<rparr> started)))"

definition recoverIssuedChain ::
    "kube_lib \<Rightarrow> bytes \<Rightarrow> cmp_transaction \<Rightarrow> issuer \<Rightarrow> bytes \<Rightarrow> bytes io"
where
  "recoverIssuedChain kl clusterResourceNamespace transaction issuer csrDER =
     sbind (on_error (slift (recordedChain (lib_x509 kl) transaction csrDER)) (failTransaction kl transaction)) (\<lambda>recorded.
     sbind (on_error (loadCMPTrust kl clusterResourceNamespace issuer) (\<lambda>e. slift (Inl (IssuerError e)))) (\<lambda>(roots, candidates).
     sbind (on_error (slift (trustedRecordedChain (lib_x509 kl) recorded (Some roots) candidates))
       (failTransaction kl transaction)) (\<lambda>chain.
     slift (Inr (encodeChainPEM kl chain)))))"

subsection \<open>The exchange\<close>

definition enroll ::
    "protocol_client \<Rightarrow> bytes \<Rightarrow> enrollment_request \<Rightarrow> enrollment_result io"
where
  "enroll client operation enrollmentRequest =
     (if operation = TransactionOperationIR then pc_EnrollIR client enrollmentRequest
      else if operation = TransactionOperationKUR then pc_EnrollKUR client enrollmentRequest
      else pc_EnrollP10CR client enrollmentRequest)"

definition poll_state :: "x509_lib \<Rightarrow> enrollment_request \<Rightarrow> cmp_transaction \<Rightarrow> transaction_limits \<Rightarrow> go_error + poll_request" where
  "poll_state lib enrollmentRequest transaction limits =
     (case (st_CertReqID (tx_Status transaction), st_RecipNonce (tx_Status transaction)) of
        (Some certReqID, nonce # nonces) \<Rightarrow>
          rbind (ensure (\<not> st_Polls (tx_Status transaction) \<ge> tl_MaximumPolls limits) out_of_polls) (\<lambda>_.
          rbind (retained_signer lib transaction) (\<lambda>signer.
          Inr \<lparr>poll_Enrollment = enrollmentRequest, poll_RecipNonce = nonce # nonces,
            poll_CertReqID = certReqID, poll_ResponseSigner = signer,
            poll_RequestNonce = st_RequestNonce (tx_Status transaction)\<rparr>))
      | _ \<Rightarrow> Inl (PermanentError (TextError ''recorded CMP transaction is missing the state required to poll'')))"

definition exchange ::
    "kube_lib \<Rightarrow> protocol_client \<Rightarrow> enrollment_request \<Rightarrow> cmp_transaction \<Rightarrow> transaction_limits \<Rightarrow>
     enrollment_result io"
where
  "exchange kl client enrollmentRequest transaction limits =
     sbind (now kl) (\<lambda>time.
     if time > ts_Deadline (tx_Spec transaction) then slift (Inl past_deadline)
     else if st_Phase (tx_Status transaction) \<noteq> TransactionPhasePolling
     then enroll client (ts_Operation (tx_Spec transaction)) enrollmentRequest
     else sbind (slift (poll_state (lib_x509 kl) enrollmentRequest transaction limits)) (pc_PollP10CR client))"

definition sign_transaction ::
    "kube_lib \<Rightarrow> protocol_client \<Rightarrow> metric_labels \<Rightarrow> time \<Rightarrow> bytes \<Rightarrow> enrollment_request \<Rightarrow>
     transaction_limits \<Rightarrow> cmp_transaction \<Rightarrow> bytes io"
where
  "sign_transaction kl client labels started requestDER enrollmentRequest limits transaction =
     (if st_Phase (tx_Status transaction) = TransactionPhaseConfirming
      then resumeConfirmation kl client labels transaction enrollmentRequest limits requestDER started
      else
        sbind (on_error (exchange kl client enrollmentRequest transaction limits)
          (failTransaction kl transaction)) (\<lambda>result.
        case Pending result of
          Some pending \<Rightarrow>
            continuePolling kl labels transaction pending limits
              (st_Phase (tx_Status transaction) = TransactionPhasePolling)
        | None \<Rightarrow>
            (case PendingConfirmation result of
               Some pending \<Rightarrow>
                 sbind (recordConfirming kl transaction (Chain result) pending) (\<lambda>transaction'.
                 confirm kl client labels transaction' enrollmentRequest limits (Chain result) pending started)
             | None \<Rightarrow>
                 finish_enrollment kl labels transaction (Chain result) confirmationImplicit started)))"

subsection \<open>Preparing an enrollment\<close>

definition selectRenewalFallback ::
    "kube_lib \<Rightarrow> request_object \<Rightarrow> issuer \<Rightarrow> bytes \<Rightarrow> (bytes \<times> renewal_fallback option) io"
where
  "selectRenewalFallback kl request issuer operation =
     (let fallbackOperation = renewalFallbackOperation issuer in
      if operation \<noteq> TransactionOperationKUR \<or> fallbackOperation = [] then slift (Inr (operation, None))
      else
        sbind (now kl) (\<lambda>time.
        sbind (on_error (classifyRenewalFallback kl request issuer time)
          (\<lambda>e. slift (Inl (workloadConfigurationError e)))) (\<lambda>fallback.
        case fallback of
          None \<Rightarrow> slift (Inr (operation, None))
        | Some fb \<Rightarrow> slift (Inr (fallbackOperation, Some fb)))))"

text \<open>\<^verbatim>\<open>maps.Copy\<close> on association lists.\<close>

definition copy_fingerprints :: "fingerprints \<Rightarrow> fingerprints \<Rightarrow> fingerprints" where
  "copy_fingerprints dst src = src @ filter (\<lambda>entry. fst entry \<notin> fst ` set src) dst"

definition load_material ::
    "kube_lib \<Rightarrow> request_object \<Rightarrow> issuer \<Rightarrow> bytes \<Rightarrow> bytes \<Rightarrow> bytes \<Rightarrow> workload_key_material io"
where
  "load_material kl request issuer operation renewalFallbackReason requestDER =
     (if operation = TransactionOperationKUR then loadKURMaterial kl request issuer requestDER
      else loadIRMaterial kl request issuer requestDER renewalFallbackReason)"

definition validate_workload_request :: "kube_lib \<Rightarrow> bytes \<Rightarrow> enrollment_request \<Rightarrow> unit io" where
  "validate_workload_request kl operation enrollmentRequest =
     (if operation = TransactionOperationKUR
      then sbind (ValidateKURRequest (kube_cmp kl) enrollmentRequest) (\<lambda>_. slift (Inr ()))
      else sbind (slift (ValidateIRRequest (kube_cmp kl) enrollmentRequest)) (\<lambda>_. slift (Inr ())))"

definition with_material :: "workload_key_material \<Rightarrow> enrollment_request \<Rightarrow> enrollment_request" where
  "with_material material enrollmentRequest =
     (case wk_Protection material of
        None \<Rightarrow> enrollmentRequest
      | Some protection \<Rightarrow> enrollmentRequest\<lparr>Protection := protection\<rparr>)
     \<lparr>RequestedPrivateKey := Some (wk_RequestedPrivateKey material), ResponseCertReqID := None\<rparr>"

definition prepareWorkloadKeyEnrollment ::
    "kube_lib \<Rightarrow> request_object \<Rightarrow> issuer \<Rightarrow> bytes \<Rightarrow> bytes \<Rightarrow> bytes \<Rightarrow> runtime_configuration \<Rightarrow>
     enrollment_request \<Rightarrow> (runtime_configuration \<times> enrollment_request) io"
where
  "prepareWorkloadKeyEnrollment kl request issuer operation renewalFallbackReason requestDER rc enrollmentRequest =
     sbind (on_error (load_material kl request issuer operation renewalFallbackReason requestDER)
       (\<lambda>e. slift (Inl (workloadConfigurationError e)))) (\<lambda>material.
     let enrollmentRequest' = with_material material enrollmentRequest;
         secrets = copy_fingerprints (rc_ConfigurationSecrets rc) (wk_Secrets material)
     in
     sbind (slift (map_err (PermanentError \<circ> WrapError ''identify %s configuration: %w'')
       (runtimeConfigurationDigest kl (issuerReference issuer) secrets))) (\<lambda>configurationDigest.
     sbind (on_error (validate_workload_request kl operation enrollmentRequest')
       (\<lambda>e. slift (Inl (mapProtocolError e)))) (\<lambda>_.
     slift (Inr (rc\<lparr>rc_ConfigurationSecrets := secrets, rc_ConfigurationDigest := configurationDigest\<rparr>,
       enrollmentRequest')))))"

definition reportRenewalFallback :: "kube_lib \<Rightarrow> request_object \<Rightarrow> renewal_fallback \<Rightarrow> unit io" where
  "reportRenewalFallback kl request fallback =
     (if \<not> cr_Wrapped request then slift (Inr ())
      else emit_event \<lparr>ev_Type = nm_Warning (kube_names kl), ev_Reason = eventRenewalFallback,
        ev_Note = (if fb_Expired fallback \<noteq> None
                   then ''Renewing with %s instead of KUR because the certificate in Secret %q expired at %s''
                   else ''Renewing with %s instead of KUR because Secret %q is missing or holds no certificate'')\<rparr>)"

text \<open>The operation, the fallback found now and the fallback reason to record.\<close>

definition choose_operation ::
    "kube_lib \<Rightarrow> request_object \<Rightarrow> issuer \<Rightarrow> bytes \<Rightarrow> cmp_transaction option \<Rightarrow>
     (bytes \<times> renewal_fallback option \<times> bytes) io"
where
  "choose_operation kl request issuer operation resumed =
     (case resumed of
        Some transaction \<Rightarrow>
          slift (Inr (ts_Operation (tx_Spec transaction), None, ts_RenewalFallback (tx_Spec transaction)))
      | None \<Rightarrow>
          sbind (selectRenewalFallback kl request issuer operation) (\<lambda>(operation', fallback).
          slift (Inr (operation', fallback, case fallback of None \<Rightarrow> [] | Some fb \<Rightarrow> fb_Reason fb))))"

definition base_request :: "runtime_configuration \<Rightarrow> bytes \<Rightarrow> bytes \<Rightarrow> enrollment_request" where
  "base_request rc requestDER operation =
     (let enrollmentRequest = (rc_EnrollmentRequest rc)\<lparr>CSRDER := requestDER, Operation := operation\<rparr> in
      if operation = TransactionOperationKUR \<and> rc_RenewalEndpointURL rc \<noteq> []
      then enrollmentRequest\<lparr>EndpointURL := rc_RenewalEndpointURL rc\<rparr> else enrollmentRequest)"

text \<open>The record of the transaction: the resumed one if its configuration is unchanged, or a new one.\<close>

definition recorded_transaction ::
    "kube_lib \<Rightarrow> request_object \<Rightarrow> issuer \<Rightarrow> bytes \<Rightarrow> bytes \<Rightarrow> bytes \<Rightarrow> renewal_fallback option \<Rightarrow>
     runtime_configuration \<Rightarrow> cmp_transaction option \<Rightarrow> cmp_transaction io"
where
  "recorded_transaction kl request issuer csrDigest operation fallbackReason fallback rc resumed =
     (case resumed of
        Some transaction \<Rightarrow>
          if ts_ConfigurationDigest (tx_Spec transaction) \<noteq> rc_ConfigurationDigest rc
          then failTransaction kl transaction
            (PermanentError (TextError ''issuer credentials changed during the recorded CMP transaction''))
          else slift (Inr transaction)
      | None \<Rightarrow>
          sbind (now kl) (\<lambda>time.
          sbind (store_create kl (cr_Namespace request) (cr_Name request) (cr_UID request)
              (time + tl_MaximumDuration (rc_Transaction rc))
              \<lparr>td_CSRDigest = csrDigest, td_IssuerRef = issuerReference issuer,
               td_ConfigurationDigest = rc_ConfigurationDigest rc, td_Operation = operation,
               td_ProtocolVersion = cmpProtocolVersion, td_RenewalFallback = fallbackReason\<rparr>) (\<lambda>transaction.
          sbind (case fallback of None \<Rightarrow> slift (Inr ()) | Some fb \<Rightarrow> reportRenewalFallback kl request fb) (\<lambda>_.
          slift (Inr transaction)))))"

text \<open>The part of \<^verbatim>\<open>Sign\<close> after the configuration is loaded.\<close>

definition sign_loaded ::
    "kube_lib \<Rightarrow> protocol_client \<Rightarrow> metric_labels \<Rightarrow> time \<Rightarrow> request_object \<Rightarrow> issuer \<Rightarrow>
     bytes \<Rightarrow> bytes \<Rightarrow> cmp_transaction option \<Rightarrow> runtime_configuration \<Rightarrow> bytes io"
where
  "sign_loaded kl client labels started request issuer requestDER operation resumed rc =
     sbind (choose_operation kl request issuer operation resumed) (\<lambda>(operation', fallback, fallbackReason).
     sbind (let base = base_request rc requestDER operation' in
         if operation' = TransactionOperationIR \<or> operation' = TransactionOperationKUR
         then prepareWorkloadKeyEnrollment kl request issuer operation' fallbackReason requestDER rc base
         else slift (Inr (rc, base))) (\<lambda>(rc', enrollmentRequest).
     sbind (recorded_transaction kl request issuer (csrDigestHex (lib_x509 kl) requestDER) operation'
         fallbackReason fallback rc' resumed) (\<lambda>transaction.
     sign_transaction kl client labels started requestDER
       (enrollmentRequest\<lparr>TransactionID := ts_TransactionID (tx_Spec transaction),
          RequestedNotAfter := requestedNotAfter (rc_RequestedValidity rc') operation' request started\<rparr>)
       (rc_Transaction rc') transaction)))"

definition sign_configured ::
    "kube_lib \<Rightarrow> protocol_client \<Rightarrow> bytes \<Rightarrow> metric_labels \<Rightarrow> time \<Rightarrow> request_object \<Rightarrow> issuer \<Rightarrow>
     bytes \<Rightarrow> bytes \<Rightarrow> cmp_transaction option \<Rightarrow> bytes io"
where
  "sign_configured kl client clusterResourceNamespace labels started request issuer requestDER operation resumed =
     sbind (on_error (loadRuntimeConfiguration kl clusterResourceNamespace issuer)
       (\<lambda>e. slift (Inl (IssuerError e))))
       (sign_loaded kl client labels started request issuer requestDER operation resumed)"

subsection \<open>Sign\<close>

definition sign_recorded ::
    "kube_lib \<Rightarrow> protocol_client \<Rightarrow> bytes \<Rightarrow> metric_labels \<Rightarrow> time \<Rightarrow> request_object \<Rightarrow> issuer \<Rightarrow>
     bytes \<Rightarrow> bytes \<Rightarrow> cmp_transaction option \<Rightarrow> bytes io"
where
  "sign_recorded kl client clusterResourceNamespace labels started request issuer requestDER operation resumed =
     (case resumed of
        None \<Rightarrow> sign_configured kl client clusterResourceNamespace labels started request issuer requestDER operation None
      | Some transaction \<Rightarrow>
          if st_Phase (tx_Status transaction) = TransactionPhaseIssued
          then recoverIssuedChain kl clusterResourceNamespace transaction issuer requestDER
          else case ts_IssuerRef (tx_Spec transaction) of
            None \<Rightarrow> slift (Inl (Panic ''nil pointer dereference''))
          | Some ref \<Rightarrow>
              if ir_Generation ref \<noteq> ir_Generation (issuerReference issuer)
              then failTransaction kl transaction
                (PermanentError (TextError ''issuer spec changed during the recorded CMP transaction''))
              else sign_configured kl client clusterResourceNamespace labels started request issuer requestDER operation resumed)"

definition sign_begin ::
    "kube_lib \<Rightarrow> request_object \<Rightarrow> issuer \<Rightarrow> (bytes \<times> bytes \<times> cmp_transaction option) io"
where
  "sign_begin kl request issuer =
     sbind (slift (map_err (PermanentError \<circ> WrapError ''read CertificateRequest details: %w'') (cr_CSR request))) (\<lambda>csr.
     sbind (slift (map_err PermanentError (ParseCertificateRequestDER (lib_x509 kl) csr))) (\<lambda>requestDER.
     sbind (slift (map_err PermanentError
       (selectedTransactionOperation (kube_names kl) issuer request))) (\<lambda>operation.
     sbind (store_load kl (cr_Namespace request) (cr_Name request) (cr_UID request)) (\<lambda>resumed.
     case resumed of
       None \<Rightarrow> slift (Inr (requestDER, operation, None))
     | Some transaction \<Rightarrow>
         (case validateResumedTransaction transaction (csrDigestHex (lib_x509 kl) requestDER) operation
                 (renewalFallbackOperation issuer) (issuerReference issuer) of
            Inl validationErr \<Rightarrow> failTransaction kl transaction (PermanentError validationErr)
          | Inr _ \<Rightarrow> slift (Inr (requestDER, operation, Some transaction)))))))"

definition Sign :: "kube_lib \<Rightarrow> protocol_client \<Rightarrow> bytes \<Rightarrow> request_object \<Rightarrow> issuer \<Rightarrow> bytes io" where
  "Sign kl client clusterResourceNamespace request issuer =
     sbind (now kl) (\<lambda>enrollmentStarted.
     let labels = enrollmentMetricLabels (kube_names kl) issuer request in
     sbind (reporting kl labels enrollmentStarted (sign_begin kl request issuer)) (\<lambda>(requestDER, operation, resumed).
     let started = (case resumed of None \<Rightarrow> enrollmentStarted
           | Some transaction \<Rightarrow> transactionStartTime transaction enrollmentStarted)
     in reporting kl labels started
          (sign_recorded kl client clusterResourceNamespace labels started request issuer requestDER operation resumed)))"

subsection \<open>The client contract\<close>

text \<open>
  What the signer relies on from its protocol client: the messages each operation sends and the
  results it gives, as long as the CMP library meets its message contract.
\<close>

locale protocol_contract =
  fixes kl :: kube_lib and client :: protocol_client
  assumes enroll_p10cr: "message_contract (kube_cmp kl) \<Longrightarrow> TransactionID request \<noteq> [] \<Longrightarrow>
      behaves (sends (kube_cmp kl) (enrolls (TransactionID request) OperationP10CR)) (pc_EnrollP10CR client request)
        typed_error (enrollment_outcome (kube_cmp kl) (request\<lparr>Operation := OperationP10CR\<rparr>))"
    and enroll_ir: "message_contract (kube_cmp kl) \<Longrightarrow> TransactionID request \<noteq> [] \<Longrightarrow>
      behaves (sends (kube_cmp kl) (enrolls (TransactionID request) OperationIR)) (pc_EnrollIR client request)
        typed_error (enrollment_outcome (kube_cmp kl) (request\<lparr>Operation := OperationIR\<rparr>))"
    and enroll_kur: "message_contract (kube_cmp kl) \<Longrightarrow> TransactionID request \<noteq> [] \<Longrightarrow>
      behaves (sends (kube_cmp kl) (enrolls (TransactionID request) OperationKUR)) (pc_EnrollKUR client request)
        typed_error (enrollment_outcome (kube_cmp kl) (request\<lparr>Operation := OperationKUR\<rparr>))"
    and poll: "message_contract (kube_cmp kl) \<Longrightarrow>
      behaves (sends (kube_cmp kl) (polls (TransactionID (poll_Enrollment p)) (poll_CertReqID p))) (pc_PollP10CR client p)
        typed_error (enrollment_outcome (kube_cmp kl) (poll_Enrollment p))"
    and confirmation: "message_contract (kube_cmp kl) \<Longrightarrow>
      behaves (sends (kube_cmp kl) (confirms c)) (pc_ConfirmP10CR client c) typed_error confirmation_outcome"

interpretation cmp: protocol_contract kl "CMPClient (kube_cmp kl)" for kl
  by unfold_locales
    (auto simp: CMPClient_def intro: EnrollP10CR_behaves EnrollIR_behaves EnrollKUR_behaves PollP10CR_behaves
      ConfirmP10CR_behaves)

subsection \<open>The message a record allows\<close>

text \<open>
  The durable record determines the messages that may be sent: the enrollment request of its operation, or
  polls for it once the server has asked to wait, or its certConf and the polls that follow it, always
  under the recorded transaction ID and within the poll limit. An issued record allows none.
\<close>

definition recorded_operation :: "cmp_transaction \<Rightarrow> bytes" where
  "recorded_operation tx =
     (if ts_Operation (tx_Spec tx) = TransactionOperationIR then OperationIR
      else if ts_Operation (tx_Spec tx) = TransactionOperationKUR then OperationKUR
      else OperationP10CR)"

definition body_allowed :: "int \<Rightarrow> cmp_transaction \<Rightarrow> pki_body \<Rightarrow> bool" where
  "body_allowed M tx b =
     (let st = tx_Status tx in
      if tx_rank tx = 0 then enrollment_body (recorded_operation tx) b \<or> rejecting_body b
      else if tx_rank tx = 1
      then st_Polls st < M \<and> (rejecting_body b \<or> (\<exists>i. st_CertReqID st = Some i \<and> polling_body i b))
      else if tx_rank tx = 2
      then st_Polls st < M \<and> (if st_RequestNonce st = [] then accepting_body b
             else polling_body ResponseCertReqIDStandard b)
      else False)"

definition message_allowed :: "int \<Rightarrow> cmp_transaction option \<Rightarrow> pki_message \<Rightarrow> bool" where
  "message_allowed M rec m =
     (case rec of
        None \<Rightarrow> False
      | Some tx \<Rightarrow> hdr_TransactionID (Header m) = ts_TransactionID (tx_Spec tx) \<and> body_allowed M tx (Body m))"

abbreviation signs ::
    "kube_lib \<Rightarrow> namespaced_name \<Rightarrow> (api_access \<Rightarrow> bool) \<Rightarrow> int \<Rightarrow> cluster \<Rightarrow> cluster \<Rightarrow> bool"
where
  "signs kl key A M \<equiv> trail (kube_cmp kl) key (message_allowed M) A M"

lemma enrolls_allowed:
  "enrolls (ts_TransactionID (tx_Spec tx)) (recorded_operation tx) m \<Longrightarrow> tx_rank tx = 0 \<Longrightarrow>
   message_allowed M (Some tx) m"
  by (auto simp: enrolls_def transaction_message_def message_allowed_def body_allowed_def)

lemma polls_allowed:
  "polls (ts_TransactionID (tx_Spec tx)) i m \<Longrightarrow> tx_rank tx = 1 \<Longrightarrow> st_CertReqID (tx_Status tx) = Some i \<Longrightarrow>
   st_Polls (tx_Status tx) < M \<Longrightarrow> message_allowed M (Some tx) m"
  by (auto simp: polls_def transaction_message_def message_allowed_def body_allowed_def)

lemma confirms_allowed:
  "confirms c m \<Longrightarrow> TransactionID (confirm_Enrollment c) = ts_TransactionID (tx_Spec tx) \<Longrightarrow> tx_rank tx = 2 \<Longrightarrow>
   confirm_RequestNonce c = st_RequestNonce (tx_Status tx) \<Longrightarrow> st_Polls (tx_Status tx) < M \<Longrightarrow>
   message_allowed M (Some tx) m"
  by (auto simp: confirms_def transaction_message_def message_allowed_def body_allowed_def)

subsection \<open>Effects on a held record\<close>

lemma frame_holds:
  assumes "\<And>s. fst (m s) = Inr ()" and "\<And>s. net_Posts (snd (m s)) = net_Posts s"
    and "\<And>s. k_Log (snd (m s)) = k_Log s" and "\<And>s. k_Transactions (snd (m s)) = k_Transactions s"
    and "\<And>s. k_Secrets (snd (m s)) = k_Secrets s" and "\<And>s. k_Certificates (snd (m s)) = k_Certificates s"
    and "\<And>s. net_Ticks (snd (m s)) = net_Ticks s"
  shows "triple (holds (trail lib key P A M) key s0 rec) m E (\<lambda>_. holds (trail lib key P A M) key s0 rec)"
proof (rule tripleI)
  fix s s'
  assume held: "holds (trail lib key P A M) key s0 rec s"
  show "E e s'" if "m s = (Inl e, s')" for e
    using assms(1) [of s] that by simp
  show "holds (trail lib key P A M) key s0 rec s'" if run: "m s = (Inr x, s')" for x
  proof -
    have "effects lib key P A M [] [] s s'"
      using run assms(2-7) [of s] by (simp add: effects_def)
    from trail_step [OF _ trailI [OF this]] held assms(4) [of s] run show ?thesis
      by (simp add: holds_def)
  qed
qed

lemma record_metric_holds:
  "triple (holds (trail lib key P A M) key s0 rec) (record_metric f) E (\<lambda>_. holds (trail lib key P A M) key s0 rec)"
  by (rule frame_holds) (simp_all add: record_metric_def)

lemma emit_event_holds:
  "triple (holds (trail lib key P A M) key s0 rec) (emit_event ev) E (\<lambda>_. holds (trail lib key P A M) key s0 rec)"
  by (rule frame_holds) (simp_all add: emit_event_def)

lemma recordIssuedEnrollment_holds:
  "triple (holds (trail lib key P A M) key s0 rec) (recordIssuedEnrollment kl labels confirmation started) E
     (\<lambda>_. holds (trail lib key P A M) key s0 rec)"
  unfolding recordIssuedEnrollment_def
  by (rule triple_sbind [OF now_holds], rule triple_sbind [OF record_metric_holds], rule record_metric_holds)

lemma triple_on_error:
  assumes "triple P m F Q" and "\<And>e. is_Panic e \<Longrightarrow> triple (F e) (slift (Inl e)) E Q"
    and "\<And>e. \<not> is_Panic e \<Longrightarrow> triple (F e) (h e) E Q"
  shows "triple P (on_error m h) E Q"
  unfolding triple_def
proof (intro allI impI)
  fix s
  assume P: "P s"
  obtain r s' where run: "m s = (r, s')"
    by fastforce
  from triple_result [OF assms(1) P run] assms(2,3)
  show "case on_error m h s of (r, s') \<Rightarrow> case r of Inl e \<Rightarrow> E e s' | Inr x \<Rightarrow> Q x s'"
    by (auto simp: on_error_def run triple_def slift_def split: sum.split_asm)
qed

lemma failTransaction_holds:
  assumes "permits M key uid A" and "tx_key tx = key"
  shows "triple (holds (trail lib key P A M) key s0 (Some tx)) (failTransaction kl tx err)
    (\<lambda>e s. trail lib key P A M s0 s) Q"
  unfolding failTransaction_def Let_def
  by (intro triple_if triple_sbind [OF triple_conseq [OF store_remove_holds [OF assms]]] triple_slift)
    (auto simp: holds_def)

subsection \<open>What a returned chain guarantees\<close>

definition issued_for :: "x509_lib \<Rightarrow> bytes \<Rightarrow> certificate list \<Rightarrow> bool" where
  "issued_for lib csrDER chain \<longleftrightarrow>
     (\<exists>csr leaf candidates roots. x509_ParseCertificateRequest lib csrDER = Inr csr
        \<and> PublicKeysEqual (csr_PublicKey csr) (cert_PublicKey leaf)
        \<and> validateAndOrderChain lib leaf candidates roots = Inr chain)"

lemma validateAndOrderChain_Cons:
  "validateAndOrderChain lib leaf candidates roots = Inr chain \<Longrightarrow> \<exists>rest. chain = leaf # rest"
  by (auto simp: validateAndOrderChain_def result_simps)

lemma issued_for_nonempty: "issued_for lib csrDER chain \<Longrightarrow> chain \<noteq> []"
  by (auto simp: issued_for_def dest: validateAndOrderChain_Cons)

lemma sound_result_issued:
  assumes "enrollment_outcome lib request result" and "Pending result = None"
  shows "issued_for (cmp_x509 lib) (CSRDER request) (Chain result)"
    and "PendingConfirmation result = Some p \<Longrightarrow> pending_RequestNonce p = []"
  using assms
  by (auto simp: enrollment_outcome_def sound_result_def accepted_chain_def issued_for_def
      split: option.split_asm)

lemma parse_recorded_Inr:
  "parse_recorded lib encoded = Inr chain \<Longrightarrow>
   list_all2 (\<lambda>der c. x509_ParseCertificate lib der = Inr c) encoded chain"
  by (induction encoded arbitrary: chain) (auto simp: result_simps)

lemma recordedChain_Inr:
  assumes "recordedChain lib tx csrDER = Inr chain"
  shows "\<exists>csr leaf rest. x509_ParseCertificateRequest lib csrDER = Inr csr \<and> chain = leaf # rest
    \<and> PublicKeysEqual (csr_PublicKey csr) (cert_PublicKey leaf)"
proof -
  from assms obtain csr where "x509_ParseCertificateRequest lib csrDER = Inr csr"
      and parsed: "parse_recorded lib (st_IssuedChain (tx_Status tx)) = Inr chain"
      and "st_IssuedChain (tx_Status tx) \<noteq> []"
      and "PublicKeysEqual (csr_PublicKey csr) (cert_PublicKey (hd chain))"
    by (auto simp: recordedChain_def result_simps)
  moreover have "chain \<noteq> []"
    using parse_recorded_Inr [OF parsed] \<open>st_IssuedChain (tx_Status tx) \<noteq> []\<close> by auto
  ultimately show ?thesis
    by (cases chain) auto
qed

lemma recorded_issued_for:
  assumes "recordedChain lib tx csrDER = Inr recorded" and "trustedRecordedChain lib recorded roots candidates = Inr chain"
  shows "issued_for lib csrDER chain"
  using recordedChain_Inr [OF assms(1)] assms(2)
  by (auto simp: trustedRecordedChain_def ValidateIssuedChain_def issued_for_def result_simps split: option.split_asm)
    blast

text \<open>The outcome of a successful run for the record \<open>tx\<close>.\<close>

definition completed ::
    "kube_lib \<Rightarrow> (cluster \<Rightarrow> cluster \<Rightarrow> bool) \<Rightarrow> namespaced_name \<Rightarrow> cluster \<Rightarrow> bytes \<Rightarrow> cmp_transaction \<Rightarrow> bytes \<Rightarrow> cluster \<Rightarrow> bool"
where
  "completed kl R key s0 csrDER tx pem s \<longleftrightarrow>
     R s0 s
     \<and> (\<exists>chain tx'. pem = encodeChainPEM kl chain \<and> issued_for (lib_x509 kl) csrDER chain
          \<and> k_Transactions s key = Some tx' \<and> same_record tx tx'
          \<and> st_Phase (tx_Status tx') = TransactionPhaseIssued
          \<and> st_IssuedChain (tx_Status tx') = encodeChain chain)"

lemma same_record_trans: "same_record a b \<Longrightarrow> same_record b c \<Longrightarrow> same_record a c"
  by (simp add: same_record_def)

lemma same_record_refl [simp]: "same_record a a"
  by (simp add: same_record_def)

lemma finish_enrollment_holds:
  assumes "permits M key uid A" and "tx_key tx = key" and "issued_for (lib_x509 kl) csrDER chain"
  shows "triple (holds (signs kl key A M) key s0 (Some tx))
    (finish_enrollment kl labels tx chain confirmation started)
    (\<lambda>e s. signs kl key A M s0 s) (completed kl (signs kl key A M) key s0 csrDER tx)"
  unfolding finish_enrollment_def
  apply (rule triple_sbind [OF triple_conseq [OF recordIssued_holds [OF assms(1,2)]]], assumption, simp, assumption)
  subgoal for tx'
    by (rule triple_conseq [where P' = "\<lambda>s. (same_record tx tx' \<and> st_Phase (tx_Status tx') = TransactionPhaseIssued
          \<and> st_IssuedChain (tx_Status tx') = encodeChain chain) \<and> holds (signs kl key A M) key s0 (Some tx') s",
          OF triple_pure], rule triple_sbind [OF recordIssuedEnrollment_holds], rule triple_slift)
      (use assms(3) in \<open>auto simp: completed_def holds_def\<close>)
  done

lemma status_same: "(tx :: cmp_transaction)\<lparr>tx_Status := tx_Status tx\<rparr> = tx"
  by (cases tx) simp

lemma count_poll_ok:
  assumes "is_int32 (st_Polls (tx_Status tx))" and "is_int32 M" and "polled \<Longrightarrow> st_Polls (tx_Status tx) < M"
  shows "\<exists>st. count_poll polled tx = tx\<lparr>tx_Status := st\<rparr> \<and> polls_ok M tx st"
proof (cases polled)
  case True
  have "is_int32 (st_Polls (tx_Status tx) + 1)"
    using assms True by (auto simp: is_int32_def)
  then have "wrap32 (st_Polls (tx_Status tx) + 1) = st_Polls (tx_Status tx) + 1"
    by (rule wrap32_id)
  with True assms(3) show ?thesis
    by (intro exI [of _ "(tx_Status tx)\<lparr>st_Polls := st_Polls (tx_Status tx) + 1\<rparr>"])
      (simp add: count_poll_def polls_ok_def)
next
  case False
  then show ?thesis
    by (intro exI [of _ "tx_Status tx"]) (simp add: count_poll_def)
qed

lemma ask_for_retry_holds:
  "triple (holds (trail lib key P A M) key s0 rec) (ask_for_retry kl labels tx checkAfter limits text)
     (\<lambda>e s. trail lib key P A M s0 s) Q"
  unfolding ask_for_retry_def Let_def recordEnrollmentPoll_def
  by (rule triple_sbind [OF now_holds], rule triple_sbind [OF record_metric_holds], rule triple_slift)
    (auto simp: holds_def)

lemma continuePolling_holds:
  assumes "permits M key uid A" and "tx_key tx = key" and "tx_rank tx \<le> 1"
    and "is_int32 (st_Polls (tx_Status tx))" and "is_int32 M" and "polled \<Longrightarrow> st_Polls (tx_Status tx) < M"
  shows "triple (holds (signs kl key A M) key s0 (Some tx))
    (continuePolling kl labels tx pending limits polled) (\<lambda>e s. signs kl key A M s0 s) Q"
proof -
  from count_poll_ok [OF assms(4-6)] obtain st where
      st: "count_poll polled tx = tx\<lparr>tx_Status := st\<rparr>" "polls_ok M tx st"
    by blast
  show ?thesis
    unfolding continuePolling_def st(1)
    by (rule triple_sbind [OF triple_conseq [OF recordPending_holds [OF assms(1-3) st(2)]]], assumption, simp, assumption,
        rule triple_conseq [OF ask_for_retry_holds]) auto
qed

lemma continueConfirming_holds:
  assumes "permits M key uid A" and "tx_key tx = key" and "tx_rank tx \<le> 2"
    and "is_int32 (st_Polls (tx_Status tx))" and "is_int32 M" and "polled \<Longrightarrow> st_Polls (tx_Status tx) < M"
  shows "triple (holds (signs kl key A M) key s0 (Some tx))
    (continueConfirming kl labels tx chain pending limits polled) (\<lambda>e s. signs kl key A M s0 s) Q"
proof -
  from count_poll_ok [OF assms(4-6)] obtain st where
      st: "count_poll polled tx = tx\<lparr>tx_Status := st\<rparr>" "polls_ok M tx st"
    by blast
  show ?thesis
    unfolding continueConfirming_def st(1)
    by (rule triple_sbind [OF triple_conseq [OF recordConfirming_holds [OF assms(1-3) st(2)]]], assumption, simp, assumption,
        rule triple_conseq [OF ask_for_retry_holds]) auto
qed

lemma call_holds:
  assumes "triple (holds (trail lib key P A M) key s0 (Some tx)) m F (\<lambda>x s. V x \<and> holds (trail lib key P A M) key s0 (Some tx) s)"
    and "\<And>e s. F e s \<Longrightarrow> holds (trail lib key P A M) key s0 (Some tx) s"
    and "permits M key uid A" and "tx_key tx = key"
  shows "triple (holds (trail lib key P A M) key s0 (Some tx)) (on_error m (failTransaction kl tx))
    (\<lambda>e s. trail lib key P A M s0 s) (\<lambda>x s. V x \<and> holds (trail lib key P A M) key s0 (Some tx) s)"
proof (rule triple_on_error [OF assms(1)])
  show "triple (F e) (failTransaction kl tx e) (\<lambda>e s. trail lib key P A M s0 s)
      (\<lambda>x s. V x \<and> holds (trail lib key P A M) key s0 (Some tx) s)" for e
    using assms(2) by (rule triple_conseq [OF failTransaction_holds [OF assms(3,4)]]) auto
qed (rule triple_slift, use assms(2) in \<open>auto simp: holds_def\<close>)

lemma client_call_holds:
  assumes "behaves (sends lib P') m typed_error V" and "\<And>m. P' m \<Longrightarrow> P (Some tx) m"
    and "permits M key uid A" and "tx_key tx = key"
  shows "triple (holds (trail lib key P A M) key s0 (Some tx)) (on_error m (failTransaction kl tx))
    (\<lambda>e s. trail lib key P A M s0 s) (\<lambda>x s. V x \<and> holds (trail lib key P A M) key s0 (Some tx) s)"
  by (rule call_holds [OF holds_sends [OF assms(1)]]) (use assms(2-4) in auto)

text \<open>The conditions under which a record and a request are worked on.\<close>

definition workable ::
    "int \<Rightarrow> namespaced_name \<Rightarrow> cmp_transaction \<Rightarrow> enrollment_request \<Rightarrow> transaction_limits \<Rightarrow> bool"
where
  "workable M key tx request limits \<longleftrightarrow>
     tx_key tx = key \<and> TransactionID request = ts_TransactionID (tx_Spec tx) \<and> TransactionID request \<noteq> []
     \<and> is_int32 (st_Polls (tx_Status tx)) \<and> is_int32 M \<and> M = tl_MaximumPolls limits"

context protocol_contract
begin

lemma confirm_holds:
  assumes contract: "message_contract (kube_cmp kl)" and A: "permits M key uid A"
    and tx: "workable M key tx request limits" and rank: "tx_rank tx = 2"
    and nonce: "pending_RequestNonce pending = st_RequestNonce (tx_Status tx)"
    and chain: "issued_for (lib_x509 kl) csrDER chain"
  shows "triple (holds (signs kl key A M) key s0 (Some tx))
    (confirm kl client labels tx request limits chain pending started)
    (\<lambda>e s. signs kl key A M s0 s) (completed kl (signs kl key A M) key s0 csrDER tx)"
proof -
  from issued_for_nonempty [OF chain] obtain leaf rest where leaf: "chain = leaf # rest"
    by (cases chain) auto
  from tx have key: "tx_key tx = key"
    by (simp add: workable_def)
  show ?thesis
    unfolding confirm_def leaf list.case
  proof (intro triple_sbind [OF now_holds] triple_if failTransaction_holds [OF A key])
    assume polls: "\<not> tl_MaximumPolls limits \<le> st_Polls (tx_Status tx)"
    let ?c = "\<lparr>confirm_Enrollment = request, confirm_Certificate = Some leaf,
      confirm_CertReqID = pending_CertReqID pending, confirm_RecipNonce = pending_RecipNonce pending,
      confirm_ResponseSigner = pending_ResponseSigner pending,
      confirm_RequestNonce = pending_RequestNonce pending\<rparr>"
    have allowed: "confirms ?c m \<Longrightarrow> message_allowed M (Some tx) m" for m
      using tx rank nonce polls by (auto simp: workable_def intro: confirms_allowed)
    note call = client_call_holds [OF confirmation [OF contract] _ A key, where P = "message_allowed M"]
    show "triple (holds (signs kl key A M) key s0 (Some tx))
        (sbind (on_error (pc_ConfirmP10CR client ?c) (failTransaction kl tx)) (\<lambda>result.
           case PendingConfirmation result of
             None \<Rightarrow> finish_enrollment kl labels tx (leaf # rest) confirmationExplicit started
           | Some pending' \<Rightarrow> continueConfirming kl labels tx (leaf # rest) pending' limits (pending_RequestNonce pending \<noteq> [])))
        (\<lambda>e s. signs kl key A M s0 s) (completed kl (signs kl key A M) key s0 csrDER tx)"
      by (intro triple_sbind [OF call] allowed triple_option triple_pure
          finish_enrollment_holds [OF A key chain [unfolded leaf]] continueConfirming_holds [OF A key])
        (use tx rank polls in \<open>auto simp: workable_def\<close>)
  qed
qed

lemma enroll_holds:
  assumes contract: "message_contract (kube_cmp kl)" and tx: "workable M key tx request limits" and rank: "tx_rank tx = 0"
  shows "triple (holds (signs kl key A M) key s0 (Some tx)) (enroll client (ts_Operation (tx_Spec tx)) request)
    (\<lambda>e s. typed_error e \<and> holds (signs kl key A M) key s0 (Some tx) s)
    (\<lambda>result s. enrollment_outcome (kube_cmp kl) (request\<lparr>Operation := recorded_operation tx\<rparr>) result
       \<and> holds (signs kl key A M) key s0 (Some tx) s)"
proof -
  from tx have tid: "TransactionID request = ts_TransactionID (tx_Spec tx)" "TransactionID request \<noteq> []"
    by (auto simp: workable_def)
  have "behaves (sends (kube_cmp kl) (enrolls (ts_TransactionID (tx_Spec tx)) (recorded_operation tx)))
      (enroll client (ts_Operation (tx_Spec tx)) request) typed_error
      (enrollment_outcome (kube_cmp kl) (request\<lparr>Operation := recorded_operation tx\<rparr>))"
    using enroll_ir [OF contract tid(2)] enroll_kur [OF contract tid(2)] enroll_p10cr [OF contract tid(2)]
    unfolding tid(1) by (simp add: enroll_def recorded_operation_def transaction_operation_defs)
  then show ?thesis
    by (rule holds_sends) (erule enrolls_allowed [OF _ rank])
qed

lemma poll_state_Inr:
  "poll_state lib request tx limits = Inr p \<Longrightarrow>
   poll_Enrollment p = request \<and> st_CertReqID (tx_Status tx) = Some (poll_CertReqID p)
   \<and> st_Polls (tx_Status tx) < tl_MaximumPolls limits"
  by (auto simp: poll_state_def result_simps split: option.split_asm list.split_asm)

lemma exchange_holds:
  assumes contract: "message_contract (kube_cmp kl)" and tx: "workable M key tx request limits" and rank: "tx_rank tx \<le> 1"
  shows "triple (holds (signs kl key A M) key s0 (Some tx)) (exchange kl client request tx limits)
    (\<lambda>e s. holds (signs kl key A M) key s0 (Some tx) s)
    (\<lambda>result s. ((\<exists>operation. enrollment_outcome (kube_cmp kl) (request\<lparr>Operation := operation\<rparr>) result)
         \<and> (st_Phase (tx_Status tx) = TransactionPhasePolling \<longrightarrow> st_Polls (tx_Status tx) < M))
       \<and> holds (signs kl key A M) key s0 (Some tx) s)"
  unfolding exchange_def
proof (intro triple_sbind [OF now_holds] triple_if)
  assume "st_Phase (tx_Status tx) \<noteq> TransactionPhasePolling"
  moreover from this rank have "tx_rank tx = 0"
    by (auto simp: phase_rank_def split: if_split_asm)
  ultimately show "triple (holds (signs kl key A M) key s0 (Some tx))
      (enroll client (ts_Operation (tx_Spec tx)) request) (\<lambda>e s. holds (signs kl key A M) key s0 (Some tx) s)
      (\<lambda>result s. ((\<exists>operation. enrollment_outcome (kube_cmp kl) (request\<lparr>Operation := operation\<rparr>) result)
           \<and> (st_Phase (tx_Status tx) = TransactionPhasePolling \<longrightarrow> st_Polls (tx_Status tx) < M))
         \<and> holds (signs kl key A M) key s0 (Some tx) s)"
    by (intro triple_conseq [OF enroll_holds [OF contract tx]]) auto
next
  assume "\<not> st_Phase (tx_Status tx) \<noteq> TransactionPhasePolling"
  then have polling: "tx_rank tx = 1"
    by simp
  have poll: "triple (holds (signs kl key A M) key s0 (Some tx)) (pc_PollP10CR client p)
      (\<lambda>e s. holds (signs kl key A M) key s0 (Some tx) s)
      (\<lambda>result s. ((\<exists>operation. enrollment_outcome (kube_cmp kl) (request\<lparr>Operation := operation\<rparr>) result)
           \<and> (st_Phase (tx_Status tx) = TransactionPhasePolling \<longrightarrow> st_Polls (tx_Status tx) < M))
         \<and> holds (signs kl key A M) key s0 (Some tx) s)"
    if p: "poll_state (lib_x509 kl) request tx limits = Inr p" for p
  proof -
    note state = poll_state_Inr [OF p]
    have limit: "st_Polls (tx_Status tx) < M"
      using state tx by (simp add: workable_def)
    have "polls (TransactionID (poll_Enrollment p)) (poll_CertReqID p) m \<Longrightarrow> message_allowed M (Some tx) m" for m
      using state tx limit polling by (auto simp: workable_def intro: polls_allowed)
    note sent = holds_sends [where P = "message_allowed M" and held = "Some tx", OF poll [OF contract] this]
    have "enrollment_outcome (kube_cmp kl) (poll_Enrollment p) result \<Longrightarrow>
        \<exists>operation. enrollment_outcome (kube_cmp kl) (request\<lparr>Operation := operation\<rparr>) result" for result
      using state by (intro exI [of _ "Operation request"]) simp
    with limit show ?thesis
      by (intro triple_conseq [OF sent]) auto
  qed
  show "triple (holds (signs kl key A M) key s0 (Some tx))
      (sbind (slift (poll_state (lib_x509 kl) request tx limits)) (pc_PollP10CR client))
      (\<lambda>e s. holds (signs kl key A M) key s0 (Some tx) s)
      (\<lambda>result s. ((\<exists>operation. enrollment_outcome (kube_cmp kl) (request\<lparr>Operation := operation\<rparr>) result)
           \<and> (st_Phase (tx_Status tx) = TransactionPhasePolling \<longrightarrow> st_Polls (tx_Status tx) < M))
         \<and> holds (signs kl key A M) key s0 (Some tx) s)"
  proof (cases "poll_state (lib_x509 kl) request tx limits")
    case (Inr p)
    show ?thesis
      unfolding Inr sbind_slift_Inr by (rule poll [OF Inr])
  qed (auto intro: triple_slift)
qed (auto intro: triple_slift)

lemma resumeConfirmation_holds:
  assumes contract: "message_contract (kube_cmp kl)" and A: "permits M key uid A"
    and tx: "workable M key tx request limits" and rank: "tx_rank tx = 2"
  shows "triple (holds (signs kl key A M) key s0 (Some tx))
    (resumeConfirmation kl client labels tx request limits csrDER started)
    (\<lambda>e s. signs kl key A M s0 s) (completed kl (signs kl key A M) key s0 csrDER tx)"
proof -
  from tx have key: "tx_key tx = key"
    by (simp add: workable_def)
  have pure: "triple (holds (signs kl key A M) key s0 (Some tx)) (on_error (slift r) (failTransaction kl tx))
      (\<lambda>e s. signs kl key A M s0 s) (\<lambda>x s. r = Inr x \<and> holds (signs kl key A M) key s0 (Some tx) s)" for r :: "go_error + 'x"
    by (rule call_holds [OF triple_slift [where E = "\<lambda>_. holds (signs kl key A M) key s0 (Some tx)"] _ A key]) auto
  show ?thesis
    unfolding resumeConfirmation_def
    apply (rule triple_sbind [OF pure], rule triple_pure, rule triple_sbind [OF pure], rule triple_pure)
    apply (rule triple_option, rule failTransaction_holds [OF A key])
    apply (rule triple_sbind [OF triple_slift [where Q = "\<lambda>_. holds (signs kl key A M) key s0 (Some tx)"]])
      apply (simp add: holds_def, assumption)
    by (rule confirm_holds [OF contract A tx rank]) (auto intro: recorded_issued_for)
qed

lemma sign_transaction_holds:
  assumes contract: "message_contract (kube_cmp kl)" and A: "permits M key uid A"
    and tx: "workable M key tx request limits" and rank: "tx_rank tx \<le> 2" and csr: "CSRDER request = csrDER"
  shows "triple (holds (signs kl key A M) key s0 (Some tx))
    (sign_transaction kl client labels started csrDER request limits tx)
    (\<lambda>e s. signs kl key A M s0 s) (completed kl (signs kl key A M) key s0 csrDER tx)"
proof (cases "st_Phase (tx_Status tx) = TransactionPhaseConfirming")
  case True
  then show ?thesis
    unfolding sign_transaction_def by (simp add: resumeConfirmation_holds [OF contract A tx])
next
  case False
  with rank have low: "tx_rank tx \<le> 1"
    by (auto simp: phase_rank_def split: if_split_asm)
  from tx have key: "tx_key tx = key"
    by (simp add: workable_def)
  note exchanged = call_holds [OF exchange_holds [OF contract tx low] _ A key]
  have issued: "issued_for (lib_x509 kl) csrDER (Chain result)"
      "PendingConfirmation result = Some p \<Longrightarrow> pending_RequestNonce p = []"
    if "\<exists>operation. enrollment_outcome (kube_cmp kl) (request\<lparr>Operation := operation\<rparr>) result" "Pending result = None"
    for result p
    using that csr by (auto dest: sound_result_issued)
  have confirmed: "triple
      (\<lambda>s. holds (signs kl key A M) key s0 (Some tx') s \<and> same_record tx tx'
         \<and> st_Phase (tx_Status tx') = TransactionPhaseConfirming
         \<and> st_IssuedChain (tx_Status tx') = encodeChain chain \<and> st_Polls (tx_Status tx') = st_Polls (tx_Status tx)
         \<and> st_RequestNonce (tx_Status tx') = pending_RequestNonce pending)
      (confirm kl client labels tx' request limits chain pending started)
      (\<lambda>e s. signs kl key A M s0 s) (completed kl (signs kl key A M) key s0 csrDER tx)"
    if "issued_for (lib_x509 kl) csrDER chain" for chain pending tx'
  proof (cases "same_record tx tx' \<and> tx_rank tx' = 2 \<and> st_Polls (tx_Status tx') = st_Polls (tx_Status tx)
      \<and> st_RequestNonce (tx_Status tx') = pending_RequestNonce pending")
    case True
    with tx have tx': "workable M key tx' request limits"
      by (auto simp: workable_def same_record_def)
    from True that show ?thesis
      by (intro triple_conseq [OF confirm_holds [OF contract A tx']])
        (auto simp: completed_def intro: same_record_trans)
  qed (auto simp: triple_def)
  have recorded: "triple (holds (signs kl key A M) key s0 (Some tx)) (recordConfirming kl tx chain pending)
      (\<lambda>e s. signs kl key A M s0 s)
      (\<lambda>tx' s. holds (signs kl key A M) key s0 (Some tx') s \<and> same_record tx tx'
         \<and> st_Phase (tx_Status tx') = TransactionPhaseConfirming
         \<and> st_IssuedChain (tx_Status tx') = encodeChain chain \<and> st_Polls (tx_Status tx') = st_Polls (tx_Status tx)
         \<and> st_RequestNonce (tx_Status tx') = pending_RequestNonce pending)" for chain pending
    by (rule triple_conseq [OF recordConfirming_holds [OF A key rank polls_ok_same, unfolded status_same]]) auto
  show ?thesis
    unfolding sign_transaction_def using False
    apply (simp only: if_False)
    apply (rule triple_sbind [OF exchanged], assumption, rule triple_pure, rule triple_option)
     apply (rule triple_option)
      apply (rule finish_enrollment_holds [OF A key])
      apply (simp add: issued)
     apply (rule triple_sbind [OF recorded], rule confirmed, simp add: issued)
    by (rule continuePolling_holds [OF A key low]) (use tx in \<open>auto simp: workable_def\<close>)
qed

end

subsection \<open>Preparation\<close>

text \<open>
  \<open>admits kl s0 request issuer crn M A\<close>: the API calls \<open>A\<close> cover the writes of the life of the record and
  the Secrets a run for the request may read.
\<close>

definition admits ::
    "kube_lib \<Rightarrow> cluster \<Rightarrow> request_object \<Rightarrow> issuer \<Rightarrow> bytes \<Rightarrow> int \<Rightarrow> (api_access \<Rightarrow> bool) \<Rightarrow> bool"
where
  "admits kl s0 request issuer crn M A \<longleftrightarrow>
     permits M (cr_Namespace request, cr_Name request) (cr_UID request) A
     \<and> (\<forall>k. fst k = issuer_namespace crn issuer \<longrightarrow> A (ReadSecret k))
     \<and> (\<forall>k. workload_secret kl s0 request issuer k \<longrightarrow> A (ReadSecret k))"

abbreviation request_key :: "request_object \<Rightarrow> namespaced_name" where
  "request_key request \<equiv> (cr_Namespace request, cr_Name request)"

lemma trail_certificates: "trail lib key P A M s0 s \<Longrightarrow> k_Certificates s = k_Certificates s0"
  by (auto simp: trail_def dest: effectsD(10))

lemma holds_workload:
  assumes "\<And>s1. k_Certificates s1 = k_Certificates s0 \<Longrightarrow>
      triple (reads Q s1) m (\<lambda>e s. E e \<and> reads Q s1 s) (\<lambda>x s. V x \<and> reads Q s1 s)"
    and "\<And>k. Q k \<Longrightarrow> A (ReadSecret k)"
  shows "triple (holds (trail lib key P A M) key s0 held) m
    (\<lambda>e s. E e \<and> holds (trail lib key P A M) key s0 held s)
    (\<lambda>x s. V x \<and> holds (trail lib key P A M) key s0 held s)"
  unfolding triple_def
proof (intro allI impI)
  fix s
  assume held: "holds (trail lib key P A M) key s0 held s"
  then have "k_Certificates s = k_Certificates s0"
    by (auto simp: holds_def dest: trail_certificates)
  note run = triple_result [OF assms(1) [OF this] reads_same]
  have step: "holds (trail lib key P A M) key s0 held s'" if "reads Q s s'" for s'
  proof -
    have "trail lib key P A M s s'"
      by (rule trail_reads [OF that]) (rule assms(2))
    moreover have "k_Transactions s' = k_Transactions s"
      using that by (simp add: reads_def)
    ultimately show ?thesis
      using held by (auto simp: holds_def intro: trail_step)
  qed
  obtain r s' where "m s = (r, s')"
    by fastforce
  with run [OF this] step
  show "case m s of (r, s') \<Rightarrow> case r of Inl e \<Rightarrow> E e \<and> holds (trail lib key P A M) key s0 held s'
      | Inr x \<Rightarrow> V x \<and> holds (trail lib key P A M) key s0 held s'"
    by (auto split: sum.split)
qed

lemma material_holds:
  assumes "admits kl s0 request issuer crn M A"
  shows "triple (holds (trail lib key P A M) key s0 held)
    (load_material kl request issuer operation reason requestDER)
    (\<lambda>e s. is_ConfigurationError e \<and> holds (trail lib key P A M) key s0 held s)
    (\<lambda>m s. True \<and> holds (trail lib key P A M) key s0 held s)"
proof (rule holds_workload [where Q = "workload_secret kl s0 request issuer"])
  fix s1 :: cluster
  assume "k_Certificates s1 = k_Certificates s0"
  then show "triple (reads (workload_secret kl s0 request issuer) s1)
      (load_material kl request issuer operation reason requestDER)
      (\<lambda>e s. is_ConfigurationError e \<and> reads (workload_secret kl s0 request issuer) s1 s)
      (\<lambda>m s. True \<and> reads (workload_secret kl s0 request issuer) s1 s)"
    using loadIRMaterial_reads [of kl s1 request issuer requestDER reason]
      loadKURMaterial_reads [of kl s1 request issuer requestDER]
    by (auto simp: load_material_def elim: triple_conseq)
qed (use assms in \<open>auto simp: admits_def\<close>)

lemma fallback_holds:
  assumes "admits kl s0 request issuer crn M A"
  shows "triple (holds (trail lib key P A M) key s0 held) (classifyRenewalFallback kl request issuer moment)
    (\<lambda>e s. is_ConfigurationError e \<and> holds (trail lib key P A M) key s0 held s)
    (\<lambda>m s. True \<and> holds (trail lib key P A M) key s0 held s)"
proof (rule holds_workload [where Q = "workload_secret kl s0 request issuer"])
  fix s1 :: cluster
  assume "k_Certificates s1 = k_Certificates s0"
  then show "triple (reads (workload_secret kl s0 request issuer) s1)
      (classifyRenewalFallback kl request issuer moment)
      (\<lambda>e s. is_ConfigurationError e \<and> reads (workload_secret kl s0 request issuer) s1 s)
      (\<lambda>m s. True \<and> reads (workload_secret kl s0 request issuer) s1 s)"
    using classifyRenewalFallback_reads [of kl s1 request issuer moment]
    by (auto elim: triple_conseq)
qed (use assms in \<open>auto simp: admits_def\<close>)

lemma rethrow_holds:
  assumes "triple (holds R key s0 held) m F (\<lambda>x s. V x \<and> holds R key s0 held s)"
    and "\<And>e s. F e s \<Longrightarrow> holds R key s0 held s"
  shows "triple (holds R key s0 held) (on_error m (\<lambda>e. slift (Inl (f e)))) (\<lambda>e s. R s0 s)
    (\<lambda>x s. V x \<and> holds R key s0 held s)"
  by (rule triple_on_error [OF assms(1)], (rule triple_slift, use assms(2) in \<open>auto simp: holds_def\<close>)+)

lemma configuration_holds:
  assumes "admits kl s0 request issuer crn M A"
  shows "triple (holds (trail lib key P A M) key s0 held)
    (on_error (loadRuntimeConfiguration kl crn issuer) (\<lambda>e. slift (Inl (IssuerError e))))
    (\<lambda>e s. trail lib key P A M s0 s)
    (\<lambda>rc s. sound_configuration kl issuer rc \<and> holds (trail lib key P A M) key s0 held s)"
  by (rule rethrow_holds [OF holds_reads [OF loadRuntimeConfiguration_behaves]])
    (use assms in \<open>auto simp: admits_def\<close>)

lemma trust_holds:
  assumes "admits kl s0 request issuer crn M A"
  shows "triple (holds (trail lib key P A M) key s0 held)
    (on_error (loadCMPTrust kl crn issuer) (\<lambda>e. slift (Inl (IssuerError e))))
    (\<lambda>e s. trail lib key P A M s0 s) (\<lambda>x s. True \<and> holds (trail lib key P A M) key s0 held s)"
  by (rule rethrow_holds [OF holds_reads [OF loadCMPTrust_behaves]]) (use assms in \<open>auto simp: admits_def\<close>)

lemma choose_operation_holds:
  assumes "admits kl s0 request issuer crn M A"
  shows "triple (holds (trail lib key P A M) key s0 held) (choose_operation kl request issuer operation resumed)
    (\<lambda>e s. trail lib key P A M s0 s) (\<lambda>_. holds (trail lib key P A M) key s0 held)"
proof -
  have "triple (holds (trail lib key P A M) key s0 held) (selectRenewalFallback kl request issuer operation)
      (\<lambda>e s. trail lib key P A M s0 s) (\<lambda>_. holds (trail lib key P A M) key s0 held)"
    unfolding selectRenewalFallback_def Let_def
    by (intro triple_if triple_sbind [OF now_holds] triple_sbind [OF rethrow_holds [OF fallback_holds [OF assms]]]
        triple_option triple_pure triple_slift) auto
  then show ?thesis
    unfolding choose_operation_def case_prod_beta
    by (intro triple_option) (auto intro!: triple_slift triple_sbind)
qed

subsection \<open>Sign, step by step\<close>

definition delivered ::
    "kube_lib \<Rightarrow> (cluster \<Rightarrow> cluster \<Rightarrow> bool) \<Rightarrow> namespaced_name \<Rightarrow> cluster \<Rightarrow> bytes \<Rightarrow> bytes \<Rightarrow> cluster \<Rightarrow> bool"
where
  "delivered kl R key s0 csrDER pem s \<longleftrightarrow>
     R s0 s
     \<and> (\<exists>chain tx. pem = encodeChainPEM kl chain \<and> issued_for (lib_x509 kl) csrDER chain
          \<and> k_Transactions s key = Some tx \<and> st_Phase (tx_Status tx) = TransactionPhaseIssued)"

lemma completed_delivered: "completed kl R key s0 csrDER tx pem s \<Longrightarrow> delivered kl R key s0 csrDER pem s"
  by (auto simp: completed_def delivered_def)

lemma slift_holds:
  "triple (holds R key s0 held) (slift r) (\<lambda>e. holds R key s0 held) (\<lambda>x s. r = Inr x \<and> holds R key s0 held s)"
  by (rule triple_slift) auto

lemma pure_holds:
  "triple (holds R key s0 held) (slift r) (\<lambda>e s. R s0 s) (\<lambda>x s. r = Inr x \<and> holds R key s0 held s)"
  by (rule triple_slift) (auto simp: holds_def)

lemma recoverIssuedChain_holds:
  assumes A: "admits kl s0 request issuer crn M A" and key: "key = request_key request"
    and tx: "tx_key tx = key" "st_Phase (tx_Status tx) = TransactionPhaseIssued"
  shows "triple (holds (trail lib key P A M) key s0 (Some tx)) (recoverIssuedChain kl crn tx issuer csrDER)
    (\<lambda>e s. trail lib key P A M s0 s) (delivered kl (trail lib key P A M) key s0 csrDER)"
proof -
  have permits: "permits M key (cr_UID request) A"
    using A by (simp add: admits_def key)
  note failing = call_holds [OF slift_holds _ permits tx(1)]
  show ?thesis
    unfolding recoverIssuedChain_def case_prod_beta
    by (rule triple_sbind [OF failing], assumption, rule triple_pure, rule triple_sbind [OF trust_holds [OF A]],
        rule triple_pure, rule triple_sbind [OF failing], assumption, rule triple_pure, rule triple_slift)
      (use tx(2) in \<open>auto simp: holds_def delivered_def intro: recorded_issued_for\<close>)
qed

lemma validate_workload_request_holds:
  "triple (holds (trail (kube_cmp kl) key P A M) key s0 held) (validate_workload_request kl operation request)
     (\<lambda>e. holds (trail (kube_cmp kl) key P A M) key s0 held) (\<lambda>_. holds (trail (kube_cmp kl) key P A M) key s0 held)"
proof -
  have "triple (holds (trail (kube_cmp kl) key P A M) key s0 held) (ValidateKURRequest (kube_cmp kl) request)
     (\<lambda>e. holds (trail (kube_cmp kl) key P A M) key s0 held) (\<lambda>_. holds (trail (kube_cmp kl) key P A M) key s0 held)"
    unfolding ValidateKURRequest_def now_def [symmetric]
    by (intro triple_sbind [OF now_holds] triple_sbind [OF slift_holds] triple_pure triple_slift) auto
  then show ?thesis
    unfolding validate_workload_request_def
    by (intro triple_if triple_sbind [OF slift_holds]) (auto intro!: triple_sbind triple_pure triple_slift)
qed

lemma prepareWorkloadKeyEnrollment_holds:
  assumes "admits kl s0 request issuer crn M A"
  shows "triple (holds (trail (kube_cmp kl) key P A M) key s0 held)
    (prepareWorkloadKeyEnrollment kl request issuer operation reason requestDER rc enrollment)
    (\<lambda>e s. trail (kube_cmp kl) key P A M s0 s)
    (\<lambda>x s. (rc_Transaction (fst x) = rc_Transaction rc \<and> CSRDER (snd x) = CSRDER enrollment)
       \<and> holds (trail (kube_cmp kl) key P A M) key s0 held s)"
proof -
  note validated = rethrow_holds [where V = "\<lambda>_. True" and F = "\<lambda>e. holds (trail (kube_cmp kl) key P A M) key s0 held",
      simplified, OF validate_workload_request_holds]
  show ?thesis
    unfolding prepareWorkloadKeyEnrollment_def Let_def
    by (intro triple_sbind [OF rethrow_holds [OF material_holds [OF assms]]] triple_pure
        triple_sbind [OF pure_holds] triple_sbind [OF validated] triple_slift)
      (auto simp: holds_def with_material_def split: option.split)
qed

context protocol_contract
begin

lemma recorded_transaction_holds:
  assumes A: "admits kl s0 request issuer crn M A" and key: "key = request_key request"
    and resumed: "\<And>tx. resumed = Some tx \<Longrightarrow> sound_record key tx \<and> tx_rank tx \<le> 2"
  shows "triple (holds (signs kl key A M) key s0 resumed)
    (recorded_transaction kl request issuer digest operation reason fallback rc resumed)
    (\<lambda>e s. signs kl key A M s0 s)
    (\<lambda>tx s. (sound_record key tx \<and> tx_rank tx \<le> 2) \<and> holds (signs kl key A M) key s0 (Some tx) s)"
proof -
  have permits: "permits M key (cr_UID request) A"
    using A by (simp add: admits_def key)
  show ?thesis
  proof (cases resumed)
    case None
    have created: "triple (holds (signs kl key A M) key s0 None)
        (store_create kl (cr_Namespace request) (cr_Name request) (cr_UID request) deadline detail)
        (\<lambda>e s. signs kl key A M s0 s)
        (\<lambda>tx s. (sound_record key tx \<and> tx_rank tx \<le> 2) \<and> holds (signs kl key A M) key s0 (Some tx) s)"
      for deadline detail
      by (rule triple_conseq [OF store_create_holds [OF permits key]])
        (auto simp: sound_record_def created_spec_def new_transaction_def wire_spec_def is_int32_def
          transactionIDLength_def)
    have reported: "triple (holds (signs kl key A M) key s0 (Some tx))
        (case fallback of None \<Rightarrow> slift (Inr ()) | Some fb \<Rightarrow> reportRenewalFallback kl request fb)
        (\<lambda>e s. signs kl key A M s0 s) (\<lambda>_. holds (signs kl key A M) key s0 (Some tx))" for tx
      unfolding reportRenewalFallback_def
      by (intro triple_option triple_if emit_event_holds triple_slift) auto
    show ?thesis
      unfolding recorded_transaction_def None option.case
      by (rule triple_sbind [OF now_holds], rule triple_sbind [OF created], rule triple_pure,
          rule triple_sbind [OF reported], rule triple_slift) auto
  next
    case (Some tx)
    with resumed have tx: "sound_record key tx" "tx_rank tx \<le> 2" "tx_key tx = key"
      by (auto simp: sound_record_def)
    show ?thesis
      unfolding recorded_transaction_def Some option.case
      by (intro triple_if failTransaction_holds [OF permits tx(3)] triple_slift) (use tx in auto)
  qed
qed

lemma sign_configured_holds:
  assumes contract: "message_contract (kube_cmp kl)" and A: "admits kl s0 request issuer crn M A"
    and key: "key = request_key request"
    and M: "M = tl_MaximumPolls (transactionLimitsWithDefaults (is_Transaction (iss_Spec issuer)))" "is_int32 M"
    and resumed: "\<And>tx. resumed = Some tx \<Longrightarrow> sound_record key tx \<and> tx_rank tx \<le> 2"
  shows "triple (holds (signs kl key A M) key s0 resumed)
    (sign_configured kl client crn labels started request issuer requestDER operation resumed)
    (\<lambda>e s. signs kl key A M s0 s) (delivered kl (signs kl key A M) key s0 requestDER)"
proof -
  have permits: "permits M key (cr_UID request) A"
    using A by (simp add: admits_def key)
  note recorded = recorded_transaction_holds [OF A key resumed]
  have prepared: "triple (holds (signs kl key A M) key s0 resumed)
      (let base = base_request rc requestDER operation' in
         if operation' = TransactionOperationIR \<or> operation' = TransactionOperationKUR
         then prepareWorkloadKeyEnrollment kl request issuer operation' reason requestDER rc base
         else slift (Inr (rc, base)))
      (\<lambda>e s. signs kl key A M s0 s)
      (\<lambda>x s. (rc_Transaction (fst x) = rc_Transaction rc \<and> CSRDER (snd x) = requestDER)
         \<and> holds (signs kl key A M) key s0 resumed s)" for rc operation' reason
    unfolding Let_def
    by (intro triple_if triple_conseq [OF prepareWorkloadKeyEnrollment_holds [OF A]] triple_slift)
      (auto simp: base_request_def Let_def)
  have signed: "triple (holds (signs kl key A M) key s0 (Some tx))
      (sign_transaction kl client labels started requestDER enrollment limits tx)
      (\<lambda>e s. signs kl key A M s0 s) (delivered kl (signs kl key A M) key s0 requestDER)"
    if "sound_record key tx" "tx_rank tx \<le> 2" "CSRDER enrollment = requestDER" "tl_MaximumPolls limits = M"
      "TransactionID enrollment = ts_TransactionID (tx_Spec tx)" for tx enrollment limits
  proof -
    have "workable M key tx enrollment limits"
      using that M(2) by (simp add: workable_def sound_record_def)
    then show ?thesis
      by (rule triple_conseq [OF sign_transaction_holds [OF contract permits _ that(2,3)]])
        (auto dest: completed_delivered)
  qed
  show ?thesis
    unfolding sign_configured_def sign_loaded_def case_prod_beta
    by (rule triple_sbind [OF configuration_holds [OF A]], rule triple_pure,
        rule triple_sbind [OF choose_operation_holds [OF A]], rule triple_sbind [OF prepared], rule triple_pure,
        rule triple_sbind [OF recorded], assumption, rule triple_pure, rule signed)
      (auto simp: M(1) sound_configuration_def)
qed

lemma sign_recorded_holds:
  assumes contract: "message_contract (kube_cmp kl)" and A: "admits kl s0 request issuer crn M A"
    and key: "key = request_key request"
    and M: "M = tl_MaximumPolls (transactionLimitsWithDefaults (is_Transaction (iss_Spec issuer)))" "is_int32 M"
    and resumed: "\<And>tx. resumed = Some tx \<Longrightarrow> sound_record key tx"
  shows "triple (holds (signs kl key A M) key s0 resumed)
    (sign_recorded kl client crn labels started request issuer requestDER operation resumed)
    (\<lambda>e s. signs kl key A M s0 s) (delivered kl (signs kl key A M) key s0 requestDER)"
proof (cases resumed)
  case None
  from sign_configured_holds [OF contract A key M, where resumed = None] show ?thesis
    by (simp add: sign_recorded_def None)
next
  case (Some tx)
  with resumed have tx: "sound_record key tx" "tx_key tx = key"
    by (auto simp: sound_record_def)
  have permits: "permits M key (cr_UID request) A"
    using A by (simp add: admits_def key)
  have configured: "triple (holds (signs kl key A M) key s0 (Some tx))
      (sign_configured kl client crn labels started request issuer requestDER operation (Some tx))
      (\<lambda>e s. signs kl key A M s0 s) (delivered kl (signs kl key A M) key s0 requestDER)"
    if "st_Phase (tx_Status tx) \<noteq> TransactionPhaseIssued"
  proof (rule sign_configured_holds [OF contract A key M])
    show "sound_record key tx' \<and> tx_rank tx' \<le> 2" if "Some tx = Some tx'" for tx'
      using that tx \<open>st_Phase (tx_Status tx) \<noteq> TransactionPhaseIssued\<close> by (auto simp: phase_rank_def)
  qed
  show ?thesis
    unfolding sign_recorded_def Some option.case
    by (intro triple_if triple_option recoverIssuedChain_holds [OF A key tx(2)] failTransaction_holds [OF permits tx(2)]
        configured triple_slift) (auto simp: holds_def)
qed

lemma sign_begin_holds:
  assumes A: "admits kl s0 request issuer crn M A" and key: "key = request_key request"
    and record0: "\<And>tx. held = Some tx \<Longrightarrow> sound_record key tx"
  shows "triple (holds (trail lib key P A M) key s0 held) (sign_begin kl request issuer)
    (\<lambda>e s. trail lib key P A M s0 s)
    (\<lambda>x s. (snd (snd x) = record_for (cr_UID request) held
         \<and> (\<forall>tx. snd (snd x) = Some tx \<longrightarrow>
              validateResumedTransaction tx (csrDigestHex (lib_x509 kl) (fst x)) (fst (snd x))
                (renewalFallbackOperation issuer) (issuerReference issuer) = Inr ())
         \<and> (\<exists>csr. cr_CSR request = Inr csr \<and> ParseCertificateRequestDER (lib_x509 kl) csr = Inr (fst x)))
       \<and> holds (trail lib key P A M) key s0 (snd (snd x)) s)"
proof -
  have permits: "permits M key (cr_UID request) A"
    using A by (simp add: admits_def key)
  have loaded: "triple (holds (trail lib key P A M) key s0 held)
      (store_load kl (cr_Namespace request) (cr_Name request) (cr_UID request))
      (\<lambda>e s. trail lib key P A M s0 s)
      (\<lambda>x s. x = record_for (cr_UID request) held \<and> holds (trail lib key P A M) key s0 x s)"
    by (rule triple_conseq [OF store_load_holds [OF permits key]])
      (use record0 in \<open>auto simp: sound_record_def\<close>)
  show ?thesis
    unfolding sign_begin_def
    apply (rule triple_sbind [OF pure_holds], rule triple_pure)+
    apply (rule triple_sbind [OF loaded], rule triple_pure)
    apply (intro triple_option triple_sum triple_slift)
        apply (auto simp: result_simps holds_def) [4]
    by (rule triple_conseq [OF failTransaction_holds [OF permits]])
      (use record0 in \<open>auto simp: sound_record_def result_simps holds_def\<close>)
qed

lemma reporting_holds:
  assumes "triple P m (\<lambda>e s. trail lib key P' A M s0 s) Q"
  shows "triple P (reporting kl labels started m) (\<lambda>e s. trail lib key P' A M s0 s) Q"
proof -
  have metrics: "triple (holds (trail lib key P' A M) key s0 held)
      (sbind (recordFailedEnrollment kl labels e started) (\<lambda>_. slift (Inl e)))
      (\<lambda>e s. trail lib key P' A M s0 s) Q" for held e
    unfolding recordFailedEnrollment_def case_prod_beta
    by (rule triple_sbind [where Q = "\<lambda>_. holds (trail lib key P' A M) key s0 held"])
      (auto intro!: triple_slift triple_sbind [OF now_holds] triple_sbind [OF record_metric_holds] record_metric_holds
        simp: holds_def)
  show ?thesis
    unfolding reporting_def
  proof (rule triple_on_error [OF assms])
    fix e
    show "triple (trail lib key P' A M s0) (sbind (recordFailedEnrollment kl labels e started) (\<lambda>_. slift (Inl e)))
        (\<lambda>e s. trail lib key P' A M s0 s) Q"
      using metrics by (auto simp: triple_def holds_def)
  qed (auto intro: triple_slift)
qed

lemma Sign_holds:
  assumes contract: "message_contract (kube_cmp kl)" and A: "admits kl s0 request issuer crn M A"
    and key: "key = request_key request"
    and M: "M = tl_MaximumPolls (transactionLimitsWithDefaults (is_Transaction (iss_Spec issuer)))" "is_int32 M"
    and record0: "\<And>tx. k_Transactions s0 key = Some tx \<Longrightarrow> sound_record key tx"
  shows "triple (\<lambda>s. s = s0) (Sign kl client crn request issuer)
    (\<lambda>e s. signs kl key A M s0 s)
    (\<lambda>pem s. \<exists>csr requestDER. cr_CSR request = Inr csr \<and> ParseCertificateRequestDER (lib_x509 kl) csr = Inr requestDER
       \<and> delivered kl (signs kl key A M) key s0 requestDER pem s)"
proof -
  let ?held = "k_Transactions s0 key"
  note begun = reporting_holds [OF sign_begin_holds [OF A key record0]]
  have "triple (holds (signs kl key A M) key s0 ?held) (Sign kl client crn request issuer)
    (\<lambda>e s. signs kl key A M s0 s)
    (\<lambda>pem s. \<exists>csr requestDER. cr_CSR request = Inr csr \<and> ParseCertificateRequestDER (lib_x509 kl) csr = Inr requestDER
       \<and> delivered kl (signs kl key A M) key s0 requestDER pem s)"
    unfolding Sign_def Let_def case_prod_beta
    apply (rule triple_sbind [OF now_holds], rule triple_sbind [OF begun], assumption, rule triple_pure)
    apply (rule triple_conseq [OF reporting_holds [OF sign_recorded_holds [OF contract A key M]]])
    by (auto intro: record0)
  then show ?thesis
    by (rule triple_conseq) (auto simp: holds_def)
qed

end

end
