(* ===== verification/Sample_Run.thy ===== *)
theory Sample_Run
  imports Signer
begin

text \<open>
  A complete run of \<^verbatim>\<open>Sign\<close> on the sample cluster, evaluated: the configuration is loaded from the
  two Secrets, a record is created, the P10CR and the certConf are sent and the chain is delivered.
\<close>

lemma sample_parse: "ParseDistinguishedName upper ''CN=ca'' = Inr sample_name"
proof -
  let ?cs = "[(''CN'', byte_values ''ca'')]"
  have plain: "\<forall>c \<in> set ?cs. plain_component c"
    by (simp add: plain_component_def plain_value_def supported_keys_def byte_values_def valid_rune_def is_space_def)
  have "name_runes ?cs = byte_values ''CN=ca''"
    by (simp add: component_runes_def escape_runes_def byte_values_def)
  then have "render_name ?cs = ''CN=ca''"
    by (simp add: render_name_def ascii_encode ascii_def)
  with splitDN_render [OF _ plain] parse_components_render [OF plain] show ?thesis
    by (simp add: ParseDistinguishedName_def addNameAttribute_def ascii_encode ascii_def sample_name_def)
qed

definition sample_protection :: protection where
  "sample_protection = \<lparr>Password = Some \<lparr>pw_Reference = ''ref'', pw_Secret = ''shared'', pw_IterationCount = 1024,
     pw_OWF = SHA256, pw_MAC = SHA256\<rparr>, Signature = None\<rparr>"

definition sample_configuration :: runtime_configuration where
  "sample_configuration = \<lparr>rc_EndpointScheme = ''https'', rc_RenewalEndpointURL = [],
     rc_EnrollmentRequest = enrollment_request_for sample_spec sample_name None HashNone sample_protection
       ([sample_root], [sample_root]) [] None,
     rc_Transaction = transactionLimitsWithDefaults (is_Transaction sample_spec),
     rc_ConfigurationDigest = ''7b7d'',
     rc_ConfigurationSecrets = credentialFingerprints [((''ns'', ''mac''), sample_mac_secret), ((''ns'', ''trust''), sample_trust_secret)],
     rc_RequestedValidity = []\<rparr>"


lemma sample_valid: "validateSpec (kube_cmp (sample_kube m)) sample_spec = Inr \<lparr>url_Scheme = ''https'', url_Host = ''ca.example'', url_User = False, url_Fragment = []\<rparr>"
  by code_simp

definition read_secret :: "bytes \<Rightarrow> cluster \<Rightarrow> cluster" where
  "read_secret name s = record_access (ReadSecret (''ns'', name)) (s\<lparr>k_Calls := Suc (k_Calls s)\<rparr>)"

lemma read_secret_simps [simp]: "k_Secrets (read_secret name s) = k_Secrets s"
  by (simp add: read_secret_def record_access_def)

lemma sample_get:
  assumes "k_Secrets s = sample_secrets"
  shows "map_of cache (''ns'', ''trust'') = None \<Longrightarrow> get_secret (sample_kube m) ''ns'' ''trust'' (cache, s)
      = (Inr sample_trust_secret, (((''ns'', ''trust''), sample_trust_secret) # cache, read_secret ''trust'' s))"
    and "map_of cache (''ns'', ''mac'') = None \<Longrightarrow> get_secret (sample_kube m) ''ns'' ''mac'' (cache, s)
      = (Inr sample_mac_secret, (((''ns'', ''mac''), sample_mac_secret) # cache, read_secret ''mac'' s))"
  using assms
  by (simp_all add: get_secret_def get_secret_object_def api_call_def sample_kube_def found_def sample_secrets_def
      read_secret_def record_access_def Let_def)

lemma sample_values:
  "requiredSecretValue sample_trust_secret ''ca.crt'' = Inr ''root''"
  "requiredSecretValue sample_mac_secret ''reference'' = Inr ''ref''"
  "requiredSecretValue sample_mac_secret ''secret'' = Inr ''shared''"
  "ParseCertificates (lib_x509 (sample_kube m)) ''root'' = Inr [sample_root]"
  "passwordBasedMacAlgorithms \<lparr>pa_OWF = ''SHA256'', pa_MAC = ''HMACSHA256'', pa_IterationCount = 1024\<rparr> = Inr (SHA256, SHA256)"
  by code_simp+

lemma sample_credentials:
  assumes "k_Secrets s = sample_secrets"
  shows "load_credentials (sample_kube m) sample_spec ''ns'' endpoint ([], s) = 
    (Inr (enrollment_request_for sample_spec sample_name None HashNone sample_protection ([sample_root], [sample_root]) [] None,
       url_Scheme endpoint),
     ([((''ns'', ''mac''), sample_mac_secret), ((''ns'', ''trust''), sample_trust_secret)], read_secret ''mac'' (read_secret ''trust'' s)))"
proof -
  have spec: "is_CMPTrust sample_spec = \<lparr>ct_CASecretRef = \<lparr>sk_Name = ''trust'', sk_Key = ''ca.crt''\<rparr>, ct_SignerCertificatesSecretRef = None\<rparr>"
    "ep_RenewalURL (is_Endpoint sample_spec) = []" "trn_TLS (is_Transport sample_spec) = None"
    "is_Protection sample_spec = \<lparr>pr_Type = ProtectionTypePasswordBasedMac,
        pr_PasswordBasedMac = Some \<lparr>pb_SecretRef = ''mac'', pb_ReferenceKey = ''reference'', pb_SecretKey = ''secret'',
          pb_Algorithm = \<lparr>pa_OWF = ''SHA256'', pa_MAC = ''HMACSHA256'', pa_IterationCount = 1024\<rparr>\<rparr>, pr_Signature = None\<rparr>"
    "ps_Recipient (is_Protocol sample_spec) = ''CN=ca''" "ps_Sender (is_Protocol sample_spec) = []" "ps_SignatureDigest (is_Protocol sample_spec) = []"
    by (simp_all add: sample_spec_def)
  show ?thesis
    using assms
    by (simp add: load_credentials_def sbind_def loadTrustPool_def spec sample_get sample_values retryably_def permanently_def
       slift_def loadResponseCertificates_def renewal_scheme_def loadTLSRoots_def tls_reference_def loadProtection_def load_password_def
       sample_parse parse_sender_def signatureDigest_def sample_protection_def result_simps schemeHTTP_def)
qed


abbreviation sample_client :: "pki_message \<Rightarrow> protocol_client" where
  "sample_client first \<equiv> CMPClient (kube_cmp (sample_kube first))"

lemma sample_digest:
  "runtimeConfigurationDigest (sample_kube m) (issuerReference sample_issuer) secrets = Inr ''7b7d''"
proof -
  have "hex_encode (x509_Sha256 (lib_x509 (sample_kube m)) ''{}'') = ''7b7d''"
    by code_simp
  moreover have "kube_JSON (sample_kube m) r ids = Inr ''{}''" for r ids
    by (simp add: sample_kube_def)
  ultimately show ?thesis
    by (simp add: runtimeConfigurationDigest_def Let_def)
qed

lemma sample_loaded:
  assumes "k_Secrets s = sample_secrets"
  shows "loadRuntimeConfiguration (sample_kube m) crn sample_issuer s
    = (Inr sample_configuration, read_secret ''mac'' (read_secret ''trust'' s))"
proof -
  have "issuerSpecAndNamespace crn sample_issuer = Inr (sample_spec, ''ns'')"
    by (simp add: issuerSpecAndNamespace_def sample_issuer_def)
  then show ?thesis
    using sample_credentials [OF assms]
    by (simp add: loadRuntimeConfiguration_def sbind_def slift_def with_cache_def sample_valid sample_digest
        sample_configuration_def Let_def)
     (simp add: sample_spec_def)
qed

lemma sample_begun:
  "sign_begin (sample_kube m) sample_cr sample_issuer (sample_cluster transactions\<lparr>net_Ticks := 1\<rparr>)
    = (Inr (''csr'', TransactionOperationP10CR, None), sample_cluster transactions\<lparr>net_Ticks := 1, k_Calls := 1\<rparr>)"
  if "transactions (''ns'', ''web'') = None"
proof -
  have "ParseCertificateRequestDER (lib_x509 (sample_kube m)) ''csr'' = Inr ''csr''"
    "selectedTransactionOperation (kube_names (sample_kube m)) sample_issuer sample_cr = Inr TransactionOperationP10CR"
    "\<not> is_conflict (ApiError NotFound)" "is_not_found (ApiError NotFound)"
    by code_simp+
  then show ?thesis
    using that
    by (simp add: sign_begin_def sbind_def slift_def sample_cr_def store_load_def stry_def get_transaction_def api_call_def
        sample_kube_def found_def sample_cluster_def Let_def)
qed

definition sample_start :: cluster where
  "sample_start = read_secret ''mac'' (read_secret ''trust'' (sample_cluster (\<lambda>key. None)\<lparr>net_Ticks := 1, k_Calls := 1\<rparr>))"

abbreviation sample_labels :: "pki_message \<Rightarrow> metric_labels" where
  "sample_labels m \<equiv> enrollmentMetricLabels (kube_names (sample_kube m)) sample_issuer sample_cr"

abbreviation sample_loaded_run :: "(go_error + bytes) \<times> cluster" where
  "sample_loaded_run \<equiv> sign_loaded (sample_kube sample_issued) (sample_client sample_issued) (sample_labels sample_issued) 0
     sample_cr sample_issuer ''csr'' TransactionOperationP10CR None sample_configuration sample_start"

lemma sample_enrolled:
  "fst sample_loaded_run = Inr ''CERTIFICATEleaf'' \<and> length (net_Posts (snd sample_loaded_run)) = 2"
  by code_simp

abbreviation sample_sign :: "pki_message \<Rightarrow> cluster \<Rightarrow> (go_error + bytes) \<times> cluster" where
  "sample_sign first \<equiv> Sign (sample_kube first) (sample_client first) [] sample_cr sample_issuer"

lemma sample_signed:
  "fst (sample_sign sample_issued (sample_cluster (\<lambda>key. None))) = Inr ''CERTIFICATEleaf''
   \<and> length (net_Posts (snd (sample_sign sample_issued (sample_cluster (\<lambda>key. None))))) = 2"
proof -
  have tick: "now (sample_kube m) (sample_cluster transactions) = (Inr 0, sample_cluster transactions\<lparr>net_Ticks := 1\<rparr>)"
    for m transactions
    by (simp add: now_def time_Now_def sample_kube_def sample_cmp_def sample_lib_def sample_cluster_def)
  obtain s' where run: "sample_loaded_run = (Inr ''CERTIFICATEleaf'', s')" "length (net_Posts s') = 2"
    using sample_enrolled by (metis prod.collapse)
  have secrets: "k_Secrets (sample_cluster (\<lambda>key. None)\<lparr>net_Ticks := 1, k_Calls := 1\<rparr>) = sample_secrets"
    by (simp add: sample_cluster_def)
  have "sample_sign sample_issued (sample_cluster (\<lambda>key. None)) = (Inr ''CERTIFICATEleaf'', s')"
    using sample_begun [of "\<lambda>key. None"] sample_loaded [OF secrets] run(1)
    by (simp add: Sign_def Let_def sbind_def tick reporting_def on_error_def sign_recorded_def sign_configured_def
        sample_start_def)
  with run(2) show ?thesis
    by simp
qed

subsection \<open>Sample records\<close>
abbreviation sample_key :: namespaced_name where
  "sample_key \<equiv> (''ns'', ''web'')"

definition sample_with :: "cmp_transaction_status \<Rightarrow> cluster" where
  "sample_with status = sample_cluster [sample_key \<mapsto> sample_transaction status]"

lemma sample_polls_int32: "is_int32 (tl_MaximumPolls (is_Transaction (iss_Spec sample_issuer)))"
  by (simp add: sample_issuer_def sample_spec_def is_int32_def)

lemma sample_request_key [simp]: "cr_Namespace sample_cr = ''ns''" "cr_Name sample_cr = ''web''" "cr_UID sample_cr = ''cr-uid''"
  by (simp_all add: sample_cr_def)

lemma sample_records [simp]:
  "k_Transactions (sample_with status) sample_key = Some (sample_transaction status)"
  "net_Posts (sample_with status) = []" "net_Posts (sample_cluster transactions) = []"
  "k_Transactions (sample_cluster transactions) = transactions"
  "k_Log (sample_cluster transactions) = []" "k_Log (sample_with status) = []"
  by (simp_all add: sample_with_def sample_cluster_def)

lemma sample_no_record: "pred_option (sound_record (request_key sample_cr)) (k_Transactions (sample_cluster (\<lambda>key. None)) (request_key sample_cr))"
  by simp

lemma sample_transaction_sound:
  "is_int32 (st_Polls status) \<Longrightarrow> sound_record sample_key (sample_transaction status)"
  by (simp add: sound_record_def sample_transaction_def sample_id_def)

lemma sample_transaction_fields [simp]:
  "ts_CertificateRequestUID (tx_Spec (sample_transaction status)) = ''cr-uid''"
  "tx_Status (sample_transaction status) = status" "tx_key (sample_transaction status) = sample_key"
  "ts_Deadline (tx_Spec (sample_transaction status)) = 600 * second"
  by (simp_all add: sample_transaction_def)

lemma sample_statuses [simp]:
  "st_Phase sample_issued_status = TransactionPhaseIssued" "st_Polls sample_issued_status = 0"
  "st_Phase sample_polling_status = TransactionPhasePolling" "st_Polls sample_polling_status = 0"
  by (simp_all add: sample_issued_status_def sample_polling_status_def empty_status_def)

text \<open>The sample record in the Issued phase is delivered.\<close>

lemma sample_recovered: "fst (sample_sign sample_issued (sample_with sample_issued_status)) = Inr ''CERTIFICATEleaf''"
  by code_simp

definition sample_pending :: pending_transaction where
  "sample_pending = \<lparr>pending_CertReqID = 0, pending_RecipNonce = ''next'', pending_ResponseSigner = None,
     pending_CheckAfter = 0, pending_RequestNonce = ''nonce''\<rparr>"

abbreviation sample_limits :: transaction_limits where
  "sample_limits \<equiv> transactionLimitsWithDefaults (is_Transaction sample_spec)"

end
