(* ===== verification/Signer_Decisions.thy ===== *)
theory Signer_Decisions
  imports Sample_Run
begin

text \<open>
  The decisions of the signer one by one: how long it waits and what it records when a transaction is not
  answered yet, when it gives a transaction up, and what a health check of an issuer reports.
\<close>

subsection \<open>Updates of the record\<close>

lemma update_status_Inr:
  assumes "update_status kl tx s = (Inr tx', s')"
  shows "k_Transactions s' (tx_key tx) = Some tx'" and "tx_Status tx' = wire_status (tx_Status tx)"
    and "net_Posts s' = net_Posts s" and "\<exists>current. k_Transactions s (tx_key tx) = Some current \<and> same_record current tx'"
  using api_call_Inr [OF assms [unfolded update_status_def]]
  by (auto simp: Let_def write_transaction_def record_access_def same_record_def split: option.split_asm if_split_asm)

lemma update_status_Inl: "update_status kl tx s = (Inl e, s') \<Longrightarrow> is_ApiError e"
  by (auto simp: update_status_def api_call_def Let_def split: option.split_asm api_fault.split_asm if_split_asm)

lemma update_status_posts: "update_status kl tx s = (r, s') \<Longrightarrow> net_Posts s' = net_Posts s"
  by (auto simp: update_status_def api_call_def Let_def write_transaction_def record_access_def
      split: option.split_asm api_fault.split_asm if_split_asm)

text \<open>What \<^verbatim>\<open>recordPending\<close> stores.\<close>

lemma recordPending_result:
  assumes "recordPending kl tx pending s = (r, s')"
  shows "net_Posts s' = net_Posts s \<and> (case r of
      Inl e \<Rightarrow> is_WrapError e
    | Inr tx' \<Rightarrow> k_Transactions s' (tx_key tx) = Some tx' \<and> st_Phase (tx_Status tx') = TransactionPhasePolling
        \<and> st_Polls (tx_Status tx') = st_Polls (tx_Status tx)
        \<and> st_CertReqID (tx_Status tx') = Some (pending_CertReqID pending)
        \<and> st_RecipNonce (tx_Status tx') = pending_RecipNonce pending
        \<and> (\<exists>current. k_Transactions s (tx_key tx) = Some current \<and> same_record current tx'))"
proof -
  let ?tx = "\<lambda>time. tx\<lparr>tx_Status := retain_signer pending ((tx_Status tx)\<lparr>
    st_Phase := TransactionPhasePolling, st_RecipNonce := pending_RecipNonce pending,
    st_RequestNonce := (if pending_RequestNonce pending \<noteq> [] then pending_RequestNonce pending else st_RequestNonce (tx_Status tx)),
    st_CertReqID := Some (pending_CertReqID pending), st_LastTransitionTime := time\<rparr>)\<rparr>"
  obtain time s1 where now: "now kl s = (Inr time, s1)" "k_Transactions s1 = k_Transactions s" "net_Posts s1 = net_Posts s"
    by (auto simp: now_def time_Now_def)
  obtain answer s2 where update: "update_status kl (?tx time) s1 = (answer, s2)"
    by fastforce
  with assms now have r: "s' = s2" "r = map_err (WrapError ''record CMP poll state: %w'') answer"
    by (auto simp: recordPending_def sbind_def wrapping_def split: sum.split_asm)
  note posts = update_status_posts [OF update]
  show ?thesis
  proof (cases answer)
    case (Inr tx')
    note updated = update_status_Inr [OF update [unfolded Inr]]
    with r Inr now show ?thesis
      by (simp split: if_split_asm)
  qed (use r now posts in simp)
qed

subsection \<open>Waiting\<close>

text \<open>The polls a record may still use.\<close>

definition poll_budget :: "transaction_limits \<Rightarrow> cmp_transaction \<Rightarrow> nat" where
  "poll_budget limits tx = nat (tl_MaximumPolls limits - st_Polls (tx_Status tx))"

text \<open>
  The delay before the next attempt: within the configured interval, and cut to the time left before
  the deadline as long as some is left.
\<close>

definition delay_ok :: "transaction_limits \<Rightarrow> time \<Rightarrow> time \<Rightarrow> duration \<Rightarrow> bool" where
  "delay_ok limits deadline time d \<longleftrightarrow>
     0 < d \<and> d \<le> tl_MaximumPollInterval limits
     \<and> (if 0 < time_Sub deadline time \<and> time_Sub deadline time < tl_MinimumPollInterval limits
        then d = time_Sub deadline time
        else tl_MinimumPollInterval limits \<le> d)
     \<and> (0 < time_Sub deadline time \<longrightarrow> d \<le> time_Sub deadline time)"

lemma ask_for_retry_result:
  assumes "usable_limits limits"
  shows "\<exists>d time s'. ask_for_retry kl labels tx checkAfter limits text s = (Inl (PendingError (TextError text) d), s')
    \<and> delay_ok limits (ts_Deadline (tx_Spec tx)) time d \<and> time = cmp_Clock (kube_cmp kl) (net_Ticks s)
    \<and> k_Transactions s' = k_Transactions s \<and> net_Posts s' = net_Posts s"
  using assms
  by (auto simp: ask_for_retry_def Let_def sbind_def now_def time_Now_def recordEnrollmentPoll_def record_metric_def
      slift_def delay_ok_def usable_limits_def pollDelay_def)


abbreviation sample_poll_run :: "(go_error + bytes) \<times> cluster" where
  "sample_poll_run \<equiv> continuePolling (sample_kube sample_waiting) (sample_labels sample_waiting)
     (sample_transaction sample_polling_status) sample_pending sample_limits True (sample_with sample_polling_status)"

lemma sample_polled:
  "fst sample_poll_run = Inl (PendingError (TextError ''CMP server has not issued the certificate yet, polling again in %s'') second)"
  by code_simp

lemma sample_limits_usable: "usable_limits sample_limits"
  by code_simp




subsection \<open>Giving up\<close>

text \<open>
  C18: A failure ends a transaction exactly when it is permanent. failTransaction maps the error of the protocol;
  a failure that may be retried leaves the cluster unchanged, and a permanent one removes the record,
  unless the API server fails to remove it, which is reported instead.
\<close>

theorem failTransaction_outcome:
  assumes "k_Transactions s (tx_key tx) = Some tx" and "failTransaction kl tx err s = (r :: go_error + 'a, s')"
  shows "if as_permanent (mapProtocolError err) = None then r = Inl (mapProtocolError err) \<and> s' = s
    else r = Inl (mapProtocolError err) \<and> k_Transactions s' (tx_key tx) = None
      \<or> (\<exists>e. r = Inl (WrapError ''remove CMP transaction state: %w'' e))"
proof -
  have not_found: "is_not_found (ApiError (OtherReason reason)) = False" "is_conflict (ApiError (OtherReason reason)) = False"
    for reason
    by (simp_all add: is_not_found_def is_conflict_def)
  show ?thesis
    using assms
    by (auto simp: failTransaction_def Let_def store_remove_def sbind_def stry_def slift_def delete_transaction_def
        api_call_def deletePreconditions_def write_transaction_def record_access_def not_found
        split: option.split_asm api_fault.split_asm if_split_asm)
qed

theorem failTransaction_outcome_witness:
  "k_Transactions (snd (failTransaction (sample_kube sample_issued) (sample_transaction sample_polling_status) out_of_polls
     (sample_with sample_polling_status) :: (go_error + bytes) \<times> cluster)) sample_key = None"
proof -
  let ?run = "failTransaction (sample_kube sample_issued) (sample_transaction sample_polling_status) out_of_polls
     (sample_with sample_polling_status) :: (go_error + bytes) \<times> cluster"
  have "as_permanent (mapProtocolError out_of_polls) \<noteq> None" "fst ?run = Inl out_of_polls"
    by code_simp+
  moreover have "out_of_polls \<noteq> WrapError format e" for format e
    by (simp add: out_of_polls_def)
  ultimately show ?thesis
    using failTransaction_outcome [OF _ surjective_pairing [of ?run]] by auto
qed

subsection \<open>Checking an issuer\<close>

text \<open>
  C19: A health check reports what the configuration is worth. Check sends no CMP message, changes no object and
  reads only Secrets of the issuer's namespace. It succeeds exactly when the runtime configuration
  loads, and reports a broken configuration as permanent exactly when loading it classified it as such.
  It emits at most one event: the warning of an endpoint without TLS, on an issuer that is not ready
  or was changed since.
\<close>

theorem Check_reports:
  assumes "Check kl crn issuer s = (r, s')"
    and "loadRuntimeConfiguration kl crn issuer s = (answer, s1)"
  shows "reads (\<lambda>key. fst key = issuer_namespace crn issuer) s s1
    \<and> (case answer of
         Inl e \<Rightarrow> is_ConfigurationError e \<and> s' = s1 \<and> r = Inl (if ce_Permanent e then PermanentError e else e)
       | Inr rc \<Rightarrow> r = Inr () \<and>
           (if rc_EndpointScheme rc = schemeHTTP \<and> shouldEmitHTTPWarning (kube_names kl) issuer
            then \<exists>note. s' = s1\<lparr>k_Events := k_Events s1 @ [\<lparr>ev_Type = nm_Warning (kube_names kl),
              ev_Reason = eventHTTPNoConfidential, ev_Note = note\<rparr>]\<rparr>
            else s' = s1))"
proof (intro conjI)
  show "reads (\<lambda>key. fst key = issuer_namespace crn issuer) s s1"
    by (rule behaves_state [OF loadRuntimeConfiguration_behaves assms(2)])
  show "case answer of
         Inl e \<Rightarrow> is_ConfigurationError e \<and> s' = s1 \<and> r = Inl (if ce_Permanent e then PermanentError e else e)
       | Inr rc \<Rightarrow> r = Inr () \<and>
           (if rc_EndpointScheme rc = schemeHTTP \<and> shouldEmitHTTPWarning (kube_names kl) issuer
            then \<exists>note. s' = s1\<lparr>k_Events := k_Events s1 @ [\<lparr>ev_Type = nm_Warning (kube_names kl),
              ev_Reason = eventHTTPNoConfidential, ev_Note = note\<rparr>]\<rparr>
            else s' = s1)"
  proof (cases answer)
    case (Inl e)
    moreover have "is_ConfigurationError e"
      by (rule behaves_error [OF loadRuntimeConfiguration_behaves assms(2) [unfolded Inl]])
    moreover have "\<not> is_Panic e"
      using calculation(2) by (cases e) simp_all
    ultimately show ?thesis
      using assms by (auto simp: Check_def sbind_def on_error_def slift_def)
  next
    case (Inr rc)
    with assms show ?thesis
      by (auto simp: Check_def sbind_def on_error_def slift_def emit_event_def)
  qed
qed

theorem Check_reports_witness:
  "fst (Check (sample_kube sample_issued) [] sample_issuer (sample_cluster (\<lambda>key. None))) = Inr ()
   \<and> k_Events (snd (Check (sample_kube sample_issued) [] sample_issuer (sample_cluster (\<lambda>key. None)))) = []"
proof -
  let ?s = "sample_cluster (\<lambda>key. None)"
  have "k_Secrets ?s = sample_secrets" and [simp]: "k_Events ?s = []"
    by (simp_all add: sample_cluster_def)
  from Check_reports [OF surjective_pairing sample_loaded [OF this(1)]] show ?thesis
    by (simp add: sample_configuration_def schemeHTTP_def read_secret_def record_access_def)
qed

end
