(* ===== verification/Reconciliation.thy ===== *)
theory Reconciliation
  imports Signer_Decisions
begin

text \<open>
  What a run of \<^verbatim>\<open>Sign\<close> does to the cluster, with the CMP client of the program as its protocol
  client, and what follows for sequences of such runs: the properties of the controller as a
  whole. The state machine at the end lets any number of requests and issuers be reconciled in any
  order, with arbitrary changes of Secrets and Certificates and removals of records between them.
\<close>

subsection \<open>One run\<close>

definition maximum_polls :: "issuer \<Rightarrow> int" where
  "maximum_polls issuer = tl_MaximumPolls (transactionLimitsWithDefaults (is_Transaction (iss_Spec issuer)))"

lemma maximum_polls_int32:
  "is_int32 (tl_MaximumPolls (is_Transaction (iss_Spec issuer))) \<Longrightarrow> is_int32 (maximum_polls issuer)"
  by (simp add: maximum_polls_def transactionLimitsWithDefaults_def Let_def defaultMaximumPolls_def is_int32_def)

text \<open>The Secrets a run may read: those of the issuer, and those of the Certificate that owns the request.\<close>

definition may_read :: "kube_lib \<Rightarrow> bytes \<Rightarrow> cluster \<Rightarrow> request_object \<Rightarrow> issuer \<Rightarrow> namespaced_name \<Rightarrow> bool" where
  "may_read kl crn s request issuer key \<longleftrightarrow>
     fst key = issuer_namespace crn issuer
     \<or> authorized_secret (kube_names kl) (k_Certificates s) request issuer key"

abbreviation run_access :: "kube_lib \<Rightarrow> bytes \<Rightarrow> cluster \<Rightarrow> request_object \<Rightarrow> issuer \<Rightarrow> api_access \<Rightarrow> bool" where
  "run_access kl crn s request issuer \<equiv>
     access_ok (maximum_polls issuer) (request_key request) (cr_UID request) (may_read kl crn s request issuer)"

lemma run_access_admits: "admits kl s request issuer crn (maximum_polls issuer) (run_access kl crn s request issuer)"
  by (auto simp: admits_def permits_def access_ok_def may_read_def split: api_access.split_asm)

lemma Sign_result:
  assumes "message_contract (kube_cmp kl)" and "is_int32 (tl_MaximumPolls (is_Transaction (iss_Spec issuer)))"
    and "pred_option (sound_record (request_key request)) (k_Transactions s (request_key request))"
    and "Sign kl (CMPClient (kube_cmp kl)) crn request issuer s = (r, s')"
  shows "case r of
      Inl e \<Rightarrow> signs kl (request_key request) (run_access kl crn s request issuer) (maximum_polls issuer) s s'
    | Inr pem \<Rightarrow> \<exists>csr requestDER. cr_CSR request = Inr csr \<and> ParseCertificateRequestDER (lib_x509 kl) csr = Inr requestDER
        \<and> delivered kl (signs kl (request_key request) (run_access kl crn s request issuer) (maximum_polls issuer))
            (request_key request) s requestDER pem s'"
  by (rule triple_result [OF cmp.Sign_holds [OF assms(1) run_access_admits refl maximum_polls_def] refl assms(4)])
    (use assms(2,3) in \<open>auto simp: maximum_polls_int32\<close>)

lemma Sign_trail:
  assumes "message_contract (kube_cmp kl)" and "is_int32 (tl_MaximumPolls (is_Transaction (iss_Spec issuer)))"
    and "pred_option (sound_record (request_key request)) (k_Transactions s (request_key request))"
    and "Sign kl (CMPClient (kube_cmp kl)) crn request issuer s = (r, s')"
  shows "signs kl (request_key request) (run_access kl crn s request issuer) (maximum_polls issuer) s s'"
  using Sign_result [OF assms] by (auto simp: delivered_def split: sum.split_asm)

lemma sample_maximum_polls: "maximum_polls sample_issuer = 60"
  by code_simp

text \<open>
  C1: Nothing is sent that the durable record does not allow at that moment. Every CMP message of a
  run of Sign is preceded by a stored record of the request, carries its transaction ID, and is one
  that its phase allows: the enrollment of the recorded operation or a rejection while
  enrolling, a pollReq for the recorded certReqId while polling, the one accepting certConf or, after
  a delayed answer to it, a pollReq while confirming, and nothing once a certificate is
  issued. Polling and confirming stop at the maximum of polls. So a crash between any two steps
  leaves a record of everything sent, and a certificate is confirmed only after its chain is stored.
\<close>

theorem Sign_write_ahead:
  assumes "message_contract (kube_cmp kl)" and "is_int32 (tl_MaximumPolls (is_Transaction (iss_Spec issuer)))"
    and "pred_option (sound_record (request_key request)) (k_Transactions s (request_key request))"
    and "Sign kl (CMPClient (kube_cmp kl)) crn request issuer s = (r, s')"
  shows "\<exists>posts log. net_Posts s' = net_Posts s @ posts \<and> k_Log s' = k_Log s @ log
    \<and> (\<forall>i < length posts. \<exists>m tx. cmp_MarshalBinary (kube_cmp kl) m = Inr (post_Body (posts ! i))
         \<and> replay (k_Transactions s (request_key request)) (before (length (net_Posts s) + i) log) = Some tx
         \<and> hdr_TransactionID (Header m) = ts_TransactionID (tx_Spec tx)
         \<and> body_allowed (maximum_polls issuer) tx (Body m))"
proof -
  from Sign_trail [OF assms] obtain posts log where
      effects: "effects (kube_cmp kl) (request_key request) (message_allowed (maximum_polls issuer))
        (run_access kl crn s request issuer) (maximum_polls issuer) posts log s s'"
    by (auto simp: trail_def)
  have "\<exists>m tx. cmp_MarshalBinary (kube_cmp kl) m = Inr (post_Body (posts ! i))
      \<and> replay (k_Transactions s (request_key request)) (before (length (net_Posts s) + i) log) = Some tx
      \<and> hdr_TransactionID (Header m) = ts_TransactionID (tx_Spec tx) \<and> body_allowed (maximum_polls issuer) tx (Body m)"
    if "i < length posts" for i
    using effectsD(3) [OF effects that] by (auto simp: message_allowed_def split: option.split_asm)
  with effectsD(1,2) [OF effects] show ?thesis
    by blast
qed

theorem Sign_write_ahead_witness:
  "\<exists>posts log. net_Posts (snd (sample_sign sample_issued (sample_cluster (\<lambda>key. None)))) = posts \<and> length posts = 2
     \<and> k_Log (snd (sample_sign sample_issued (sample_cluster (\<lambda>key. None)))) = log
     \<and> (\<exists>m tx. cmp_MarshalBinary (sample_cmp sample_issued) m = Inr (post_Body (posts ! 1))
          \<and> replay None (before 1 log) = Some tx \<and> hdr_TransactionID (Header m) = ts_TransactionID (tx_Spec tx)
          \<and> body_allowed 60 tx (Body m))"
proof -
  let ?run = "sample_sign sample_issued (sample_cluster (\<lambda>key. None))"
  have "kube_cmp (sample_kube sample_issued) = sample_cmp sample_issued"
    by (simp add: sample_kube_def)
  then show ?thesis
    using Sign_write_ahead [OF sample_kube_contract sample_polls_int32 sample_no_record surjective_pairing [of ?run]]
      sample_signed
    by (fastforce simp: sample_maximum_polls)
qed

text \<open>
  C3: A run of Sign is confined to its request. It changes no Secret, no Certificate and no record but
  the one with the namespace and name of the request. Every Secret it reads is in the namespace of
  the issuer (for a cluster issuer, the cluster resource namespace), or in the namespace of the
  request and named by the live Certificate that controls the request and refers to the issuer. A
  record it creates is for the UID of the request.
\<close>

theorem Sign_confined:
  assumes "message_contract (kube_cmp kl)" and "is_int32 (tl_MaximumPolls (is_Transaction (iss_Spec issuer)))"
    and "pred_option (sound_record (request_key request)) (k_Transactions s (request_key request))"
    and "Sign kl (CMPClient (kube_cmp kl)) crn request issuer s = (r, s')"
  shows "k_Secrets s' = k_Secrets s \<and> k_Certificates s' = k_Certificates s
    \<and> (\<forall>key. key \<noteq> request_key request \<longrightarrow> k_Transactions s' key = k_Transactions s key)
    \<and> (\<exists>log. k_Log s' = k_Log s @ log
         \<and> (\<forall>(n, a) \<in> set log. access_ok (maximum_polls issuer) (request_key request) (cr_UID request)
              (may_read kl crn s request issuer) a))"
proof -
  from Sign_trail [OF assms] obtain posts log where
      effects: "effects (kube_cmp kl) (request_key request) (message_allowed (maximum_polls issuer))
        (run_access kl crn s request issuer) (maximum_polls issuer) posts log s s'"
    by (auto simp: trail_def)
  have "\<forall>(n, a) \<in> set log. run_access kl crn s request issuer a"
    using effectsD(4) [OF effects] by fastforce
  with effectsD(2,8-10) [OF effects] show ?thesis
    by blast
qed

theorem Sign_confined_witness:
  "k_Secrets (snd (sample_sign sample_issued (sample_cluster (\<lambda>key. None)))) = sample_secrets
   \<and> (\<exists>log. k_Log (snd (sample_sign sample_issued (sample_cluster (\<lambda>key. None)))) = log
        \<and> (\<forall>(n, a) \<in> set log. access_ok 60 sample_key ''cr-uid''
             (may_read (sample_kube sample_issued) [] (sample_cluster (\<lambda>key. None)) sample_cr sample_issuer) a))"
proof -
  let ?run = "sample_sign sample_issued (sample_cluster (\<lambda>key. None))"
  have "k_Secrets (sample_cluster (\<lambda>key. None)) = sample_secrets"
    by (simp add: sample_cluster_def)
  then show ?thesis
    using Sign_confined [OF sample_kube_contract sample_polls_int32 sample_no_record surjective_pairing [of ?run]]
    by (simp add: sample_maximum_polls)
qed





subsection \<open>Recovery\<close>

text \<open>A run that resumes a record of the request does what the resumption does.\<close>

lemma Sign_resumed:
  assumes held: "k_Transactions s (request_key request) = Some tx" and keyed: "sound_record (request_key request) tx"
    and uid: "ts_CertificateRequestUID (tx_Spec tx) = cr_UID request"
    and resumed: "\<And>labels started csr requestDER operation.
      cr_CSR request = Inr csr \<Longrightarrow> ParseCertificateRequestDER (lib_x509 kl) csr = Inr requestDER \<Longrightarrow>
      validateResumedTransaction tx (csrDigestHex (lib_x509 kl) requestDER) operation
        (renewalFallbackOperation issuer) (issuerReference issuer) = Inr () \<Longrightarrow>
      triple (holds (trail lib (request_key request) P (run_access kl crn s request issuer) M) (request_key request) s (Some tx))
        (sign_recorded kl client crn labels started request issuer requestDER operation (Some tx))
        (\<lambda>e s'. trail lib (request_key request) P (run_access kl crn s request issuer) M s s') Q"
    and M: "M = maximum_polls issuer"
    and run: "Sign kl client crn request issuer s = (r, s')"
  shows "case r of
      Inl e \<Rightarrow> trail lib (request_key request) P (run_access kl crn s request issuer) M s s'
    | Inr pem \<Rightarrow> Q pem s'"
proof -
  let ?key = "request_key request"
  let ?T = "trail lib ?key P (run_access kl crn s request issuer) M"
  have begun: "triple (holds ?T ?key s (Some tx)) (sign_begin kl request issuer) (\<lambda>e s'. ?T s s')
      (\<lambda>x s'. (snd (snd x) = Some tx \<and> (\<exists>csr. cr_CSR request = Inr csr \<and> ParseCertificateRequestDER (lib_x509 kl) csr = Inr (fst x))
           \<and> validateResumedTransaction tx (csrDigestHex (lib_x509 kl) (fst x)) (fst (snd x))
                (renewalFallbackOperation issuer) (issuerReference issuer) = Inr ())
         \<and> holds ?T ?key s (Some tx) s')"
    unfolding M by (rule triple_conseq [OF cmp.sign_begin_holds [OF run_access_admits refl]])
      (use keyed uid in \<open>auto simp: record_for_def\<close>)
  have "triple (holds ?T ?key s (Some tx)) (Sign kl client crn request issuer) (\<lambda>e s'. ?T s s') Q"
    unfolding Sign_def Let_def case_prod_beta
    apply (rule triple_sbind [OF now_holds], rule triple_sbind [OF cmp.reporting_holds [OF begun]], rule triple_pure)
    by (elim conjE exE) (simp, rule cmp.reporting_holds [OF resumed])
  from triple_result [OF this _ run] held show ?thesis
    by (simp add: holds_def)
qed

lemma silent_trail:
  assumes "trail lib key (\<lambda>_ _. False) A M s s'"
  shows "net_Posts s' = net_Posts s"
proof -
  from assms obtain posts log where effects: "effects lib key (\<lambda>_ _. False) A M posts log s s'"
    by (auto simp: trail_def)
  then have "posts = []"
    using effectsD(3) [OF effects, of 0] by auto
  with effectsD(1) [OF effects] show ?thesis
    by simp
qed



text \<open>
  \<open>bound_to kl request issuer tx\<close>: the record was made for the CSR of the request, up to its digest, and
  for the issuer as it is now, its spec included.
\<close>

definition bound_to :: "kube_lib \<Rightarrow> request_object \<Rightarrow> issuer \<Rightarrow> cmp_transaction \<Rightarrow> bool" where
  "bound_to kl request issuer tx \<longleftrightarrow>
     (\<exists>csr requestDER. cr_CSR request = Inr csr \<and> ParseCertificateRequestDER (lib_x509 kl) csr = Inr requestDER
        \<and> ts_CSRDigest (tx_Spec tx) = csrDigestHex (lib_x509 kl) requestDER)
     \<and> ts_IssuerRef (tx_Spec tx) = Some (issuerReference issuer)"

lemma validateResumedTransaction_bound:
  assumes "validateResumedTransaction tx digest operation fallback expected = Inr ()"
  shows "ts_CSRDigest (tx_Spec tx) = digest \<and> (\<exists>ref. ts_IssuerRef (tx_Spec tx) = Some ref \<and> ir_Name ref = ir_Name expected
    \<and> ir_Kind ref = ir_Kind expected \<and> ir_UID ref = ir_UID expected)"
  using assms
  by (auto simp: validateResumedTransaction_def Let_def result_simps ensure_Inr split: option.split_asm if_split_asm)



subsection \<open>Sequences of runs\<close>

text \<open>\<^verbatim>\<open>Check\<close> reads the Secrets of the issuer and may emit one event.\<close>

lemma Check_reads:
  assumes "Check kl crn issuer s = (r, s')"
  shows "\<exists>s1. reads (\<lambda>key. fst key = issuer_namespace crn issuer) s s1 \<and> (s' = s1 \<or> (\<exists>ev. s' = s1\<lparr>k_Events := k_Events s1 @ [ev]\<rparr>))"
proof -
  obtain answer s1 where load: "loadRuntimeConfiguration kl crn issuer s = (answer, s1)"
    by fastforce
  have "reads (\<lambda>key. fst key = issuer_namespace crn issuer) s s1"
    by (rule behaves_state [OF loadRuntimeConfiguration_behaves load])
  moreover have "s' = s1 \<or> (\<exists>ev. s' = s1\<lparr>k_Events := k_Events s1 @ [ev]\<rparr>)"
    using assms load
    by (auto simp: Check_def sbind_def on_error_def slift_def emit_event_def split: sum.split_asm if_split_asm prod.split_asm)
  ultimately show ?thesis
    by blast
qed

text \<open>
  The controller over time: issuers are checked and requests signed in any order, and between two runs
  anyone may change Secrets and Certificates, and remove records (the garbage collector does when a
  request is deleted). Time and faults are those of the interface.
\<close>

inductive cluster_step :: "kube_lib \<Rightarrow> bytes \<Rightarrow> cluster \<Rightarrow> cluster \<Rightarrow> bool" for kl crn where
  signed: "is_int32 (tl_MaximumPolls (is_Transaction (iss_Spec issuer))) \<Longrightarrow>
    Sign kl (CMPClient (kube_cmp kl)) crn request issuer s = (r, s') \<Longrightarrow> cluster_step kl crn s s'"
| checked: "Check kl crn issuer s = (r, s') \<Longrightarrow> cluster_step kl crn s s'"
| changed: "net_Posts s' = net_Posts s \<Longrightarrow> k_Log s' = k_Log s \<Longrightarrow>
    (\<And>key tx. k_Transactions s' key = Some tx \<Longrightarrow> k_Transactions s key = Some tx) \<Longrightarrow> cluster_step kl crn s s'"

definition records_sound :: "cluster \<Rightarrow> bool" where
  "records_sound s \<longleftrightarrow> (\<forall>key. pred_option (sound_record key) (k_Transactions s key))"

fun stores :: "api_access \<Rightarrow> cmp_transaction \<Rightarrow> bool" where
  "stores (Created tx) tx' \<longleftrightarrow> tx = tx'"
| "stores (Updated old tx) tx' \<longleftrightarrow> tx = tx'"
| "stores (Deleted tx) tx' \<longleftrightarrow> False"
| "stores (ReadSecret key) tx' \<longleftrightarrow> False"

text \<open>A record was stored before the message with index \<open>n\<close> was sent.\<close>

definition stored_before :: "(nat \<times> api_access) list \<Rightarrow> nat \<Rightarrow> cmp_transaction \<Rightarrow> bool" where
  "stored_before log n tx \<longleftrightarrow> (\<exists>(j, a) \<in> set log. j \<le> n \<and> stores a tx)"

definition records_logged :: "cluster \<Rightarrow> bool" where
  "records_logged s \<longleftrightarrow>
     (\<forall>key tx. k_Transactions s key = Some tx \<longrightarrow> stored_before (k_Log s) (length (net_Posts s)) tx)"

definition messages_audited :: "cmp_lib \<Rightarrow> cluster \<Rightarrow> bool" where
  "messages_audited lib s \<longleftrightarrow>
     (\<forall>i < length (net_Posts s). \<exists>m tx M. cmp_MarshalBinary lib m = Inr (post_Body (net_Posts s ! i))
        \<and> stored_before (k_Log s) i tx
        \<and> hdr_TransactionID (Header m) = ts_TransactionID (tx_Spec tx) \<and> body_allowed M tx (Body m))"

lemma replay_stored: "replay held log = Some tx \<Longrightarrow> held = Some tx \<or> (\<exists>(j, a) \<in> set log. stores a tx)"
proof (induction log arbitrary: held)
  case (Cons entry log)
  from Cons.IH [of "apply_access held (snd entry)"] Cons.prems show ?case
    by (cases entry; cases "snd entry") auto
qed simp

lemma stored_before_append:
  "stored_before log n tx \<Longrightarrow> n \<le> n' \<Longrightarrow> stored_before (log @ log') n' tx"
  unfolding stored_before_def case_prod_beta by (elim bexE, rule bexI) auto

lemma records_loggedD:
  "records_logged s \<Longrightarrow> k_Transactions s key = Some tx \<Longrightarrow> length (net_Posts s) \<le> n \<Longrightarrow>
   stored_before (k_Log s @ log) n tx"
  unfolding records_logged_def by (blast intro: stored_before_append)

lemma stored_before_new: "(j, a) \<in> set log' \<Longrightarrow> j \<le> n \<Longrightarrow> stores a tx \<Longrightarrow> stored_before (log @ log') n tx"
  by (auto simp: stored_before_def)

lemma effects_stored:
  assumes effects: "effects lib key P A M posts log s s'" and logged: "records_logged s"
    and "replay (k_Transactions s key) (before (length (net_Posts s) + i) log) = Some tx"
  shows "stored_before (k_Log s') (length (net_Posts s) + i) tx"
  using replay_stored [OF assms(3)]
proof
  assume "k_Transactions s key = Some tx"
  with logged show ?thesis
    unfolding effectsD(2) [OF effects] by (rule records_loggedD) simp
next
  assume "\<exists>(j, a) \<in> set (before (length (net_Posts s) + i) log). stores a tx"
  then show ?thesis
    unfolding effectsD(2) [OF effects] before_def by (auto intro: stored_before_new)
qed

lemma effects_logged:
  assumes effects: "effects lib key P A M posts log s s'" and logged: "records_logged s"
  shows "records_logged s'"
  unfolding records_logged_def
proof (intro allI impI)
  fix k tx
  assume stored: "k_Transactions s' k = Some tx"
  note appended = effectsD(1,2) [OF effects]
  show "stored_before (k_Log s') (length (net_Posts s')) tx"
  proof (cases "k = key")
    case True
    have "before (length (net_Posts s) + length posts) log = log"
      using effectsD(6) [OF effects] by (intro before_all) blast
    with effects_stored [OF effects logged, of "length posts" tx] stored effectsD(7) [OF effects] True show ?thesis
      by (simp add: appended(1))
  next
    case False
    with stored effectsD(8) [OF effects] have "k_Transactions s k = Some tx"
      by simp
    with logged show ?thesis
      unfolding appended by (rule records_loggedD) simp
  qed
qed

lemma messages_auditedD:
  assumes "messages_audited lib s" and "i < length (net_Posts s)" and "\<exists>log'. log = k_Log s @ log'"
  shows "\<exists>m tx M. cmp_MarshalBinary lib m = Inr (post_Body (net_Posts s ! i)) \<and> stored_before log i tx
    \<and> hdr_TransactionID (Header m) = ts_TransactionID (tx_Spec tx) \<and> body_allowed M tx (Body m)"
proof -
  from assms(1,2) obtain m tx M where
      "cmp_MarshalBinary lib m = Inr (post_Body (net_Posts s ! i))" and stored: "stored_before (k_Log s) i tx"
      and "hdr_TransactionID (Header m) = ts_TransactionID (tx_Spec tx)" "body_allowed M tx (Body m)"
    unfolding messages_audited_def by (elim allE impE) (assumption, elim exE conjE)
  moreover from assms(3) stored have "stored_before log i tx"
    by (auto intro: stored_before_append)
  ultimately show ?thesis
    by (intro exI conjI)
qed

lemma effects_audited:
  assumes effects: "effects lib key (message_allowed M) A M posts log s s'"
    and logged: "records_logged s" and audited: "messages_audited lib s"
  shows "messages_audited lib s'"
  unfolding messages_audited_def
proof (intro allI impI)
  fix i
  assume i: "i < length (net_Posts s')"
  note appended = effectsD(1,2) [OF effects]
  show "\<exists>m tx M. cmp_MarshalBinary lib m = Inr (post_Body (net_Posts s' ! i)) \<and> stored_before (k_Log s') i tx
      \<and> hdr_TransactionID (Header m) = ts_TransactionID (tx_Spec tx) \<and> body_allowed M tx (Body m)"
  proof (cases "i < length (net_Posts s)")
    case True
    with messages_auditedD [OF audited, of i "k_Log s'"] show ?thesis
      by (simp add: appended nth_append)
  next
    case False
    then obtain j where j: "i = length (net_Posts s) + j" "j < length posts"
      using i by (auto simp: appended dest!: le_Suc_ex [OF leI])
    from effectsD(3) [OF effects j(2)] obtain m tx where
        "cmp_MarshalBinary lib m = Inr (post_Body (posts ! j))"
        and held: "replay (k_Transactions s key) (before (length (net_Posts s) + j) log) = Some tx"
        and "hdr_TransactionID (Header m) = ts_TransactionID (tx_Spec tx)" "body_allowed M tx (Body m)"
      by (auto simp: message_allowed_def split: option.split_asm)
    with effects_stored [OF effects logged held] show ?thesis
      unfolding appended(1) j(1) nth_append_length_plus by blast
  qed
qed

lemma reads_records:
  assumes "reads Q s s'"
  shows "net_Posts s' = net_Posts s" and "k_Transactions s' = k_Transactions s" and "\<exists>log. k_Log s' = k_Log s @ log"
  using assms unfolding reads_def by (elim conjE exE; simp)+

definition audit_invariant :: "cmp_lib \<Rightarrow> cluster \<Rightarrow> bool" where
  "audit_invariant lib s \<longleftrightarrow> records_sound s \<and> records_logged s \<and> messages_audited lib s"

lemma audit_invariant_frame:
  assumes "audit_invariant lib s" and "net_Posts s' = net_Posts s" and log: "\<exists>log. k_Log s' = k_Log s @ log"
    and sub: "\<And>key tx. k_Transactions s' key = Some tx \<Longrightarrow> k_Transactions s key = Some tx"
  shows "audit_invariant lib s'"
proof -
  from log obtain log' where log': "k_Log s' = k_Log s @ log'"
    by blast
  have "records_sound s'"
    unfolding records_sound_def
  proof
    fix key
    have "pred_option (sound_record key) (k_Transactions s key)"
      using assms(1) unfolding audit_invariant_def records_sound_def by blast
    with sub [of key] show "pred_option (sound_record key) (k_Transactions s' key)"
      by (cases "k_Transactions s' key") auto
  qed
  moreover have "records_logged s'"
    unfolding records_logged_def log' assms(2)
    by (intro allI impI, rule records_loggedD [OF _ sub]) (use assms(1) in \<open>simp_all add: audit_invariant_def\<close>)
  moreover have "messages_audited lib s'"
    unfolding messages_audited_def [of lib s'] assms(2)
    by (intro allI impI messages_auditedD) (use assms(1) log in \<open>simp_all add: audit_invariant_def\<close>)
  ultimately show ?thesis
    by (simp add: audit_invariant_def)
qed

lemma signed_invariant:
  assumes inv: "audit_invariant (kube_cmp kl) s" and "message_contract (kube_cmp kl)"
    and "is_int32 (tl_MaximumPolls (is_Transaction (iss_Spec issuer)))"
    and "Sign kl (CMPClient (kube_cmp kl)) crn request issuer s = (r, s')"
  shows "audit_invariant (kube_cmp kl) s'"
proof -
  let ?key = "request_key request"
  from inv have sounds: "pred_option (sound_record key) (k_Transactions s key)" for key
    unfolding audit_invariant_def records_sound_def by blast
  note sound = sounds [of ?key]
  from Sign_trail [OF assms(2,3) sound assms(4)] obtain posts log where
      effects: "effects (kube_cmp kl) ?key (message_allowed (maximum_polls issuer))
        (run_access kl crn s request issuer) (maximum_polls issuer) posts log s s'"
    by (auto simp: trail_def)
  have "records_sound s'"
    unfolding records_sound_def
  proof
    fix key
    show "pred_option (sound_record key) (k_Transactions s' key)"
    proof (cases "key = ?key")
      case True
      with record_steps_sound [OF effectsD(11) [OF effects] maximum_polls_int32 [OF assms(3)] sound] show ?thesis
        by simp
    next
      case False
      from effectsD(8) [OF effects this] sounds [of key] show ?thesis
        by simp
    qed
  qed
  with effects_logged [OF effects] effects_audited [OF effects] inv show ?thesis
    by (simp add: audit_invariant_def)
qed

lemma cluster_step_invariant:
  assumes "cluster_step kl crn s s'" and "message_contract (kube_cmp kl)" and "audit_invariant (kube_cmp kl) s"
  shows "audit_invariant (kube_cmp kl) s'"
  using assms(1)
proof cases
  case (signed issuer request r)
  show ?thesis
    by (rule signed_invariant [OF assms(3,2) signed])
next
  case (checked issuer r)
  from Check_reads [OF this] obtain s1 where
      "reads (\<lambda>key. fst key = issuer_namespace crn issuer) s s1"
      and s': "s' = s1 \<or> (\<exists>ev. s' = s1\<lparr>k_Events := k_Events s1 @ [ev]\<rparr>)"
    by blast
  note same = reads_records [OF this(1)]
  have unchanged: "net_Posts s' = net_Posts s" "k_Transactions s' = k_Transactions s" "k_Log s' = k_Log s1"
    using s' same(1,2) by auto
  show ?thesis
    by (rule audit_invariant_frame [OF assms(3)]) (simp_all add: unchanged same(3))
next
  case changed
  show ?thesis
    by (rule audit_invariant_frame [OF assms(3) changed(1)]) (simp add: changed(2), erule changed(3))
qed

text \<open>
  C4: In every state the controller can reach, from a cluster with no records, every stored record is
  well formed (stored under its own name, with a transaction ID and a 32-bit poll count), and every CMP
  message ever sent was preceded by the storing of a record whose transaction ID it carries and
  whose phase allows it. The sequence of runs, of issuers and requests, of faults of the API
  server and of changes made by others is arbitrary.
\<close>

theorem reachable_audited:
  assumes "message_contract (kube_cmp kl)" and "(cluster_step kl crn)\<^sup>*\<^sup>* s s'"
    and "\<forall>key. k_Transactions s key = None" and "net_Posts s = []"
  shows "records_sound s' \<and> messages_audited (kube_cmp kl) s'"
proof -
  have "audit_invariant (kube_cmp kl) s"
    using assms(3,4)
    by (simp add: audit_invariant_def records_sound_def records_logged_def messages_audited_def)
  from assms(2) this have "audit_invariant (kube_cmp kl) s'"
    by (induction rule: rtranclp_induct) (auto intro: cluster_step_invariant [OF _ assms(1)])
  then show ?thesis
    by (simp add: audit_invariant_def)
qed

theorem reachable_audited_witness:
  "messages_audited (kube_cmp (sample_kube sample_issued)) (snd (sample_sign sample_issued (sample_cluster (\<lambda>key. None))))
   \<and> length (net_Posts (snd (sample_sign sample_issued (sample_cluster (\<lambda>key. None))))) = 2"
proof -
  let ?s = "sample_cluster (\<lambda>key. None)"
  have "cluster_step (sample_kube sample_issued) [] ?s (snd (sample_sign sample_issued ?s))"
    by (rule cluster_step.signed [OF sample_polls_int32 surjective_pairing])
  then show ?thesis
    using reachable_audited [OF sample_kube_contract r_into_rtranclp, of sample_issued "[]" ?s] sample_signed by simp
qed

subsection \<open>Deadlines\<close>

text \<open>The clock reads later than \<open>deadline\<close> for the rest of the run.\<close>

definition past :: "kube_lib \<Rightarrow> cluster \<Rightarrow> time \<Rightarrow> bool" where
  "past kl s deadline \<longleftrightarrow> (\<forall>n \<ge> net_Ticks s. deadline < cmp_Clock (kube_cmp kl) n)"

lemma now_late:
  assumes "past kl s0 deadline"
  shows "triple (holds (trail lib key P A M) key s0 held) (now kl) E
    (\<lambda>t s. deadline < t \<and> holds (trail lib key P A M) key s0 held s)"
proof (rule tripleI)
  fix s t s'
  assume held: "holds (trail lib key P A M) key s0 held s" and run: "now kl s = (Inr t, s')"
  from held have "net_Ticks s0 \<le> net_Ticks s"
    by (auto simp: holds_def trail_def dest: effectsD(12))
  with assms run have "deadline < t"
    by (auto simp: past_def now_def time_Now_def)
  with triple_result [OF now_holds held run] show "deadline < t \<and> holds (trail lib key P A M) key s0 held s'"
    by simp
qed (simp add: now_def time_Now_def)

context protocol_contract
begin

lemma confirm_late:
  assumes "past kl s0 (ts_Deadline (tx_Spec tx))" and "permits M key uid A" and "tx_key tx = key"
  shows "triple (holds (trail lib key P A M) key s0 (Some tx))
    (confirm kl client labels tx request limits chain pending started)
    (\<lambda>e s. trail lib key P A M s0 s) (\<lambda>_ _. False)"
  unfolding confirm_def
  by (rule triple_sbind [OF now_late [OF assms(1)]], rule triple_pure)
    (simp add: failTransaction_holds [OF assms(2,3)])

lemma resumeConfirmation_late:
  assumes "past kl s0 (ts_Deadline (tx_Spec tx))" and A: "permits M key uid A" and key: "tx_key tx = key"
  shows "triple (holds (trail lib key P A M) key s0 (Some tx))
    (resumeConfirmation kl client labels tx request limits csrDER started)
    (\<lambda>e s. trail lib key P A M s0 s) (\<lambda>_ _. False)"
proof -
  note failing = call_holds [OF slift_holds _ A key]
  show ?thesis
    unfolding resumeConfirmation_def
    by (rule triple_sbind [OF failing], assumption, rule triple_pure, rule triple_sbind [OF failing], assumption,
        rule triple_pure, rule triple_option, rule failTransaction_holds [OF A key],
        rule triple_sbind [OF pure_holds], rule triple_pure, rule confirm_late [OF assms])
qed

lemma sign_transaction_late:
  assumes late: "past kl s0 (ts_Deadline (tx_Spec tx))" and A: "permits M key uid A" and key: "tx_key tx = key"
  shows "triple (holds (trail lib key P A M) key s0 (Some tx))
    (sign_transaction kl client labels started csrDER request limits tx)
    (\<lambda>e s. trail lib key P A M s0 s) (\<lambda>_ _. False)"
proof -
  have exchanged: "triple (holds (trail lib key P A M) key s0 (Some tx)) (exchange kl client request tx limits)
      (\<lambda>e s. holds (trail lib key P A M) key s0 (Some tx) s)
      (\<lambda>x s. False \<and> holds (trail lib key P A M) key s0 (Some tx) s)"
    unfolding exchange_def
    by (rule triple_sbind [OF now_late [OF late]], rule triple_pure) (simp, rule triple_slift, simp_all)
  show ?thesis
    unfolding sign_transaction_def
    by (rule triple_if, rule resumeConfirmation_late [OF assms],
        rule triple_sbind [OF call_holds [OF exchanged _ A key]], assumption, rule triple_pure) simp
qed

lemma sign_configured_late:
  assumes A: "admits kl s0 request issuer crn M A" and key: "key = request_key request" and tx: "tx_key tx = key"
    and late: "past kl s0 (ts_Deadline (tx_Spec tx))"
  shows "triple (holds (trail (kube_cmp kl) key P A M) key s0 (Some tx))
    (sign_configured kl client crn labels started request issuer requestDER operation (Some tx))
    (\<lambda>e s. trail (kube_cmp kl) key P A M s0 s) (\<lambda>_ _. False)"
proof -
  have permits: "permits M key (cr_UID request) A"
    using A by (simp add: admits_def key)
  have prepared: "triple (holds (trail (kube_cmp kl) key P A M) key s0 (Some tx))
      (let base = base_request rc requestDER operation' in
         if operation' = TransactionOperationIR \<or> operation' = TransactionOperationKUR
         then prepareWorkloadKeyEnrollment kl request issuer operation' reason requestDER rc base
         else slift (Inr (rc, base)))
      (\<lambda>e s. trail (kube_cmp kl) key P A M s0 s)
      (\<lambda>x s. holds (trail (kube_cmp kl) key P A M) key s0 (Some tx) s)" for rc operation' reason
    unfolding Let_def
    by (intro triple_if triple_conseq [OF prepareWorkloadKeyEnrollment_holds [OF A]] triple_slift) auto
  have recorded: "triple (holds (trail (kube_cmp kl) key P A M) key s0 (Some tx))
      (recorded_transaction kl request issuer digest operation' reason fallback rc (Some tx))
      (\<lambda>e s. trail (kube_cmp kl) key P A M s0 s)
      (\<lambda>tx' s. tx' = tx \<and> holds (trail (kube_cmp kl) key P A M) key s0 (Some tx) s)"
    for digest operation' reason fallback rc
    unfolding recorded_transaction_def option.case
    by (intro triple_if failTransaction_holds [OF permits tx] triple_slift) auto
  show ?thesis
    unfolding sign_configured_def sign_loaded_def case_prod_beta
    by (rule triple_sbind [OF configuration_holds [OF A]], rule triple_pure,
        rule triple_sbind [OF choose_operation_holds [OF A]], rule triple_sbind [OF prepared],
        rule triple_sbind [OF recorded], rule triple_pure)
      (simp add: sign_transaction_late [OF late permits tx])
qed

end

text \<open>
  C5: Nothing is sent and nothing is delivered after the deadline. When the clock has passed the deadline
  of the recorded transaction and no certificate was issued yet, Sign sends no CMP message and
  does not succeed, in whatever phase the transaction is.
\<close>

theorem Sign_respects_deadline:
  assumes "k_Transactions s (request_key request) = Some tx" and "sound_record (request_key request) tx"
    and "ts_CertificateRequestUID (tx_Spec tx) = cr_UID request"
    and "st_Phase (tx_Status tx) \<noteq> TransactionPhaseIssued" and "past kl s (ts_Deadline (tx_Spec tx))"
    and "Sign kl (CMPClient (kube_cmp kl)) crn request issuer s = (r, s')"
  shows "net_Posts s' = net_Posts s \<and> (\<exists>e. r = Inl e)"
proof -
  let ?key = "request_key request"
  let ?T = "trail (kube_cmp kl) ?key (\<lambda>_ _. False) (run_access kl crn s request issuer) (maximum_polls issuer)"
  have key: "tx_key tx = ?key"
    using assms(2) by (simp add: sound_record_def)
  have permits: "permits (maximum_polls issuer) ?key (cr_UID request) (run_access kl crn s request issuer)"
    using run_access_admits by (simp add: admits_def)
  have late: "triple (holds ?T ?key s (Some tx))
      (sign_recorded kl (CMPClient (kube_cmp kl)) crn labels started request issuer requestDER operation (Some tx))
      (\<lambda>e s'. ?T s s') (\<lambda>_ _. False)" for labels started requestDER operation
    unfolding sign_recorded_def option.case if_not_P [OF assms(4)]
    by (intro triple_option triple_if cmp.sign_configured_late [OF run_access_admits refl key assms(5)]
        failTransaction_holds [OF permits key] triple_slift) (auto simp: holds_def)
  from Sign_resumed [OF assms(1-3) late refl assms(6)] have "?T s s' \<and> (\<exists>e. r = Inl e)"
    by (simp split: sum.split_asm)
  with silent_trail show ?thesis
    by blast
qed

definition sample_late_kube :: kube_lib where
  "sample_late_kube = (sample_kube sample_issued)\<lparr>kube_cmp := (sample_cmp sample_issued)\<lparr>cmp_Clock := (\<lambda>n. 601 * second)\<rparr>\<rparr>"

lemma sample_late: "past sample_late_kube s (600 * second)"
  by (simp add: past_def sample_late_kube_def second_def)

theorem Sign_respects_deadline_witness:
  "net_Posts (snd (Sign sample_late_kube (CMPClient (kube_cmp sample_late_kube)) [] sample_cr sample_issuer
     (sample_with sample_polling_status))) = []"
  using Sign_respects_deadline [of "sample_with sample_polling_status" sample_cr "sample_transaction sample_polling_status",
      OF _ _ _ _ _ surjective_pairing] sample_transaction_sound [of sample_polling_status] sample_late
  by (simp add: is_int32_def phase_defs)

subsection \<open>Endings\<close>

text \<open>Without faults of the API server, a permanent failure removes the record.\<close>

lemma failTransaction_removes:
  assumes "\<forall>n. kube_Fault kl n = None" and "k_Transactions s (tx_key tx) = Some tx"
    and "as_permanent (mapProtocolError e) \<noteq> None"
  shows "\<exists>s'. failTransaction kl tx e s = (Inl (mapProtocolError e), s') \<and> k_Transactions s' (tx_key tx) = None
    \<and> net_Posts s' = net_Posts s"
  using assms
  by (auto simp: failTransaction_def Let_def store_remove_def sbind_def stry_def slift_def delete_transaction_def
      api_call_def deletePreconditions_def write_transaction_def record_access_def)

text \<open>
  C8: A transaction that is not answered ends. When the clock has passed the deadline, or the record is polling
  and has used its polls, working on a record that enrolls or polls sends nothing, fails
  permanently and removes the record, as long as the API server answers.
\<close>

theorem sign_transaction_ends:
  assumes "\<forall>n. kube_Fault kl n = None" and "k_Transactions s (tx_key tx) = Some tx"
    and "st_Phase (tx_Status tx) \<noteq> TransactionPhaseConfirming"
    and "past kl s (ts_Deadline (tx_Spec tx))
      \<or> st_Phase (tx_Status tx) = TransactionPhasePolling \<and> tl_MaximumPolls limits \<le> st_Polls (tx_Status tx)"
  shows "\<exists>e s'. sign_transaction kl client labels started csrDER request limits tx s = (Inl e, s')
    \<and> as_permanent e \<noteq> None \<and> k_Transactions s' (tx_key tx) = None \<and> net_Posts s' = net_Posts s"
proof -
  let ?now = "cmp_Clock (kube_cmp kl) (net_Ticks s)" and ?s = "s\<lparr>net_Ticks := Suc (net_Ticks s)\<rparr>"
  have ended: "\<exists>e. exchange kl client request tx limits s = (Inl e, ?s) \<and> (\<exists>e'. e = PermanentError e' \<and> as_protocol e = None)"
  proof (cases "ts_Deadline (tx_Spec tx) < ?now")
    case True
    then show ?thesis
      by (simp add: exchange_def sbind_def now_def time_Now_def slift_def past_deadline_def error_lookup_defs errors_as_there)
  next
    case False
    with assms(4) have "st_Phase (tx_Status tx) = TransactionPhasePolling" "tl_MaximumPolls limits \<le> st_Polls (tx_Status tx)"
      by (auto simp: past_def)
    with False show ?thesis
      by (auto simp: exchange_def sbind_def now_def time_Now_def slift_def poll_state_def out_of_polls_def ensure_def error_lookup_defs errors_as_there
          split: option.split list.split)
  qed
  then obtain e where e: "exchange kl client request tx limits s = (Inl e, ?s)" "as_permanent (mapProtocolError e) \<noteq> None"
      "\<not> is_Panic e"
    by (auto simp: mapProtocolError_def as_permanent_def)
  have "k_Transactions ?s (tx_key tx) = Some tx"
    using assms(2) by simp
  from failTransaction_removes [OF assms(1) this e(2)] obtain s' where
      "(failTransaction kl tx e :: enrollment_result io) ?s = (Inl (mapProtocolError e), s')"
      and "k_Transactions s' (tx_key tx) = None" "net_Posts s' = net_Posts s"
    by auto
  with e assms(3) show ?thesis
    by (auto simp: sign_transaction_def sbind_def on_error_def)
qed

theorem sign_transaction_ends_witness:
  "\<exists>e s'. sign_transaction sample_late_kube (CMPClient (kube_cmp sample_late_kube)) (sample_labels sample_issued) 0 ''csr''
       sample_request (transactionLimitsWithDefaults (is_Transaction sample_spec)) (sample_transaction sample_polling_status)
       (sample_with sample_polling_status) = (Inl e, s')
     \<and> as_permanent e \<noteq> None \<and> k_Transactions s' sample_key = None \<and> net_Posts s' = []"
proof -
  have "kube_Fault sample_late_kube n = None" for n
    by (simp add: sample_late_kube_def sample_kube_def)
  then show ?thesis
    using sign_transaction_ends [of sample_late_kube "sample_with sample_polling_status" "sample_transaction sample_polling_status"
        "transactionLimitsWithDefaults (is_Transaction sample_spec)" "CMPClient (kube_cmp sample_late_kube)"
        "sample_labels sample_issued" 0 "''csr''" sample_request] sample_late
    by (simp add: phase_defs)
qed

end
