(* ===== verification/Accounting.thy ===== *)
theory Accounting
  imports Signer_Decisions
begin

text \<open>
  The enrollment metrics of a run of \<^verbatim>\<open>Sign\<close>. Almost every step of the signer leaves the metrics alone;
  the steps that record an outcome are at the ends of a run, so that each run counts once.
\<close>

subsection \<open>Steps that record nothing\<close>

definition quiet :: "'a io \<Rightarrow> bool" where
  "quiet m \<longleftrightarrow> (\<forall>s. k_Metrics (snd (m s)) = k_Metrics s)"

named_theorems quiet_intros

lemma quietD: "quiet m \<Longrightarrow> m s = (r, s') \<Longrightarrow> k_Metrics s' = k_Metrics s"
  by (metis quiet_def snd_conv)

lemma quiet_slift [quiet_intros]: "quiet (slift r)"
  by (simp add: quiet_def slift_def)

lemma quiet_sbind [quiet_intros]: "quiet m \<Longrightarrow> (\<And>x. quiet (f x)) \<Longrightarrow> quiet (sbind m f)"
  by (auto simp: quiet_def sbind_def split: prod.split sum.split) (metis snd_conv)+

lemma quiet_stry [quiet_intros]: "quiet m \<Longrightarrow> quiet (stry m)"
  by (simp add: quiet_def stry_def case_prod_beta)

lemma quiet_on_error [quiet_intros]: "quiet m \<Longrightarrow> (\<And>e. quiet (h e)) \<Longrightarrow> quiet (on_error m h)"
  by (auto simp: quiet_def on_error_def split: prod.split sum.split) (metis snd_conv)+

lemma quiet_wrapping [quiet_intros]: "quiet m \<Longrightarrow> quiet (wrapping format m)"
  by (auto simp: quiet_def wrapping_def split: prod.split sum.split) (metis snd_conv)+

lemma quiet_if [quiet_intros]: "(c \<Longrightarrow> quiet m) \<Longrightarrow> (\<not> c \<Longrightarrow> quiet m') \<Longrightarrow> quiet (if c then m else m')"
  by simp

lemma quiet_option [quiet_intros]:
  "(x = None \<Longrightarrow> quiet m) \<Longrightarrow> (\<And>y. x = Some y \<Longrightarrow> quiet (f y)) \<Longrightarrow> quiet (case x of None \<Rightarrow> m | Some y \<Rightarrow> f y)"
  by (cases x) simp_all

lemma quiet_sum [quiet_intros]:
  "(\<And>y. x = Inl y \<Longrightarrow> quiet (g y)) \<Longrightarrow> (\<And>y. x = Inr y \<Longrightarrow> quiet (f y)) \<Longrightarrow> quiet (case x of Inl y \<Rightarrow> g y | Inr y \<Rightarrow> f y)"
  by (cases x) simp_all

lemma quiet_list [quiet_intros]:
  "quiet m \<Longrightarrow> (\<And>y ys. quiet (f y ys)) \<Longrightarrow> quiet (case x of [] \<Rightarrow> m | y # ys \<Rightarrow> f y ys)"
  by (cases x) simp_all

lemma quiet_now [quiet_intros]: "quiet (now kl)" and quiet_time [quiet_intros]: "quiet (time_Now lib)"
  by (simp_all add: quiet_def now_def time_Now_def)

lemma quiet_random [quiet_intros]: "quiet (random_bytes kl n)"
  by (simp add: quiet_def random_bytes_def)

lemma quiet_event [quiet_intros]: "quiet (emit_event ev)"
  by (simp add: quiet_def emit_event_def)

lemma quiet_api [quiet_intros]:
  "quiet (get_transaction kl key)" "quiet (create_transaction kl tx)" "quiet (update_status kl tx)"
  "quiet (delete_transaction kl key uid)"
  by (auto simp: quiet_def get_transaction_def create_transaction_def update_status_def delete_transaction_def
      api_call_def write_transaction_def record_access_def Let_def split: option.split api_fault.split)

lemma quiet_reads:
  assumes "behaves (reads Q) m E V"
  shows "quiet m"
  unfolding quiet_def
proof
  fix s
  have "reads Q s (snd (m s))"
    using behaves_state [OF assms surjective_pairing] .
  then show "k_Metrics (snd (m s)) = k_Metrics s"
    by (simp add: reads_def)
qed

lemma quiet_triple_reads:
  assumes "\<And>s0. triple (reads (Q s0) s0) m (\<lambda>e s. E s0 e \<and> reads (Q s0) s0 s) (\<lambda>x s. V s0 x \<and> reads (Q s0) s0 s)"
  shows "quiet m"
  unfolding quiet_def
proof
  fix s
  have "reads (Q s) s (snd (m s))"
    using triple_result [OF assms reads_same surjective_pairing, of s] by (auto split: sum.split_asm)
  then show "k_Metrics (snd (m s)) = k_Metrics s"
    by (simp add: reads_def)
qed

lemma quiet_loading [quiet_intros]:
  "quiet (loadRuntimeConfiguration kl crn issuer)" "quiet (loadCMPTrust kl crn issuer)"
  "quiet (loadIRMaterial kl request issuer csrDER reason)" "quiet (loadKURMaterial kl request issuer csrDER)"
  "quiet (classifyRenewalFallback kl request issuer moment)"
  by (rule quiet_reads [OF loadRuntimeConfiguration_behaves] quiet_reads [OF loadCMPTrust_behaves]
      quiet_triple_reads [OF loadIRMaterial_reads] quiet_triple_reads [OF loadKURMaterial_reads]
      quiet_triple_reads [OF classifyRenewalFallback_reads])+

lemma quiet_store [quiet_intros]:
  "quiet (store_load kl namespace name uid)" "quiet (store_create kl namespace name uid deadline detail)"
  "quiet (store_remove kl tx)" "quiet (recordPending kl tx pending)" "quiet (recordConfirming kl tx chain pending)"
  "quiet (recordIssued kl tx chain)"
  unfolding store_load_def store_create_def store_remove_def recordPending_def recordConfirming_def recordIssued_def
  by (intro quiet_intros)+

subsection \<open>The protocol client records nothing\<close>

lemma quiet_network [quiet_intros]:
  "quiet (new_message lib body options)" "quiet (sendCMP lib client endpoint der maximum)"
  by (auto simp: quiet_def new_message_def sendCMP_def Let_def split: option.split)

lemma quiet_round_trip [quiet_intros]:
  "quiet (round_trip lib request what signer nonce encoded)"
  "quiet (exchangeProtected lib request credentials message signer nonce operation)"
  unfolding exchangeProtected_def round_trip_def by (intro quiet_intros)+

lemma quiet_refusal [quiet_intros]:
  "quiet (completeOrRefuse lib request credentials response csr signer nonce)"
  unfolding completeOrRefuse_def rejectCertificate_def deliver_rejection_def confirmationMessage_def Let_def case_prod_beta
  by (intro quiet_intros)

lemma quiet_ValidateKURRequest [quiet_intros]: "quiet (ValidateKURRequest lib request)"
  unfolding ValidateKURRequest_def by (intro quiet_intros)

locale quiet_client =
  fixes client :: protocol_client
  assumes quiet_enroll: "quiet (pc_EnrollP10CR client request)" "quiet (pc_EnrollIR client request)"
      "quiet (pc_EnrollKUR client request)"
    and quiet_poll: "quiet (pc_PollP10CR client poll)"
    and quiet_confirm: "quiet (pc_ConfirmP10CR client c)"

interpretation cmp_quiet: quiet_client "CMPClient lib" for lib
  by unfold_locales
    (simp_all add: CMPClient_def EnrollP10CR_def EnrollIR_def EnrollKUR_def PollP10CR_def ConfirmP10CR_def Let_def
      case_prod_beta protectedEnrollment_def protectedIR_def protectedKUR_def enroll_exchange_def confirmationMessage_def
      quiet_intros)

subsection \<open>One outcome per run\<close>

definition uncounted :: "metrics_registry \<Rightarrow> cluster \<Rightarrow> bool" where
  "uncounted m s \<longleftrightarrow>
     enrollmentTotal (k_Metrics s) = enrollmentTotal m \<and> enrollmentFailures (k_Metrics s) = enrollmentFailures m"

definition counted_issued :: "metric_labels \<Rightarrow> metrics_registry \<Rightarrow> cluster \<Rightarrow> bool" where
  "counted_issued l m s \<longleftrightarrow>
     enrollmentTotal (k_Metrics s) = increment (label_values l @ [ResultIssued]) (enrollmentTotal m)
     \<and> enrollmentFailures (k_Metrics s) = enrollmentFailures m"

definition counted_failed :: "metric_labels \<Rightarrow> go_error \<Rightarrow> metrics_registry \<Rightarrow> cluster \<Rightarrow> bool" where
  "counted_failed l e m s \<longleftrightarrow>
     enrollmentTotal (k_Metrics s) = increment (label_values l @ [ResultFailed]) (enrollmentTotal m)
     \<and> enrollmentFailures (k_Metrics s)
         = increment (label_values l @ [fst (failureLabels e), snd (failureLabels e)]) (enrollmentFailures m)"

lemma quiet_uncounted: "quiet a \<Longrightarrow> triple (uncounted m) a (\<lambda>e. uncounted m) (\<lambda>_. uncounted m)"
  by (rule tripleI) (auto simp: uncounted_def dest: quietD)

lemma poll_uncounted: "triple (uncounted m) (recordEnrollmentPoll l) E (\<lambda>_. uncounted m)"
  by (rule tripleI) (auto simp: recordEnrollmentPoll_def record_metric_def uncounted_def RecordPoll_def)

lemma record_metric_triple: "(\<And>s. P s \<Longrightarrow> Q () (s\<lparr>k_Metrics := f (k_Metrics s)\<rparr>)) \<Longrightarrow> triple P (record_metric f) E Q"
  by (simp add: triple_def record_metric_def)

lemma now_uncounted: "triple (uncounted m) (now kl) E (\<lambda>_. uncounted m)"
  by (simp add: triple_def now_def time_Now_def uncounted_def)

lemma issued_counted:
  assumes "labels_complete l"
  shows "triple (uncounted m) (recordIssuedEnrollment kl l confirmation started) E (\<lambda>_. counted_issued l m)"
  unfolding recordIssuedEnrollment_def
  by (rule triple_sbind [OF now_uncounted], rule triple_sbind [where Q = "\<lambda>_. counted_issued l m"])
    (auto intro!: record_metric_triple
      simp: uncounted_def counted_issued_def RecordOutcome_def RecordConfirmation_def Let_def assms)

lemma finish_counted:
  assumes "labels_complete l"
  shows "triple (uncounted m) (finish_enrollment kl l tx chain confirmation started) (\<lambda>e. uncounted m)
    (\<lambda>_. counted_issued l m)"
  unfolding finish_enrollment_def
  by (rule triple_sbind [OF quiet_uncounted], intro quiet_intros, rule triple_sbind [OF issued_counted [OF assms]],
      rule triple_slift) auto

lemma retry_uncounted:
  "triple (uncounted m) (ask_for_retry kl l tx checkAfter limits format) (\<lambda>e. uncounted m) Q"
  unfolding ask_for_retry_def Let_def
  by (rule triple_sbind [OF quiet_uncounted [OF quiet_now]], rule triple_sbind [OF poll_uncounted], rule triple_slift) auto

lemma waiting_uncounted:
  "triple (uncounted m) (continuePolling kl l tx pending limits polled) (\<lambda>e. uncounted m) Q"
  "triple (uncounted m) (continueConfirming kl l tx chain pending limits polled) (\<lambda>e. uncounted m) Q"
  unfolding continuePolling_def continueConfirming_def
  by (rule triple_sbind [OF quiet_uncounted retry_uncounted], intro quiet_intros)+

lemma quiet_failTransaction [quiet_intros]: "quiet (failTransaction kl tx e)"
  unfolding failTransaction_def Let_def by (intro quiet_intros)

lemma failed_uncounted: "triple (uncounted m) (failTransaction kl tx e) (\<lambda>e. uncounted m) Q"
  unfolding failTransaction_def Let_def
  by (intro triple_if triple_sbind [OF quiet_uncounted] quiet_intros triple_slift) auto

context quiet_client
begin

lemma confirm_counted:
  assumes "labels_complete l"
  shows "triple (uncounted m) (confirm kl client l tx request limits chain pending started) (\<lambda>e. uncounted m)
    (\<lambda>_. counted_issued l m)"
  unfolding confirm_def
  by (rule triple_sbind [OF now_uncounted], intro triple_if failed_uncounted)
    (auto split: list.split intro!: triple_slift triple_sbind [OF quiet_uncounted] quiet_intros quiet_confirm triple_option
      waiting_uncounted finish_counted [OF assms])

lemma resumeConfirmation_counted:
  assumes "labels_complete l"
  shows "triple (uncounted m) (resumeConfirmation kl client l tx request limits csrDER started) (\<lambda>e. uncounted m)
    (\<lambda>_. counted_issued l m)"
  unfolding resumeConfirmation_def
  by (intro triple_sbind [OF quiet_uncounted] quiet_intros triple_option failed_uncounted confirm_counted [OF assms])

lemma quiet_exchange: "quiet (exchange kl client request tx limits)"
  unfolding exchange_def enroll_def by (intro quiet_intros quiet_enroll quiet_poll)

lemma sign_transaction_counted:
  assumes "labels_complete l"
  shows "triple (uncounted m) (sign_transaction kl client l started csrDER request limits tx) (\<lambda>e. uncounted m)
    (\<lambda>_. counted_issued l m)"
  unfolding sign_transaction_def
  by (intro triple_if resumeConfirmation_counted [OF assms] triple_sbind [OF quiet_uncounted] quiet_intros quiet_exchange
      triple_option waiting_uncounted confirm_counted [OF assms] finish_counted [OF assms])

end

lemma quiet_preparing [quiet_intros]:
  "quiet (choose_operation kl request issuer operation resumed)"
  "quiet (prepareWorkloadKeyEnrollment kl request issuer operation reason csrDER rc base)"
  "quiet (recorded_transaction kl request issuer digest operation reason fallback rc resumed)"
  "quiet (recoverIssuedChain kl crn tx issuer csrDER)"
  "quiet (sign_begin kl request issuer)"
  unfolding choose_operation_def selectRenewalFallback_def prepareWorkloadKeyEnrollment_def load_material_def
    validate_workload_request_def recorded_transaction_def reportRenewalFallback_def recoverIssuedChain_def sign_begin_def
    Let_def case_prod_beta
  by (intro quiet_intros)+

lemma store_load_finds:
  "store_load kl namespace name uid s = (Inr resumed, s') \<Longrightarrow> resumed = record_for uid (k_Transactions s (namespace, name))"
  by (auto simp: store_load_def sbind_def stry_def slift_def get_transaction_def api_call_def found_def is_not_found_def
      record_for_def Let_def
      split: prod.split_asm sum.split_asm if_split_asm option.split_asm api_fault.split_asm)

lemma sign_begin_finds:
  "sign_begin kl request issuer s = (Inr x, s') \<Longrightarrow>
   snd (snd x) = record_for (cr_UID request) (k_Transactions s (request_key request))"
  by (auto simp: sign_begin_def sbind_def slift_def failTransaction_def Let_def
      split: prod.split_asm sum.split_asm if_split_asm option.split_asm dest: store_load_finds)

text \<open>Whether the request already has its certificate recorded.\<close>

definition already_issued :: "cmp_transaction option \<Rightarrow> bool" where
  "already_issued held \<longleftrightarrow> (case held of None \<Rightarrow> False | Some tx \<Rightarrow> st_Phase (tx_Status tx) = TransactionPhaseIssued)"

context quiet_client
begin

lemma sign_configured_counted:
  assumes "labels_complete l"
  shows "triple (uncounted m) (sign_configured kl client crn l started request issuer csrDER operation resumed)
    (\<lambda>e. uncounted m) (\<lambda>_. counted_issued l m)"
  unfolding sign_configured_def sign_loaded_def Let_def case_prod_beta
  by (intro triple_sbind [OF quiet_uncounted] quiet_intros sign_transaction_counted [OF assms])

lemma sign_recorded_counted:
  assumes "labels_complete l"
  shows "triple (uncounted m) (sign_recorded kl client crn l started request issuer csrDER operation resumed)
    (\<lambda>e. uncounted m) (\<lambda>_ s. if already_issued resumed then uncounted m s else counted_issued l m s)"
proof (cases "already_issued resumed")
  case True
  then show ?thesis
    by (auto simp: sign_recorded_def already_issued_def split: option.split_asm intro!: quiet_uncounted quiet_intros)
next
  case False
  then show ?thesis
    by (auto simp: sign_recorded_def already_issued_def split: option.split
        intro!: sign_configured_counted [OF assms] failed_uncounted triple_slift)
qed

end

lemma reporting_counted:
  assumes "triple P a (\<lambda>e. uncounted m) Q" and l: "labels_complete l"
  shows "triple P (reporting kl l started a)
    (\<lambda>e s. if is_Panic e \<or> as_pending e \<noteq> None then uncounted m s else counted_failed l e m s) Q"
  unfolding reporting_def
proof (rule triple_on_error [OF assms(1)])
  fix e :: go_error
  assume "\<not> is_Panic e"
  then show "triple (uncounted m) (sbind (recordFailedEnrollment kl l e started) (\<lambda>_. slift (Inl e)))
    (\<lambda>e s. if is_Panic e \<or> as_pending e \<noteq> None then uncounted m s else counted_failed l e m s) Q"
    by (auto simp: triple_def sbind_def slift_def recordFailedEnrollment_def now_def time_Now_def record_metric_def
        uncounted_def counted_failed_def RecordOutcome_def RecordFailure_def Let_def l case_prod_beta)
qed (auto intro: triple_slift)

lemma sign_begin_counted:
  "triple (\<lambda>s. uncounted m s \<and> k_Transactions s (request_key request) = held) (sign_begin kl request issuer)
     (\<lambda>e. uncounted m) (\<lambda>x s. snd (snd x) = record_for (cr_UID request) held \<and> uncounted m s)"
  by (rule tripleI) (auto simp: uncounted_def dest: sign_begin_finds quietD [OF quiet_preparing(5)])

lemma labels_complete_enrollment:
  "iss_Name issuer \<noteq> [] \<Longrightarrow> labels_complete (enrollmentMetricLabels names issuer request)"
  by (auto simp: labels_complete_def enrollmentMetricLabels_def enrollmentOperation_def issuerKindCluster_def
      issuerKindNamespaced_def metrics_OperationRenewal_def metrics_OperationEnrollment_def split: option.split)

context quiet_client
begin

lemma Sign_counted:
  assumes "labels_complete l" and l: "l = enrollmentMetricLabels (kube_names kl) issuer request"
  shows "triple (\<lambda>s. uncounted m s \<and> k_Transactions s (request_key request) = held) (Sign kl client crn request issuer)
    (\<lambda>e s. if is_Panic e \<or> as_pending e \<noteq> None then uncounted m s else counted_failed l e m s)
    (\<lambda>_ s. if already_issued (record_for (cr_UID request) held) then uncounted m s else counted_issued l m s)"
proof -
  have started: "triple (\<lambda>s. uncounted m s \<and> k_Transactions s (request_key request) = held) (now kl) E
      (\<lambda>_ s. uncounted m s \<and> k_Transactions s (request_key request) = held)" for E
    by (simp add: triple_def now_def time_Now_def uncounted_def)
  show ?thesis
    unfolding Sign_def Let_def case_prod_beta l [symmetric]
    by (rule triple_sbind [OF started], rule triple_sbind [OF reporting_counted [OF sign_begin_counted assms(1)]],
        rule triple_pure, rule triple_conseq [OF reporting_counted [OF sign_recorded_counted [OF assms(1)] assms(1)]]) auto
qed

end

text \<open>
  C10: Every reconciliation of a named issuer's request counts once. A run that issues a certificate adds one to the
  issued total under the request's labels and touches no failure counter; a run that only returns the certificate of a
  transaction recorded as issued adds nothing, since the run that issued it was counted. A run that ends in an error
  adds one to the failed total and one to the failure counter of the error's classification, except that a run that asks
  to be called again later, or panics, adds nothing.
\<close>

theorem Sign_counts_once:
  assumes "iss_Name issuer \<noteq> []" and "Sign kl (CMPClient lib) crn request issuer s = (result, s')"
    and "l = enrollmentMetricLabels (kube_names kl) issuer request"
  shows "case result of
      Inr pem \<Rightarrow>
        (if already_issued (record_for (cr_UID request) (k_Transactions s (request_key request)))
         then uncounted (k_Metrics s) s' else counted_issued l (k_Metrics s) s')
    | Inl e \<Rightarrow>
        (if is_Panic e \<or> as_pending e \<noteq> None then uncounted (k_Metrics s) s' else counted_failed l e (k_Metrics s) s')"
  unfolding assms(3)
  by (rule triple_result [OF cmp_quiet.Sign_counted [OF labels_complete_enrollment [OF assms(1)] refl] _ assms(2)])
    (simp add: uncounted_def)

theorem Sign_counts_once_witness:
  "fst (sample_sign sample_issued (sample_cluster (\<lambda>key. None))) = Inr ''CERTIFICATEleaf''
   \<and> counted_issued (sample_labels sample_issued) (k_Metrics (sample_cluster (\<lambda>key. None)))
       (snd (sample_sign sample_issued (sample_cluster (\<lambda>key. None))))"
proof -
  have named: "iss_Name sample_issuer \<noteq> []" and fresh: "\<not> already_issued (record_for uid (k_Transactions (sample_cluster (\<lambda>key. None)) key))"
    for uid key
    by (simp_all add: sample_issuer_def sample_cluster_def record_for_def already_issued_def)
  show ?thesis
    using Sign_counts_once [OF named surjective_pairing refl, where kl = "sample_kube sample_issued" and crn = "[]"
        and lib = "kube_cmp (sample_kube sample_issued)" and request = sample_cr and s = "sample_cluster (\<lambda>key. None)"] sample_signed fresh
    by simp
qed

end
