(* ===== verification/Log_Lines.thy ===== *)
theory Log_Lines
  imports Signer_Decisions
begin

text \<open>
  The log lines of the controller, \<^verbatim>\<open>src/internal/controller/logging.go\<close>. The program writes them
  and never reads them, so they are functions of what is reported and stand beside the signer. A line carries the
  alternating keys and values of the source. What the standard library says of a certificate (its rendered names and
  algorithm) is the parameter \<open>certificate_details\<close>; times and durations are rendered as package
  \<^verbatim>\<open>time\<close> renders them. The lemmas show that what the server chose reaches a line only in printable form,
  that a failure is logged under the words it is counted under, and how far a logged duration is from the real one.
\<close>

datatype log_value = LogText bytes | LogInt int | LogTexts "bytes list"

datatype log_level = LogInfo nat | LogError go_error

record log_line =
  ll_Level :: log_level
  ll_Message :: bytes
  ll_Values :: "log_value list"

datatype go_public_key =
    RSAPublicKey nat
  | ECDSAPublicKey nat
  | Ed25519PublicKey bytes
  | MLDSAPublicKey bytes bytes
  | OtherPublicKey

record certificate_details =
  cd_Subject :: bytes
  cd_Issuer :: bytes
  cd_SerialNumber :: "int option"
  cd_SignatureAlgorithm :: bytes
  cd_PublicKey :: go_public_key
  cd_DNSNames :: "bytes list"
  cd_IPAddresses :: "bytes list"
  cd_URIs :: "bytes list"
  cd_EmailAddresses :: "bytes list"

definition unknownKeyType :: bytes where "unknownKeyType = ''Unknown''"

subsection \<open>Times and durations\<close>

definition pad_int :: "nat \<Rightarrow> int \<Rightarrow> bytes" where
  "pad_int width x =
     (let digits = itoa_nat (nat \<bar>x\<bar>)
      in (if x < 0 then ''-'' else []) @ replicate (width - length digits) CHR ''0'' @ digits)"

text \<open>Year, month and day of a day number that counts from 1 January 1970.\<close>

definition civil_date :: "int \<Rightarrow> int \<times> int \<times> int" where
  "civil_date days =
     (let z = days + 719468; era = z div 146097; doe = z mod 146097;
          yoe = (doe - doe div 1460 + doe div 36524 - doe div 146096) div 365;
          doy = doe - (365 * yoe + yoe div 4 - yoe div 100);
          mp = (5 * doy + 2) div 153;
          day = doy - (153 * mp + 2) div 5 + 1;
          month = (if mp < 10 then mp + 3 else mp - 9)
      in (yoe + era * 400 + (if month \<le> 2 then 1 else 0), month, day))"

definition timestampLogValue :: "time \<Rightarrow> bytes" where
  "timestampLogValue moment =
     (let seconds = moment div 1000000000; clock = seconds mod 86400 in
      case civil_date (seconds div 86400) of (year, month, day) \<Rightarrow>
        pad_int 4 year @ ''-'' @ pad_int 2 month @ ''-'' @ pad_int 2 day @ ''T''
        @ pad_int 2 (clock div 3600) @ '':'' @ pad_int 2 (clock div 60 mod 60) @ '':'' @ pad_int 2 (clock mod 60) @ ''Z'')"

definition time_Millisecond :: duration where "time_Millisecond = 1000000"

text \<open>\<^verbatim>\<open>Duration.Round\<close>, which rounds half away from zero and stays at the limits on overflow.\<close>

definition duration_Round :: "duration \<Rightarrow> duration \<Rightarrow> duration" where
  "duration_Round d m =
     (if m \<le> 0 then d
      else if d < 0
      then (let r = (- d) mod m in
            if r + r < m then wrap64 (d + r)
            else (let d1 = wrap64 (wrap64 (d - m) + r) in if d1 < d then d1 else - (2 ^ 63)))
      else (let r = d mod m in
            if r + r < m then d - r
            else (let d1 = wrap64 (wrap64 (d + m) - r) in if d1 > d then d1 else 2 ^ 63 - 1)))"

text \<open>The digits after the point: \<open>prec\<close> of them, without trailing zeros.\<close>

definition fmtFrac :: "nat \<Rightarrow> nat \<Rightarrow> bytes" where
  "fmtFrac v prec =
     (let digits = itoa_nat v; padded = replicate (prec - length digits) CHR ''0'' @ digits;
          kept = rev (dropWhile (\<lambda>c. c = CHR ''0'') (rev padded))
      in if v = 0 then [] else ''.'' @ kept)"

definition duration_String :: "duration \<Rightarrow> bytes" where
  "duration_String d =
     (let u = nat \<bar>d\<bar>; sign = (if d < 0 then ''-'' else []) in
      if u = 0 then ''0s''
      else if u < 1000 then sign @ itoa_nat u @ ''ns''
      else if u < 1000000
      then sign @ itoa_nat (u div 1000) @ fmtFrac (u mod 1000) 3 @ [CHR 0xC2, CHR 0xB5, CHR ''s'']
      else if u < 1000000000 then sign @ itoa_nat (u div 1000000) @ fmtFrac (u mod 1000000) 6 @ ''ms''
      else (let total = u div 1000000000; minutes = total div 60; hours = minutes div 60
            in sign @ (if hours > 0 then itoa_nat hours @ ''h'' else [])
               @ (if minutes > 0 then itoa_nat (minutes mod 60) @ ''m'' else [])
               @ itoa_nat (total mod 60) @ fmtFrac (u mod 1000000000) 9 @ ''s''))"

definition durationLogValue :: "duration \<Rightarrow> bytes" where
  "durationLogValue elapsed = duration_String (duration_Round elapsed time_Millisecond)"

subsection \<open>Values\<close>

definition issuerLogValue :: "issuer \<Rightarrow> bytes" where
  "issuerLogValue issuer =
     (if iss_Type issuer = CMPClusterIssuer then issuerKindCluster @ ''/'' @ iss_Name issuer
      else issuerKindNamespaced @ ''/'' @ iss_Namespace issuer @ ''/'' @ iss_Name issuer)"

definition requestLogValues :: "api_names \<Rightarrow> issuer \<Rightarrow> request_object \<Rightarrow> log_value list" where
  "requestLogValues names issuer request =
     [LogText ''issuer'', LogText (issuerLogValue issuer),
      LogText ''lifecycle'', LogText (enrollmentOperation names request)]
     @ (case certificateRequestRevision names request of
          Inr revision \<Rightarrow> if revision > 0 then [LogText ''certificateRevision'', LogInt revision] else []
        | Inl _ \<Rightarrow> [])"

definition transactionIDLogValue :: "bytes \<Rightarrow> bytes" where
  "transactionIDLogValue transactionID = hex_encode transactionID"

fun hex_nat :: "nat \<Rightarrow> bytes" where
  "hex_nat n = (if n < 16 then [hex_digit n] else hex_nat (n div 16) @ [hex_digit (n mod 16)])"

declare hex_nat.simps [simp del]

definition serialNumberLogValue :: "certificate_details \<Rightarrow> bytes" where
  "serialNumberLogValue details =
     (case cd_SerialNumber details of
        None \<Rightarrow> []
      | Some serial \<Rightarrow> (if serial < 0 then ''-'' else []) @ hex_nat (nat \<bar>serial\<bar>))"

definition named_list :: "(rune \<Rightarrow> bool) \<Rightarrow> bytes \<Rightarrow> bytes list \<Rightarrow> log_value list" where
  "named_list graphic name values =
     (if values = [] then [] else [LogText name, LogTexts (bounded_list graphic values)])"

definition subjectAlternativeNameLogValues :: "(rune \<Rightarrow> bool) \<Rightarrow> certificate_details \<Rightarrow> log_value list" where
  "subjectAlternativeNameLogValues graphic details =
     named_list graphic ''dnsNames'' (cd_DNSNames details)
     @ named_list graphic ''ipAddresses'' (cd_IPAddresses details)
     @ named_list graphic ''uris'' (cd_URIs details)
     @ named_list graphic ''emailAddresses'' (cd_EmailAddresses details)"

fun publicKeyDescription :: "go_public_key \<Rightarrow> bytes \<times> nat" where
  "publicKeyDescription (RSAPublicKey bits) = (''RSA'', bits)"
| "publicKeyDescription (ECDSAPublicKey bits) = (''ECDSA'', bits)"
| "publicKeyDescription (Ed25519PublicKey key) = (''Ed25519'', length key * 8)"
| "publicKeyDescription (MLDSAPublicKey parameters key) = (parameters, length key * 8)"
| "publicKeyDescription OtherPublicKey = (unknownKeyType, 0)"

definition certificateLogValues ::
    "(rune \<Rightarrow> bool) \<Rightarrow> (certificate \<Rightarrow> certificate_details) \<Rightarrow> certificate list \<Rightarrow> log_value list"
where
  "certificateLogValues graphic describe chain =
     (case chain of
        [] \<Rightarrow> []
      | leaf # _ \<Rightarrow>
          let details = describe leaf in
          case publicKeyDescription (cd_PublicKey details) of (keyType, keySize) \<Rightarrow>
            [LogText ''subject'', LogText (Text graphic (cd_Subject details)),
             LogText ''serialNumber'', LogText (serialNumberLogValue details),
             LogText ''notBefore'', LogText (timestampLogValue (cert_NotBefore leaf)),
             LogText ''notAfter'', LogText (timestampLogValue (cert_NotAfter leaf)),
             LogText ''issuingCA'', LogText (Text graphic (cd_Issuer details)),
             LogText ''keyType'', LogText keyType,
             LogText ''keySize'', LogInt (int keySize),
             LogText ''signatureAlgorithm'', LogText (cd_SignatureAlgorithm details),
             LogText ''chainLength'', LogInt (int (length chain))]
            @ subjectAlternativeNameLogValues graphic details)"

subsection \<open>Lines\<close>

definition logResumedTransaction :: "time \<Rightarrow> cmp_transaction \<Rightarrow> log_line" where
  "logResumedTransaction moment transaction =
     (let status = tx_Status transaction;
          values =
            [LogText ''phase'', LogText (st_Phase status), LogText ''polls'', LogInt (st_Polls status),
             LogText ''deadline'', LogText (timestampLogValue (ts_Deadline (tx_Spec transaction)))]
            @ (if tx_CreationTimestamp transaction \<noteq> zero_time
               then [LogText ''age'', LogText (durationLogValue (time_Sub moment (tx_CreationTimestamp transaction)))]
               else [])
      in \<lparr>ll_Level = LogInfo (if st_Phase status = TransactionPhasePolling \<or> st_Phase status = TransactionPhaseIssued
             then 1 else 0),
          ll_Message = ''Resumed CMP transaction'', ll_Values = values\<rparr>)"

definition logIssuedCertificate ::
    "(rune \<Rightarrow> bool) \<Rightarrow> (certificate \<Rightarrow> certificate_details) \<Rightarrow> time \<Rightarrow> cmp_transaction \<Rightarrow>
     certificate list \<Rightarrow> bytes \<Rightarrow> time \<Rightarrow> log_line"
where
  "logIssuedCertificate graphic describe moment transaction chain confirmation started =
     \<lparr>ll_Level = LogInfo 0, ll_Message = ''Issued certificate'',
      ll_Values =
        [LogText ''operation'', LogText (ts_Operation (tx_Spec transaction))]
        @ certificateLogValues graphic describe chain
        @ [LogText ''confirmation'', LogText confirmation,
           LogText ''polls'', LogInt (st_Polls (tx_Status transaction)),
           LogText ''duration'', LogText (durationLogValue (time_Sub moment started))]\<rparr>"

definition logEnrollmentFailure :: "go_error option \<Rightarrow> log_line option" where
  "logEnrollmentFailure failure =
     (case failure of
        None \<Rightarrow> None
      | Some err \<Rightarrow>
          if as_pending err \<noteq> None then None
          else Some \<lparr>ll_Level = LogError err, ll_Message = ''CMP enrollment failed'', ll_Values =
            (case as_protocol err of
               Some protocolError \<Rightarrow>
                 [LogText ''operation'', LogText (pe_Operation protocolError),
                  LogText ''failure'', LogText (pe_Failure protocolError),
                  LogText ''classification'', LogText (kind_name (pe_Kind protocolError))]
             | None \<Rightarrow>
                 (case as_configuration err of
                    Some configurationErr \<Rightarrow>
                      [LogText ''operation'', LogText (ce_Operation configurationErr),
                       LogText ''failure'', LogText ''issuerConfiguration'',
                       LogText ''classification'', LogText (configurationClassification configurationErr)]
                  | None \<Rightarrow> []))\<rparr>)"

definition enrollmentDeadlineValues :: "cmp_transaction \<Rightarrow> transaction_limits \<Rightarrow> duration \<Rightarrow> log_value list" where
  "enrollmentDeadlineValues transaction limits delay =
     [LogText ''polls'', LogInt (st_Polls (tx_Status transaction)),
      LogText ''maximumPolls'', LogInt (tl_MaximumPolls limits),
      LogText ''retryAfter'', LogText (durationLogValue delay),
      LogText ''deadline'', LogText (timestampLogValue (ts_Deadline (tx_Spec transaction)))]"

definition itoa :: "int \<Rightarrow> bytes" where
  "itoa x = (if x < 0 then ''-'' else []) @ itoa_nat (nat \<bar>x\<bar>)"

definition enrollmentLogValue :: "cmp_transaction \<Rightarrow> bytes" where
  "enrollmentLogValue transaction =
     ts_Operation (tx_Spec transaction) @ '' v'' @ itoa (ts_ProtocolVersion (tx_Spec transaction))"

subsection \<open>What the server chose is printable\<close>

definition printable_text :: "(rune \<Rightarrow> bool) \<Rightarrow> bytes \<Rightarrow> bool" where
  "printable_text graphic s \<longleftrightarrow> list_all (is_graphic graphic) (runes s)"

fun printable_value :: "(rune \<Rightarrow> bool) \<Rightarrow> log_value \<Rightarrow> bool" where
  "printable_value graphic (LogText s) = printable_text graphic s"
| "printable_value graphic (LogInt n) = True"
| "printable_value graphic (LogTexts ss) = list_all (printable_text graphic) ss"

definition plain :: "bytes \<Rightarrow> bool" where
  "plain s \<longleftrightarrow> list_all (\<lambda>c. 32 \<le> (of_char c :: nat) \<and> (of_char c :: nat) < 127) s"

text \<open>The keys of a line, provided that keys and values alternate.\<close>

fun log_keys :: "log_value list \<Rightarrow> bytes list option" where
  "log_keys [] = Some []"
| "log_keys (LogText key # v # rest) = map_option ((#) key) (log_keys rest)"
| "log_keys _ = None"

lemma plain_printable: "plain s \<Longrightarrow> printable_text graphic s"
proof -
  assume "plain s"
  moreover from this have "runes s = byte_values s"
    by (intro ascii_runes) (auto simp: plain_def ascii_def list_all_iff)
  ultimately show ?thesis
    by (auto simp: printable_text_def plain_def byte_values_def is_graphic_def list_all_iff)
qed

lemma plain_append [simp]: "plain (s @ t) \<longleftrightarrow> plain s \<and> plain t"
  by (simp add: plain_def)

lemma plain_Nil [simp]: "plain []"
  by (simp add: plain_def)

lemma plain_Cons [simp]: "plain (c # s) \<longleftrightarrow> (32 \<le> (of_char c :: nat) \<and> (of_char c :: nat) < 127) \<and> plain s"
  by (simp add: plain_def)

lemma plain_replicate [simp]: "plain (replicate n CHR ''0'')"
  by (simp add: plain_def list_all_iff)

lemma plain_itoa_nat [simp]: "plain (itoa_nat n)"
proof (induction n rule: itoa_nat.induct)
  case (1 n)
  have "plain [digit_char d]" if "d < 10" for d
    using that by (simp add: digit_char_def)
  then show ?case
    using 1 by (subst itoa_nat.simps) simp
qed

lemma plain_hex_nat [simp]: "plain (hex_nat n)"
proof (induction n rule: hex_nat.induct)
  case (1 n)
  have "plain [hex_digit d]" if "d < 16" for d
    using that by (simp add: hex_digit_def)
  then show ?case
    using 1 by (subst hex_nat.simps) simp
qed

lemma plain_pad_int [simp]: "plain (pad_int width x)"
  by (simp add: pad_int_def Let_def)

lemma plain_timestamp: "plain (timestampLogValue moment)"
  by (simp add: timestampLogValue_def Let_def case_prod_beta)

lemma plain_serialNumber: "plain (serialNumberLogValue details)"
  by (simp add: serialNumberLogValue_def split: option.split)

lemma Text_printable: "printable_text graphic (Text graphic s)"
  using Text_graphic by (auto simp: printable_text_def list_all_iff)

lemma bounded_list_printable: "list_all (printable_text graphic) (bounded_list graphic values)"
  by (auto simp: bounded_list_def Let_def list_all_iff intro: Text_printable plain_printable)

lemma named_list_printable: "list_all (printable_value graphic) (named_list graphic name values)" if "plain name"
  using that bounded_list_printable plain_printable by (simp add: named_list_def)

lemma log_keys_append: "log_keys vs = Some ks \<Longrightarrow> log_keys ws = Some ls \<Longrightarrow> log_keys (vs @ ws) = Some (ks @ ls)"
  by (induction vs arbitrary: ks rule: log_keys.induct) auto

lemma log_keys_named_list: "log_keys (named_list graphic name values) = Some (if values = [] then [] else [name])"
  by (simp add: named_list_def)

definition alternative_name_keys :: "certificate_details \<Rightarrow> bytes list" where
  "alternative_name_keys details =
     (if cd_DNSNames details = [] then [] else [''dnsNames'']) @ (if cd_IPAddresses details = [] then [] else [''ipAddresses''])
     @ (if cd_URIs details = [] then [] else [''uris'']) @ (if cd_EmailAddresses details = [] then [] else [''emailAddresses''])"

lemma log_keys_names:
  "log_keys (subjectAlternativeNameLogValues graphic details) = Some (alternative_name_keys details)"
  unfolding subjectAlternativeNameLogValues_def alternative_name_keys_def
  by (intro log_keys_append log_keys_named_list)

lemma log_keys_certificate:
  "log_keys (certificateLogValues graphic describe (leaf # rest)) =
     Some ([''subject'', ''serialNumber'', ''notBefore'', ''notAfter'', ''issuingCA'', ''keyType'', ''keySize'',
        ''signatureAlgorithm'', ''chainLength''] @ alternative_name_keys (describe leaf))"
  by (simp add: certificateLogValues_def Let_def case_prod_beta log_keys_names)

lemma certificate_values_printable:
  assumes "plain (cd_SignatureAlgorithm (describe leaf))"
    and "plain (fst (publicKeyDescription (cd_PublicKey (describe leaf))))"
  shows "list_all (printable_value graphic) (certificateLogValues graphic describe (leaf # rest))"
  using assms
  by (simp add: certificateLogValues_def Let_def case_prod_beta subjectAlternativeNameLogValues_def named_list_printable
      Text_printable plain_printable plain_timestamp plain_serialNumber)

text \<open>
  C25: The line that reports an issued certificate is safe to read. Its keys and values alternate, no key appears twice,
  and the names the CA put into the certificate, with the names of its algorithms and its validity, contain printable
  characters only, whatever the CA put there. The library's names of the algorithms are taken to be plain text.
\<close>

theorem issued_line_readable:
  assumes "plain (cd_SignatureAlgorithm (describe leaf))"
    and "plain (fst (publicKeyDescription (cd_PublicKey (describe leaf))))"
    and "values = ll_Values (logIssuedCertificate graphic describe moment tx (leaf # rest) confirmation started)"
  shows "(case log_keys values of None \<Rightarrow> False | Some keys \<Rightarrow> distinct keys)
    \<and> list_all (printable_value graphic) (take (length values - 8) (drop 2 values))"
proof -
  let ?cert = "certificateLogValues graphic describe (leaf # rest)"
  have "take (length values - 8) (drop 2 values) = ?cert"
    by (simp add: assms(3) logIssuedCertificate_def)
  moreover have "log_keys values = Some ([''operation''] @ ([''subject'', ''serialNumber'', ''notBefore'', ''notAfter'',
      ''issuingCA'', ''keyType'', ''keySize'', ''signatureAlgorithm'', ''chainLength''] @ alternative_name_keys (describe leaf))
      @ [''confirmation'', ''polls'', ''duration''])"
    unfolding assms(3) logIssuedCertificate_def log_line.simps by (intro log_keys_append log_keys_certificate) simp_all
  ultimately show ?thesis
    using certificate_values_printable [of describe leaf, OF assms(1,2)] by (simp add: alternative_name_keys_def)
qed

definition sample_details :: certificate_details where
  "sample_details = \<lparr>cd_Subject = [CHR ''a'', CHR 0x0A, CHR ''b''], cd_Issuer = ''CN=ca'', cd_SerialNumber = Some 255,
     cd_SignatureAlgorithm = ''ECDSA-SHA256'', cd_PublicKey = ECDSAPublicKey 256, cd_DNSNames = [''example.org''],
     cd_IPAddresses = [], cd_URIs = [], cd_EmailAddresses = []\<rparr>"

theorem issued_line_readable_witness:
  "list_all (printable_value (\<lambda>r. True))
     (take 20 (drop 2 (ll_Values (logIssuedCertificate (\<lambda>r. True) (\<lambda>c. sample_details) 0 (sample_transaction sample_issued_status)
       [sample_leaf] ''Explicit'' 0))))"
proof -
  have "length (ll_Values (logIssuedCertificate (\<lambda>r. True) (\<lambda>c. sample_details) 0 (sample_transaction sample_issued_status)
       [sample_leaf] ''Explicit'' 0)) = 28"
    by (simp add: logIssuedCertificate_def certificateLogValues_def sample_details_def subjectAlternativeNameLogValues_def
        named_list_def)
  then show ?thesis
    using issued_line_readable [of "\<lambda>c. sample_details" sample_leaf _ "\<lambda>r. True" 0 "sample_transaction sample_issued_status" "[]"
        "''Explicit''" 0, OF _ _ refl]
    by (simp add: sample_details_def)
qed

subsection \<open>A failure is logged under the words it is counted under\<close>

fun log_field :: "bytes \<Rightarrow> log_value list \<Rightarrow> log_value option" where
  "log_field key (LogText k # v # rest) = (if k = key then Some v else log_field key rest)"
| "log_field key _ = None"

text \<open>
  The log and the metrics agree on failures. A failed run writes a line exactly when it counts a failure, that is
  unless it only waits, and the line names the failure and the classification of the counter the run increments; an
  error of neither type, which is counted as unclassified, is logged without the two fields.
\<close>

lemma failure_line_agrees:
  "case logEnrollmentFailure (Some err) of
      None \<Rightarrow> recordFailedEnrollment kl l err started = slift (Inr ())
    | Some line \<Rightarrow>
        as_pending err = None
        \<and> (if ll_Values line = [] then failureLabels err = (failureUnclassified, classificationUnknown)
           else log_field ''failure'' (ll_Values line) = Some (LogText (fst (failureLabels err)))
                \<and> log_field ''classification'' (ll_Values line) = Some (LogText (snd (failureLabels err))))"
  by (simp add: logEnrollmentFailure_def recordFailedEnrollment_def failureLabels_def failureIssuerConfiguration_def
      split: option.split)

subsection \<open>Logged durations\<close>

lemma wrap64_wrap64_add: "wrap64 (wrap64 x + y) = wrap64 (x + y)" "wrap64 (wrap64 x - y) = wrap64 (x - y)"
proof -
  show add: "wrap64 (wrap64 x + y) = wrap64 (x + y)" for x y
  proof -
    have "wrap64 x + y + 2 ^ 63 = (x + 2 ^ 63) mod 2 ^ 64 + y"
      by (simp add: wrap64_def)
    then show ?thesis
      by (simp only: wrap64_def mod_add_left_eq) (simp add: ac_simps)
  qed
  show "wrap64 (wrap64 x - y) = wrap64 (x - y)"
    using add [of x "- y"] by simp
qed

lemma wrap64_above: "2 ^ 63 \<le> z \<Longrightarrow> z < 2 ^ 64 \<Longrightarrow> wrap64 z = z - 2 ^ 64"
proof -
  assume z: "2 ^ 63 \<le> z" "z < 2 ^ 64"
  have "z + 2 ^ 63 = z - 2 ^ 63 + 2 ^ 64"
    by simp
  then have "(z + 2 ^ 63) mod 2 ^ 64 = (z - 2 ^ 63 + 2 ^ 64) mod 2 ^ 64"
    by (simp only:)
  also have "\<dots> = z - 2 ^ 63"
    using z by (simp only: mod_add_self2 mod_pos_pos_trivial) simp
  finally show ?thesis
    by (simp add: wrap64_def)
qed

lemma wrap64_below: "z < - (2 ^ 63) \<Longrightarrow> - (2 ^ 64) \<le> z \<Longrightarrow> wrap64 z = z + 2 ^ 64"
proof -
  assume z: "z < - (2 ^ 63)" "- (2 ^ 64) \<le> z"
  have "(z + 2 ^ 63) mod 2 ^ 64 = (z + 2 ^ 63 + 2 ^ 64) mod 2 ^ 64"
    by (simp only: mod_add_self2)
  also have "\<dots> = z + 2 ^ 63 + 2 ^ 64"
    using z by (intro mod_pos_pos_trivial) simp_all
  finally show ?thesis
    by (simp add: wrap64_def)
qed

lemma round_up:
  assumes "0 \<le> d" "d < 2 ^ 63" "0 \<le> r" "r < 1000000"
  shows "(let d1 = wrap64 (wrap64 (d + 1000000) - r) in if d1 > d then d1 else 2 ^ 63 - 1) = min (2 ^ 63 - 1) (d - r + 1000000)"
proof (cases "d + 1000000 - r < 2 ^ 63")
  case True
  then have "wrap64 (d + 1000000 - r) = d + 1000000 - r"
    using assms by (intro wrap64_id) (simp add: is_int64_def)
  then show ?thesis
    using True assms by (simp add: wrap64_wrap64_add Let_def)
next
  case False
  then have "wrap64 (d + 1000000 - r) = d + 1000000 - r - 2 ^ 64"
    using assms by (intro wrap64_above) simp_all
  then show ?thesis
    using False assms by (simp add: wrap64_wrap64_add Let_def)
qed

lemma round_down:
  assumes "d < 0" "- (2 ^ 63) \<le> d" "0 \<le> r" "r < 1000000"
  shows "(let d1 = wrap64 (wrap64 (d - 1000000) + r) in if d1 < d then d1 else - (2 ^ 63)) = max (- (2 ^ 63)) (d + r - 1000000)"
proof (cases "- (2 ^ 63) \<le> d - 1000000 + r")
  case True
  then have "wrap64 (d - 1000000 + r) = d - 1000000 + r"
    using assms by (intro wrap64_id) (simp add: is_int64_def)
  then show ?thesis
    using True assms by (simp add: wrap64_wrap64_add Let_def)
next
  case False
  then have "wrap64 (d - 1000000 + r) = d - 1000000 + r + 2 ^ 64"
    using assms by (intro wrap64_below) simp_all
  then show ?thesis
    using False assms by (simp add: wrap64_wrap64_add Let_def)
qed

text \<open>The nearest whole number of milliseconds below or above, cut off at the limits of the type.\<close>

lemma duration_Round_pos:
  assumes "0 \<le> d" "d < 2 ^ 63"
  shows "duration_Round d time_Millisecond =
    (if d mod 1000000 < 500000 then d - d mod 1000000 else min (2 ^ 63 - 1) (d - d mod 1000000 + 1000000))"
proof -
  have r: "0 \<le> d mod 1000000" "d mod 1000000 < 1000000"
    by simp_all
  show ?thesis
    unfolding duration_Round_def time_Millisecond_def Let_def [of "d mod 1000000"] round_up [OF assms r]
    using assms(1) by simp
qed

lemma duration_Round_neg:
  assumes "d < 0" "- (2 ^ 63) \<le> d"
  shows "duration_Round d time_Millisecond =
    (if - d mod 1000000 < 500000 then d + - d mod 1000000 else max (- (2 ^ 63)) (d + - d mod 1000000 - 1000000))"
proof -
  have r: "0 \<le> - d mod 1000000" "- d mod 1000000 < 1000000"
    by simp_all
  have "- d mod 1000000 \<le> - d"
    using assms(1) by (intro zmod_le_nonneg_dividend) simp
  then have "wrap64 (d + - d mod 1000000) = d + - d mod 1000000"
    using assms r by (intro wrap64_id) (simp add: is_int64_def)
  then show ?thesis
    unfolding duration_Round_def time_Millisecond_def Let_def [of "- d mod 1000000"] round_down [OF assms r]
    using assms(1) by simp
qed

text \<open>
  A logged duration is within half a millisecond of the duration it reports, stays inside the type, and is a whole
  number of milliseconds unless it is at a limit of the type.
\<close>

lemma logged_duration_close:
  assumes "is_int64 d"
  shows "\<bar>duration_Round d time_Millisecond - d\<bar> \<le> 500000
    \<and> is_int64 (duration_Round d time_Millisecond)
    \<and> (1000000 dvd duration_Round d time_Millisecond
       \<or> duration_Round d time_Millisecond \<in> {2 ^ 63 - 1, - (2 ^ 63)})"
proof (cases "0 \<le> d")
  case True
  define r q where "r = d mod 1000000" and "q = d div 1000000"
  have d: "d = 1000000 * q + r" "0 \<le> r" "r < 1000000" and range: "- (2 ^ 63) \<le> d" "d < 2 ^ 63"
    using assms by (simp_all add: r_def q_def is_int64_def)
  have "duration_Round d time_Millisecond = (if r < 500000 then 1000000 * q else min (2 ^ 63 - 1) (1000000 * (q + 1)))"
    unfolding duration_Round_pos [OF True range(2)] r_def [symmetric] using d by (simp add: algebra_simps)
  then show ?thesis
    using d range True by (simp add: is_int64_def min_def)
next
  case False
  define r q where "r = - d mod 1000000" and "q = - d div 1000000"
  have "- d = 1000000 * q + r"
    by (simp add: r_def q_def)
  then have d: "d = - (1000000 * q) - r" "0 \<le> r" "r < 1000000" and range: "- (2 ^ 63) \<le> d" "d < 2 ^ 63"
    using assms by (simp_all add: r_def is_int64_def)
  have "duration_Round d time_Millisecond
      = (if r < 500000 then 1000000 * (- q) else max (- (2 ^ 63)) (1000000 * (- q - 1)))"
    unfolding duration_Round_neg [OF False [unfolded not_le] range(1)] r_def [symmetric] using d by (simp add: algebra_simps)
  then show ?thesis
    using d range False by (simp add: is_int64_def max_def)
qed

end
