(* ===== verification/Build_Identity.thy ===== *)
theory Build_Identity
  imports Log_Text
begin

text \<open>
  The package \<^verbatim>\<open>src/internal/version\<close>: which build of the manager is running and which install
  deployed it. The values the linker stamps are the record \<open>stamps\<close>, the metadata the Go toolchain embeds is
  \<open>build_info\<close>, and the environment is a function from names to values. The lemmas show that the identity
  always names a version and a short commit, that what the environment supplies is printable and bounded, and that the
  text \<^verbatim>\<open>--version\<close> prints can be read back.
\<close>

definition developmentVersion :: bytes where "developmentVersion = ''development''"
definition commitLength :: nat where "commitLength = 12"
definition ImageEnvVar :: bytes where "ImageEnvVar = ''CMP_ISSUER_IMAGE''"
definition ChartEnvVar :: bytes where "ChartEnvVar = ''CMP_ISSUER_CHART''"
definition ReleaseEnvVar :: bytes where "ReleaseEnvVar = ''CMP_ISSUER_RELEASE''"
definition revisionSetting :: bytes where "revisionSetting = ''vcs.revision''"
definition revisionTimeSetting :: bytes where "revisionTimeSetting = ''vcs.time''"
definition modifiedSetting :: bytes where "modifiedSetting = ''vcs.modified''"

definition versionKey :: bytes where "versionKey = ''version''"
definition commitKey :: bytes where "commitKey = ''gitCommit''"
definition dateKey :: bytes where "dateKey = ''buildDate''"
definition goVersionKey :: bytes where "goVersionKey = ''goVersion''"
definition platformKey :: bytes where "platformKey = ''platform''"
definition imageKey :: bytes where "imageKey = ''image''"
definition chartKey :: bytes where "chartKey = ''chart''"
definition releaseKey :: bytes where "releaseKey = ''release''"

lemmas identity_keys = versionKey_def commitKey_def dateKey_def goVersionKey_def platformKey_def imageKey_def
  chartKey_def releaseKey_def

text \<open>The package variables, and what package \<^verbatim>\<open>runtime\<close> says of the toolchain and the platform.\<close>

record stamps =
  stamp_version :: bytes
  stamp_gitCommit :: bytes
  stamp_buildDate :: bytes
  stamp_image :: bytes

record toolchain =
  rt_Version :: bytes
  rt_GOOS :: bytes
  rt_GOARCH :: bytes

record build_info =
  bi_MainVersion :: bytes
  bi_Settings :: "(bytes \<times> bytes) list"

record info =
  Version :: bytes
  GitCommit :: bytes
  BuildDate :: bytes
  GoVersion :: bytes
  Platform :: bytes
  Image :: bytes
  Chart :: bytes
  Release :: bytes

subsection \<open>Assembling the identity\<close>

definition shortCommit :: "bytes \<Rightarrow> bytes" where
  "shortCommit commit =
     (case cut commit CHR ''-'' of (name, suffix, _) \<Rightarrow>
        if length name \<le> commitLength then commit
        else if suffix = [] then take commitLength name
        else take commitLength name @ ''-'' @ suffix)"

text \<open>One pass over the settings, with the build date, the revision and the modified flag as they stand.\<close>

fun read_settings :: "(bytes \<times> bytes) list \<Rightarrow> bytes \<times> bytes \<times> bool \<Rightarrow> bytes \<times> bytes \<times> bool" where
  "read_settings [] state = state"
| "read_settings ((key, v) # settings) (date, revision, modified) =
     read_settings settings
       (if key = revisionSetting then (date, v, modified)
        else if key = revisionTimeSetting then (if date = [] then v else date, revision, modified)
        else if key = modifiedSetting then (date, revision, v = ''true'')
        else (date, revision, modified))"

definition applyBuildInfo :: "build_info \<Rightarrow> info \<Rightarrow> info" where
  "applyBuildInfo build i =
     (let moduleVersion = bi_MainVersion build;
          named = (if (Version i = [] \<or> Version i = developmentVersion)
                      \<and> moduleVersion \<noteq> [] \<and> moduleVersion \<noteq> ''(devel)''
                   then i\<lparr>Version := moduleVersion\<rparr> else i)
      in case read_settings (bi_Settings build) (BuildDate named, [], False) of (date, revision, modified) \<Rightarrow>
        let dated = named\<lparr>BuildDate := date\<rparr> in
        if GitCommit dated = [] \<and> revision \<noteq> []
        then dated\<lparr>GitCommit := shortCommit revision @ (if modified then ''-dirty'' else [])\<rparr>
        else dated)"

definition install_value :: "(rune \<Rightarrow> bool) \<Rightarrow> (bytes \<Rightarrow> bytes option) \<Rightarrow> bytes \<Rightarrow> bytes \<Rightarrow> bytes" where
  "install_value graphic lookupEnv name current =
     (case lookupEnv name of
        Some v \<Rightarrow> if v \<noteq> [] then Text graphic v else current
      | None \<Rightarrow> current)"

definition resolve ::
    "(rune \<Rightarrow> bool) \<Rightarrow> stamps \<Rightarrow> toolchain \<Rightarrow> build_info option \<Rightarrow> (bytes \<Rightarrow> bytes option) \<Rightarrow> info"
where
  "resolve graphic stamp rt readBuildInfo lookupEnv =
     (let i = \<lparr>Version = stamp_version stamp, GitCommit = shortCommit (stamp_gitCommit stamp),
                BuildDate = stamp_buildDate stamp, GoVersion = rt_Version rt,
                Platform = rt_GOOS rt @ ''/'' @ rt_GOARCH rt, Image = stamp_image stamp, Chart = [], Release = []\<rparr>;
          built = (case readBuildInfo of Some build \<Rightarrow> applyBuildInfo build i | None \<Rightarrow> i);
          named = (if Version built = [] then built\<lparr>Version := developmentVersion\<rparr> else built)
      in named\<lparr>Image := install_value graphic lookupEnv ImageEnvVar (Image named),
               Chart := install_value graphic lookupEnv ChartEnvVar (Chart named),
               Release := install_value graphic lookupEnv ReleaseEnvVar (Release named)\<rparr>)"

subsection \<open>Rendering\<close>

definition fields :: "info \<Rightarrow> (bytes \<times> bytes) list" where
  "fields i =
     filter (\<lambda>entry. snd entry \<noteq> [])
       [(versionKey, Version i), (commitKey, GitCommit i), (dateKey, BuildDate i), (goVersionKey, GoVersion i),
        (platformKey, Platform i), (imageKey, Image i), (chartKey, Chart i), (releaseKey, Release i)]"

definition KeysAndValues :: "info \<Rightarrow> bytes list" where
  "KeysAndValues i = concat (map (\<lambda>entry. [fst entry, snd entry]) (fields i))"

definition newline :: char where
  "newline = CHR 0x0A"

definition info_String :: "info \<Rightarrow> bytes" where
  "info_String i = join [newline] (map (\<lambda>entry. fst entry @ '': '' @ snd entry) (fields i))"

subsection \<open>The identity names a version and a short commit\<close>

lemma cut_name: "fst (cut s c) = takeWhile (\<lambda>x. x \<noteq> c) s"
proof (cases "c \<in> set s")
  case False
  then have "takeWhile (\<lambda>x. x \<noteq> c) s = s"
    by (subst takeWhile_eq_all_conv) blast
  then show ?thesis
    unfolding cut_def using False by (simp only: if_False fst_conv)
qed (simp add: cut_def)

lemma cut_name_clean: "c \<notin> set (fst (cut s c))"
proof
  assume "c \<in> set (fst (cut s c))"
  then have "c \<in> set (takeWhile (\<lambda>x. x \<noteq> c) s)"
    by (simp only: cut_name)
  from set_takeWhileD [OF this] show False
    by simp
qed

lemma cut_clean: "c \<notin> set a \<Longrightarrow> fst (cut a c) = a" "c \<notin> set a \<Longrightarrow> fst (cut (a @ c # b) c) = a"
  by (simp add: cut_def) (simp add: cut_found)

lemma shortCommit_cases:
  obtains "shortCommit commit = commit" "length (fst (cut commit CHR ''-'')) \<le> commitLength"
  | a b where "shortCommit commit = a \<or> shortCommit commit = a @ CHR ''-'' # b" "length a \<le> commitLength" "CHR ''-'' \<notin> set a"
proof (cases "length (fst (cut commit CHR ''-'')) \<le> commitLength")
  case False
  let ?a = "take commitLength (fst (cut commit CHR ''-''))"
  have "shortCommit commit = ?a \<or> shortCommit commit = ?a @ CHR ''-'' # fst (snd (cut commit CHR ''-''))"
    using False by (simp add: shortCommit_def case_prod_beta)
  moreover have "CHR ''-'' \<notin> set ?a"
    using cut_name_clean [of "CHR ''-''" commit] by (meson in_set_takeD)
  ultimately show ?thesis
    using that(2) by simp
qed (simp add: that(1) shortCommit_def case_prod_beta)

lemma shortCommit_short: "length (fst (cut (shortCommit commit @ suffix) CHR ''-'')) \<le> commitLength"
  if "suffix = [] \<or> hd suffix = CHR ''-''"
proof -
  have suffix: "suffix = [] \<or> (\<exists>b. suffix = CHR ''-'' # b)"
    using that by (cases suffix) auto
  have keep: "length (fst (cut (s @ suffix) CHR ''-'')) \<le> commitLength"
    if "length (fst (cut s CHR ''-'')) \<le> commitLength" for s
  proof (cases "CHR ''-'' \<in> set s")
    case True
    then show ?thesis
      using that by (simp add: cut_name takeWhile_append1)
  next
    case False
    then show ?thesis
      using that suffix by (auto simp: cut_clean)
  qed
  show ?thesis
    by (rule keep, rule shortCommit_cases [of commit]) (auto simp: cut_clean)
qed

lemma applyBuildInfo_short:
  assumes "length (fst (cut (GitCommit i) CHR ''-'')) \<le> commitLength"
  shows "length (fst (cut (GitCommit (applyBuildInfo build i)) CHR ''-'')) \<le> commitLength"
  using assms shortCommit_short [of "[]"] shortCommit_short [of "''-dirty''"]
  by (simp add: applyBuildInfo_def Let_def case_prod_beta)

lemma install_value_printable:
  "length (runes (install_value graphic lookupEnv name [])) \<le> MaxTextLength + 15
   \<and> list_all (is_graphic graphic) (runes (install_value graphic lookupEnv name []))"
proof -
  have "runes [] = []"
    by (simp add: runes_def byte_values_def)
  then show ?thesis
    using Text_length Text_graphic by (auto simp: install_value_def list_all_iff split: option.split)
qed

text \<open>
  Whatever the linker stamped and whatever metadata and environment the binary runs with, the identity of the
  manager names a version and at most twelve characters of a commit hash, and the chart and release names taken from the
  environment are printable and at most 271 characters long.
\<close>

lemma resolve_identity:
  "Version (resolve graphic stamp rt build lookupEnv) \<noteq> []
   \<and> length (fst (cut (GitCommit (resolve graphic stamp rt build lookupEnv)) CHR ''-'')) \<le> 12
   \<and> (let chart = runes (Chart (resolve graphic stamp rt build lookupEnv));
          release = runes (Release (resolve graphic stamp rt build lookupEnv))
      in length chart \<le> 271 \<and> list_all (is_graphic graphic) chart
         \<and> length release \<le> 271 \<and> list_all (is_graphic graphic) release)"
proof -
  have keeps: "Chart (applyBuildInfo b i) = Chart i" "Release (applyBuildInfo b i) = Release i" for b i
    by (simp_all add: applyBuildInfo_def Let_def case_prod_beta)
  have short: "length (fst (cut (shortCommit commit) CHR ''-'')) \<le> commitLength" for commit
    using shortCommit_short [of "[]" commit] by simp
  show ?thesis
    using install_value_printable [of graphic lookupEnv ChartEnvVar]
      install_value_printable [of graphic lookupEnv ReleaseEnvVar] short [of "stamp_gitCommit stamp"]
    by (auto simp: resolve_def Let_def keeps developmentVersion_def MaxTextLength_def commitLength_def [symmetric]
        intro!: applyBuildInfo_short split: option.split)
qed

subsection \<open>The printed identity can be read back\<close>

fun lines_of :: "bytes \<Rightarrow> bytes list" where
  "lines_of [] = [[]]"
| "lines_of (c # s) =
     (if c = newline then [] # lines_of s
      else case lines_of s of [] \<Rightarrow> [[c]] | l # ls \<Rightarrow> (c # l) # ls)"

lemma lines_of_line: "newline \<notin> set l \<Longrightarrow> lines_of (l @ newline # s) = l # lines_of s"
  by (induction l) auto

lemma lines_of_last: "newline \<notin> set l \<Longrightarrow> lines_of l = [l]"
  by (induction l) auto

lemma lines_of_join:
  "ls \<noteq> [] \<Longrightarrow> \<forall>l \<in> set ls. newline \<notin> set l \<Longrightarrow> lines_of (join [newline] ls) = ls"
  by (induction ls rule: induct_list012) (simp_all add: lines_of_line lines_of_last)

definition read_field :: "bytes \<Rightarrow> bytes \<times> bytes" where
  "read_field line = (case cut line CHR '':'' of (key, rest, _) \<Rightarrow> (key, tl rest))"

definition field_value :: "(bytes \<times> bytes) list \<Rightarrow> bytes \<Rightarrow> bytes" where
  "field_value entries key = (case map_of entries key of None \<Rightarrow> [] | Some v \<Rightarrow> v)"

definition read_info :: "bytes \<Rightarrow> info" where
  "read_info s =
     (let v = field_value (map read_field (lines_of s)) in
      \<lparr>Version = v versionKey, GitCommit = v commitKey, BuildDate = v dateKey, GoVersion = v goVersionKey,
       Platform = v platformKey, Image = v imageKey, Chart = v chartKey, Release = v releaseKey\<rparr>)"

lemma read_field_printed: "CHR '':'' \<notin> set key \<Longrightarrow> read_field (key @ '': '' @ v) = (key, v)"
  using cut_found [of "CHR '':''" key "CHR '' '' # v"] by (simp add: read_field_def)

lemma fields_keys:
  assumes "entry \<in> set (fields i)"
  shows "CHR '':'' \<notin> set (fst entry) \<and> newline \<notin> set (fst entry)"
proof -
  have "fst entry \<in> {versionKey, commitKey, dateKey, goVersionKey, platformKey, imageKey, chartKey, releaseKey}"
    using assms unfolding fields_def set_filter by fastforce
  then show ?thesis
    by (auto simp: identity_keys newline_def)
qed

lemma field_value_filter:
  "distinct (map fst es) \<Longrightarrow> field_value (filter (\<lambda>entry. snd entry \<noteq> []) es) key = field_value es key"
  by (induction es; auto simp: field_value_def map_of_eq_None_iff split: option.split; metis fst_conv imageI)

lemma field_value_fields:
  "field_value (fields i) versionKey = Version i" "field_value (fields i) commitKey = GitCommit i"
  "field_value (fields i) dateKey = BuildDate i" "field_value (fields i) goVersionKey = GoVersion i"
  "field_value (fields i) platformKey = Platform i" "field_value (fields i) imageKey = Image i"
  "field_value (fields i) chartKey = Chart i" "field_value (fields i) releaseKey = Release i"
  by (simp_all add: fields_def field_value_filter identity_keys del: filter.simps) (simp_all add: field_value_def)

lemma read_fields_printed: "\<forall>entry \<in> set es. CHR '':'' \<notin> set (fst entry) \<Longrightarrow>
   map read_field (map (\<lambda>entry. fst entry @ '': '' @ snd entry) es) = es"
  by (induction es) (simp_all add: read_field_printed [simplified])

text \<open>
  The text the \<^verbatim>\<open>--version\<close> flag prints determines the identity: reading its lines back and
  splitting each at the first colon gives every field again, for an identity that names a version and whose values hold
  no line break.
\<close>

lemma info_String_read:
  assumes "Version i \<noteq> []"
    and "newline \<notin> set (Version i @ GitCommit i @ BuildDate i @ GoVersion i @ Platform i @ Image i @ Chart i @ Release i)"
  shows "read_info (info_String i) = i"
proof -
  let ?line = "\<lambda>entry. fst entry @ '': '' @ snd entry"
  have "newline \<notin> set (snd entry)" if "entry \<in> set (fields i)" for entry
    using that assms(2) unfolding fields_def set_filter by auto
  then have "\<forall>l \<in> set (map ?line (fields i)). newline \<notin> set l"
    using fields_keys by (auto simp: newline_def)
  moreover have "map ?line (fields i) \<noteq> []"
    using assms(1) by (simp add: fields_def)
  ultimately have "lines_of (info_String i) = map ?line (fields i)"
    unfolding info_String_def by (intro lines_of_join)
  moreover have "map read_field (map ?line (fields i)) = fields i"
    by (rule read_fields_printed) (use fields_keys in blast)
  ultimately show ?thesis
    by (simp only: read_info_def Let_def field_value_fields) simp
qed

text \<open>A sample identity.\<close>

definition sample_info :: info where
  "sample_info = \<lparr>Version = ''v1.2.3'', GitCommit = ''0123456789ab-dirty'', BuildDate = [], GoVersion = ''go1.26'',
     Platform = ''linux/amd64'', Image = ''registry:5000/cmp-issuer'', Chart = [], Release = ''cmp''\<rparr>"

end
