(* ===== verification/Manager.thy ===== *)
theory Manager
  imports Log_Lines Build_Identity
begin

text \<open>
  Start-up of the manager: the flags of \<^verbatim>\<open>src/cmd/main.go\<close>, the options \<^verbatim>\<open>run\<close> builds from
  them, and the registration of the signer by \<^verbatim>\<open>Signer.SetupWithManager\<close>. The state is the list of calls
  made into controller-runtime and issuer-lib, whose answers are the parameter \<open>manager_lib\<close>. The theorem shows
  which namespaces and issuer kinds a started manager serves and how its metrics are protected.
\<close>

record run_configuration =
  cfg_ClusterResourceNamespace :: bytes
  cfg_WatchNamespace :: bytes
  cfg_EnableLeaderElection :: bool
  cfg_MetricsAddress :: bytes
  cfg_MetricsSecure :: bool
  cfg_MetricsCertificateDir :: bytes
  cfg_MetricsCertificateName :: bytes
  cfg_MetricsCertificateKey :: bytes
  cfg_ProbeAddress :: bytes

text \<open>The configuration of a manager started without flags.\<close>

definition default_flags :: run_configuration where
  "default_flags =
     \<lparr>cfg_ClusterResourceNamespace = ''cmp-issuer-system'', cfg_WatchNamespace = [], cfg_EnableLeaderElection = True,
      cfg_MetricsAddress = ''0'', cfg_MetricsSecure = True, cfg_MetricsCertificateDir = [],
      cfg_MetricsCertificateName = ''tls.crt'', cfg_MetricsCertificateKey = ''tls.key'', cfg_ProbeAddress = '':8081''\<rparr>"

subsection \<open>Options\<close>

record tls_config =
  tls_NextProtos :: "bytes list"

definition disableHTTP2 :: "tls_config \<Rightarrow> tls_config" where
  "disableHTTP2 configuration = configuration\<lparr>tls_NextProtos := [''http/1.1'']\<rparr>"

datatype filter_provider = WithAuthenticationAndAuthorization

record metrics_options =
  mo_BindAddress :: bytes
  mo_SecureServing :: bool
  mo_TLSOpts :: "(tls_config \<Rightarrow> tls_config) list"
  mo_FilterProvider :: "filter_provider option"
  mo_CertDir :: bytes
  mo_CertName :: bytes
  mo_KeyName :: bytes

record manager_options =
  opt_Metrics :: metrics_options
  opt_WebhookTLSOpts :: "(tls_config \<Rightarrow> tls_config) list"
  opt_HealthProbeBindAddress :: bytes
  opt_LeaderElection :: bool
  opt_LeaderElectionID :: bytes
  opt_DefaultNamespaces :: "bytes list option"

definition metricsOptions :: "run_configuration \<Rightarrow> metrics_options" where
  "metricsOptions configuration =
     (let options = \<lparr>mo_BindAddress = cfg_MetricsAddress configuration, mo_SecureServing = cfg_MetricsSecure configuration,
            mo_TLSOpts = [disableHTTP2], mo_FilterProvider = None, mo_CertDir = [], mo_CertName = [], mo_KeyName = []\<rparr>;
          filtered = (if cfg_MetricsSecure configuration
            then options\<lparr>mo_FilterProvider := Some WithAuthenticationAndAuthorization\<rparr> else options)
      in if cfg_MetricsCertificateDir configuration \<noteq> []
         then filtered\<lparr>mo_CertDir := cfg_MetricsCertificateDir configuration,
                mo_CertName := cfg_MetricsCertificateName configuration,
                mo_KeyName := cfg_MetricsCertificateKey configuration\<rparr>
         else filtered)"

definition managerOptions :: "run_configuration \<Rightarrow> manager_options" where
  "managerOptions configuration =
     \<lparr>opt_Metrics = metricsOptions configuration, opt_WebhookTLSOpts = [disableHTTP2],
      opt_HealthProbeBindAddress = cfg_ProbeAddress configuration,
      opt_LeaderElection = cfg_EnableLeaderElection configuration,
      opt_LeaderElectionID = ''4f0dc535.misiektoja.github.io'',
      opt_DefaultNamespaces = (if cfg_WatchNamespace configuration \<noteq> [] then Some [cfg_WatchNamespace configuration]
        else None)\<rparr>"

subsection \<open>The signer\<close>

text \<open>Where a dependency of the signer comes from: the manager, a constructor, or whoever built the signer.\<close>

datatype handle = APIReader | ManagerClient | NewProtocolClient | EventRecorderFor bytes | Supplied nat

record signer_fields =
  sg_KubeClient :: "handle option"
  sg_ProtocolClient :: "handle option"
  sg_EventRecorder :: "handle option"
  sg_ClusterResourceNamespace :: bytes
  sg_WatchNamespace :: bytes
  sg_transactions :: "(handle \<times> handle) option"

record combined_controller =
  cc_IssuerTypes :: "issuer_type list"
  cc_ClusterIssuerTypes :: "issuer_type list"
  cc_FieldOwner :: bytes
  cc_MaxRetryDuration :: duration
  cc_Signer :: signer_fields
  cc_DisableKubernetesCSRController :: bool

datatype manager_call =
    NewManager manager_options
  | SetupController combined_controller
  | AddHealthzCheck bytes
  | AddReadyzCheck bytes
  | SetupLog bytes "bytes list"
  | Start

record manager_lib =
  ml_Answer :: "manager_call \<Rightarrow> go_error option"

type_synonym 'a start_up = "(manager_call list, go_error, 'a) action"

definition manager_call :: "manager_lib \<Rightarrow> manager_call \<Rightarrow> unit start_up" where
  "manager_call lib c calls =
     ((case ml_Answer lib c of None \<Rightarrow> Inr () | Some e \<Rightarrow> Inl e), calls @ [c])"

definition setup_log :: "bytes \<Rightarrow> bytes list \<Rightarrow> unit start_up" where
  "setup_log line values calls = (Inr (), calls @ [SetupLog line values])"

definition fieldOwner :: bytes where "fieldOwner = ''cmp-issuer.certmanager.misiektoja.github.io''"

definition or_else :: "'a option \<Rightarrow> 'a \<Rightarrow> 'a option" where
  "or_else x y = (case x of None \<Rightarrow> Some y | Some z \<Rightarrow> Some z)"

definition with_dependencies :: "signer_fields \<Rightarrow> signer_fields" where
  "with_dependencies s =
     s\<lparr>sg_KubeClient := or_else (sg_KubeClient s) APIReader,
       sg_ProtocolClient := or_else (sg_ProtocolClient s) NewProtocolClient,
       sg_EventRecorder := or_else (sg_EventRecorder s) (EventRecorderFor fieldOwner)\<rparr>"

definition combined_controller_for :: "signer_fields \<Rightarrow> combined_controller" where
  "combined_controller_for s =
     \<lparr>cc_IssuerTypes = [CMPIssuer],
      cc_ClusterIssuerTypes = (if sg_WatchNamespace s = [] then [CMPClusterIssuer] else []),
      cc_FieldOwner = fieldOwner, cc_MaxRetryDuration = 2 * 60 * 1000000000, cc_Signer = s,
      cc_DisableKubernetesCSRController = True\<rparr>"

definition SetupWithManager :: "manager_lib \<Rightarrow> signer_fields \<Rightarrow> unit start_up" where
  "SetupWithManager lib s =
     (let s' = with_dependencies s in
      if sg_ClusterResourceNamespace s' = [] \<and> sg_WatchNamespace s' = []
      then slift (Inl (TextError ''cluster resource namespace is required''))
      else
        manager_call lib (SetupController (combined_controller_for
          (s'\<lparr>sg_transactions := or_else (sg_transactions s') (APIReader, ManagerClient)\<rparr>))))"

subsection \<open>Start-up\<close>

definition try_call :: "string \<Rightarrow> 'a start_up \<Rightarrow> 'a start_up" where
  "try_call format m s = (case m s of (r, s') \<Rightarrow> (map_err (WrapError format) r, s'))"

definition new_signer :: "run_configuration \<Rightarrow> signer_fields" where
  "new_signer configuration =
     \<lparr>sg_KubeClient = None, sg_ProtocolClient = None, sg_EventRecorder = None,
      sg_ClusterResourceNamespace = cfg_ClusterResourceNamespace configuration,
      sg_WatchNamespace = cfg_WatchNamespace configuration, sg_transactions = None\<rparr>"

definition run_manager :: "manager_lib \<Rightarrow> info \<Rightarrow> run_configuration \<Rightarrow> unit start_up" where
  "run_manager lib identity configuration =
     sbind (if cfg_MetricsCertificateDir configuration \<noteq> []
       then setup_log ''Serving metrics with the supplied certificate''
         [''path'', cfg_MetricsCertificateDir configuration, ''certificate'', cfg_MetricsCertificateName configuration,
          ''key'', cfg_MetricsCertificateKey configuration]
       else slift (Inr ())) (\<lambda>_.
     sbind (try_call ''create manager: %w'' (manager_call lib (NewManager (managerOptions configuration)))) (\<lambda>_.
     sbind (try_call ''register CMP signer: %w'' (SetupWithManager lib (new_signer configuration))) (\<lambda>_.
     sbind (try_call ''add health check: %w'' (manager_call lib (AddHealthzCheck ''healthz''))) (\<lambda>_.
     sbind (try_call ''add readiness check: %w'' (manager_call lib (AddReadyzCheck ''readyz''))) (\<lambda>_.
     sbind (setup_log ''Starting manager'' (KeysAndValues identity)) (\<lambda>_.
     try_call ''run manager: %w'' (manager_call lib Start)))))))"

datatype outcome = Printed bytes | Exited nat

definition main_program :: "manager_lib \<Rightarrow> info \<Rightarrow> bool \<Rightarrow> run_configuration \<Rightarrow> outcome \<times> manager_call list" where
  "main_program lib identity printVersion configuration =
     (if printVersion then (Printed (info_String identity @ [newline]), [])
      else case run_manager lib identity configuration [] of
          (Inl _, calls) \<Rightarrow> (Exited 1, calls)
        | (Inr _, calls) \<Rightarrow> (Exited 0, calls))"

subsection \<open>What a started manager serves\<close>

definition serves :: "run_configuration \<Rightarrow> manager_options \<Rightarrow> combined_controller \<Rightarrow> bool" where
  "serves configuration options controller \<longleftrightarrow>
     cc_DisableKubernetesCSRController controller \<and> cc_IssuerTypes controller = [CMPIssuer]
     \<and> (if cfg_WatchNamespace configuration = []
         then cc_ClusterIssuerTypes controller = [CMPClusterIssuer] \<and> opt_DefaultNamespaces options = None
           \<and> sg_ClusterResourceNamespace (cc_Signer controller) \<noteq> []
         else cc_ClusterIssuerTypes controller = [] \<and> opt_DefaultNamespaces options = Some [cfg_WatchNamespace configuration])
     \<and> sg_KubeClient (cc_Signer controller) = Some APIReader
     \<and> sg_transactions (cc_Signer controller) = Some (APIReader, ManagerClient)"

definition metrics_protected :: "metrics_options \<Rightarrow> bool" where
  "metrics_protected options \<longleftrightarrow>
     (mo_SecureServing options = (mo_FilterProvider options = Some WithAuthenticationAndAuthorization))
     \<and> tls_NextProtos (foldl (\<lambda>c f. f c) \<lparr>tls_NextProtos = [''h2'', ''http/1.1'']\<rparr> (mo_TLSOpts options)) = [''http/1.1'']"

definition registered :: "run_configuration \<Rightarrow> combined_controller" where
  "registered configuration =
     combined_controller_for ((with_dependencies (new_signer configuration))\<lparr>sg_transactions := Some (APIReader, ManagerClient)\<rparr>)"

lemma SetupWithManager_new:
  "SetupWithManager lib (new_signer configuration) =
     (if cfg_ClusterResourceNamespace configuration = [] \<and> cfg_WatchNamespace configuration = []
      then slift (Inl (TextError ''cluster resource namespace is required''))
      else manager_call lib (SetupController (registered configuration)))"
  by (simp add: SetupWithManager_def new_signer_def with_dependencies_def registered_def or_else_def Let_def)

lemma registered_serves:
  "\<not> (cfg_ClusterResourceNamespace configuration = [] \<and> cfg_WatchNamespace configuration = []) \<Longrightarrow>
   serves configuration (managerOptions configuration) (registered configuration)"
  by (auto simp: serves_def managerOptions_def registered_def combined_controller_for_def with_dependencies_def
      new_signer_def or_else_def)

lemma managerOptions_protected: "metrics_protected (opt_Metrics (managerOptions configuration))"
  by (simp add: metrics_protected_def managerOptions_def metricsOptions_def disableHTTP2_def Let_def)

text \<open>Each step either fails and ends the run, or leaves its call behind.\<close>

lemma call_then:
  "sbind (try_call format (manager_call lib c)) f calls =
     (case ml_Answer lib c of None \<Rightarrow> f () (calls @ [c]) | Some e \<Rightarrow> (Inl (WrapError format e), calls @ [c]))"
  by (simp add: sbind_def try_call_def manager_call_def split: option.split)

lemma call_last: "snd (try_call format (manager_call lib c) calls) = calls @ [c]"
  by (simp add: try_call_def manager_call_def)

lemma setup_log_then: "sbind (setup_log line values) f calls = f () (calls @ [SetupLog line values])"
  by (simp add: sbind_def setup_log_def)

lemma setup_then:
  "sbind (try_call format (SetupWithManager lib (new_signer configuration))) f calls =
     (if cfg_ClusterResourceNamespace configuration = [] \<and> cfg_WatchNamespace configuration = []
      then (Inl (WrapError format (TextError ''cluster resource namespace is required'')), calls)
      else sbind (try_call format (manager_call lib (SetupController (registered configuration)))) f calls)"
  unfolding SetupWithManager_new by (simp add: sbind_def try_call_def slift_def)

lemma run_manager_started:
  assumes "Start \<in> set (snd (run_manager lib identity configuration []))"
  shows "\<exists>before.
     snd (run_manager lib identity configuration [])
       = before @ [NewManager (managerOptions configuration), SetupController (registered configuration),
           AddHealthzCheck ''healthz'', AddReadyzCheck ''readyz'',
           SetupLog ''Starting manager'' (KeysAndValues identity), Start]
     \<and> list_all (\<lambda>c. ml_Answer lib c = None)
         [NewManager (managerOptions configuration), SetupController (registered configuration),
          AddHealthzCheck ''healthz'', AddReadyzCheck ''readyz'']
     \<and> \<not> (cfg_ClusterResourceNamespace configuration = [] \<and> cfg_WatchNamespace configuration = [])"
proof (cases "cfg_MetricsCertificateDir configuration = []")
  case True
  then show ?thesis
    using assms unfolding run_manager_def
    by (simp add: call_then setup_then setup_log_then call_last split: option.split_asm if_split_asm)
next
  case False
  then show ?thesis
    using assms unfolding run_manager_def
    by (simp add: call_then setup_then setup_log_then call_last split: option.split_asm if_split_asm)
qed


definition sample_manager :: manager_lib where
  "sample_manager = \<lparr>ml_Answer = (\<lambda>c. None)\<rparr>"


end
