(* ===== verification/Loading.thy ===== *)
theory Loading
  imports Manager
begin

text \<open>
  What loading the configuration and the workload's keys reads, and what the result stands for: the digest a
  transaction is bound to covers exactly the Secrets that were read, each read once, and key material comes only from
  Secrets the owning Certificate authorizes.
\<close>

subsection \<open>The configuration digest covers every Secret read\<close>

text \<open>The reads so far are the keys of the cache, oldest last.\<close>

definition covers :: "(nat \<times> api_access) list \<Rightarrow> nat \<Rightarrow> secret_cache \<times> cluster \<Rightarrow> bool" where
  "covers log posts st \<longleftrightarrow>
     length (net_Posts (snd st)) = posts
     \<and> k_Log (snd st) = log @ map (\<lambda>key. (posts, ReadSecret key)) (rev (map fst (fst st)))"

definition covering :: "'a loader \<Rightarrow> bool" where
  "covering m \<longleftrightarrow> (\<forall>log posts. triple (covers log posts) m (\<lambda>e st. True) (\<lambda>_. covers log posts))"

named_theorems covering_intros

lemma covering_sbind [covering_intros]: "covering m \<Longrightarrow> (\<And>x. covering (f x)) \<Longrightarrow> covering (sbind m f)"
  unfolding covering_def by (blast intro: triple_sbind)

lemma covering_if [covering_intros]: "(c \<Longrightarrow> covering m) \<Longrightarrow> (\<not> c \<Longrightarrow> covering m') \<Longrightarrow> covering (if c then m else m')"
  by simp

lemma covering_option [covering_intros]:
  "covering m \<Longrightarrow> (\<And>y. covering (f y)) \<Longrightarrow> covering (case x of None \<Rightarrow> m | Some y \<Rightarrow> f y)"
  by (cases x) simp_all

lemma covering_get_secret [covering_intros]: "covering (get_secret kl namespace name)"
  by (auto simp: covering_def triple_def covers_def get_secret_def get_secret_object_def api_call_def record_access_def Let_def
      found_def split: option.split api_fault.split sum.split prod.split)

lemma covering_slift [covering_intros]:
  "covering (slift r)" "covering (permanently operation r)" "covering (retryably operation r)"
  by (auto simp: covering_def permanently_def retryably_def intro!: triple_slift)

lemma covering_load_credentials: "covering (load_credentials kl spec namespace endpoint)"
  unfolding load_credentials_def loadTrustPool_def loadResponseCertificates_def loadTLSRoots_def loadProtection_def
    load_password_def load_signature_def load_chain_def Let_def case_prod_beta
  by (intro covering_intros)

lemma with_cache_covers:
  assumes "covering m" and "with_cache m s = (Inr (x, cache), s')"
  shows "k_Log s' = k_Log s @ map (\<lambda>key. (length (net_Posts s), ReadSecret key)) (rev (map fst cache))"
proof -
  have run: "m ([], s) = (Inr x, (cache, s'))"
    using assms(2) by (auto simp: with_cache_def split: prod.split_asm sum.split_asm)
  have "covers (k_Log s) (length (net_Posts s)) (cache, s')"
    using triple_result [OF assms(1) [unfolded covering_def, rule_format] _ run, of "k_Log s" "length (net_Posts s)"]
    by (simp add: covers_def)
  then show ?thesis
    by (simp add: covers_def)
qed

text \<open>The fingerprint of each Secret identifies the version the API server holds.\<close>

definition current_fingerprint :: "cluster \<Rightarrow> namespaced_name \<times> secret_fingerprint \<Rightarrow> bool" where
  "current_fingerprint s entry \<longleftrightarrow>
     (case k_Secrets s (fst entry) of
        None \<Rightarrow> False
      | Some secret \<Rightarrow> fp_UID (snd entry) = sec_UID secret \<and> fp_ResourceVersion (snd entry) = sec_ResourceVersion secret)"

lemma credentialFingerprints_keys: "map fst (credentialFingerprints cache) = map fst cache"
  by (auto simp: credentialFingerprints_def)

lemma loadRuntimeConfiguration_secrets:
  assumes "loadRuntimeConfiguration kl crn issuer s = (Inr rc, s')"
  obtains x cache endpoint where "rc_ConfigurationSecrets rc = credentialFingerprints cache"
    and "validateSpec (kube_cmp kl) (iss_Spec issuer) = Inr endpoint"
    and "with_cache (load_credentials kl (iss_Spec issuer) (issuer_namespace crn issuer) endpoint) s = (Inr (x, cache), s')"
proof -
  obtain x cache endpoint s1 where "issuerSpecAndNamespace crn issuer = Inr (iss_Spec issuer, issuer_namespace crn issuer)"
      "validateSpec (kube_cmp kl) (iss_Spec issuer) = Inr endpoint"
    and "with_cache (load_credentials kl (iss_Spec issuer) (issuer_namespace crn issuer) endpoint) s = (Inr (x, cache), s')"
      "rc_ConfigurationSecrets rc = credentialFingerprints cache"
    using assms unfolding loadRuntimeConfiguration_def
    by (auto simp: sbind_def slift_def Let_def issuerSpecAndNamespace_Inr result_simps
        split: prod.split_asm sum.split_asm)
  then show thesis
    using that by blast
qed

text \<open>
  C11: The configuration of a run is sound and its digest covers what it was made from: every Secret the load reads is
  read once, in the namespace of the issuer, its fingerprint is the one of the version the API server holds, and the
  digest the transaction will be bound to is taken over exactly these fingerprints. The request it prepares passes the
  client's validation and the limits are usable.
\<close>

theorem loadRuntimeConfiguration_covers_reads:
  assumes "loadRuntimeConfiguration kl crn issuer s = (Inr rc, s')"
  shows "sound_configuration kl issuer rc
    \<and> k_Log s' = k_Log s @ map (\<lambda>key. (length (net_Posts s), ReadSecret key)) (rev (map fst (rc_ConfigurationSecrets rc)))
    \<and> distinct (map fst (rc_ConfigurationSecrets rc))
    \<and> list_all (\<lambda>entry. fst (fst entry) = issuer_namespace crn issuer \<and> current_fingerprint s entry)
        (rc_ConfigurationSecrets rc)"
proof -
  obtain x cache endpoint where secrets: "rc_ConfigurationSecrets rc = credentialFingerprints cache"
    and spec: "validateSpec (kube_cmp kl) (iss_Spec issuer) = Inr endpoint"
    and run: "with_cache (load_credentials kl (iss_Spec issuer) (issuer_namespace crn issuer) endpoint) s = (Inr (x, cache), s')"
    by (rule loadRuntimeConfiguration_secrets [OF assms])
  have "k_Secrets s' = k_Secrets s"
    using behaves_state [OF loadRuntimeConfiguration_behaves assms] by (simp add: reads_def)
  then have "cache_ok (issuer_namespace crn issuer) s cache"
    using with_cache_cache_ok [OF load_credentials_loads [OF spec] run] by (simp add: cache_ok_def)
  then have "distinct (map fst cache)"
    and "list_all (\<lambda>entry. fst (fst entry) = issuer_namespace crn issuer \<and> current_fingerprint s entry)
        (credentialFingerprints cache)"
    by (auto simp: cache_ok_def list_all_iff credentialFingerprints_def current_fingerprint_def)
  then show ?thesis
    using behaves_success [OF loadRuntimeConfiguration_behaves assms] with_cache_covers [OF covering_load_credentials run]
    by (simp add: secrets credentialFingerprints_keys)
qed

theorem loadRuntimeConfiguration_covers_reads_witness:
  "sound_configuration (sample_kube sample_issued) sample_issuer sample_configuration
   \<and> distinct (map fst (rc_ConfigurationSecrets sample_configuration))
   \<and> map fst (rc_ConfigurationSecrets sample_configuration) = [(''ns'', ''mac''), (''ns'', ''trust'')]"
proof -
  have "k_Secrets (sample_cluster (\<lambda>key. None)) = sample_secrets"
    by (simp add: sample_cluster_def)
  note loaded = loadRuntimeConfiguration_covers_reads [OF sample_loaded [OF this, of sample_issued "[]"]]
  have "map fst (rc_ConfigurationSecrets sample_configuration) = [(''ns'', ''mac''), (''ns'', ''trust'')]"
    by (simp add: sample_configuration_def credentialFingerprints_def)
  with loaded show ?thesis
    by blast
qed

subsection \<open>Key material comes from the Secrets of the owning Certificate\<close>

text \<open>A call that reads one Secret and changes nothing else that the loaders look at.\<close>

definition reads_one :: "namespaced_name \<Rightarrow> cluster \<Rightarrow> cluster \<Rightarrow> bool" where
  "reads_one key s s' \<longleftrightarrow>
     k_Secrets s' = k_Secrets s \<and> k_Certificates s' = k_Certificates s \<and> net_Posts s' = net_Posts s
     \<and> k_Log s' = k_Log s @ [(length (net_Posts s), ReadSecret key)]"

lemma get_secret_object_reads_one:
  "get_secret_object kl key s = (Inr secret, s') \<Longrightarrow> k_Secrets s key = Some secret \<and> reads_one key s s'"
  by (auto simp: get_secret_object_def api_call_def record_access_def reads_one_def found_def Let_def
      split: option.split_asm api_fault.split_asm)

lemma readWorkloadSecret_Inr:
  "readWorkloadSecret kl key description s = (Inr secret, s') \<Longrightarrow> k_Secrets s key = Some secret \<and> reads_one key s s'"
  by (auto simp: readWorkloadSecret_def sbind_def stry_def slift_def split: prod.split_asm sum.split_asm
      dest: get_secret_object_reads_one)

lemma readCurrentSecret_Inr:
  "readCurrentSecret kl key s = (Inr current, s') \<Longrightarrow> current = k_Secrets s key \<and> reads_one key s s'"
  by (auto simp: readCurrentSecret_def sbind_def stry_def slift_def get_secret_object_def api_call_def record_access_def
      reads_one_def found_def is_not_found_def Let_def
      split: prod.split_asm sum.split_asm option.split_asm api_fault.split_asm if_split_asm)

lemma authorizeOwningCertificate_Inr:
  assumes "authorizeOwningCertificate kl request issuer operation renewal s = (Inr certificate, s')"
  shows "owning_certificate (kube_names kl) (k_Certificates s) request issuer renewal certificate
    \<and> reads (\<lambda>key. False) s s'"
  using triple_result [OF authorizeOwningCertificate_reads reads_same assms, of "\<lambda>key. False"] by simp

lemma reads_nothing:
  "reads (\<lambda>key. False) s s' \<Longrightarrow>
   k_Secrets s' = k_Secrets s \<and> k_Certificates s' = k_Certificates s \<and> net_Posts s' = net_Posts s \<and> k_Log s' = k_Log s"
  by (auto simp: reads_def)

lemma slift_Inr [simp]: "slift r s = (Inr x, s') \<longleftrightarrow> r = Inr x \<and> s' = s"
  by (auto simp: slift_def)

lemma loadStagedKey_Inr:
  assumes "loadStagedKey kl key certificate csrDER operation s = (Inr (secret, signer), s')"
  shows "k_Secrets s key = Some secret \<and> reads_one key s s' \<and> csr_key (lib_x509 kl) csrDER signer
    \<and> secretControlledByCertificate (kube_names kl) secret certificate"
proof -
  have "csr_key (lib_x509 kl) csrDER signer \<and> secretControlledByCertificate (kube_names kl) secret certificate"
    using behaves_success [OF loadStagedKey_reads assms, of "\<lambda>key. True"] by simp
  moreover have "k_Secrets s key = Some secret \<and> reads_one key s s'"
    using assms by (auto simp: loadStagedKey_def sbind_Inr dest: readWorkloadSecret_Inr)
  ultimately show ?thesis
    by blast
qed

lemma authorized_current_secret_Inr:
  assumes "authorized_current_secret kl key certificate s = (Inr secret, s')"
  shows "k_Secrets s key = Some secret \<and> reads_one key s s'
    \<and> currentSecretIssuedForCertificate (kube_names kl) secret certificate = Inr ()"
proof -
  obtain answer s1 where answer: "readCurrentSecret kl key s = (Inr answer, s1)"
    and rest: "(case answer of
       None \<Rightarrow> slift (Inl (permanentConfiguration ''read current certificate Secret''
         (currentCertificateUnavailable ''does not exist'')))
     | Some currentSecret \<Rightarrow>
         sbind (slift (map_err (permanentConfiguration ''authorize KUR current certificate'')
           (currentSecretIssuedForCertificate (kube_names kl) currentSecret certificate))) (\<lambda>_.
         slift (Inr currentSecret))) s1 = (Inr secret, s')"
    using assms unfolding authorized_current_secret_def sbind_Inr by blast
  have "k_Secrets s key = answer" "reads_one key s s1"
    using readCurrentSecret_Inr [OF answer] by simp_all
  then show ?thesis
    using rest by (cases answer) (auto simp: sbind_Inr map_err_Inr)
qed


text \<open>A renewal of the sample Certificate: its current Secret, the staged key and the second revision.\<close>

definition sample_owner :: owner_reference where
  "sample_owner = \<lparr>own_APIVersion = ''cert-manager.io/v1'', own_Kind = certificateKind, own_Name = ''site'',
     own_UID = ''site-uid'', own_Controller = Some True\<rparr>"

definition sample_cm_certificate :: cm_certificate where
  "sample_cm_certificate = \<lparr>cm_Name = ''site'', cm_UID = ''site-uid'', cm_Deleted = False, cm_SecretName = ''site-tls'',
     cm_IssuerRef = \<lparr>ior_Name = ''issuer'', ior_Kind = TransactionIssuerKindNamespaced, ior_Group = GroupVersion_Group\<rparr>,
     cm_Revision = Some 1, cm_NextPrivateKeySecretName = Some ''site-next''\<rparr>"

definition sample_renewal_request :: request_object where
  "sample_renewal_request = sample_cr\<lparr>cr_Annotations := [''revision'' \<mapsto> ''2'', ''private-key'' \<mapsto> ''site-next''],
     cr_OwnerReferences := [sample_owner]\<rparr>"

definition sample_workload :: "bytes \<Rightarrow> cluster" where
  "sample_workload current = (sample_cluster (\<lambda>key. None))
     \<lparr>k_Certificates := [(''ns'', ''site'') \<mapsto> sample_cm_certificate],
      k_Secrets := [(''ns'', ''site-tls'') \<mapsto> (sample_secret [''tls.crt'' \<mapsto> current, ''tls.key'' \<mapsto> ''key''])
           \<lparr>sec_Annotations := [''certificate-name'' \<mapsto> ''site'']\<rparr>,
         (''ns'', ''site-next'') \<mapsto> (sample_secret [''tls.key'' \<mapsto> ''key''])
           \<lparr>sec_Labels := [''next-private-key'' \<mapsto> ''true''], sec_OwnerReferences := [sample_owner]\<rparr>]\<rparr>"

abbreviation sample_kur :: "(go_error + workload_key_material) \<times> cluster" where
  "sample_kur \<equiv> loadKURMaterial (sample_kube sample_issued) sample_renewal_request sample_issuer ''csr'' (sample_workload ''leaf'')"

lemma sample_kur_loaded: "\<not> isl (fst sample_kur)"
  by code_simp


subsection \<open>A renewal falls back only without a valid certificate\<close>

text \<open>The reason a fallback gives, checked against the current Secret.\<close>

definition lacks_certificate ::
    "kube_lib \<Rightarrow> cm_certificate \<Rightarrow> time \<Rightarrow> renewal_fallback \<Rightarrow> secret option \<Rightarrow> bool"
where
  "lacks_certificate kl certificate moment fb current \<longleftrightarrow>
     (case current of
        None \<Rightarrow> fb_Reason fb = RenewalFallbackCurrentCertificateMissing \<and> fb_Expired fb = None
      | Some secret \<Rightarrow>
          currentSecretIssuedForCertificate (kube_names kl) secret certificate = Inr ()
          \<and> (let data = lookup_string (sec_Data secret) (nm_TLSCert (kube_names kl)) in
             if data = [] then fb_Reason fb = RenewalFallbackCurrentCertificateMissing \<and> fb_Expired fb = None
             else fb_Reason fb = RenewalFallbackCurrentCertificateExpired
               \<and> (\<exists>leaf chain. ParseCertificates (lib_x509 kl) data = Inr (leaf # chain)
                    \<and> cert_NotAfter leaf \<le> moment \<and> fb_Expired fb = Some leaf)))"

lemma classify_current_Some:
  "classify_current kl certificate moment current = Some fb \<Longrightarrow>
   lacks_certificate kl certificate moment fb current \<and> fb_Secret fb = cm_SecretName certificate"
  by (auto simp: classify_current_def lacks_certificate_def Let_def
      split: option.split_asm sum.split_asm if_split_asm list.split_asm)

text \<open>
  C13: A renewal replaces KUR by its fallback operation only when the owning Certificate has no valid certificate to
  authenticate with. The Secret it names is then absent or holds no certificate, or it was written for this Certificate
  and the certificate in it has expired, and the reported reason says which. A Secret written for another Certificate
  never opens the fallback.
\<close>

theorem fallback_lacks_certificate:
  assumes "classifyRenewalFallback kl request issuer moment s = (Inr (Some fb), s')"
  shows "\<exists>c. owning_certificate (kube_names kl) (k_Certificates s) request issuer True c
    \<and> fb_Secret fb = cm_SecretName c
    \<and> lacks_certificate kl c moment fb (k_Secrets s (cr_Namespace request, cm_SecretName c))"
proof -
  obtain c s1 where owner: "authorizeOwningCertificate kl request issuer TransactionOperationKUR True s = (Inr c, s1)"
    and rest: "(if cm_SecretName c = [] \<or> cm_SecretName c = lookup_string (cr_Annotations request) (nm_PrivateKey (kube_names kl))
       then slift (Inr None)
       else sbind (readCurrentSecret kl (cr_Namespace request, cm_SecretName c)) (\<lambda>current.
         slift (Inr (classify_current kl c moment current)))) s1 = (Inr (Some fb), s')"
    using assms unfolding classifyRenewalFallback_def sbind_Inr by blast
  then obtain current s2 where current: "readCurrentSecret kl (cr_Namespace request, cm_SecretName c) s1 = (Inr current, s2)"
    and fb: "classify_current kl c moment current = Some fb"
    by (auto simp: sbind_Inr split: if_split_asm)
  have "k_Secrets s (cr_Namespace request, cm_SecretName c) = current"
    using readCurrentSecret_Inr [OF current] reads_nothing authorizeOwningCertificate_Inr [OF owner] by metis
  then show ?thesis
    using authorizeOwningCertificate_Inr [OF owner] classify_current_Some [OF fb] by blast
qed

abbreviation sample_fallback :: "(go_error + renewal_fallback option) \<times> cluster" where
  "sample_fallback \<equiv> classifyRenewalFallback (sample_kube sample_issued) sample_renewal_request sample_issuer 2000 (sample_workload ''leaf'')"

theorem fallback_lacks_certificate_witness:
  "\<exists>fb c. fst sample_fallback = Inr (Some fb) \<and> fb_Secret fb = cm_SecretName c
     \<and> lacks_certificate (sample_kube sample_issued) c 2000 fb (k_Secrets (sample_workload ''leaf'') (''ns'', cm_SecretName c))"
proof -
  have "(case fst sample_fallback of Inr (Some fb) \<Rightarrow> True | _ \<Rightarrow> False)"
    by code_simp
  then obtain fb s' where run: "sample_fallback = (Inr (Some fb), s')"
    by (cases sample_fallback) (auto split: sum.split_asm option.split_asm)
  have namespace: "cr_Namespace sample_renewal_request = ''ns''"
    by (simp add: sample_renewal_request_def sample_cr_def)
  from fallback_lacks_certificate [OF run] show ?thesis
    unfolding namespace run by auto
qed

end
