(* ===== verification/Resumption.thy ===== *)
theory Resumption
  imports Loading
begin

text \<open>
  The interface between the signer and its transaction store: what one reconciliation records, the next one resumes.
  The locale \<open>record_store\<close> states the laws the signer relies on, and its interpretation discharges them for
  \<^verbatim>\<open>src/internal/controller/transaction_store.go\<close> against the API server.
\<close>

subsection \<open>The store as an interface\<close>

text \<open>
  \<open>view\<close> is what the API server holds, \<open>available\<close> says that it serves the next two calls, and
  \<open>records\<close> that a write of the store took the server from one state to another and returned a record.
\<close>

locale record_store =
  fixes view :: "cluster \<Rightarrow> namespaced_name \<Rightarrow> cmp_transaction option"
    and available :: "cluster \<Rightarrow> bool"
    and load :: "bytes \<Rightarrow> bytes \<Rightarrow> bytes \<Rightarrow> cmp_transaction option io"
    and remove :: "cmp_transaction \<Rightarrow> unit io"
    and records :: "namespaced_name \<Rightarrow> bytes \<Rightarrow> cmp_transaction \<Rightarrow> cluster \<Rightarrow> cluster \<Rightarrow> bool"
  assumes load_found: "available s \<Longrightarrow> view s (namespace, name) = Some tx \<Longrightarrow> ts_CertificateRequestUID (tx_Spec tx) = uid \<Longrightarrow>
      \<exists>s'. load namespace name uid s = (Inr (Some tx), s') \<and> view s' = view s"
    and load_stale: "available s \<Longrightarrow> view s (namespace, name) = Some tx \<Longrightarrow> tx_key tx = (namespace, name) \<Longrightarrow>
      ts_CertificateRequestUID (tx_Spec tx) \<noteq> uid \<Longrightarrow>
      \<exists>s'. load namespace name uid s = (Inr None, s') \<and> view s' (namespace, name) = None"
    and load_absent: "available s \<Longrightarrow> view s (namespace, name) = None \<Longrightarrow>
      \<exists>s'. load namespace name uid s = (Inr None, s') \<and> view s' = view s"
    and remove_removes: "available s \<Longrightarrow> view s (tx_key tx) = Some tx \<Longrightarrow>
      \<exists>s'. remove tx s = (Inr (), s') \<and> view s' = (view s)(tx_key tx := None)"
    and records_viewed: "records key uid tx s s' \<Longrightarrow>
      view s' key = Some tx \<and> tx_key tx = key \<and> ts_CertificateRequestUID (tx_Spec tx) = uid"
begin

lemma recorded_resumed:
  assumes "records (namespace, name) uid tx s s'" and "available s'"
  shows "\<exists>s''. load namespace name uid s' = (Inr (Some tx), s'') \<and> view s'' = view s'"
  by (rule load_found [OF assms(2)]) (use records_viewed [OF assms(1)] in simp_all)

lemma recorded_not_reused:
  assumes "records (namespace, name) uid tx s s'" and "available s'" and "uid' \<noteq> uid"
  shows "\<exists>s''. load namespace name uid' s' = (Inr None, s'') \<and> view s'' (namespace, name) = None"
proof -
  note held = records_viewed [OF assms(1)]
  have "ts_CertificateRequestUID (tx_Spec tx) \<noteq> uid'"
    using held assms(3) by blast
  from load_stale [OF assms(2) held [THEN conjunct1] held [THEN conjunct2, THEN conjunct1] this] show ?thesis .
qed

lemma removed_forgotten:
  assumes "records key uid tx s s'" and "available s'" and "remove tx s' = (r, s'')" and "available s''"
  shows "\<exists>s'''. load (fst key) (snd key) uid s'' = (Inr None, s''')"
proof -
  have key: "tx_key tx = key" and held: "view s' (tx_key tx) = Some tx"
    using records_viewed [OF assms(1)] by simp_all
  from remove_removes [OF assms(2) held] have "view s'' = (view s')(tx_key tx := None)"
    by (simp add: assms(3))
  then have "view s'' (fst key, snd key) = None"
    by (simp add: key [symmetric])
  from load_absent [OF assms(4) this] show ?thesis
    by blast
qed

end

subsection \<open>The store meets the interface\<close>

definition serving :: "kube_lib \<Rightarrow> cluster \<Rightarrow> bool" where
  "serving kl s \<longleftrightarrow> kube_Fault kl (k_Calls s) = None \<and> kube_Fault kl (Suc (k_Calls s)) = None"

text \<open>The four writes of the store, on the record it holds for the request.\<close>

definition recorded_by ::
    "kube_lib \<Rightarrow> namespaced_name \<Rightarrow> bytes \<Rightarrow> cmp_transaction \<Rightarrow> cluster \<Rightarrow> cluster \<Rightarrow> bool"
where
  "recorded_by kl key uid tx' s s' \<longleftrightarrow>
     (\<exists>deadline detail. store_create kl (fst key) (snd key) uid deadline detail s = (Inr tx', s'))
     \<or> (\<exists>tx old pending chain. k_Transactions s key = Some old \<and> tx_key old = key
          \<and> ts_CertificateRequestUID (tx_Spec old) = uid \<and> tx_key tx = key
          \<and> (recordPending kl tx pending s = (Inr tx', s') \<or> recordConfirming kl tx chain pending s = (Inr tx', s')
             \<or> recordIssued kl tx chain s = (Inr tx', s')))"

lemma update_status_stores:
  assumes "update_status kl tx s = (Inr tx', s')" and "k_Transactions s (tx_key tx) = Some old"
  shows "k_Transactions s' (tx_key tx) = Some tx' \<and> tx_Spec tx' = tx_Spec old \<and> tx_key tx' = tx_key old"
  using update_status_Inr(1,4) [OF assms(1)] assms(2) by (auto simp: same_record_def)

lemma now_Inr: "now kl s = (Inr t, s') \<Longrightarrow> k_Transactions s' = k_Transactions s"
  by (auto simp: now_def time_Now_def)

lemma wrapping_Inr: "wrapping format m s = (Inr x, s') \<longleftrightarrow> m s = (Inr x, s')"
  by (auto simp: wrapping_def split: prod.split sum.split)

lemma records_store:
  assumes "recordPending kl tx pending s = (Inr tx', s') \<or> recordConfirming kl tx chain pending s = (Inr tx', s')
      \<or> recordIssued kl tx chain s = (Inr tx', s')"
    and "k_Transactions s (tx_key tx) = Some old"
  shows "k_Transactions s' (tx_key tx) = Some tx' \<and> tx_Spec tx' = tx_Spec old \<and> tx_key tx' = tx_key old"
proof -
  obtain t s1 status where "now kl s = (Inr t, s1)" "update_status kl (tx\<lparr>tx_Status := status\<rparr>) s1 = (Inr tx', s')"
    using assms(1) unfolding recordPending_def recordConfirming_def recordIssued_def sbind_Inr wrapping_Inr by blast
  then show ?thesis
    using update_status_stores [of kl "tx\<lparr>tx_Status := status\<rparr>" s1 tx' s' old] assms(2) by (simp add: now_Inr)
qed

lemma create_stores:
  assumes "store_create kl namespace name uid deadline detail s = (Inr tx, s')"
  shows "k_Transactions s' (namespace, name) = Some tx \<and> tx_key tx = (namespace, name)
    \<and> ts_CertificateRequestUID (tx_Spec tx) = uid"
proof -
  obtain tid s1 made s2 t s3 status where
      made: "create_transaction kl (new_transaction namespace name uid deadline detail tid) s1 = (Inr made, s2)"
    and time: "now kl s2 = (Inr t, s3)" and updated: "update_status kl (made\<lparr>tx_Status := status\<rparr>) s3 = (Inr tx, s')"
    using assms unfolding store_create_def sbind_Inr wrapping_Inr by blast
  have held: "k_Transactions s2 (namespace, name) = Some made" "tx_key made = (namespace, name)"
      "ts_CertificateRequestUID (tx_Spec made) = uid"
    using api_call_Inr [OF made [unfolded create_transaction_def]]
    by (auto simp: Let_def write_transaction_def record_access_def new_transaction_def wire_spec_def split: if_split_asm)
  have "k_Transactions s3 (tx_key (made\<lparr>tx_Status := status\<rparr>)) = Some made"
    using held now_Inr [OF time] by simp
  from update_status_stores [OF updated this] show ?thesis
    using held by simp
qed

lemma recorded_by_viewed:
  assumes "recorded_by kl key uid tx s s'"
  shows "k_Transactions s' key = Some tx \<and> tx_key tx = key \<and> ts_CertificateRequestUID (tx_Spec tx) = uid"
  using assms unfolding recorded_by_def
proof (elim disjE exE conjE)
  fix deadline detail
  assume "store_create kl (fst key) (snd key) uid deadline detail s = (Inr tx, s')"
  from create_stores [OF this] show ?thesis
    by simp
next
  fix tx0 old pending chain
  assume old: "k_Transactions s key = Some old" "tx_key old = key" "ts_CertificateRequestUID (tx_Spec old) = uid" "tx_key tx0 = key"
  show ?thesis if "recordPending kl tx0 pending s = (Inr tx, s')"
    using records_store [of kl tx0 pending s tx s' chain old] that old by simp
  show ?thesis if "recordConfirming kl tx0 chain pending s = (Inr tx, s')"
    using records_store [of kl tx0 pending s tx s' chain old] that old by simp
  show ?thesis if "recordIssued kl tx0 chain s = (Inr tx, s')"
    using records_store [of kl tx0 pending s tx s' chain old] that old by simp
qed

lemmas serving_simps = serving_def sbind_def stry_def slift_def get_transaction_def delete_transaction_def api_call_def
  found_def write_transaction_def record_access_def deletePreconditions_def Let_def

interpretation cmp_store: record_store k_Transactions "serving kl" "store_load kl" "store_remove kl" "recorded_by kl" for kl
proof
  fix s :: cluster and namespace name uid :: bytes and tx :: cmp_transaction
  assume s: "serving kl s"
  show "\<exists>s'. store_load kl namespace name uid s = (Inr (Some tx), s') \<and> k_Transactions s' = k_Transactions s"
    if "k_Transactions s (namespace, name) = Some tx" "ts_CertificateRequestUID (tx_Spec tx) = uid"
    using s that by (simp add: store_load_def serving_simps)
  show "\<exists>s'. store_load kl namespace name uid s = (Inr None, s') \<and> k_Transactions s' (namespace, name) = None"
    if "k_Transactions s (namespace, name) = Some tx" "tx_key tx = (namespace, name)" "ts_CertificateRequestUID (tx_Spec tx) \<noteq> uid"
    using s that by (simp add: store_load_def serving_simps)
  show "\<exists>s'. store_load kl namespace name uid s = (Inr None, s') \<and> k_Transactions s' = k_Transactions s"
    if "k_Transactions s (namespace, name) = None"
    using s that by (simp add: store_load_def serving_simps)
  show "\<exists>s'. store_remove kl tx s = (Inr (), s') \<and> k_Transactions s' = (k_Transactions s)(tx_key tx := None)"
    if "k_Transactions s (tx_key tx) = Some tx"
    using s that by (simp add: store_remove_def serving_simps)
qed (rule recorded_by_viewed)

subsection \<open>What a run records the next one resumes\<close>

text \<open>
  C14: What a reconciliation records is what the next one resumes. After any successful write of the store, loading the
  record for the same CertificateRequest returns exactly the record that was written and leaves it in place; loading it
  for a request that has the name but another identity returns nothing and removes the stale record. The API server is
  taken to serve the two calls.
\<close>

theorem store_resumes:
  assumes "recorded_by kl (namespace, name) uid tx s s'" and "serving kl s'"
  shows "fst (store_load kl namespace name uid' s') = Inr (if uid' = uid then Some tx else None)
    \<and> k_Transactions (snd (store_load kl namespace name uid' s')) (namespace, name) = (if uid' = uid then Some tx else None)"
proof (cases "uid' = uid")
  case True
  then show ?thesis
    using cmp_store.recorded_resumed [OF assms] recorded_by_viewed [OF assms(1)] by auto
next
  case False
  then show ?thesis
    using cmp_store.recorded_not_reused [OF assms False] by auto
qed

abbreviation sample_detail :: transaction_detail where
  "sample_detail \<equiv> \<lparr>td_CSRDigest = ''637372'', td_IssuerRef = sample_issuer_reference, td_ConfigurationDigest = ''7b7d'',
     td_Operation = TransactionOperationP10CR, td_ProtocolVersion = 2, td_RenewalFallback = []\<rparr>"

abbreviation sample_created :: "(go_error + cmp_transaction) \<times> cluster" where
  "sample_created \<equiv> store_create (sample_kube sample_issued) ''ns'' ''web'' ''cr-uid'' 0 sample_detail (sample_cluster (\<lambda>key. None))"

lemma sample_created_recorded:
  "recorded_by (sample_kube sample_issued) (''ns'', ''web'') ''cr-uid'' (projr (fst sample_created))
     (sample_cluster (\<lambda>key. None)) (snd sample_created)"
proof -
  have "\<not> isl (fst sample_created)"
    by code_simp
  then have "sample_created = (Inr (projr (fst sample_created)), snd sample_created)"
    by (simp add: prod_eq_iff)
  then show ?thesis
    unfolding recorded_by_def fst_conv snd_conv by blast
qed

lemma sample_serving: "serving (sample_kube m) s"
  by (simp add: serving_def sample_kube_def)

theorem store_resumes_witness:
  "fst (store_load (sample_kube sample_issued) ''ns'' ''web'' ''cr-uid'' (snd sample_created)) = Inr (Some (projr (fst sample_created)))
   \<and> fst (store_load (sample_kube sample_issued) ''ns'' ''web'' ''other'' (snd sample_created)) = Inr None"
  using store_resumes [OF sample_created_recorded sample_serving, of "''cr-uid''"]
    store_resumes [OF sample_created_recorded sample_serving, of "''other''"]
  by simp

text \<open>
  A transaction that was given up is forgotten. Once the store has removed a record it wrote, loading finds nothing
  for that CertificateRequest, so the next reconciliation starts a new transaction with a new identifier.
\<close>

lemma store_forgets:
  assumes "recorded_by kl (namespace, name) uid tx s s'" and "serving kl s'"
    and "store_remove kl tx s' = (r, s'')" and "serving kl s''"
  shows "r = Inr () \<and> fst (store_load kl namespace name uid s'') = Inr None"
proof -
  have "k_Transactions s' (tx_key tx) = Some tx"
    using recorded_by_viewed [OF assms(1)] by simp
  then have "r = Inr ()"
    using cmp_store.remove_removes [OF assms(2)] assms(3) by fastforce
  then show ?thesis
    using cmp_store.removed_forgotten [OF assms] by auto
qed

subsection \<open>An answered enrollment is delivered\<close>

lemma recordIssued_succeeds:
  assumes "\<forall>n. kube_Fault kl n = None" and "k_Transactions s (tx_key tx) = Some tx"
  shows "\<exists>tx' s'. recordIssued kl tx chain s = (Inr tx', s') \<and> k_Transactions s' (tx_key tx) = Some tx'
    \<and> st_Phase (tx_Status tx') = TransactionPhaseIssued \<and> st_IssuedChain (tx_Status tx') = map cert_Raw chain"
  using assms
  by (auto simp: recordIssued_def sbind_def now_def time_Now_def wrapping_def update_status_def api_call_def
      write_transaction_def record_access_def wire_status_def encodeChain_def Let_def)

lemma metrics_succeed:
  "\<exists>s'. recordIssuedEnrollment kl l confirmation started s = (Inr (), s') \<and> k_Transactions s' = k_Transactions s"
  by (simp add: recordIssuedEnrollment_def sbind_def now_def time_Now_def record_metric_def)

text \<open>
  C15: An answered enrollment is delivered in the same run. When the server's answer to an enrollment or a poll yields a
  chain that needs no confirmation and the API server answers, the run returns the PEM of that chain and leaves a record
  in the Issued phase that holds it, so that the certificate survives a failure to deliver it.
\<close>

theorem answered_enrollment_delivered:
  assumes "\<forall>n. kube_Fault kl n = None" and "st_Phase (tx_Status tx) \<noteq> TransactionPhaseConfirming"
    and "exchange kl client request tx limits s = (Inr result, s1)"
    and "Pending result = None" "PendingConfirmation result = None"
    and "k_Transactions s1 (tx_key tx) = Some tx"
  shows "\<exists>stored s'. sign_transaction kl client labels started csrDER request limits tx s
        = (Inr (encodeChainPEM kl (Chain result)), s')
    \<and> k_Transactions s' (tx_key tx) = Some stored \<and> st_Phase (tx_Status stored) = TransactionPhaseIssued
    \<and> st_IssuedChain (tx_Status stored) = map cert_Raw (Chain result)"
proof -
  obtain stored s2 where stored: "recordIssued kl tx (Chain result) s1 = (Inr stored, s2)" "k_Transactions s2 (tx_key tx) = Some stored"
      "st_Phase (tx_Status stored) = TransactionPhaseIssued" "st_IssuedChain (tx_Status stored) = map cert_Raw (Chain result)"
    using recordIssued_succeeds [OF assms(1,6)] by blast
  obtain s3 where counted: "recordIssuedEnrollment kl labels confirmationImplicit started s2 = (Inr (), s3)"
      "k_Transactions s3 = k_Transactions s2"
    using metrics_succeed by blast
  have "sign_transaction kl client labels started csrDER request limits tx s = (Inr (encodeChainPEM kl (Chain result)), s3)"
    using assms(2-5) stored(1) counted(1)
    by (simp add: sign_transaction_def sbind_def on_error_def finish_enrollment_def slift_def)
  then show ?thesis
    using stored(2-4) counted(2) by simp
qed

text \<open>A client whose server grants implicit confirmation.\<close>

definition sample_result :: enrollment_result where
  "sample_result = \<lparr>Chain = [sample_leaf], ExtraCertificateCount = 0, ExplicitConfirmation = False, result_CertReqID = 0,
     Pending = None, PendingConfirmation = None\<rparr>"

definition sample_implicit_client :: protocol_client where
  "sample_implicit_client = \<lparr>pc_EnrollP10CR = (\<lambda>request. slift (Inr sample_result)), pc_EnrollIR = (\<lambda>request. slift (Inr sample_result)),
     pc_EnrollKUR = (\<lambda>request. slift (Inr sample_result)), pc_PollP10CR = (\<lambda>poll. slift (Inr sample_result)),
     pc_ConfirmP10CR = (\<lambda>c. slift (Inr sample_result))\<rparr>"

theorem answered_enrollment_delivered_witness:
  "\<exists>stored s'. sign_transaction (sample_kube sample_issued) sample_implicit_client (sample_labels sample_issued) 0 ''csr''
       sample_request sample_limits (sample_transaction sample_polling_status) (sample_with sample_polling_status)
     = (Inr (encodeChainPEM (sample_kube sample_issued) [sample_leaf]), s')
   \<and> k_Transactions s' sample_key = Some stored \<and> st_Phase (tx_Status stored) = TransactionPhaseIssued
   \<and> st_IssuedChain (tx_Status stored) = [cert_Raw sample_leaf]"
proof -
  have run: "exchange (sample_kube sample_issued) sample_implicit_client sample_request (sample_transaction sample_polling_status)
      sample_limits (sample_with sample_polling_status) = (Inr sample_result, (sample_with sample_polling_status)\<lparr>net_Ticks := 1\<rparr>)"
    by (simp add: exchange_def sbind_def now_def time_Now_def slift_def poll_state_def retained_signer_def
        sample_implicit_client_def sample_kube_def sample_cmp_def sample_lib_def sample_with_def sample_cluster_def
        sample_polling_status_def empty_status_def second_def transactionLimitsWithDefaults_def sample_spec_def
        defaultMaximumPolls_def ensure_def Let_def)
  have "kube_Fault (sample_kube sample_issued) n = None" for n
    by (simp add: sample_kube_def)
  then show ?thesis
    using answered_enrollment_delivered [OF _ _ run, of "sample_labels sample_issued" 0 "''csr''"]
    by (simp add: sample_result_def sample_with_def sample_cluster_def phase_defs)
qed

subsection \<open>Limits\<close>

text \<open>
  The limits of every transaction are well formed. For an issuer spec that passes validation, the limits with their
  defaults have a positive duration, a positive minimum interval that does not exceed the maximum, and at least one poll,
  and reading them again changes nothing.
\<close>

lemma accepted_limits_well_formed:
  assumes "validateSpec lib spec = Inr endpoint"
  shows "usable_limits (transactionLimitsWithDefaults (is_Transaction spec))
    \<and> transactionLimitsWithDefaults (transactionLimitsWithDefaults (is_Transaction spec))
        = transactionLimitsWithDefaults (is_Transaction spec)"
proof -
  have usable: "usable_limits (transactionLimitsWithDefaults (is_Transaction spec))"
    by (rule transactionLimitsWithDefaults_usable [OF validateSpec_Inr(7) [OF assms]])
  moreover have "transactionLimitsWithDefaults limits = limits" if "usable_limits limits" for limits
    using that by (auto simp: usable_limits_def transactionLimitsWithDefaults_def Let_def)
  ultimately show ?thesis
    by blast
qed

end
