(* ===== verification/Admission.thy ===== *)
theory Admission
  imports Configuration
begin

text \<open>
  The schema of the issuer resources: the enumerations, bounds and CEL rules that the markers in
  \<^verbatim>\<open>src/api/v1alpha1/common_types.go\<close> put into the CRD and the API server enforces. An optional field that is
  omitted is the empty string or absent, as Go decodes it. The theorem relates the schema to the validation the
  controller repeats on every load: the two agree, up to the conditions only one of them checks, which are
  \<open>schema_only\<close> and \<open>controller_only\<close>.
\<close>

subsection \<open>The schema\<close>

definition optional_of :: "bytes list \<Rightarrow> bytes \<Rightarrow> bool" where
  "optional_of values x \<longleftrightarrow> x = [] \<or> x \<in> set values"

definition schema_enumerations :: "protocol_spec \<Rightarrow> bool" where
  "schema_enumerations spec \<longleftrightarrow>
     ps_Version spec = 2
     \<and> ps_InitialEnrollment spec \<in> {''P10CR'', ''IR''}
     \<and> optional_of [''P10CR'', ''KUR''] (ps_Renewal spec)
     \<and> optional_of [''Omit'', ''Duration''] (ps_RequestedValidity spec)
     \<and> optional_of [''None'', ''InitialEnrollment''] (ps_RenewalFallback spec)
     \<and> optional_of [''Interoperable'', ''RFC9483''] (ps_ValidationProfile spec)
     \<and> optional_of [''Accept'', ''RequireAbsent''] (ps_KURResponseCAPubs spec)
     \<and> ps_P10CRResponseCertReqID spec \<in> {None, Some (- 1), Some 0}
     \<and> optional_of [''Strict'', ''AllowSignature''] (ps_MACResponseProtection spec)
     \<and> optional_of [''SHA256'', ''SHA384'', ''SHA512''] (ps_SignatureDigest spec)
     \<and> ps_Confirmation spec \<in> {''Explicit'', ''Implicit''}"

text \<open>The five CEL rules of \<^verbatim>\<open>ProtocolSpec\<close>, in order.\<close>

definition schema_rules :: "protocol_spec \<Rightarrow> bool" where
  "schema_rules spec \<longleftrightarrow>
     (ps_ValidationProfile spec = [] \<or> ps_ValidationProfile spec \<noteq> ''RFC9483''
        \<or> ps_P10CRResponseCertReqID spec = None \<or> ps_P10CRResponseCertReqID spec = Some (- 1))
     \<and> (ps_ValidationProfile spec = [] \<or> ps_ValidationProfile spec \<noteq> ''RFC9483''
        \<or> ps_MACResponseProtection spec = [] \<or> ps_MACResponseProtection spec = ''Strict'')
     \<and> (ps_ValidationProfile spec = [] \<or> ps_ValidationProfile spec \<noteq> ''RFC9483''
        \<or> ps_KURResponseCAPubs spec = [] \<or> ps_KURResponseCAPubs spec = ''RequireAbsent'')
     \<and> (ps_RequestedValidity spec = [] \<or> ps_RequestedValidity spec \<noteq> ''Duration''
        \<or> ps_InitialEnrollment spec = ''IR'' \<or> ps_Renewal spec \<noteq> [] \<and> ps_Renewal spec = ''KUR'')
     \<and> (ps_RenewalFallback spec = [] \<or> ps_RenewalFallback spec = ''None''
        \<or> (if ps_Renewal spec \<noteq> [] then ps_Renewal spec = ''KUR'' else ps_InitialEnrollment spec = ''IR''))"

definition schema_algorithm :: "pbm_algorithm_spec \<Rightarrow> bool" where
  "schema_algorithm spec \<longleftrightarrow>
     pa_OWF spec \<in> {''SHA256'', ''SHA384'', ''SHA512''}
     \<and> pa_MAC spec \<in> {''HMACSHA256'', ''HMACSHA384'', ''HMACSHA512''}
     \<and> 100 \<le> pa_IterationCount spec \<and> pa_IterationCount spec \<le> 1048575
     \<and> (pa_MAC spec = ''HMACSHA256'' \<or> pa_OWF spec = ''SHA512''
        \<or> pa_OWF spec = ''SHA384'' \<and> pa_MAC spec = ''HMACSHA384'')"

text \<open>Lengths count code points. Names and keys of references must not be empty.\<close>

definition schema_lengths :: "protocol_spec \<Rightarrow> bool" where
  "schema_lengths spec \<longleftrightarrow>
     length (runes (ps_CertProfile spec)) \<le> 256 \<and> length (runes (ps_Sender spec)) \<le> 1024
     \<and> length (runes (ps_Recipient spec)) \<le> 1024"

definition schema_protocol :: "protocol_spec \<Rightarrow> bool" where
  "schema_protocol spec \<longleftrightarrow> schema_enumerations spec \<and> schema_rules spec \<and> schema_lengths spec"

definition schema_key_reference :: "secret_key_reference \<Rightarrow> bool" where
  "schema_key_reference ref \<longleftrightarrow> sk_Name ref \<noteq> [] \<and> sk_Key ref \<noteq> []"

definition schema_protection :: "protection_spec \<Rightarrow> bool" where
  "schema_protection spec \<longleftrightarrow>
     pr_Type spec \<in> {''PasswordBasedMac'', ''Signature''}
     \<and> (if pr_Type spec = ''PasswordBasedMac'' then pr_PasswordBasedMac spec \<noteq> None \<and> pr_Signature spec = None
        else pr_Signature spec \<noteq> None \<and> pr_PasswordBasedMac spec = None)
     \<and> pred_option (\<lambda>password. pb_SecretRef password \<noteq> [] \<and> schema_algorithm (pb_Algorithm password)) (pr_PasswordBasedMac spec)
     \<and> pred_option (\<lambda>signature. sg_SecretRef signature \<noteq> []) (pr_Signature spec)"

definition schema_trust :: "cmp_trust_spec \<Rightarrow> bool" where
  "schema_trust spec \<longleftrightarrow>
     schema_key_reference (ct_CASecretRef spec) \<and> pred_option schema_key_reference (ct_SignerCertificatesSecretRef spec)"

definition schema_transport :: "transport_spec \<Rightarrow> bool" where
  "schema_transport spec \<longleftrightarrow>
     pred_option (\<lambda>tls. pred_option schema_key_reference (tls_CASecretRef tls)
       \<and> pred_option (\<lambda>name. name \<noteq> []) (tls_ClientCertificateSecretRef tls)) (trn_TLS spec)"

text \<open>The pattern \<^verbatim>\<open>^https?://[^[:space:]]+$\<close>.\<close>

definition url_pattern :: "bytes \<Rightarrow> bool" where
  "url_pattern url \<longleftrightarrow>
     (\<exists>scheme \<in> {''http://'', ''https://''}.
        take (length scheme) url = scheme \<and> drop (length scheme) url \<noteq> []
        \<and> (\<forall>c \<in> set (drop (length scheme) url). of_char c \<notin> {9, 10, 11, 12, 13, 32 :: nat}))"

definition schema_endpoint :: "endpoint_spec \<Rightarrow> bool" where
  "schema_endpoint spec \<longleftrightarrow>
     url_pattern (ep_URL spec) \<and> (ep_RenewalURL spec = [] \<or> url_pattern (ep_RenewalURL spec))
     \<and> 1024 \<le> ep_MaxResponseSize spec \<and> ep_MaxResponseSize spec \<le> 10485760"

text \<open>The transaction limits and the policy are optional blocks.\<close>

definition omitted_limits :: "transaction_limits \<Rightarrow> bool" where
  "omitted_limits spec \<longleftrightarrow>
     tl_MaximumDuration spec = 0 \<and> tl_MinimumPollInterval spec = 0 \<and> tl_MaximumPollInterval spec = 0 \<and> tl_MaximumPolls spec = 0"

definition schema_transaction :: "transaction_limits \<Rightarrow> bool" where
  "schema_transaction spec \<longleftrightarrow> omitted_limits spec \<or> 1 \<le> tl_MaximumPolls spec \<and> tl_MaximumPolls spec \<le> 1000"

definition schema_policy :: "policy_spec \<Rightarrow> bool" where
  "schema_policy spec \<longleftrightarrow> optional_of [''Reject'', ''Accept''] (pol_GrantedModifications spec)"

definition schema_spec :: "cmp_issuer_spec \<Rightarrow> bool" where
  "schema_spec spec \<longleftrightarrow>
     schema_endpoint (is_Endpoint spec) \<and> schema_protocol (is_Protocol spec) \<and> schema_protection (is_Protection spec)
     \<and> schema_trust (is_CMPTrust spec) \<and> schema_transport (is_Transport spec)
     \<and> schema_transaction (is_Transaction spec) \<and> schema_policy (is_Policy spec)"

subsection \<open>What only one side checks\<close>

text \<open>Lengths, patterns, non-empty references and the upper bound of the polls are left to the schema.\<close>

definition secret_references :: "protection_spec \<Rightarrow> bool" where
  "secret_references spec \<longleftrightarrow>
     pred_option (\<lambda>password. pb_SecretRef password \<noteq> []) (pr_PasswordBasedMac spec)
     \<and> pred_option (\<lambda>signature. sg_SecretRef signature \<noteq> []) (pr_Signature spec)"

definition schema_only :: "cmp_issuer_spec \<Rightarrow> bool" where
  "schema_only spec \<longleftrightarrow>
     url_pattern (ep_URL (is_Endpoint spec))
     \<and> (ep_RenewalURL (is_Endpoint spec) = [] \<or> url_pattern (ep_RenewalURL (is_Endpoint spec)))
     \<and> schema_lengths (is_Protocol spec) \<and> secret_references (is_Protection spec)
     \<and> schema_trust (is_CMPTrust spec) \<and> schema_transport (is_Transport spec)
     \<and> (omitted_limits (is_Transaction spec) \<or> tl_MaximumPolls (is_Transaction spec) \<le> 1000)"

text \<open>
  The controller alone checks that the reserved profile is unset and the recipient set, that the Secret keys of one
  credential are named and differ, the parsed URLs with the transport they need, and the durations.
\<close>

definition separate_keys :: "protection_spec \<Rightarrow> bool" where
  "separate_keys spec \<longleftrightarrow>
     pred_option (\<lambda>p. pb_ReferenceKey p \<noteq> [] \<and> pb_SecretKey p \<noteq> [] \<and> pb_ReferenceKey p \<noteq> pb_SecretKey p) (pr_PasswordBasedMac spec)
     \<and> pred_option (\<lambda>s. sg_CertificateKey s \<noteq> [] \<and> sg_PrivateKeyKey s \<noteq> [] \<and> sg_CertificateKey s \<noteq> sg_PrivateKeyKey s) (pr_Signature spec)"

definition usable_endpoints :: "cmp_lib \<Rightarrow> cmp_issuer_spec \<Rightarrow> bool" where
  "usable_endpoints lib spec \<longleftrightarrow>
     (\<exists>endpoint scheme.
        validateEndpointURL lib (ep_URL (is_Endpoint spec)) = Inr endpoint
        \<and> renewal_scheme lib (ep_RenewalURL (is_Endpoint spec)) = Inr scheme
        \<and> pred_option (\<lambda>tls. tls_ClientCertificateSecretRef tls = None
            \<and> (tls_CASecretRef tls = None \<or> ''https'' \<in> {url_Scheme endpoint, scheme})) (trn_TLS (is_Transport spec)))"

definition controller_only :: "cmp_lib \<Rightarrow> cmp_issuer_spec \<Rightarrow> bool" where
  "controller_only lib spec \<longleftrightarrow>
     ps_CertProfile (is_Protocol spec) = [] \<and> ps_Recipient (is_Protocol spec) \<noteq> []
     \<and> separate_keys (is_Protection spec) \<and> usable_endpoints lib spec \<and> 0 < ep_Timeout (is_Endpoint spec)
     \<and> (omitted_limits (is_Transaction spec)
        \<or> 0 < tl_MaximumDuration (is_Transaction spec) \<and> 0 < tl_MinimumPollInterval (is_Transaction spec)
          \<and> tl_MinimumPollInterval (is_Transaction spec) \<le> tl_MaximumPollInterval (is_Transaction spec))"

subsection \<open>Part by part\<close>

lemma Inr_unit: "(\<exists>u. r = Inr u) \<longleftrightarrow> r = Inr ()"
  by (simp add: unit_eq)

lemma rbind_unit_Inr: "rbind r (\<lambda>_. q) = Inr () \<longleftrightarrow> r = Inr () \<and> q = Inr ()" for r :: "go_error + unit"
  by (auto simp: rbind_Inr)

lemma renewalOperation_KUR:
  "renewalOperation spec = TransactionOperationKUR \<longleftrightarrow>
     ps_Renewal spec = ''KUR'' \<or> ps_Renewal spec \<noteq> ''P10CR'' \<and> ps_InitialEnrollment spec = ''IR''"
  by (simp add: renewalOperation_def TransactionOperationKUR_def TransactionOperationP10CR_def)

lemma validateRequestedValidity_schema:
  "validateRequestedValidity spec = Inr () \<longleftrightarrow>
     optional_of [''Omit'', ''Duration''] (ps_RequestedValidity spec)
     \<and> (ps_RequestedValidity spec = ''Duration'' \<longrightarrow> ps_InitialEnrollment spec = ''IR'' \<or> ps_Renewal spec = ''KUR'')"
  by (auto simp: validateRequestedValidity_def optional_of_def RequestedValidityOmit_def RequestedValidityDuration_def
      renewalOperation_KUR ensure_Inr)

lemma validateRenewalFallback_schema:
  "optional_of [''P10CR'', ''KUR''] (ps_Renewal spec) \<Longrightarrow>
   validateRenewalFallback spec = Inr () \<longleftrightarrow>
     optional_of [''None'', ''InitialEnrollment''] (ps_RenewalFallback spec)
     \<and> (ps_RenewalFallback spec = ''InitialEnrollment'' \<longrightarrow>
        (if ps_Renewal spec \<noteq> [] then ps_Renewal spec = ''KUR'' else ps_InitialEnrollment spec = ''IR''))"
  by (auto simp: validateRenewalFallback_def optional_of_def RenewalFallbackNone_def RenewalFallbackInitialEnrollment_def
      renewalOperation_KUR ensure_Inr)

lemma validateSpecDigest_schema:
  "validateSpecDigest spec = Inr () \<longleftrightarrow> optional_of [''SHA256'', ''SHA384'', ''SHA512''] (ps_SignatureDigest spec)"
  by (auto simp: validateSpecDigest_def signatureDigest_def optional_of_def rbind_Inr)

lemma validate_rfc9483_schema:
  "optional_of [''Accept'', ''RequireAbsent''] (ps_KURResponseCAPubs spec) \<Longrightarrow>
   validate_rfc9483 spec = Inr () \<longleftrightarrow>
     (ps_ValidationProfile spec = ''RFC9483'' \<longrightarrow>
        (ps_P10CRResponseCertReqID spec = None \<or> ps_P10CRResponseCertReqID spec = Some (- 1))
        \<and> (ps_MACResponseProtection spec = [] \<or> ps_MACResponseProtection spec = ''Strict'')
        \<and> (ps_KURResponseCAPubs spec = [] \<or> ps_KURResponseCAPubs spec = ''RequireAbsent''))"
  by (auto simp: validate_rfc9483_def optional_of_def ValidationProfileRFC9483_def P10CRResponseCertReqIDStandard_def
      MACResponseProtectionStrict_def KURResponseCAPubsAccept_def ensure_Inr rbind_unit_Inr)

lemma schema_rules_alt:
  "schema_enumerations spec \<Longrightarrow> schema_rules spec \<longleftrightarrow>
     (ps_ValidationProfile spec = ''RFC9483'' \<longrightarrow>
        (ps_P10CRResponseCertReqID spec = None \<or> ps_P10CRResponseCertReqID spec = Some (- 1))
        \<and> (ps_MACResponseProtection spec = [] \<or> ps_MACResponseProtection spec = ''Strict'')
        \<and> (ps_KURResponseCAPubs spec = [] \<or> ps_KURResponseCAPubs spec = ''RequireAbsent''))
     \<and> (ps_RequestedValidity spec = ''Duration'' \<longrightarrow> ps_InitialEnrollment spec = ''IR'' \<or> ps_Renewal spec = ''KUR'')
     \<and> (ps_RenewalFallback spec = ''InitialEnrollment'' \<longrightarrow>
        (if ps_Renewal spec \<noteq> [] then ps_Renewal spec = ''KUR'' else ps_InitialEnrollment spec = ''IR''))"
proof -
  assume "schema_enumerations spec"
  then have fallback: "ps_RenewalFallback spec \<in> {[], ''None'', ''InitialEnrollment''}"
    by (simp add: schema_enumerations_def optional_of_def)
  have unless: "(p = [] \<or> p \<noteq> x \<or> A) \<longleftrightarrow> (p = x \<longrightarrow> A)" if "x \<noteq> []" for p x :: bytes and A
    using that by blast
  have "(ps_RenewalFallback spec = [] \<or> ps_RenewalFallback spec = ''None'' \<or> B) \<longleftrightarrow>
      (ps_RenewalFallback spec = ''InitialEnrollment'' \<longrightarrow> B)" for B
    using fallback by auto
  moreover have "(ps_Renewal spec \<noteq> [] \<and> ps_Renewal spec = ''KUR'') \<longleftrightarrow> ps_Renewal spec = ''KUR''"
    by auto
  ultimately show ?thesis
    unfolding schema_rules_def by (simp only: unless list.distinct simp_thms) blast
qed

lemma validateProtocol_schema:
  "validateProtocol spec = Inr () \<longleftrightarrow>
     schema_enumerations spec \<and> schema_rules spec \<and> ps_CertProfile spec = [] \<and> ps_Recipient spec \<noteq> []"
proof -
  have enumerations: "schema_enumerations spec \<longleftrightarrow>
      ps_Version spec = 2 \<and> (ps_InitialEnrollment spec = ''P10CR'' \<or> ps_InitialEnrollment spec = ''IR'')
      \<and> (ps_Renewal spec = [] \<or> ps_Renewal spec = ''P10CR'' \<or> ps_Renewal spec = ''KUR'')
      \<and> optional_of [''Omit'', ''Duration''] (ps_RequestedValidity spec)
      \<and> optional_of [''None'', ''InitialEnrollment''] (ps_RenewalFallback spec)
      \<and> validateSpecDigest spec = Inr ()
      \<and> (ps_ValidationProfile spec = [] \<or> ps_ValidationProfile spec = ValidationProfileInteroperable
         \<or> ps_ValidationProfile spec = ValidationProfileRFC9483)
      \<and> (ps_KURResponseCAPubs spec = [] \<or> ps_KURResponseCAPubs spec = KURResponseCAPubsAccept
         \<or> ps_KURResponseCAPubs spec = KURResponseCAPubsRequireAbsent)
      \<and> (ps_Confirmation spec = ''Explicit'' \<or> ps_Confirmation spec = ''Implicit'')
      \<and> ps_P10CRResponseCertReqID spec \<in> {None, Some P10CRResponseCertReqIDStandard, Some P10CRResponseCertReqIDLegacyZero}
      \<and> (ps_MACResponseProtection spec = [] \<or> ps_MACResponseProtection spec = MACResponseProtectionStrict
         \<or> ps_MACResponseProtection spec = MACResponseProtectionAllowSignature)"
    unfolding schema_enumerations_def validateSpecDigest_schema ValidationProfileInteroperable_def ValidationProfileRFC9483_def
      KURResponseCAPubsAccept_def KURResponseCAPubsRequireAbsent_def P10CRResponseCertReqIDStandard_def
      P10CRResponseCertReqIDLegacyZero_def MACResponseProtectionStrict_def MACResponseProtectionAllowSignature_def
      optional_of_def list.set insert_iff empty_iff simp_thms
    by argo
  have renewal: "optional_of [''P10CR'', ''KUR''] (ps_Renewal spec) \<longleftrightarrow>
      ps_Renewal spec = [] \<or> ps_Renewal spec = ''P10CR'' \<or> ps_Renewal spec = ''KUR''"
    and caPubs: "schema_enumerations spec \<Longrightarrow> optional_of [''Accept'', ''RequireAbsent''] (ps_KURResponseCAPubs spec)"
    by (simp_all add: optional_of_def schema_enumerations_def)
  have "validateProtocol spec = Inr () \<longleftrightarrow>
      schema_enumerations spec \<and> ps_CertProfile spec = [] \<and> ps_Recipient spec \<noteq> []
      \<and> validateRequestedValidity spec = Inr () \<and> validateRenewalFallback spec = Inr () \<and> validate_rfc9483 spec = Inr ()"
    unfolding validateProtocol_def rbind_unit_Inr ensure_Inr enumerations
    using validateRequestedValidity_schema [of spec] validateRenewalFallback_schema [of spec, unfolded renewal] by blast
  also have "\<dots> \<longleftrightarrow>
     schema_enumerations spec \<and> schema_rules spec \<and> ps_CertProfile spec = [] \<and> ps_Recipient spec \<noteq> []"
  proof (rule conj_cong [OF refl])
    assume e: "schema_enumerations spec"
    then have o: "optional_of [''P10CR'', ''KUR''] (ps_Renewal spec)" "optional_of [''Omit'', ''Duration''] (ps_RequestedValidity spec)"
        "optional_of [''None'', ''InitialEnrollment''] (ps_RenewalFallback spec)"
      by (simp_all add: schema_enumerations_def)
    show "(ps_CertProfile spec = [] \<and> ps_Recipient spec \<noteq> []
        \<and> validateRequestedValidity spec = Inr () \<and> validateRenewalFallback spec = Inr () \<and> validate_rfc9483 spec = Inr ())
      \<longleftrightarrow> schema_rules spec \<and> ps_CertProfile spec = [] \<and> ps_Recipient spec \<noteq> []"
      unfolding schema_rules_alt [OF e] validateRequestedValidity_schema validateRenewalFallback_schema [OF o(1)]
        validate_rfc9483_schema [OF caPubs [OF e]]
      using o by blast
  qed
  finally show ?thesis .
qed

lemma passwordBasedMacAlgorithms_schema:
  "(\<exists>r. passwordBasedMacAlgorithms spec = Inr r)
     \<and> 100 \<le> pa_IterationCount spec \<and> pa_IterationCount spec \<le> 1048575 \<longleftrightarrow> schema_algorithm spec"
  by (auto simp: passwordBasedMacAlgorithms_def owf_hash_def mac_hash_def schema_algorithm_def)

lemma validate_pbm_schema:
  "validate_pbm password = Inr () \<longleftrightarrow>
     schema_algorithm (pb_Algorithm password)
     \<and> pb_ReferenceKey password \<noteq> [] \<and> pb_SecretKey password \<noteq> [] \<and> pb_ReferenceKey password \<noteq> pb_SecretKey password"
  unfolding validate_pbm_def passwordBasedMacAlgorithms_schema [symmetric]
  by (auto simp: rbind_Inr ensure_Inr PasswordBasedMacIterationCountMinimum_def PasswordBasedMacIterationCountMaximum_def)

lemma validateProtection_schema:
  "validateProtection spec = Inr () \<and> secret_references spec \<longleftrightarrow> schema_protection spec \<and> separate_keys spec"
  by (cases "pr_PasswordBasedMac spec"; cases "pr_Signature spec")
    (auto simp: validateProtection_def schema_protection_def separate_keys_def secret_references_def
      ProtectionTypePasswordBasedMac_def ProtectionTypeSignature_def validate_pbm_schema ensure_Inr)

lemma validateTransport_iff:
  "validateTransport spec usesHTTPS = Inr () \<longleftrightarrow>
     pred_option (\<lambda>tls. tls_ClientCertificateSecretRef tls = None \<and> (tls_CASecretRef tls = None \<or> usesHTTPS)) (trn_TLS spec)"
  by (cases "trn_TLS spec") (auto simp: validateTransport_def rbind_unit_Inr ensure_Inr)

lemma validateTransactionAndPolicy_schema:
  "validateTransactionAndPolicy transaction policy = Inr ()
     \<and> (omitted_limits transaction \<or> tl_MaximumPolls transaction \<le> 1000) \<longleftrightarrow>
   schema_transaction transaction \<and> schema_policy policy
     \<and> (omitted_limits transaction
        \<or> 0 < tl_MaximumDuration transaction \<and> 0 < tl_MinimumPollInterval transaction
          \<and> tl_MinimumPollInterval transaction \<le> tl_MaximumPollInterval transaction)"
proof -
  have "validateTransactionAndPolicy transaction policy = Inr () \<longleftrightarrow>
      schema_policy policy \<and> (omitted_limits transaction
        \<or> 0 < tl_MaximumDuration transaction \<and> 0 < tl_MinimumPollInterval transaction
          \<and> tl_MinimumPollInterval transaction \<le> tl_MaximumPollInterval transaction \<and> 1 \<le> tl_MaximumPolls transaction)"
    unfolding validateTransactionAndPolicy_def Let_def rbind_unit_Inr ensure_Inr schema_policy_def optional_of_def
      omitted_limits_def [symmetric] GrantedModificationsReject_def GrantedModificationsAccept_def
    by (auto simp: not_le not_less)
  then show ?thesis
    unfolding schema_transaction_def by blast
qed

lemma validateSpec_iff:
  "(\<exists>endpoint. validateSpec lib spec = Inr endpoint) \<longleftrightarrow>
     usable_endpoints lib spec \<and> 0 < ep_Timeout (is_Endpoint spec)
     \<and> 1024 \<le> ep_MaxResponseSize (is_Endpoint spec) \<and> ep_MaxResponseSize (is_Endpoint spec) \<le> 10485760
     \<and> validateProtocol (is_Protocol spec) = Inr () \<and> validateProtection (is_Protection spec) = Inr ()
     \<and> validateTransactionAndPolicy (is_Transaction spec) (is_Policy spec) = Inr ()"
  unfolding validateSpec_def validateEndpoint_def usable_endpoints_def rbind_Inr ensure_Inr map_err_Inr
    schemeHTTPS_def not_le not_less de_Morgan_disj
  by (auto simp: validateTransport_iff eq_commute [of "''https''"])

subsection \<open>The schema and the controller agree\<close>

text \<open>
  C20: The schema of the issuer resources and the validation in the controller accept the same specs, up to the
  conditions only one of them checks: a spec the schema accepts is refused by the controller only for a set
  certProfile, an empty recipient, Secret keys that are empty or equal, URLs or transport, or durations; and a spec the
  controller accepts breaks the schema only in a length, a pattern, an empty reference or more than 1000 polls.
\<close>

theorem validateSpec_schema:
  "schema_spec spec \<and> controller_only lib spec \<longleftrightarrow> (\<exists>endpoint. validateSpec lib spec = Inr endpoint) \<and> schema_only spec"
  unfolding schema_spec_def controller_only_def schema_only_def validateSpec_iff validateProtocol_schema
    schema_endpoint_def schema_protocol_def
  using validateProtection_schema [of "is_Protection spec"]
    validateTransactionAndPolicy_schema [of "is_Transaction spec" "is_Policy spec"]
  by argo

end
