(* ===== verification/Record_Schema.thy ===== *)
theory Record_Schema
  imports Resumption Admission
begin

text \<open>
  The schema of the CMPTransaction, from the markers of \<^verbatim>\<open>src/api/v1alpha1/cmptransaction_types.go\<close>, and what
  the store writes. A byte slice is a base64 string in the schema, and its bound counts the characters of that string.
\<close>

subsection \<open>The schema\<close>

definition encoded_length :: "bytes \<Rightarrow> nat" where
  "encoded_length val = 4 * ((length val + 2) div 3)"

definition schema_issuer_reference :: "issuer_reference \<Rightarrow> bool" where
  "schema_issuer_reference ref \<longleftrightarrow>
     length (runes (ir_Name ref)) \<le> 253 \<and> ir_Kind ref \<in> {''CMPIssuer'', ''CMPClusterIssuer''} \<and> length (runes (ir_UID ref)) \<le> 253"

definition schema_transaction_spec :: "cmp_transaction_spec \<Rightarrow> bool" where
  "schema_transaction_spec spec \<longleftrightarrow>
     length (runes (ts_CertificateRequestName spec)) \<le> 253 \<and> length (runes (ts_CertificateRequestUID spec)) \<le> 253
     \<and> encoded_length (ts_TransactionID spec) \<le> 64 \<and> length (runes (ts_CSRDigest spec)) \<le> 64
     \<and> pred_option schema_issuer_reference (ts_IssuerRef spec)
     \<and> length (runes (ts_ConfigurationDigest spec)) \<le> 64
     \<and> optional_of [''P10CR'', ''IR'', ''KUR''] (ts_Operation spec)
     \<and> optional_of [''CurrentCertificateMissing'', ''CurrentCertificateExpired''] (ts_RenewalFallback spec)
     \<and> ts_ProtocolVersion spec \<in> {0, 2, 3}"

definition schema_transaction_status :: "cmp_transaction_status \<Rightarrow> bool" where
  "schema_transaction_status status \<longleftrightarrow>
     optional_of [''Enrolling'', ''Polling'', ''Confirming'', ''Issued''] (st_Phase status)
     \<and> length (st_IssuedChain status) \<le> 16
     \<and> encoded_length (st_RecipNonce status) \<le> 64 \<and> encoded_length (st_RequestNonce status) \<le> 64"

definition schema_record :: "cmp_transaction \<Rightarrow> bool" where
  "schema_record tx \<longleftrightarrow> schema_transaction_spec (tx_Spec tx) \<and> schema_transaction_status (tx_Status tx)"

text \<open>What a record takes over from the request and its issuer, and from the server.\<close>

definition recordable_request :: "bytes \<Rightarrow> bytes \<Rightarrow> transaction_detail \<Rightarrow> bool" where
  "recordable_request name uid detail \<longleftrightarrow>
     length (runes name) \<le> 253 \<and> length (runes uid) \<le> 253
     \<and> length (runes (td_CSRDigest detail)) \<le> 64 \<and> schema_issuer_reference (td_IssuerRef detail)
     \<and> length (runes (td_ConfigurationDigest detail)) \<le> 64
     \<and> optional_of [''P10CR'', ''IR'', ''KUR''] (td_Operation detail)
     \<and> optional_of [''CurrentCertificateMissing'', ''CurrentCertificateExpired''] (td_RenewalFallback detail)
     \<and> td_ProtocolVersion detail \<in> {0, 2, 3}"

definition recordable_answer :: "pending_transaction \<Rightarrow> bool" where
  "recordable_answer pending \<longleftrightarrow>
     length (pending_RecipNonce pending) \<le> 48 \<and> length (pending_RequestNonce pending) \<le> 48"

subsection \<open>What the store writes\<close>

lemma encoded_length_le: "encoded_length val \<le> 64 \<longleftrightarrow> length val \<le> 48"
  by (auto simp: encoded_length_def)

lemma schema_wire [simp]:
  "schema_transaction_spec (wire_spec spec) = schema_transaction_spec spec"
  "schema_transaction_status (wire_status status) = schema_transaction_status status"
  by (simp_all add: schema_transaction_spec_def schema_transaction_status_def wire_spec_def wire_status_def)

lemma schema_retain_signer [simp]:
  "schema_transaction_status (retain_signer pending status) = schema_transaction_status status"
  by (simp add: retain_signer_def schema_transaction_status_def split: option.split)

lemma schema_phases [simp]:
  "optional_of [''Enrolling'', ''Polling'', ''Confirming'', ''Issued''] TransactionPhaseEnrolling"
  "optional_of [''Enrolling'', ''Polling'', ''Confirming'', ''Issued''] TransactionPhasePolling"
  "optional_of [''Enrolling'', ''Polling'', ''Confirming'', ''Issued''] TransactionPhaseConfirming"
  "optional_of [''Enrolling'', ''Polling'', ''Confirming'', ''Issued''] TransactionPhaseIssued"
  by (simp_all add: optional_of_def phase_defs)

lemma status_updated:
  assumes "now kl s = (Inr t, s1)" "update_status kl (tx\<lparr>tx_Status := status\<rparr>) s1 = (Inr tx', s')"
    and "k_Transactions s (tx_key tx) = Some tx" "schema_record tx"
  shows "schema_record tx' \<longleftrightarrow> schema_transaction_status status"
proof -
  have "k_Transactions s1 (tx_key tx) = Some tx"
    using now_Inr [OF assms(1)] assms(3) by simp
  then have "tx_Spec tx' = tx_Spec tx" "tx_Status tx' = wire_status status"
    using update_status_Inr(2,4) [OF assms(2)] by (auto simp: same_record_def)
  with assms(4) show ?thesis
    by (simp add: schema_record_def)
qed

lemma schema_recordD:
  assumes "schema_record tx"
  shows "length (st_IssuedChain (tx_Status tx)) \<le> 16" "length (st_RecipNonce (tx_Status tx)) \<le> 48"
    "length (st_RequestNonce (tx_Status tx)) \<le> 48"
  using assms by (simp_all add: schema_record_def schema_transaction_status_def encoded_length_le)

lemma recordPending_schema:
  assumes "recordPending kl tx pending s = (Inr tx', s')" and held: "k_Transactions s (tx_key tx) = Some tx" "schema_record tx"
  shows "schema_record tx' \<longleftrightarrow> recordable_answer pending"
  using assms(1) unfolding recordPending_def sbind_Inr wrapping_Inr
proof (elim exE conjE)
  fix t s1
  assume run: "now kl s = (Inr t, s1)" "update_status kl (tx\<lparr>tx_Status := retain_signer pending ((tx_Status tx)\<lparr>
      st_Phase := TransactionPhasePolling, st_RecipNonce := pending_RecipNonce pending,
      st_RequestNonce := (if pending_RequestNonce pending \<noteq> [] then pending_RequestNonce pending else st_RequestNonce (tx_Status tx)),
      st_CertReqID := Some (pending_CertReqID pending), st_LastTransitionTime := t\<rparr>)\<rparr>) s1 = (Inr tx', s')"
  from schema_recordD [OF held(2)] show ?thesis
    unfolding status_updated [OF run held]
    by (simp add: schema_transaction_status_def recordable_answer_def encoded_length_le)
qed

lemma recordConfirming_schema:
  assumes "recordConfirming kl tx chain pending s = (Inr tx', s')"
    and held: "k_Transactions s (tx_key tx) = Some tx" "schema_record tx"
  shows "schema_record tx' \<longleftrightarrow> recordable_answer pending \<and> length chain \<le> 16"
  using assms(1) unfolding recordConfirming_def sbind_Inr wrapping_Inr
proof (elim exE conjE)
  fix t s1
  assume run: "now kl s = (Inr t, s1)" "update_status kl (tx\<lparr>tx_Status := retain_signer pending ((tx_Status tx)\<lparr>
      st_Phase := TransactionPhaseConfirming, st_IssuedChain := encodeChain chain, st_RecipNonce := pending_RecipNonce pending,
      st_RequestNonce := pending_RequestNonce pending, st_CertReqID := Some (pending_CertReqID pending),
      st_LastTransitionTime := t\<rparr>)\<rparr>) s1 = (Inr tx', s')"
  show ?thesis
    unfolding status_updated [OF run held]
    by (auto simp: schema_transaction_status_def recordable_answer_def encoded_length_le encodeChain_def)
qed

lemma recordIssued_schema:
  assumes "recordIssued kl tx chain s = (Inr tx', s')" and held: "k_Transactions s (tx_key tx) = Some tx" "schema_record tx"
  shows "schema_record tx' \<longleftrightarrow> length chain \<le> 16"
  using assms(1) unfolding recordIssued_def sbind_Inr wrapping_Inr
proof (elim exE conjE)
  fix t s1
  assume run: "now kl s = (Inr t, s1)" "update_status kl (tx\<lparr>tx_Status := (tx_Status tx)\<lparr>st_Phase := TransactionPhaseIssued,
      st_IssuedChain := encodeChain chain, st_CompletionTime := t, st_LastTransitionTime := t\<rparr>\<rparr>) s1 = (Inr tx', s')"
  from schema_recordD [OF held(2)] show ?thesis
    unfolding status_updated [OF run held]
    by (simp add: schema_transaction_status_def encoded_length_le encodeChain_def)
qed

lemma store_create_schema:
  assumes "store_create kl namespace name uid deadline detail s = (Inr tx, s')"
  shows "schema_record tx \<longleftrightarrow> recordable_request name uid detail"
proof -
  obtain tid s1 made s2 t s3 where
      tid: "random_bytes kl transactionIDLength s = (Inr tid, s1)"
    and made: "create_transaction kl (new_transaction namespace name uid deadline detail tid) s1 = (Inr made, s2)"
    and time: "now kl s2 = (Inr t, s3)"
    and updated: "update_status kl (made\<lparr>tx_Status := (tx_Status made)\<lparr>
          st_Phase := TransactionPhaseEnrolling, st_LastTransitionTime := t\<rparr>\<rparr>) s3 = (Inr tx, s')"
    using assms unfolding store_create_def sbind_Inr wrapping_Inr by blast
  have held: "k_Transactions s2 (tx_key made) = Some made" and status: "tx_Status made = empty_status"
    and spec: "tx_Spec made = wire_spec (tx_Spec (new_transaction namespace name uid deadline detail tid))"
    using api_call_Inr [OF made [unfolded create_transaction_def]]
    by (auto simp: Let_def write_transaction_def record_access_def new_transaction_def split: if_split_asm)
  have "length tid = 16"
    using tid by (auto simp: random_bytes_def transactionIDLength_def rbind_Inr)
  then have request: "schema_transaction_spec (tx_Spec made) \<longleftrightarrow> recordable_request name uid detail"
    unfolding spec schema_wire by (simp add: schema_transaction_spec_def recordable_request_def new_transaction_def encoded_length_def)
  have "tx_Spec tx = tx_Spec made" "tx_Status tx = wire_status (empty_status\<lparr>st_Phase := TransactionPhaseEnrolling, st_LastTransitionTime := t\<rparr>)"
    using update_status_Inr(2,4) [OF updated] held now_Inr [OF time] status by (auto simp: same_record_def)
  with request show ?thesis
    by (simp add: schema_record_def schema_transaction_status_def empty_status_def encoded_length_def)
qed

text \<open>
  C21: A record the store writes satisfies the schema of the CMPTransaction exactly when what it takes over from outside
  fits: on creation the names and identities of the request and its issuer, the digests and the enumerated fields; on
  each later write the two nonces, of at most 48 bytes, and the chain, of at most 16 certificates. The phases, the
  transaction ID and everything the store keeps from the record it updates never break the schema.
\<close>

theorem store_writes_schema:
  "(\<forall>tx s'. store_create kl namespace name uid deadline detail s = (Inr tx, s') \<longrightarrow>
      (schema_record tx \<longleftrightarrow> recordable_request name uid detail))
   \<and> (k_Transactions s (tx_key held) = Some held \<and> schema_record held \<longrightarrow>
      (\<forall>tx s'. recordPending kl held pending s = (Inr tx, s') \<longrightarrow> (schema_record tx \<longleftrightarrow> recordable_answer pending))
      \<and> (\<forall>tx s'. recordConfirming kl held chain pending s = (Inr tx, s') \<longrightarrow>
           (schema_record tx \<longleftrightarrow> recordable_answer pending \<and> length chain \<le> 16))
      \<and> (\<forall>tx s'. recordIssued kl held chain s = (Inr tx, s') \<longrightarrow> (schema_record tx \<longleftrightarrow> length chain \<le> 16)))"
  by (intro conjI allI impI; (elim conjE)?;
      (rule store_create_schema recordPending_schema recordConfirming_schema recordIssued_schema; assumption))

abbreviation sample_chain_recorded :: "nat \<Rightarrow> (go_error + cmp_transaction) \<times> cluster" where
  "sample_chain_recorded n \<equiv>
     recordIssued (sample_kube sample_issued) (projr (fst sample_created)) (replicate n sample_leaf) (snd sample_created)"

lemma sample_record_succeeds:
  "sample_created = (Inr (projr (fst sample_created)), snd sample_created)"
  "sample_chain_recorded 16 = (Inr (projr (fst (sample_chain_recorded 16))), snd (sample_chain_recorded 16))"
  "sample_chain_recorded 17 = (Inr (projr (fst (sample_chain_recorded 17))), snd (sample_chain_recorded 17))"
proof -
  have "\<not> isl (fst sample_created)" "\<not> isl (fst (sample_chain_recorded 16))" "\<not> isl (fst (sample_chain_recorded 17))"
    by code_simp+
  then show "sample_created = (Inr (projr (fst sample_created)), snd sample_created)"
    "sample_chain_recorded 16 = (Inr (projr (fst (sample_chain_recorded 16))), snd (sample_chain_recorded 16))"
    "sample_chain_recorded 17 = (Inr (projr (fst (sample_chain_recorded 17))), snd (sample_chain_recorded 17))"
    by (simp_all add: prod_eq_iff)
qed

lemma sample_recordable: "recordable_request ''web'' ''cr-uid'' sample_detail"
  by code_simp

theorem store_writes_schema_witness:
  "schema_record (projr (fst sample_created)) \<and> schema_record (projr (fst (sample_chain_recorded 16)))
   \<and> \<not> schema_record (projr (fst (sample_chain_recorded 17)))"
proof -
  note writes = store_writes_schema [where kl = "sample_kube sample_issued" and detail = sample_detail and namespace = "''ns''"
      and name = "''web''" and uid = "''cr-uid''" and deadline = 0 and s = "sample_cluster (\<lambda>key. None)"]
  have created: "schema_record (projr (fst sample_created))"
    using writes sample_record_succeeds(1) sample_recordable by blast
  have "k_Transactions (snd sample_created) (tx_key (projr (fst sample_created))) = Some (projr (fst sample_created))"
    using recorded_by_viewed [OF sample_created_recorded] by simp
  then have "schema_record tx \<longleftrightarrow> length (replicate n sample_leaf) \<le> 16" if "sample_chain_recorded n = (Inr tx, s')" for n tx s'
    using store_writes_schema [where kl = "sample_kube sample_issued" and held = "projr (fst sample_created)"
        and s = "snd sample_created" and chain = "replicate n sample_leaf"] created that by blast
  from this [OF sample_record_succeeds(2)] this [OF sample_record_succeeds(3)] created show ?thesis
    by simp
qed

end
