(* ===== verification/Memory.thy ===== *)
theory Memory
  imports Prelude
begin

text \<open>
  The memory of a Go program as far as copying needs it: allocated objects by address, pointers and slices
  that may be nil, \<^verbatim>\<open>new\<close> and \<^verbatim>\<open>make\<close>. A view of a type
  says which addresses a value of it reaches, when its pointers lead to objects of their type and which plain
  value it stands for. The locale \<open>deep_copier\<close> is the contract of a deep copy with respect to a view; the
  lemmas build the contract of a struct from those of its fields.
\<close>

subsection \<open>Objects, pointers and slices\<close>

record 'c memory =
  m_Next :: nat
  m_Cells :: "nat \<rightharpoonup> 'c"

definition reserve :: "'c memory \<Rightarrow> 'c memory" where
  "reserve m = m\<lparr>m_Next := Suc (m_Next m)\<rparr>"

definition assign :: "nat \<Rightarrow> 'c \<Rightarrow> 'c memory \<Rightarrow> 'c memory" where
  "assign p c m = m\<lparr>m_Cells := (m_Cells m)(p \<mapsto> c)\<rparr>"

definition load :: "('c \<Rightarrow> 'a option) \<Rightarrow> 'c memory \<Rightarrow> nat \<Rightarrow> 'a option" where
  "load project m p = (case m_Cells m p of None \<Rightarrow> None | Some c \<Rightarrow> project c)"

text \<open>A slice that is not nil: its backing array, the offset of its first element and its length.\<close>

record slice =
  sl_Array :: nat
  sl_Offset :: nat
  sl_Len :: nat

definition elements :: "('c \<Rightarrow> 'a list option) \<Rightarrow> 'c memory \<Rightarrow> slice \<Rightarrow> 'a list" where
  "elements project m s =
     (case load project m (sl_Array s) of None \<Rightarrow> [] | Some xs \<Rightarrow> take (sl_Len s) (drop (sl_Offset s) xs))"

type_synonym ('c, 'a) copier = "'a \<Rightarrow> 'c memory \<Rightarrow> 'a \<times> 'c memory"

text \<open>
  \<^verbatim>\<open>out = new(T)\<close> followed by the copy of the object into \<^verbatim>\<open>*out\<close>, unless the
  pointer is nil. The address is taken before the copy; the zero value it holds until then is never read. A
  pointer of Go leads to an object of its type; for one that does not, the result is nil.
\<close>

definition new_copy ::
    "('a \<Rightarrow> 'c) \<Rightarrow> ('c \<Rightarrow> 'a option) \<Rightarrow> ('c, 'a) copier \<Rightarrow> ('c, nat option) copier" where
  "new_copy inject project copy p m =
     (case p of
        None \<Rightarrow> (None, m)
      | Some q \<Rightarrow>
          case load project m q of
            None \<Rightarrow> (None, m)
          | Some a \<Rightarrow>
              let out = m_Next m;
                  (b, m') = copy a (reserve m)
              in (Some out, assign out (inject b) m'))"

fun copy_each :: "('c, 'a) copier \<Rightarrow> ('c, 'a list) copier" where
  "copy_each copy [] m = ([], m)"
| "copy_each copy (a # as) m =
     (let (b, m1) = copy a m;
          (bs, m2) = copy_each copy as m1
      in (b # bs, m2))"

text \<open>
  \<^verbatim>\<open>out = make([]T, len(in))\<close> followed by the copy of every element, unless the slice is nil.
\<close>

definition make_copy ::
    "('a list \<Rightarrow> 'c) \<Rightarrow> ('c \<Rightarrow> 'a list option) \<Rightarrow> ('c, 'a) copier \<Rightarrow> ('c, slice option) copier" where
  "make_copy inject project copy s m =
     (case s of
        None \<Rightarrow> (None, m)
      | Some sl \<Rightarrow>
          let out = m_Next m;
              (bs, m') = copy_each copy (elements project m sl) (reserve m)
          in (Some \<lparr>sl_Array = out, sl_Offset = 0, sl_Len = sl_Len sl\<rparr>, assign out (inject bs) m'))"

text \<open>A struct copy that is continued with the copy of one more field.\<close>

definition with_field ::
    "('s \<Rightarrow> 'a) \<Rightarrow> ('a \<Rightarrow> 's \<Rightarrow> 's) \<Rightarrow> ('c, 'a) copier \<Rightarrow> ('c, 's) copier \<Rightarrow> ('c, 's) copier" where
  "with_field get put field copy s m =
     (let (s1, m1) = copy s m;
          (b, m2) = field (get s) m1
      in (put b s1, m2))"

subsection \<open>Views\<close>

record ('c, 'a, 'v) view =
  vw_reach :: "'c memory \<Rightarrow> 'a \<Rightarrow> nat set"
  vw_typed :: "'c memory \<Rightarrow> 'a \<Rightarrow> bool"
  vw_value :: "'c memory \<Rightarrow> 'a \<Rightarrow> 'v"

definition scalar_view :: "('a \<Rightarrow> 'v) \<Rightarrow> ('c, 'a, 'v) view" where
  "scalar_view g = \<lparr>vw_reach = \<lambda>_ _. {}, vw_typed = \<lambda>_ _. True, vw_value = \<lambda>_. g\<rparr>"

definition map_view :: "('v \<Rightarrow> 'w) \<Rightarrow> ('c, 'a, 'v) view \<Rightarrow> ('c, 'a, 'w) view" where
  "map_view f v = \<lparr>vw_reach = vw_reach v, vw_typed = vw_typed v, vw_value = \<lambda>m a. f (vw_value v m a)\<rparr>"

definition field_view ::
    "('s \<Rightarrow> 'a) \<Rightarrow> ('c, 'a, 'v) view \<Rightarrow> ('c, 's, 'w) view \<Rightarrow> ('c, 's, 'w \<times> 'v) view" where
  "field_view get v base =
     \<lparr>vw_reach = \<lambda>m s. vw_reach base m s \<union> vw_reach v m (get s),
      vw_typed = \<lambda>m s. vw_typed base m s \<and> vw_typed v m (get s),
      vw_value = \<lambda>m s. (vw_value base m s, vw_value v m (get s))\<rparr>"

definition pointer_view :: "('c \<Rightarrow> 'a option) \<Rightarrow> ('c, 'a, 'v) view \<Rightarrow> ('c, nat option, 'v option) view" where
  "pointer_view project v =
     \<lparr>vw_reach = \<lambda>m p. (case p of None \<Rightarrow> {} | Some q \<Rightarrow>
        insert q (case load project m q of None \<Rightarrow> {} | Some a \<Rightarrow> vw_reach v m a)),
      vw_typed = \<lambda>m p. (case p of None \<Rightarrow> True | Some q \<Rightarrow>
        (case load project m q of None \<Rightarrow> False | Some a \<Rightarrow> vw_typed v m a)),
      vw_value = \<lambda>m p. (case p of None \<Rightarrow> None | Some q \<Rightarrow> map_option (vw_value v m) (load project m q))\<rparr>"

definition list_view :: "('c, 'a, 'v) view \<Rightarrow> ('c, 'a list, 'v list) view" where
  "list_view v =
     \<lparr>vw_reach = \<lambda>m as. \<Union> (vw_reach v m ` set as),
      vw_typed = \<lambda>m. list_all (vw_typed v m),
      vw_value = \<lambda>m. map (vw_value v m)\<rparr>"

definition slice_view :: "('c \<Rightarrow> 'a list option) \<Rightarrow> ('c, 'a, 'v) view \<Rightarrow> ('c, slice option, 'v list) view" where
  "slice_view project v =
     \<lparr>vw_reach = \<lambda>m s. (case s of None \<Rightarrow> {} | Some sl \<Rightarrow>
        insert (sl_Array sl) (vw_reach (list_view v) m (elements project m sl))),
      vw_typed = \<lambda>m s. (case s of None \<Rightarrow> True | Some sl \<Rightarrow>
        (case load project m (sl_Array sl) of None \<Rightarrow> False | Some xs \<Rightarrow> sl_Offset sl + sl_Len sl \<le> length xs)
        \<and> vw_typed (list_view v) m (elements project m sl)),
      vw_value = \<lambda>m s. (case s of None \<Rightarrow> [] | Some sl \<Rightarrow> vw_value (list_view v) m (elements project m sl))\<rparr>"

lemmas view_defs = scalar_view_def map_view_def field_view_def pointer_view_def list_view_def slice_view_def

text \<open>A value is placed when everything it reaches is allocated.\<close>

definition placed :: "('c, 'a, 'v) view \<Rightarrow> 'c memory \<Rightarrow> 'a \<Rightarrow> bool" where
  "placed v m a \<longleftrightarrow> vw_typed v m a \<and> vw_reach v m a \<subseteq> {..<m_Next m}"

text \<open>One memory extends another when it only adds objects; it differs inside a set when all changes are there.\<close>

definition extends :: "'c memory \<Rightarrow> 'c memory \<Rightarrow> bool" where
  "extends m m' \<longleftrightarrow> m_Next m \<le> m_Next m' \<and> (\<forall>q < m_Next m. m_Cells m' q = m_Cells m q)"

definition differs_inside :: "nat set \<Rightarrow> 'c memory \<Rightarrow> 'c memory \<Rightarrow> bool" where
  "differs_inside A m m' \<longleftrightarrow> (\<forall>q. q \<notin> A \<longrightarrow> m_Cells m' q = m_Cells m q)"

text \<open>A copy: the same value, in objects allocated since.\<close>

definition copy_of :: "('c, 'a, 'v) view \<Rightarrow> 'c memory \<Rightarrow> 'a \<Rightarrow> nat \<Rightarrow> 'c memory \<Rightarrow> 'a \<Rightarrow> bool" where
  "copy_of v m a fresh m' b \<longleftrightarrow>
     vw_typed v m' b \<and> vw_value v m' b = vw_value v m a \<and> vw_reach v m' b \<subseteq> {fresh..<m_Next m'}"

lemma extends_refl [simp]: "extends m m"
  by (simp add: extends_def)

lemma extends_trans [trans]: "extends m m' \<Longrightarrow> extends m' m'' \<Longrightarrow> extends m m''"
  unfolding extends_def by (metis le_trans less_le_trans)

lemma extends_reserve [simp]: "extends m (reserve m)"
  by (simp add: extends_def reserve_def)

lemma m_Next_reserve [simp]: "m_Next (reserve m) = Suc (m_Next m)"
  by (simp add: reserve_def)

lemma assign_simps [simp]:
  "m_Next (assign p c m) = m_Next m" "m_Cells (assign p c m) = (m_Cells m)(p \<mapsto> c)"
  by (simp_all add: assign_def)

lemma load_assign [simp]:
  "load project (assign p c m) q = (if q = p then project c else load project m q)"
  by (simp add: load_def)

subsection \<open>The contract of a deep copy\<close>

lemma copy_each_length: "length (fst (copy_each copy as m)) = length as"
  by (induction as arbitrary: m) (simp_all add: split_def Let_def)

locale deep_copier =
  fixes copy :: "('c, 'a) copier"
    and v :: "('c, 'a, 'v) view"
  assumes frame: "\<lbrakk>vw_typed v m a; \<And>q. q \<in> vw_reach v m a \<Longrightarrow> m_Cells m' q = m_Cells m q\<rbrakk> \<Longrightarrow>
      vw_typed v m' a \<and> vw_reach v m' a = vw_reach v m a \<and> vw_value v m' a = vw_value v m a"
    and copies: "\<lbrakk>placed v m a; copy a m = (b, m')\<rbrakk> \<Longrightarrow> extends m m' \<and> copy_of v m a (m_Next m) m' b"
begin

lemma frame_extends:
  assumes "placed v m a" "extends m m'"
  shows "vw_typed v m' a \<and> vw_reach v m' a = vw_reach v m a \<and> vw_value v m' a = vw_value v m a"
  using assms by (intro frame) (auto simp: placed_def extends_def)

lemma placed_extends: "placed v m a \<Longrightarrow> extends m m' \<Longrightarrow> placed v m' a"
  using frame_extends [of m a m'] by (fastforce simp: placed_def extends_def)

lemma copies_later:
  assumes "placed v m a" "extends m m1" "copy a m1 = (b, m2)"
  shows "extends m1 m2 \<and> copy_of v m a (m_Next m1) m2 b"
  using copies [OF placed_extends [OF assms(1,2)] assms(3)] frame_extends [OF assms(1,2)] by (simp add: copy_of_def)

lemma copy_of_frame:
  assumes "copy_of v m a fresh m1 b" "m_Next m1 \<le> m_Next m2" "\<And>q. fresh \<le> q \<Longrightarrow> q < m_Next m1 \<Longrightarrow> m_Cells m2 q = m_Cells m1 q"
  shows "copy_of v m a fresh m2 b"
proof -
  have "vw_typed v m2 b \<and> vw_reach v m2 b = vw_reach v m1 b \<and> vw_value v m2 b = vw_value v m1 b"
    using assms by (intro frame) (auto simp: copy_of_def)
  with assms show ?thesis
    by (fastforce simp: copy_of_def)
qed

lemma copy_of_extends: "copy_of v m a fresh m1 b \<Longrightarrow> extends m1 m2 \<Longrightarrow> copy_of v m a fresh m2 b"
  by (erule copy_of_frame) (simp_all add: extends_def)

text \<open>After the copy, changes to the one leave the other as it was.\<close>

lemma independent:
  assumes "placed v m a" "copy a m = (b, m')"
  shows "vw_value v m' b = vw_value v m a"
    and "differs_inside (vw_reach v m' b) m' m'' \<Longrightarrow> vw_value v m'' a = vw_value v m a"
    and "differs_inside (vw_reach v m a) m' m'' \<Longrightarrow> vw_value v m'' b = vw_value v m a"
proof -
  have c: "extends m m'" "copy_of v m a (m_Next m) m' b"
    using copies [OF assms] by simp_all
  show "vw_value v m' b = vw_value v m a"
    using c by (simp add: copy_of_def)
  show "vw_value v m'' a = vw_value v m a" if d: "differs_inside (vw_reach v m' b) m' m''"
  proof -
    have "m_Cells m'' q = m_Cells m q" if "q \<in> vw_reach v m a" for q
    proof -
      have "q < m_Next m"
        using assms(1) that by (auto simp: placed_def)
      moreover from this have "q \<notin> vw_reach v m' b"
        using c(2) by (auto simp: copy_of_def)
      ultimately show ?thesis
        using c(1) d by (simp add: differs_inside_def extends_def)
    qed
    then show ?thesis
      using frame [of m a m''] assms(1) by (simp add: placed_def)
  qed
  show "vw_value v m'' b = vw_value v m a" if d: "differs_inside (vw_reach v m a) m' m''"
  proof -
    have "m_Cells m'' q = m_Cells m' q" if "q \<in> vw_reach v m' b" for q
    proof -
      have "\<not> q < m_Next m"
        using c(2) that by (auto simp: copy_of_def)
      then show ?thesis
        using d assms(1) by (auto simp: differs_inside_def placed_def)
    qed
    then show ?thesis
      using frame [of m' b m''] c(2) by (simp add: copy_of_def)
  qed
qed

subsubsection \<open>Pointers and slices\<close>

text \<open>A copy into an address that was reserved before it.\<close>

lemma copies_reserved:
  assumes "placed v m a" "copy a (reserve m) = (b, m1)"
  shows "extends m (assign (m_Next m) c m1) \<and> m_Next m < m_Next m1
      \<and> copy_of v m a (Suc (m_Next m)) (assign (m_Next m) c m1) b"
proof -
  have c: "extends (reserve m) m1" "copy_of v m a (Suc (m_Next m)) m1 b"
    using copies_later [OF assms(1) extends_reserve assms(2)] by simp_all
  then have "extends m m1" "m_Next m < m_Next m1"
    using extends_trans [OF extends_reserve c(1)] by (simp_all add: extends_def)
  then show ?thesis
    using copy_of_frame [OF c(2), of "assign (m_Next m) c m1"] by (simp add: extends_def)
qed

lemma mapped: "deep_copier copy (map_view f v)"
proof
  show "vw_typed (map_view f v) m' a \<and> vw_reach (map_view f v) m' a = vw_reach (map_view f v) m a
      \<and> vw_value (map_view f v) m' a = vw_value (map_view f v) m a"
    if "vw_typed (map_view f v) m a" "\<And>q. q \<in> vw_reach (map_view f v) m a \<Longrightarrow> m_Cells m' q = m_Cells m q" for m a m'
    using frame [of m a m'] that by (simp add: map_view_def)
  show "extends m m' \<and> copy_of (map_view f v) m a (m_Next m) m' b"
    if "placed (map_view f v) m a" "copy a m = (b, m')" for m a b m'
    using copies [of m a b m'] that by (simp add: map_view_def placed_def copy_of_def)
qed

lemma pointer:
  assumes project: "\<And>a. project (inject a) = Some a"
  shows "deep_copier (new_copy inject project copy) (pointer_view project v)"
proof
  show "vw_typed (pointer_view project v) m' p \<and> vw_reach (pointer_view project v) m' p = vw_reach (pointer_view project v) m p
      \<and> vw_value (pointer_view project v) m' p = vw_value (pointer_view project v) m p"
    if typed: "vw_typed (pointer_view project v) m p"
      and same: "\<And>q. q \<in> vw_reach (pointer_view project v) m p \<Longrightarrow> m_Cells m' q = m_Cells m q" for m p m'
  proof (cases p)
    case (Some q)
    with typed obtain a where a: "load project m q = Some a" "vw_typed v m a"
      by (auto simp: pointer_view_def split: option.splits)
    with same Some have "load project m' q = Some a" "\<And>r. r \<in> vw_reach v m a \<Longrightarrow> m_Cells m' r = m_Cells m r"
      by (auto simp: pointer_view_def load_def)
    with a frame [of m a m'] Some show ?thesis
      by (simp add: pointer_view_def)
  qed (simp add: pointer_view_def)
  show "extends m m' \<and> copy_of (pointer_view project v) m p (m_Next m) m' p'"
    if "placed (pointer_view project v) m p" and copied: "new_copy inject project copy p m = (p', m')" for m p p' m'
  proof (cases p)
    case (Some q)
    with that(1) obtain a where a: "load project m q = Some a" "placed v m a"
      by (auto simp: pointer_view_def placed_def split: option.splits)
    obtain b m1 where b: "copy a (reserve m) = (b, m1)"
      by fastforce
    with a copied Some have "p' = Some (m_Next m)" "m' = assign (m_Next m) (inject b) m1"
      by (simp_all add: new_copy_def Let_def split_def)
    with copies_reserved [OF a(2) b, of "inject b"] a Some show ?thesis
      by (auto simp: copy_of_def pointer_view_def project)
  qed (use copied in \<open>simp add: new_copy_def copy_of_def pointer_view_def\<close>)
qed

lemma placed_Cons: "placed (list_view v) m (a # as) \<longleftrightarrow> placed v m a \<and> placed (list_view v) m as"
  by (auto simp: placed_def list_view_def)

lemma list_frame:
  assumes "vw_typed (list_view v) m as" "\<And>q. q \<in> vw_reach (list_view v) m as \<Longrightarrow> m_Cells m' q = m_Cells m q"
  shows "vw_typed (list_view v) m' as \<and> vw_reach (list_view v) m' as = vw_reach (list_view v) m as
      \<and> vw_value (list_view v) m' as = vw_value (list_view v) m as"
proof -
  have "vw_typed v m' a \<and> vw_reach v m' a = vw_reach v m a \<and> vw_value v m' a = vw_value v m a" if "a \<in> set as" for a
    using assms that by (intro frame) (auto simp: list_view_def list_all_iff)
  then show ?thesis
    by (simp add: list_view_def list_all_iff)
qed

lemma copies_each:
  "placed (list_view v) m as \<Longrightarrow> copy_each copy as m = (bs, m') \<Longrightarrow>
   extends m m' \<and> copy_of (list_view v) m as (m_Next m) m' bs"
proof (induction as arbitrary: m bs)
  case Nil
  then show ?case
    by (simp add: copy_of_def list_view_def)
next
  case (Cons a as)
  obtain b m1 where b: "copy a m = (b, m1)"
    by fastforce
  obtain bs' where bs: "copy_each copy as m1 = (bs', m')" "bs = b # bs'"
    using Cons.prems(2) b by (auto simp: split_def Let_def prod_eq_iff)
  have one: "extends m m1" "copy_of v m a (m_Next m) m1 b"
    using copies [OF _ b] Cons.prems(1) by (simp_all add: placed_Cons)
  have "placed (list_view v) m as"
    using Cons.prems(1) by (simp add: placed_Cons)
  then have later: "vw_typed (list_view v) m1 as \<and> vw_reach (list_view v) m1 as = vw_reach (list_view v) m as
      \<and> vw_value (list_view v) m1 as = vw_value (list_view v) m as"
    using one(1) by (intro list_frame) (auto simp: placed_def extends_def)
  with \<open>placed (list_view v) m as\<close> one(1) have "placed (list_view v) m1 as"
    by (fastforce simp: placed_def extends_def)
  from Cons.IH [OF this bs(1)] have rest: "extends m1 m'" "copy_of (list_view v) m1 as (m_Next m1) m' bs'"
    by simp_all
  have "copy_of v m a (m_Next m) m' b"
    by (rule copy_of_extends [OF one(2) rest(1)])
  with rest(2) later one(1) bs(2) have "copy_of (list_view v) m (a # as) (m_Next m) m' bs"
    by (fastforce simp: copy_of_def list_view_def extends_def)
  with one(1) rest(1) show ?case
    using extends_trans by blast
qed

lemma each: "deep_copier (copy_each copy) (list_view v)"
  by unfold_locales (use list_frame copies_each in blast)+

lemma slice:
  assumes project: "\<And>as. project (inject as) = Some as"
  shows "deep_copier (make_copy inject project copy) (slice_view project v)"
proof
  show "vw_typed (slice_view project v) m' s \<and> vw_reach (slice_view project v) m' s = vw_reach (slice_view project v) m s
      \<and> vw_value (slice_view project v) m' s = vw_value (slice_view project v) m s"
    if typed: "vw_typed (slice_view project v) m s"
      and same: "\<And>q. q \<in> vw_reach (slice_view project v) m s \<Longrightarrow> m_Cells m' q = m_Cells m q" for m s m'
  proof (cases s)
    case (Some sl)
    with same have "load project m' (sl_Array sl) = load project m (sl_Array sl)"
        "\<And>q. q \<in> vw_reach (list_view v) m (elements project m sl) \<Longrightarrow> m_Cells m' q = m_Cells m q"
      by (simp_all add: slice_view_def load_def)
    with typed list_frame [of m "elements project m sl" m'] Some show ?thesis
      by (simp add: slice_view_def elements_def)
  qed (simp add: slice_view_def)
  show "extends m m' \<and> copy_of (slice_view project v) m s (m_Next m) m' s'"
    if "placed (slice_view project v) m s" and copied: "make_copy inject project copy s m = (s', m')" for m s s' m'
  proof (cases s)
    case (Some sl)
    with that(1) have "placed (list_view v) m (elements project m sl)" and len: "length (elements project m sl) = sl_Len sl"
      by (auto simp: slice_view_def placed_def elements_def split: option.splits)
    obtain bs m1 where bs: "copy_each copy (elements project m sl) (reserve m) = (bs, m1)"
      by fastforce
    then have "length bs = sl_Len sl"
      using len copy_each_length [of copy "elements project m sl" "reserve m"] by simp
    moreover have "s' = Some \<lparr>sl_Array = m_Next m, sl_Offset = 0, sl_Len = sl_Len sl\<rparr>" "m' = assign (m_Next m) (inject bs) m1"
      using copied Some bs by (simp_all add: make_copy_def Let_def split_def)
    ultimately show ?thesis
      using deep_copier.copies_reserved [OF each \<open>placed (list_view v) m (elements project m sl)\<close> bs, of "inject bs"] Some
      by (auto simp: copy_of_def slice_view_def elements_def project)
  qed (use copied in \<open>simp add: make_copy_def copy_of_def slice_view_def\<close>)
qed

subsubsection \<open>Structs\<close>

text \<open>
  The side conditions say that the field is none of those the struct copy has handled.
\<close>

lemma struct_field:
  assumes field: "deep_copier c w"
    and get_put: "\<And>b s. get (put b s) = b"
    and untouched: "\<And>s m. get (fst (copy s m)) = get s"
    and others: "\<And>m b s. vw_reach v m (put b s) = vw_reach v m s" "\<And>m b s. vw_typed v m (put b s) = vw_typed v m s"
      "\<And>m b s. vw_value v m (put b s) = vw_value v m s"
  shows "deep_copier (with_field get put c copy) (field_view get w v)"
proof
  show "vw_typed (field_view get w v) m' s \<and> vw_reach (field_view get w v) m' s = vw_reach (field_view get w v) m s
      \<and> vw_value (field_view get w v) m' s = vw_value (field_view get w v) m s"
    if "vw_typed (field_view get w v) m s"
      and "\<And>q. q \<in> vw_reach (field_view get w v) m s \<Longrightarrow> m_Cells m' q = m_Cells m q" for m s m'
    using that frame [of m s m'] deep_copier.frame [OF field, of m "get s" m'] by (simp add: field_view_def)
  show "extends m m' \<and> copy_of (field_view get w v) m s (m_Next m) m' s'"
    if placed: "placed (field_view get w v) m s"
      and copied: "with_field get put c copy s m = (s', m')" for m s s' m'
  proof -
    obtain s1 m1 where one: "copy s m = (s1, m1)"
      by fastforce
    obtain b where two: "c (get s) m1 = (b, m')" "s' = put b s1"
      using copied one by (auto simp: with_field_def split_def Let_def prod_eq_iff)
    have p: "placed v m s" "placed w m (get s)"
      using placed by (simp_all add: placed_def field_view_def)
    have base: "extends m m1" "copy_of v m s (m_Next m) m1 s1"
      using copies [OF p(1) one] by simp_all
    have fld: "extends m1 m'" "copy_of w m (get s) (m_Next m1) m' b"
      using deep_copier.copies_later [OF field p(2) base(1) two(1)] by simp_all
    have "copy_of v m s (m_Next m) m' s1"
      by (rule copy_of_extends [OF base(2) fld(1)])
    moreover have "m_Next m \<le> m_Next m1"
      using base(1) by (simp add: extends_def)
    ultimately have "copy_of (field_view get w v) m s (m_Next m) m' s'"
      using fld(2) two(2) by (fastforce simp: copy_of_def field_view_def get_put others)
    with extends_trans [OF base(1) fld(1)] show ?thesis
      by simp
  qed
qed

end

lemma deep_copier_scalar: "(\<And>s. g (f s) = g s) \<Longrightarrow> deep_copier (\<lambda>s m. (f s, m)) (scalar_view g)"
  by unfold_locales (auto simp: scalar_view_def copy_of_def)

text \<open>The copy of a value without pointers is the value.\<close>

interpretation scalar: deep_copier "\<lambda>a m. (a, m)" "scalar_view (\<lambda>a. a)"
  by (rule deep_copier_scalar) simp

end
