(* ===== verification/Api_Memory.thy ===== *)
theory Api_Memory
  imports Memory Api
begin

text \<open>
  The types of \<^verbatim>\<open>src/api/v1alpha1\<close> as Go lays them out in memory, with pointers and slices, and
  the objects a pointer to such a type or a slice of them leads to.
\<close>

subsection \<open>The API types in memory\<close>

text \<open>
  A pointer is an address and a slice a part of an array, each absent when nil. A type without pointers is its
  record of the API theory. The values of the apimachinery types are of a type of their own.
\<close>

record protocol_mem =
  mp_Version :: int
  mp_InitialEnrollment :: bytes
  mp_Renewal :: bytes
  mp_RequestedValidity :: bytes
  mp_RenewalFallback :: bytes
  mp_ValidationProfile :: bytes
  mp_KURResponseCAPubs :: bytes
  mp_P10CRResponseCertReqID :: "nat option"
  mp_MACResponseProtection :: bytes
  mp_SignatureDigest :: bytes
  mp_CertProfile :: bytes
  mp_Sender :: bytes
  mp_Recipient :: bytes
  mp_Confirmation :: bytes

record protection_mem =
  mr_Type :: bytes
  mr_PasswordBasedMac :: "nat option"
  mr_Signature :: "nat option"

record cmp_trust_mem =
  mu_CASecretRef :: secret_key_reference
  mu_SignerCertificatesSecretRef :: "nat option"

record tls_mem =
  ml_CASecretRef :: "nat option"
  ml_ClientCertificateSecretRef :: "nat option"

record transport_mem =
  mn_TLS :: "nat option"

record issuer_spec_mem =
  mi_Endpoint :: endpoint_spec
  mi_Protocol :: protocol_mem
  mi_Protection :: protection_mem
  mi_CMPTrust :: cmp_trust_mem
  mi_Transport :: transport_mem
  mi_Transaction :: transaction_limits
  mi_Policy :: policy_spec

record issuer_status_mem =
  mc_Conditions :: "slice option"

type_synonym type_meta = "bytes \<times> bytes"

text \<open>CMPIssuer and CMPClusterIssuer have the same fields, as do the three lists.\<close>

record 'x issuer_mem =
  mo_TypeMeta :: type_meta
  mo_ObjectMeta :: 'x
  mo_Spec :: issuer_spec_mem
  mo_Status :: issuer_status_mem

record 'x list_mem =
  me_TypeMeta :: type_meta
  me_ListMeta :: 'x
  me_Items :: "slice option"

record transaction_spec_mem =
  ms_CertificateRequestName :: bytes
  ms_CertificateRequestUID :: bytes
  ms_TransactionID :: "slice option"
  ms_Deadline :: time
  ms_CSRDigest :: bytes
  ms_IssuerRef :: "nat option"
  ms_ConfigurationDigest :: bytes
  ms_Operation :: bytes
  ms_RenewalFallback :: bytes
  ms_ProtocolVersion :: int

record transaction_status_mem =
  ma_Phase :: bytes
  ma_IssuedChain :: "slice option"
  ma_CompletionTime :: time
  ma_RecipNonce :: "slice option"
  ma_RequestNonce :: "slice option"
  ma_CertReqID :: "nat option"
  ma_ResponseSigner :: "slice option"
  ma_Polls :: int
  ma_LastTransitionTime :: time

record 'x transaction_mem =
  mx_TypeMeta :: type_meta
  mx_ObjectMeta :: 'x
  mx_Spec :: transaction_spec_mem
  mx_Status :: transaction_status_mem

text \<open>The objects of the memory: what a pointer to a type leads to, and the arrays behind slices.\<close>

datatype 'x cell =
    Int64Cell int
  | BytesCell bytes
  | ByteSlicesCell "slice option list"
  | ConditionsCell "'x list"
  | CMPIssuersCell "'x issuer_mem list"
  | CMPClusterIssuersCell "'x issuer_mem list"
  | CMPTransactionsCell "'x transaction_mem list"
  | CMPClusterIssuerCell "'x issuer_mem"
  | CMPClusterIssuerListCell "'x list_mem"
  | CMPIssuerCell "'x issuer_mem"
  | CMPIssuerListCell "'x list_mem"
  | CMPIssuerSpecCell issuer_spec_mem
  | CMPIssuerStatusCell issuer_status_mem
  | CMPTransactionCell "'x transaction_mem"
  | CMPTransactionListCell "'x list_mem"
  | CMPTransactionSpecCell transaction_spec_mem
  | CMPTransactionStatusCell transaction_status_mem
  | CMPTrustSpecCell cmp_trust_mem
  | EndpointSpecCell endpoint_spec
  | LocalSecretReferenceCell bytes
  | PasswordBasedMacAlgorithmSpecCell pbm_algorithm_spec
  | PasswordBasedMacSpecCell pbm_spec
  | PolicySpecCell policy_spec
  | ProtectionSpecCell protection_mem
  | ProtocolSpecCell protocol_mem
  | SecretKeyReferenceCell secret_key_reference
  | SignatureProtectionSpecCell signature_spec
  | TLSTransportSpecCell tls_mem
  | TransactionIssuerReferenceCell issuer_reference
  | TransactionSpecCell transaction_limits
  | TransportSpecCell transport_mem
  | MetaCell 'x

type_synonym ('x, 'a) api_copier = "('x cell, 'a) copier"

definition as_Int64 :: "'x cell \<Rightarrow> (int) option" where
  "as_Int64 c = (case c of Int64Cell a \<Rightarrow> Some a | _ \<Rightarrow> None)"
definition as_Bytes :: "'x cell \<Rightarrow> (bytes) option" where
  "as_Bytes c = (case c of BytesCell a \<Rightarrow> Some a | _ \<Rightarrow> None)"
definition as_ByteSlices :: "'x cell \<Rightarrow> (slice option list) option" where
  "as_ByteSlices c = (case c of ByteSlicesCell a \<Rightarrow> Some a | _ \<Rightarrow> None)"
definition as_Conditions :: "'x cell \<Rightarrow> ('x list) option" where
  "as_Conditions c = (case c of ConditionsCell a \<Rightarrow> Some a | _ \<Rightarrow> None)"
definition as_CMPIssuers :: "'x cell \<Rightarrow> ('x issuer_mem list) option" where
  "as_CMPIssuers c = (case c of CMPIssuersCell a \<Rightarrow> Some a | _ \<Rightarrow> None)"
definition as_CMPClusterIssuers :: "'x cell \<Rightarrow> ('x issuer_mem list) option" where
  "as_CMPClusterIssuers c = (case c of CMPClusterIssuersCell a \<Rightarrow> Some a | _ \<Rightarrow> None)"
definition as_CMPTransactions :: "'x cell \<Rightarrow> ('x transaction_mem list) option" where
  "as_CMPTransactions c = (case c of CMPTransactionsCell a \<Rightarrow> Some a | _ \<Rightarrow> None)"
definition as_CMPClusterIssuer :: "'x cell \<Rightarrow> ('x issuer_mem) option" where
  "as_CMPClusterIssuer c = (case c of CMPClusterIssuerCell a \<Rightarrow> Some a | _ \<Rightarrow> None)"
definition as_CMPClusterIssuerList :: "'x cell \<Rightarrow> ('x list_mem) option" where
  "as_CMPClusterIssuerList c = (case c of CMPClusterIssuerListCell a \<Rightarrow> Some a | _ \<Rightarrow> None)"
definition as_CMPIssuer :: "'x cell \<Rightarrow> ('x issuer_mem) option" where
  "as_CMPIssuer c = (case c of CMPIssuerCell a \<Rightarrow> Some a | _ \<Rightarrow> None)"
definition as_CMPIssuerList :: "'x cell \<Rightarrow> ('x list_mem) option" where
  "as_CMPIssuerList c = (case c of CMPIssuerListCell a \<Rightarrow> Some a | _ \<Rightarrow> None)"
definition as_CMPIssuerSpec :: "'x cell \<Rightarrow> (issuer_spec_mem) option" where
  "as_CMPIssuerSpec c = (case c of CMPIssuerSpecCell a \<Rightarrow> Some a | _ \<Rightarrow> None)"
definition as_CMPIssuerStatus :: "'x cell \<Rightarrow> (issuer_status_mem) option" where
  "as_CMPIssuerStatus c = (case c of CMPIssuerStatusCell a \<Rightarrow> Some a | _ \<Rightarrow> None)"
definition as_CMPTransaction :: "'x cell \<Rightarrow> ('x transaction_mem) option" where
  "as_CMPTransaction c = (case c of CMPTransactionCell a \<Rightarrow> Some a | _ \<Rightarrow> None)"
definition as_CMPTransactionList :: "'x cell \<Rightarrow> ('x list_mem) option" where
  "as_CMPTransactionList c = (case c of CMPTransactionListCell a \<Rightarrow> Some a | _ \<Rightarrow> None)"
definition as_CMPTransactionSpec :: "'x cell \<Rightarrow> (transaction_spec_mem) option" where
  "as_CMPTransactionSpec c = (case c of CMPTransactionSpecCell a \<Rightarrow> Some a | _ \<Rightarrow> None)"
definition as_CMPTransactionStatus :: "'x cell \<Rightarrow> (transaction_status_mem) option" where
  "as_CMPTransactionStatus c = (case c of CMPTransactionStatusCell a \<Rightarrow> Some a | _ \<Rightarrow> None)"
definition as_CMPTrustSpec :: "'x cell \<Rightarrow> (cmp_trust_mem) option" where
  "as_CMPTrustSpec c = (case c of CMPTrustSpecCell a \<Rightarrow> Some a | _ \<Rightarrow> None)"
definition as_EndpointSpec :: "'x cell \<Rightarrow> (endpoint_spec) option" where
  "as_EndpointSpec c = (case c of EndpointSpecCell a \<Rightarrow> Some a | _ \<Rightarrow> None)"
definition as_LocalSecretReference :: "'x cell \<Rightarrow> (bytes) option" where
  "as_LocalSecretReference c = (case c of LocalSecretReferenceCell a \<Rightarrow> Some a | _ \<Rightarrow> None)"
definition as_PasswordBasedMacAlgorithmSpec :: "'x cell \<Rightarrow> (pbm_algorithm_spec) option" where
  "as_PasswordBasedMacAlgorithmSpec c = (case c of PasswordBasedMacAlgorithmSpecCell a \<Rightarrow> Some a | _ \<Rightarrow> None)"
definition as_PasswordBasedMacSpec :: "'x cell \<Rightarrow> (pbm_spec) option" where
  "as_PasswordBasedMacSpec c = (case c of PasswordBasedMacSpecCell a \<Rightarrow> Some a | _ \<Rightarrow> None)"
definition as_PolicySpec :: "'x cell \<Rightarrow> (policy_spec) option" where
  "as_PolicySpec c = (case c of PolicySpecCell a \<Rightarrow> Some a | _ \<Rightarrow> None)"
definition as_ProtectionSpec :: "'x cell \<Rightarrow> (protection_mem) option" where
  "as_ProtectionSpec c = (case c of ProtectionSpecCell a \<Rightarrow> Some a | _ \<Rightarrow> None)"
definition as_ProtocolSpec :: "'x cell \<Rightarrow> (protocol_mem) option" where
  "as_ProtocolSpec c = (case c of ProtocolSpecCell a \<Rightarrow> Some a | _ \<Rightarrow> None)"
definition as_SecretKeyReference :: "'x cell \<Rightarrow> (secret_key_reference) option" where
  "as_SecretKeyReference c = (case c of SecretKeyReferenceCell a \<Rightarrow> Some a | _ \<Rightarrow> None)"
definition as_SignatureProtectionSpec :: "'x cell \<Rightarrow> (signature_spec) option" where
  "as_SignatureProtectionSpec c = (case c of SignatureProtectionSpecCell a \<Rightarrow> Some a | _ \<Rightarrow> None)"
definition as_TLSTransportSpec :: "'x cell \<Rightarrow> (tls_mem) option" where
  "as_TLSTransportSpec c = (case c of TLSTransportSpecCell a \<Rightarrow> Some a | _ \<Rightarrow> None)"
definition as_TransactionIssuerReference :: "'x cell \<Rightarrow> (issuer_reference) option" where
  "as_TransactionIssuerReference c = (case c of TransactionIssuerReferenceCell a \<Rightarrow> Some a | _ \<Rightarrow> None)"
definition as_TransactionSpec :: "'x cell \<Rightarrow> (transaction_limits) option" where
  "as_TransactionSpec c = (case c of TransactionSpecCell a \<Rightarrow> Some a | _ \<Rightarrow> None)"
definition as_TransportSpec :: "'x cell \<Rightarrow> (transport_mem) option" where
  "as_TransportSpec c = (case c of TransportSpecCell a \<Rightarrow> Some a | _ \<Rightarrow> None)"
definition as_Meta :: "'x cell \<Rightarrow> ('x) option" where
  "as_Meta c = (case c of MetaCell a \<Rightarrow> Some a | _ \<Rightarrow> None)"

lemma as_cell [simp]:
  "as_Int64 (Int64Cell a0) = Some a0"
  "as_Bytes (BytesCell a1) = Some a1"
  "as_ByteSlices (ByteSlicesCell a2) = Some a2"
  "as_Conditions (ConditionsCell a3) = Some a3"
  "as_CMPIssuers (CMPIssuersCell a4) = Some a4"
  "as_CMPClusterIssuers (CMPClusterIssuersCell a5) = Some a5"
  "as_CMPTransactions (CMPTransactionsCell a6) = Some a6"
  "as_CMPClusterIssuer (CMPClusterIssuerCell a7) = Some a7"
  "as_CMPClusterIssuerList (CMPClusterIssuerListCell a8) = Some a8"
  "as_CMPIssuer (CMPIssuerCell a9) = Some a9"
  "as_CMPIssuerList (CMPIssuerListCell a10) = Some a10"
  "as_CMPIssuerSpec (CMPIssuerSpecCell a11) = Some a11"
  "as_CMPIssuerStatus (CMPIssuerStatusCell a12) = Some a12"
  "as_CMPTransaction (CMPTransactionCell a13) = Some a13"
  "as_CMPTransactionList (CMPTransactionListCell a14) = Some a14"
  "as_CMPTransactionSpec (CMPTransactionSpecCell a15) = Some a15"
  "as_CMPTransactionStatus (CMPTransactionStatusCell a16) = Some a16"
  "as_CMPTrustSpec (CMPTrustSpecCell a17) = Some a17"
  "as_EndpointSpec (EndpointSpecCell a18) = Some a18"
  "as_LocalSecretReference (LocalSecretReferenceCell a19) = Some a19"
  "as_PasswordBasedMacAlgorithmSpec (PasswordBasedMacAlgorithmSpecCell a20) = Some a20"
  "as_PasswordBasedMacSpec (PasswordBasedMacSpecCell a21) = Some a21"
  "as_PolicySpec (PolicySpecCell a22) = Some a22"
  "as_ProtectionSpec (ProtectionSpecCell a23) = Some a23"
  "as_ProtocolSpec (ProtocolSpecCell a24) = Some a24"
  "as_SecretKeyReference (SecretKeyReferenceCell a25) = Some a25"
  "as_SignatureProtectionSpec (SignatureProtectionSpecCell a26) = Some a26"
  "as_TLSTransportSpec (TLSTransportSpecCell a27) = Some a27"
  "as_TransactionIssuerReference (TransactionIssuerReferenceCell a28) = Some a28"
  "as_TransactionSpec (TransactionSpecCell a29) = Some a29"
  "as_TransportSpec (TransportSpecCell a30) = Some a30"
  "as_Meta (MetaCell a31) = Some a31"
  by (simp_all add: as_Int64_def as_Bytes_def as_ByteSlices_def as_Conditions_def as_CMPIssuers_def as_CMPClusterIssuers_def as_CMPTransactions_def as_CMPClusterIssuer_def as_CMPClusterIssuerList_def as_CMPIssuer_def as_CMPIssuerList_def as_CMPIssuerSpec_def as_CMPIssuerStatus_def as_CMPTransaction_def as_CMPTransactionList_def as_CMPTransactionSpec_def as_CMPTransactionStatus_def as_CMPTrustSpec_def as_EndpointSpec_def as_LocalSecretReference_def as_PasswordBasedMacAlgorithmSpec_def as_PasswordBasedMacSpec_def as_PolicySpec_def as_ProtectionSpec_def as_ProtocolSpec_def as_SecretKeyReference_def as_SignatureProtectionSpec_def as_TLSTransportSpec_def as_TransactionIssuerReference_def as_TransactionSpec_def as_TransportSpec_def as_Meta_def)

end
