(* ===== verification/Deep_Copy.thy ===== *)
theory Deep_Copy
  imports Api_Memory
begin

text \<open>
  The generated deep copies of \<^verbatim>\<open>src/api/v1alpha1/zz_generated.deepcopy.go\<close>, over the memory of the theory
  Memory: \<^verbatim>\<open>DeepCopyInto\<close> as the struct it writes to \<^verbatim>\<open>out\<close>,
  \<^verbatim>\<open>DeepCopy\<close> and \<^verbatim>\<open>DeepCopyObject\<close>. The copies of
  ObjectMeta, ListMeta, Condition and Time belong to apimachinery and are parameters. The theorems say that a copy
  has the value of the original and that later changes to the one never show in the other.
\<close>

subsection \<open>Copies\<close>

record 'x meta_lib =
  dc_ObjectMeta :: "('x, 'x) api_copier"
  dc_ListMeta :: "('x, 'x) api_copier"
  dc_Condition :: "('x, 'x) api_copier"
  dc_Time :: "time \<Rightarrow> time"

text \<open>\<^verbatim>\<open>**out = **in\<close> for a type without pointers, and \<^verbatim>\<open>copy(*out, *in)\<close> for bytes.\<close>

definition plain_copy :: "('x, 'a) api_copier" where
  "plain_copy a m = (a, m)"

definition copy_bytes :: "('x, slice option) api_copier" where
  "copy_bytes = make_copy BytesCell as_Bytes plain_copy"

definition copy_int64 :: "('x, nat option) api_copier" where
  "copy_int64 = new_copy Int64Cell as_Int64 plain_copy"

text \<open>The structs without pointers.\<close>

definition EndpointSpec_DeepCopyInto :: "('x, endpoint_spec) api_copier" where
  "EndpointSpec_DeepCopyInto src m = (src\<lparr>ep_Timeout := ep_Timeout src\<rparr>, m)"

definition LocalSecretReference_DeepCopyInto :: "('x, bytes) api_copier" where
  "LocalSecretReference_DeepCopyInto src m = (src, m)"

definition PasswordBasedMacAlgorithmSpec_DeepCopyInto :: "('x, pbm_algorithm_spec) api_copier" where
  "PasswordBasedMacAlgorithmSpec_DeepCopyInto src m = (src, m)"

definition PasswordBasedMacSpec_DeepCopyInto :: "('x, pbm_spec) api_copier" where
  "PasswordBasedMacSpec_DeepCopyInto src m = (src\<lparr>pb_SecretRef := pb_SecretRef src, pb_Algorithm := pb_Algorithm src\<rparr>, m)"

definition PolicySpec_DeepCopyInto :: "('x, policy_spec) api_copier" where
  "PolicySpec_DeepCopyInto src m = (src, m)"

definition SecretKeyReference_DeepCopyInto :: "('x, secret_key_reference) api_copier" where
  "SecretKeyReference_DeepCopyInto src m = (src, m)"

definition SignatureProtectionSpec_DeepCopyInto :: "('x, signature_spec) api_copier" where
  "SignatureProtectionSpec_DeepCopyInto src m = (src\<lparr>sg_SecretRef := sg_SecretRef src\<rparr>, m)"

definition TransactionIssuerReference_DeepCopyInto :: "('x, issuer_reference) api_copier" where
  "TransactionIssuerReference_DeepCopyInto src m = (src, m)"

definition TransactionSpec_DeepCopyInto :: "('x, transaction_limits) api_copier" where
  "TransactionSpec_DeepCopyInto src m = (src\<lparr>tl_MaximumDuration := tl_MaximumDuration src, tl_MinimumPollInterval := tl_MinimumPollInterval src,
      tl_MaximumPollInterval := tl_MaximumPollInterval src\<rparr>, m)"

text \<open>The parts of the issuer spec.\<close>

definition ProtocolSpec_DeepCopyInto :: "('x, protocol_mem) api_copier" where
  "ProtocolSpec_DeepCopyInto src m =
     (let (certReqID, m1) = copy_int64 (mp_P10CRResponseCertReqID src) m
      in (src\<lparr>mp_P10CRResponseCertReqID := certReqID\<rparr>, m1))"

definition ProtectionSpec_DeepCopyInto :: "('x, protection_mem) api_copier" where
  "ProtectionSpec_DeepCopyInto src m =
     (let (password, m1) = new_copy PasswordBasedMacSpecCell as_PasswordBasedMacSpec plain_copy (mr_PasswordBasedMac src) m;
          (signature, m2) = new_copy SignatureProtectionSpecCell as_SignatureProtectionSpec plain_copy (mr_Signature src) m1
      in (src\<lparr>mr_PasswordBasedMac := password, mr_Signature := signature\<rparr>, m2))"

definition CMPTrustSpec_DeepCopyInto :: "('x, cmp_trust_mem) api_copier" where
  "CMPTrustSpec_DeepCopyInto src m =
     (let (signers, m1) = new_copy SecretKeyReferenceCell as_SecretKeyReference plain_copy (mu_SignerCertificatesSecretRef src) m
      in (src\<lparr>mu_CASecretRef := mu_CASecretRef src, mu_SignerCertificatesSecretRef := signers\<rparr>, m1))"

definition TLSTransportSpec_DeepCopyInto :: "('x, tls_mem) api_copier" where
  "TLSTransportSpec_DeepCopyInto src m =
     (let (ca, m1) = new_copy SecretKeyReferenceCell as_SecretKeyReference plain_copy (ml_CASecretRef src) m;
          (client, m2) = new_copy LocalSecretReferenceCell as_LocalSecretReference plain_copy (ml_ClientCertificateSecretRef src) m1
      in (src\<lparr>ml_CASecretRef := ca, ml_ClientCertificateSecretRef := client\<rparr>, m2))"

definition TransportSpec_DeepCopyInto :: "('x, transport_mem) api_copier" where
  "TransportSpec_DeepCopyInto src m =
     (let (tls, m1) = new_copy TLSTransportSpecCell as_TLSTransportSpec TLSTransportSpec_DeepCopyInto (mn_TLS src) m
      in (src\<lparr>mn_TLS := tls\<rparr>, m1))"

definition CMPIssuerSpec_DeepCopyInto :: "('x, issuer_spec_mem) api_copier" where
  "CMPIssuerSpec_DeepCopyInto src m =
     (let (protocol, m1) = ProtocolSpec_DeepCopyInto (mi_Protocol src) m;
          (protection, m2) = ProtectionSpec_DeepCopyInto (mi_Protection src) m1;
          (trust, m3) = CMPTrustSpec_DeepCopyInto (mi_CMPTrust src) m2;
          (transport, m4) = TransportSpec_DeepCopyInto (mi_Transport src) m3
      in (src\<lparr>mi_Endpoint := mi_Endpoint src, mi_Protocol := protocol, mi_Protection := protection,
           mi_CMPTrust := trust, mi_Transport := transport, mi_Transaction := mi_Transaction src,
           mi_Policy := mi_Policy src\<rparr>, m4))"

definition CMPIssuerStatus_DeepCopyInto :: "'x meta_lib \<Rightarrow> ('x, issuer_status_mem) api_copier" where
  "CMPIssuerStatus_DeepCopyInto lib src m =
     (let (conditions, m1) = make_copy ConditionsCell as_Conditions (dc_Condition lib) (mc_Conditions src) m
      in (src\<lparr>mc_Conditions := conditions\<rparr>, m1))"

definition CMPTransactionSpec_DeepCopyInto :: "'x meta_lib \<Rightarrow> ('x, transaction_spec_mem) api_copier" where
  "CMPTransactionSpec_DeepCopyInto lib src m =
     (let (transactionID, m1) = copy_bytes (ms_TransactionID src) m;
          deadline = dc_Time lib (ms_Deadline src);
          (issuerRef, m2) = new_copy TransactionIssuerReferenceCell as_TransactionIssuerReference plain_copy (ms_IssuerRef src) m1
      in (src\<lparr>ms_TransactionID := transactionID, ms_Deadline := deadline, ms_IssuerRef := issuerRef\<rparr>, m2))"

definition CMPTransactionStatus_DeepCopyInto :: "'x meta_lib \<Rightarrow> ('x, transaction_status_mem) api_copier" where
  "CMPTransactionStatus_DeepCopyInto lib src m =
     (let (chain, m1) = make_copy ByteSlicesCell as_ByteSlices copy_bytes (ma_IssuedChain src) m;
          completion = dc_Time lib (ma_CompletionTime src);
          (recipNonce, m2) = copy_bytes (ma_RecipNonce src) m1;
          (requestNonce, m3) = copy_bytes (ma_RequestNonce src) m2;
          (certReqID, m4) = copy_int64 (ma_CertReqID src) m3;
          (signer, m5) = copy_bytes (ma_ResponseSigner src) m4;
          transition = dc_Time lib (ma_LastTransitionTime src)
      in (src\<lparr>ma_IssuedChain := chain, ma_CompletionTime := completion, ma_RecipNonce := recipNonce,
           ma_RequestNonce := requestNonce, ma_CertReqID := certReqID, ma_ResponseSigner := signer,
           ma_LastTransitionTime := transition\<rparr>, m5))"

definition CMPIssuer_DeepCopyInto :: "'x meta_lib \<Rightarrow> ('x, 'x issuer_mem) api_copier" where
  "CMPIssuer_DeepCopyInto lib src m =
     (let (meta, m1) = dc_ObjectMeta lib (mo_ObjectMeta src) m;
          (spec, m2) = CMPIssuerSpec_DeepCopyInto (mo_Spec src) m1;
          (status, m3) = CMPIssuerStatus_DeepCopyInto lib (mo_Status src) m2
      in (src\<lparr>mo_TypeMeta := mo_TypeMeta src, mo_ObjectMeta := meta, mo_Spec := spec, mo_Status := status\<rparr>, m3))"

definition CMPClusterIssuer_DeepCopyInto :: "'x meta_lib \<Rightarrow> ('x, 'x issuer_mem) api_copier" where
  "CMPClusterIssuer_DeepCopyInto lib src m =
     (let (meta, m1) = dc_ObjectMeta lib (mo_ObjectMeta src) m;
          (spec, m2) = CMPIssuerSpec_DeepCopyInto (mo_Spec src) m1;
          (status, m3) = CMPIssuerStatus_DeepCopyInto lib (mo_Status src) m2
      in (src\<lparr>mo_TypeMeta := mo_TypeMeta src, mo_ObjectMeta := meta, mo_Spec := spec, mo_Status := status\<rparr>, m3))"

definition CMPTransaction_DeepCopyInto :: "'x meta_lib \<Rightarrow> ('x, 'x transaction_mem) api_copier" where
  "CMPTransaction_DeepCopyInto lib src m =
     (let (meta, m1) = dc_ObjectMeta lib (mx_ObjectMeta src) m;
          (spec, m2) = CMPTransactionSpec_DeepCopyInto lib (mx_Spec src) m1;
          (status, m3) = CMPTransactionStatus_DeepCopyInto lib (mx_Status src) m2
      in (src\<lparr>mx_TypeMeta := mx_TypeMeta src, mx_ObjectMeta := meta, mx_Spec := spec, mx_Status := status\<rparr>, m3))"

definition CMPIssuerList_DeepCopyInto :: "'x meta_lib \<Rightarrow> ('x, 'x list_mem) api_copier" where
  "CMPIssuerList_DeepCopyInto lib src m =
     (let (meta, m1) = dc_ListMeta lib (me_ListMeta src) m;
          (items, m2) = make_copy CMPIssuersCell as_CMPIssuers (CMPIssuer_DeepCopyInto lib) (me_Items src) m1
      in (src\<lparr>me_TypeMeta := me_TypeMeta src, me_ListMeta := meta, me_Items := items\<rparr>, m2))"

definition CMPClusterIssuerList_DeepCopyInto :: "'x meta_lib \<Rightarrow> ('x, 'x list_mem) api_copier" where
  "CMPClusterIssuerList_DeepCopyInto lib src m =
     (let (meta, m1) = dc_ListMeta lib (me_ListMeta src) m;
          (items, m2) = make_copy CMPClusterIssuersCell as_CMPClusterIssuers (CMPClusterIssuer_DeepCopyInto lib) (me_Items src) m1
      in (src\<lparr>me_TypeMeta := me_TypeMeta src, me_ListMeta := meta, me_Items := items\<rparr>, m2))"

definition CMPTransactionList_DeepCopyInto :: "'x meta_lib \<Rightarrow> ('x, 'x list_mem) api_copier" where
  "CMPTransactionList_DeepCopyInto lib src m =
     (let (meta, m1) = dc_ListMeta lib (me_ListMeta src) m;
          (items, m2) = make_copy CMPTransactionsCell as_CMPTransactions (CMPTransaction_DeepCopyInto lib) (me_Items src) m1
      in (src\<lparr>me_TypeMeta := me_TypeMeta src, me_ListMeta := meta, me_Items := items\<rparr>, m2))"

text \<open>\<^verbatim>\<open>DeepCopy\<close>: nil for nil, otherwise a new object that holds the copy.\<close>

definition CMPClusterIssuer_DeepCopy :: "'x meta_lib \<Rightarrow> ('x, nat option) api_copier" where
  "CMPClusterIssuer_DeepCopy lib = new_copy CMPClusterIssuerCell as_CMPClusterIssuer (CMPClusterIssuer_DeepCopyInto lib)"

definition CMPClusterIssuerList_DeepCopy :: "'x meta_lib \<Rightarrow> ('x, nat option) api_copier" where
  "CMPClusterIssuerList_DeepCopy lib = new_copy CMPClusterIssuerListCell as_CMPClusterIssuerList (CMPClusterIssuerList_DeepCopyInto lib)"

definition CMPIssuer_DeepCopy :: "'x meta_lib \<Rightarrow> ('x, nat option) api_copier" where
  "CMPIssuer_DeepCopy lib = new_copy CMPIssuerCell as_CMPIssuer (CMPIssuer_DeepCopyInto lib)"

definition CMPIssuerList_DeepCopy :: "'x meta_lib \<Rightarrow> ('x, nat option) api_copier" where
  "CMPIssuerList_DeepCopy lib = new_copy CMPIssuerListCell as_CMPIssuerList (CMPIssuerList_DeepCopyInto lib)"

definition CMPIssuerSpec_DeepCopy :: "('x, nat option) api_copier" where
  "CMPIssuerSpec_DeepCopy = new_copy CMPIssuerSpecCell as_CMPIssuerSpec CMPIssuerSpec_DeepCopyInto"

definition CMPIssuerStatus_DeepCopy :: "'x meta_lib \<Rightarrow> ('x, nat option) api_copier" where
  "CMPIssuerStatus_DeepCopy lib = new_copy CMPIssuerStatusCell as_CMPIssuerStatus (CMPIssuerStatus_DeepCopyInto lib)"

definition CMPTransaction_DeepCopy :: "'x meta_lib \<Rightarrow> ('x, nat option) api_copier" where
  "CMPTransaction_DeepCopy lib = new_copy CMPTransactionCell as_CMPTransaction (CMPTransaction_DeepCopyInto lib)"

definition CMPTransactionList_DeepCopy :: "'x meta_lib \<Rightarrow> ('x, nat option) api_copier" where
  "CMPTransactionList_DeepCopy lib = new_copy CMPTransactionListCell as_CMPTransactionList (CMPTransactionList_DeepCopyInto lib)"

definition CMPTransactionSpec_DeepCopy :: "'x meta_lib \<Rightarrow> ('x, nat option) api_copier" where
  "CMPTransactionSpec_DeepCopy lib = new_copy CMPTransactionSpecCell as_CMPTransactionSpec (CMPTransactionSpec_DeepCopyInto lib)"

definition CMPTransactionStatus_DeepCopy :: "'x meta_lib \<Rightarrow> ('x, nat option) api_copier" where
  "CMPTransactionStatus_DeepCopy lib = new_copy CMPTransactionStatusCell as_CMPTransactionStatus (CMPTransactionStatus_DeepCopyInto lib)"

definition CMPTrustSpec_DeepCopy :: "('x, nat option) api_copier" where
  "CMPTrustSpec_DeepCopy = new_copy CMPTrustSpecCell as_CMPTrustSpec CMPTrustSpec_DeepCopyInto"

definition EndpointSpec_DeepCopy :: "('x, nat option) api_copier" where
  "EndpointSpec_DeepCopy = new_copy EndpointSpecCell as_EndpointSpec EndpointSpec_DeepCopyInto"

definition LocalSecretReference_DeepCopy :: "('x, nat option) api_copier" where
  "LocalSecretReference_DeepCopy = new_copy LocalSecretReferenceCell as_LocalSecretReference LocalSecretReference_DeepCopyInto"

definition PasswordBasedMacAlgorithmSpec_DeepCopy :: "('x, nat option) api_copier" where
  "PasswordBasedMacAlgorithmSpec_DeepCopy = new_copy PasswordBasedMacAlgorithmSpecCell as_PasswordBasedMacAlgorithmSpec PasswordBasedMacAlgorithmSpec_DeepCopyInto"

definition PasswordBasedMacSpec_DeepCopy :: "('x, nat option) api_copier" where
  "PasswordBasedMacSpec_DeepCopy = new_copy PasswordBasedMacSpecCell as_PasswordBasedMacSpec PasswordBasedMacSpec_DeepCopyInto"

definition PolicySpec_DeepCopy :: "('x, nat option) api_copier" where
  "PolicySpec_DeepCopy = new_copy PolicySpecCell as_PolicySpec PolicySpec_DeepCopyInto"

definition ProtectionSpec_DeepCopy :: "('x, nat option) api_copier" where
  "ProtectionSpec_DeepCopy = new_copy ProtectionSpecCell as_ProtectionSpec ProtectionSpec_DeepCopyInto"

definition ProtocolSpec_DeepCopy :: "('x, nat option) api_copier" where
  "ProtocolSpec_DeepCopy = new_copy ProtocolSpecCell as_ProtocolSpec ProtocolSpec_DeepCopyInto"

definition SecretKeyReference_DeepCopy :: "('x, nat option) api_copier" where
  "SecretKeyReference_DeepCopy = new_copy SecretKeyReferenceCell as_SecretKeyReference SecretKeyReference_DeepCopyInto"

definition SignatureProtectionSpec_DeepCopy :: "('x, nat option) api_copier" where
  "SignatureProtectionSpec_DeepCopy = new_copy SignatureProtectionSpecCell as_SignatureProtectionSpec SignatureProtectionSpec_DeepCopyInto"

definition TLSTransportSpec_DeepCopy :: "('x, nat option) api_copier" where
  "TLSTransportSpec_DeepCopy = new_copy TLSTransportSpecCell as_TLSTransportSpec TLSTransportSpec_DeepCopyInto"

definition TransactionIssuerReference_DeepCopy :: "('x, nat option) api_copier" where
  "TransactionIssuerReference_DeepCopy = new_copy TransactionIssuerReferenceCell as_TransactionIssuerReference TransactionIssuerReference_DeepCopyInto"

definition TransactionSpec_DeepCopy :: "('x, nat option) api_copier" where
  "TransactionSpec_DeepCopy = new_copy TransactionSpecCell as_TransactionSpec TransactionSpec_DeepCopyInto"

definition TransportSpec_DeepCopy :: "('x, nat option) api_copier" where
  "TransportSpec_DeepCopy = new_copy TransportSpecCell as_TransportSpec TransportSpec_DeepCopyInto"

text \<open>A \<^verbatim>\<open>runtime.Object\<close> is a type with a pointer; it is nil when the copy is.\<close>

datatype runtime_object = CMPClusterIssuerObject nat | CMPClusterIssuerListObject nat
  | CMPIssuerObject nat | CMPIssuerListObject nat | CMPTransactionObject nat | CMPTransactionListObject nat

definition CMPClusterIssuer_DeepCopyObject :: "'x meta_lib \<Rightarrow> nat option \<Rightarrow> 'x cell memory \<Rightarrow> runtime_object option \<times> 'x cell memory" where
  "CMPClusterIssuer_DeepCopyObject lib src m =
     (let (c, m') = CMPClusterIssuer_DeepCopy lib src m
      in ((case c of Some p \<Rightarrow> Some (CMPClusterIssuerObject p) | None \<Rightarrow> None), m'))"

definition CMPClusterIssuerList_DeepCopyObject :: "'x meta_lib \<Rightarrow> nat option \<Rightarrow> 'x cell memory \<Rightarrow> runtime_object option \<times> 'x cell memory" where
  "CMPClusterIssuerList_DeepCopyObject lib src m =
     (let (c, m') = CMPClusterIssuerList_DeepCopy lib src m
      in ((case c of Some p \<Rightarrow> Some (CMPClusterIssuerListObject p) | None \<Rightarrow> None), m'))"

definition CMPIssuer_DeepCopyObject :: "'x meta_lib \<Rightarrow> nat option \<Rightarrow> 'x cell memory \<Rightarrow> runtime_object option \<times> 'x cell memory" where
  "CMPIssuer_DeepCopyObject lib src m =
     (let (c, m') = CMPIssuer_DeepCopy lib src m
      in ((case c of Some p \<Rightarrow> Some (CMPIssuerObject p) | None \<Rightarrow> None), m'))"

definition CMPIssuerList_DeepCopyObject :: "'x meta_lib \<Rightarrow> nat option \<Rightarrow> 'x cell memory \<Rightarrow> runtime_object option \<times> 'x cell memory" where
  "CMPIssuerList_DeepCopyObject lib src m =
     (let (c, m') = CMPIssuerList_DeepCopy lib src m
      in ((case c of Some p \<Rightarrow> Some (CMPIssuerListObject p) | None \<Rightarrow> None), m'))"

definition CMPTransaction_DeepCopyObject :: "'x meta_lib \<Rightarrow> nat option \<Rightarrow> 'x cell memory \<Rightarrow> runtime_object option \<times> 'x cell memory" where
  "CMPTransaction_DeepCopyObject lib src m =
     (let (c, m') = CMPTransaction_DeepCopy lib src m
      in ((case c of Some p \<Rightarrow> Some (CMPTransactionObject p) | None \<Rightarrow> None), m'))"

definition CMPTransactionList_DeepCopyObject :: "'x meta_lib \<Rightarrow> nat option \<Rightarrow> 'x cell memory \<Rightarrow> runtime_object option \<times> 'x cell memory" where
  "CMPTransactionList_DeepCopyObject lib src m =
     (let (c, m') = CMPTransactionList_DeepCopy lib src m
      in ((case c of Some p \<Rightarrow> Some (CMPTransactionListObject p) | None \<Rightarrow> None), m'))"

subsection \<open>Views of the API types\<close>

text \<open>What each type reaches, and the record of the API theory it stands for.\<close>

definition plain_pointer :: "('x cell \<Rightarrow> 'a option) \<Rightarrow> ('x cell, nat option, 'a option) view" where
  "plain_pointer project = pointer_view project (scalar_view (\<lambda>a. a))"

definition bytes_view :: "('x cell, slice option, bytes) view" where
  "bytes_view = slice_view as_Bytes (scalar_view (\<lambda>a. a))"

definition protocol_view :: "('x cell, protocol_mem, protocol_spec) view" where
  "protocol_view =
     map_view (\<lambda>(spec, certReqID). spec\<lparr>ps_P10CRResponseCertReqID := certReqID\<rparr>)
       (field_view mp_P10CRResponseCertReqID (plain_pointer as_Int64)
         (scalar_view (\<lambda>s. \<lparr>ps_Version = mp_Version s, ps_InitialEnrollment = mp_InitialEnrollment s,
            ps_Renewal = mp_Renewal s, ps_RequestedValidity = mp_RequestedValidity s,
            ps_RenewalFallback = mp_RenewalFallback s, ps_ValidationProfile = mp_ValidationProfile s,
            ps_KURResponseCAPubs = mp_KURResponseCAPubs s, ps_P10CRResponseCertReqID = None,
            ps_MACResponseProtection = mp_MACResponseProtection s, ps_SignatureDigest = mp_SignatureDigest s,
            ps_CertProfile = mp_CertProfile s, ps_Sender = mp_Sender s, ps_Recipient = mp_Recipient s,
            ps_Confirmation = mp_Confirmation s\<rparr>)))"

definition protection_view :: "('x cell, protection_mem, protection_spec) view" where
  "protection_view =
     map_view (\<lambda>((type, password), signature). \<lparr>pr_Type = type, pr_PasswordBasedMac = password, pr_Signature = signature\<rparr>)
       (field_view mr_Signature (plain_pointer as_SignatureProtectionSpec)
         (field_view mr_PasswordBasedMac (plain_pointer as_PasswordBasedMacSpec) (scalar_view mr_Type)))"

definition cmp_trust_view :: "('x cell, cmp_trust_mem, cmp_trust_spec) view" where
  "cmp_trust_view =
     map_view (\<lambda>(ca, signers). \<lparr>ct_CASecretRef = ca, ct_SignerCertificatesSecretRef = signers\<rparr>)
       (field_view mu_SignerCertificatesSecretRef (plain_pointer as_SecretKeyReference) (scalar_view mu_CASecretRef))"

definition tls_view :: "('x cell, tls_mem, tls_spec) view" where
  "tls_view =
     map_view (\<lambda>((_, ca), client). \<lparr>tls_CASecretRef = ca, tls_ClientCertificateSecretRef = client\<rparr>)
       (field_view ml_ClientCertificateSecretRef (plain_pointer as_LocalSecretReference)
         (field_view ml_CASecretRef (plain_pointer as_SecretKeyReference) (scalar_view (\<lambda>_. ()))))"

definition transport_view :: "('x cell, transport_mem, transport_spec) view" where
  "transport_view =
     map_view (\<lambda>(_, tls). \<lparr>trn_TLS = tls\<rparr>)
       (field_view mn_TLS (pointer_view as_TLSTransportSpec tls_view) (scalar_view (\<lambda>_. ())))"

definition issuer_spec_view :: "('x cell, issuer_spec_mem, cmp_issuer_spec) view" where
  "issuer_spec_view =
     map_view (\<lambda>(((((endpoint, transaction, policy), protocol), protection), trust), transport).
         \<lparr>is_Endpoint = endpoint, is_Protocol = protocol, is_Protection = protection, is_CMPTrust = trust,
          is_Transport = transport, is_Transaction = transaction, is_Policy = policy\<rparr>)
       (field_view mi_Transport transport_view (field_view mi_CMPTrust cmp_trust_view
         (field_view mi_Protection protection_view (field_view mi_Protocol protocol_view
           (scalar_view (\<lambda>s. (mi_Endpoint s, mi_Transaction s, mi_Policy s)))))))"

definition issuer_status_view :: "('x cell, 'x, 'v) view \<Rightarrow> ('x cell, issuer_status_mem, 'v list) view" where
  "issuer_status_view meta =
     map_view snd (field_view mc_Conditions (slice_view as_Conditions meta) (scalar_view (\<lambda>_. ())))"

definition transaction_spec_view :: "('x cell, transaction_spec_mem, cmp_transaction_spec) view" where
  "transaction_spec_view =
     map_view (\<lambda>((spec, transactionID), issuerRef). spec\<lparr>ts_TransactionID := transactionID, ts_IssuerRef := issuerRef\<rparr>)
       (field_view ms_IssuerRef (plain_pointer as_TransactionIssuerReference) (field_view ms_TransactionID bytes_view
         (scalar_view (\<lambda>s. \<lparr>ts_CertificateRequestName = ms_CertificateRequestName s,
            ts_CertificateRequestUID = ms_CertificateRequestUID s, ts_TransactionID = [], ts_Deadline = ms_Deadline s,
            ts_CSRDigest = ms_CSRDigest s, ts_IssuerRef = None, ts_ConfigurationDigest = ms_ConfigurationDigest s,
            ts_Operation = ms_Operation s, ts_RenewalFallback = ms_RenewalFallback s,
            ts_ProtocolVersion = ms_ProtocolVersion s\<rparr>))))"

definition transaction_status_view :: "('x cell, transaction_status_mem, cmp_transaction_status) view" where
  "transaction_status_view =
     map_view (\<lambda>(((((status, chain), recipNonce), requestNonce), certReqID), signer).
         status\<lparr>st_IssuedChain := chain, st_RecipNonce := recipNonce, st_RequestNonce := requestNonce,
           st_CertReqID := certReqID, st_ResponseSigner := signer\<rparr>)
       (field_view ma_ResponseSigner bytes_view (field_view ma_CertReqID (plain_pointer as_Int64)
         (field_view ma_RequestNonce bytes_view (field_view ma_RecipNonce bytes_view
           (field_view ma_IssuedChain (slice_view as_ByteSlices bytes_view)
             (scalar_view (\<lambda>s. \<lparr>st_Phase = ma_Phase s, st_IssuedChain = [], st_CompletionTime = ma_CompletionTime s,
                st_RecipNonce = [], st_RequestNonce = [], st_CertReqID = None, st_ResponseSigner = [],
                st_Polls = ma_Polls s, st_LastTransitionTime = ma_LastTransitionTime s\<rparr>)))))))"

definition issuer_view :: "('x cell, 'x, 'v) view
    \<Rightarrow> ('x cell, 'x issuer_mem, ((type_meta \<times> 'v) \<times> cmp_issuer_spec) \<times> 'v list) view" where
  "issuer_view meta =
     field_view mo_Status (issuer_status_view meta) (field_view mo_Spec issuer_spec_view
       (field_view mo_ObjectMeta meta (scalar_view mo_TypeMeta)))"

definition transaction_view :: "('x cell, 'x, 'v) view
    \<Rightarrow> ('x cell, 'x transaction_mem, ((type_meta \<times> 'v) \<times> cmp_transaction_spec) \<times> cmp_transaction_status) view" where
  "transaction_view meta =
     field_view mx_Status transaction_status_view (field_view mx_Spec transaction_spec_view
       (field_view mx_ObjectMeta meta (scalar_view mx_TypeMeta)))"

definition items_view :: "('x cell, 'x, 'v) view \<Rightarrow> ('x cell, slice option, 'w) view
    \<Rightarrow> ('x cell, 'x list_mem, (type_meta \<times> 'v) \<times> 'w) view" where
  "items_view meta items = field_view me_Items items (field_view me_ListMeta meta (scalar_view me_TypeMeta))"

text \<open>
  What the copies of apimachinery are documented to do: each is a deep copy with respect to a view of its values,
  and a Time is copied as a value.
\<close>

definition meta_contract :: "'x meta_lib \<Rightarrow> ('x cell, 'x, 'v) view \<Rightarrow> bool" where
  "meta_contract lib meta \<longleftrightarrow>
     deep_copier (dc_ObjectMeta lib) meta \<and> deep_copier (dc_ListMeta lib) meta \<and> deep_copier (dc_Condition lib) meta
     \<and> (\<forall>t. dc_Time lib t = t)"

subsection \<open>Every copy is deep\<close>

lemma plain_copier: "deep_copier plain_copy (scalar_view (\<lambda>a. a))"
  unfolding plain_copy_def by (rule deep_copier_scalar) simp

lemma plain_pointer_copier:
  "(\<And>a. project (inject a) = Some a) \<Longrightarrow> deep_copier (new_copy inject project plain_copy) (plain_pointer project)"
  unfolding plain_pointer_def by (rule deep_copier.pointer [OF plain_copier])

interpretation bytes: deep_copier copy_bytes bytes_view
  unfolding copy_bytes_def bytes_view_def by (rule deep_copier.slice [OF plain_copier]) simp

interpretation int64: deep_copier copy_int64 "plain_pointer as_Int64"
  unfolding copy_int64_def by (rule plain_pointer_copier) simp

lemmas struct_simps = with_field_def view_defs Let_def split_def

lemmas struct_intros = deep_copier.mapped deep_copier.struct_field deep_copier_scalar

interpretation protocol: deep_copier ProtocolSpec_DeepCopyInto protocol_view
proof -
  have eq: "ProtocolSpec_DeepCopyInto =
      with_field mp_P10CRResponseCertReqID (\<lambda>b s. s\<lparr>mp_P10CRResponseCertReqID := b\<rparr>) copy_int64
      (\<lambda>s m. (s, m))"
    by (simp add: fun_eq_iff ProtocolSpec_DeepCopyInto_def struct_simps)
  show "deep_copier ProtocolSpec_DeepCopyInto protocol_view"
    unfolding eq protocol_view_def
    by (intro struct_intros int64.deep_copier_axioms) (simp_all add: struct_simps)
qed

interpretation protection: deep_copier ProtectionSpec_DeepCopyInto protection_view
proof -
  have eq: "ProtectionSpec_DeepCopyInto =
      with_field mr_Signature (\<lambda>b s. s\<lparr>mr_Signature := b\<rparr>) (new_copy SignatureProtectionSpecCell as_SignatureProtectionSpec plain_copy)
      (with_field mr_PasswordBasedMac (\<lambda>b s. s\<lparr>mr_PasswordBasedMac := b\<rparr>) (new_copy PasswordBasedMacSpecCell as_PasswordBasedMacSpec plain_copy)
      (\<lambda>s m. (s, m)))"
    by (simp add: fun_eq_iff ProtectionSpec_DeepCopyInto_def struct_simps)
  show "deep_copier ProtectionSpec_DeepCopyInto protection_view"
    unfolding eq protection_view_def
    by (intro struct_intros plain_pointer_copier) (simp_all add: struct_simps)
qed

interpretation cmp_trust: deep_copier CMPTrustSpec_DeepCopyInto cmp_trust_view
proof -
  have eq: "CMPTrustSpec_DeepCopyInto =
      with_field mu_SignerCertificatesSecretRef (\<lambda>b s. s\<lparr>mu_SignerCertificatesSecretRef := b\<rparr>) (new_copy SecretKeyReferenceCell as_SecretKeyReference plain_copy)
      (\<lambda>s m. (s, m))"
    by (simp add: fun_eq_iff CMPTrustSpec_DeepCopyInto_def struct_simps)
  show "deep_copier CMPTrustSpec_DeepCopyInto cmp_trust_view"
    unfolding eq cmp_trust_view_def
    by (intro struct_intros plain_pointer_copier) (simp_all add: struct_simps)
qed

interpretation tls: deep_copier TLSTransportSpec_DeepCopyInto tls_view
proof -
  have eq: "TLSTransportSpec_DeepCopyInto =
      with_field ml_ClientCertificateSecretRef (\<lambda>b s. s\<lparr>ml_ClientCertificateSecretRef := b\<rparr>) (new_copy LocalSecretReferenceCell as_LocalSecretReference plain_copy)
      (with_field ml_CASecretRef (\<lambda>b s. s\<lparr>ml_CASecretRef := b\<rparr>) (new_copy SecretKeyReferenceCell as_SecretKeyReference plain_copy)
      (\<lambda>s m. (s, m)))"
    by (simp add: fun_eq_iff TLSTransportSpec_DeepCopyInto_def struct_simps)
  show "deep_copier TLSTransportSpec_DeepCopyInto tls_view"
    unfolding eq tls_view_def
    by (intro struct_intros plain_pointer_copier) (simp_all add: struct_simps)
qed

interpretation transport: deep_copier TransportSpec_DeepCopyInto transport_view
proof -
  have eq: "TransportSpec_DeepCopyInto =
      with_field mn_TLS (\<lambda>b s. s\<lparr>mn_TLS := b\<rparr>) (new_copy TLSTransportSpecCell as_TLSTransportSpec TLSTransportSpec_DeepCopyInto)
      (\<lambda>s m. (s, m))"
    by (simp add: fun_eq_iff TransportSpec_DeepCopyInto_def struct_simps)
  show "deep_copier TransportSpec_DeepCopyInto transport_view"
    unfolding eq transport_view_def
    by (intro struct_intros tls.pointer) (simp_all add: struct_simps)
qed

interpretation issuer_spec: deep_copier CMPIssuerSpec_DeepCopyInto issuer_spec_view
proof -
  have eq: "CMPIssuerSpec_DeepCopyInto =
      with_field mi_Transport (\<lambda>b s. s\<lparr>mi_Transport := b\<rparr>) TransportSpec_DeepCopyInto
      (with_field mi_CMPTrust (\<lambda>b s. s\<lparr>mi_CMPTrust := b\<rparr>) CMPTrustSpec_DeepCopyInto
      (with_field mi_Protection (\<lambda>b s. s\<lparr>mi_Protection := b\<rparr>) ProtectionSpec_DeepCopyInto
      (with_field mi_Protocol (\<lambda>b s. s\<lparr>mi_Protocol := b\<rparr>) ProtocolSpec_DeepCopyInto
      (\<lambda>s m. (s, m)))))"
    by (simp add: fun_eq_iff CMPIssuerSpec_DeepCopyInto_def struct_simps)
  show "deep_copier CMPIssuerSpec_DeepCopyInto issuer_spec_view"
    unfolding eq issuer_spec_view_def
    by (intro struct_intros protocol.deep_copier_axioms protection.deep_copier_axioms
      cmp_trust.deep_copier_axioms transport.deep_copier_axioms) (simp_all add: struct_simps)
qed

lemma meta_contractD:
  assumes "meta_contract lib meta"
  shows "deep_copier (dc_ObjectMeta lib) meta" "deep_copier (dc_ListMeta lib) meta" "deep_copier (dc_Condition lib) meta"
    "dc_Time lib t = t"
  using assms by (simp_all add: meta_contract_def)

lemma CMPIssuerStatus_copier:
  assumes "meta_contract lib meta"
  shows "deep_copier (CMPIssuerStatus_DeepCopyInto lib) (issuer_status_view meta)"
proof -
  have eq: "CMPIssuerStatus_DeepCopyInto lib =
      with_field mc_Conditions (\<lambda>b s. s\<lparr>mc_Conditions := b\<rparr>) (make_copy ConditionsCell as_Conditions (dc_Condition lib))
      (\<lambda>s m. (s, m))"
    by (simp add: fun_eq_iff CMPIssuerStatus_DeepCopyInto_def struct_simps meta_contractD [OF assms])
  show ?thesis
    unfolding eq issuer_status_view_def
    by (intro struct_intros deep_copier.slice meta_contractD [OF assms]) (simp_all add: struct_simps)
qed

lemma CMPTransactionSpec_copier:
  assumes "meta_contract lib meta"
  shows "deep_copier (CMPTransactionSpec_DeepCopyInto lib) transaction_spec_view"
proof -
  have eq: "CMPTransactionSpec_DeepCopyInto lib =
      with_field ms_IssuerRef (\<lambda>b s. s\<lparr>ms_IssuerRef := b\<rparr>) (new_copy TransactionIssuerReferenceCell as_TransactionIssuerReference plain_copy)
      (with_field ms_TransactionID (\<lambda>b s. s\<lparr>ms_TransactionID := b\<rparr>) copy_bytes
      (\<lambda>s m. (s, m)))"
    by (simp add: fun_eq_iff CMPTransactionSpec_DeepCopyInto_def struct_simps meta_contractD [OF assms])
  show ?thesis
    unfolding eq transaction_spec_view_def
    by (intro struct_intros plain_pointer_copier bytes.deep_copier_axioms) (simp_all add: struct_simps)
qed

lemma CMPTransactionStatus_copier:
  assumes "meta_contract lib meta"
  shows "deep_copier (CMPTransactionStatus_DeepCopyInto lib) transaction_status_view"
proof -
  have eq: "CMPTransactionStatus_DeepCopyInto lib =
      with_field ma_ResponseSigner (\<lambda>b s. s\<lparr>ma_ResponseSigner := b\<rparr>) copy_bytes
      (with_field ma_CertReqID (\<lambda>b s. s\<lparr>ma_CertReqID := b\<rparr>) copy_int64
      (with_field ma_RequestNonce (\<lambda>b s. s\<lparr>ma_RequestNonce := b\<rparr>) copy_bytes
      (with_field ma_RecipNonce (\<lambda>b s. s\<lparr>ma_RecipNonce := b\<rparr>) copy_bytes
      (with_field ma_IssuedChain (\<lambda>b s. s\<lparr>ma_IssuedChain := b\<rparr>) (make_copy ByteSlicesCell as_ByteSlices copy_bytes)
      (\<lambda>s m. (s, m))))))"
    by (simp add: fun_eq_iff CMPTransactionStatus_DeepCopyInto_def struct_simps meta_contractD [OF assms])
  show ?thesis
    unfolding eq transaction_status_view_def
    by (intro struct_intros bytes.deep_copier_axioms int64.deep_copier_axioms bytes.slice) (simp_all add: struct_simps)
qed

lemma CMPIssuer_copier:
  assumes "meta_contract lib meta"
  shows "deep_copier (CMPIssuer_DeepCopyInto lib) (issuer_view meta)"
proof -
  have eq: "CMPIssuer_DeepCopyInto lib =
      with_field mo_Status (\<lambda>b s. s\<lparr>mo_Status := b\<rparr>) (CMPIssuerStatus_DeepCopyInto lib)
      (with_field mo_Spec (\<lambda>b s. s\<lparr>mo_Spec := b\<rparr>) CMPIssuerSpec_DeepCopyInto
      (with_field mo_ObjectMeta (\<lambda>b s. s\<lparr>mo_ObjectMeta := b\<rparr>) (dc_ObjectMeta lib)
      (\<lambda>s m. (s, m))))"
    by (simp add: fun_eq_iff CMPIssuer_DeepCopyInto_def struct_simps meta_contractD [OF assms])
  show ?thesis
    unfolding eq issuer_view_def
    by (intro struct_intros meta_contractD [OF assms] issuer_spec.deep_copier_axioms CMPIssuerStatus_copier [OF assms]) (simp_all add: struct_simps)
qed

lemma CMPTransaction_copier:
  assumes "meta_contract lib meta"
  shows "deep_copier (CMPTransaction_DeepCopyInto lib) (transaction_view meta)"
proof -
  have eq: "CMPTransaction_DeepCopyInto lib =
      with_field mx_Status (\<lambda>b s. s\<lparr>mx_Status := b\<rparr>) (CMPTransactionStatus_DeepCopyInto lib)
      (with_field mx_Spec (\<lambda>b s. s\<lparr>mx_Spec := b\<rparr>) (CMPTransactionSpec_DeepCopyInto lib)
      (with_field mx_ObjectMeta (\<lambda>b s. s\<lparr>mx_ObjectMeta := b\<rparr>) (dc_ObjectMeta lib)
      (\<lambda>s m. (s, m))))"
    by (simp add: fun_eq_iff CMPTransaction_DeepCopyInto_def struct_simps meta_contractD [OF assms])
  show ?thesis
    unfolding eq transaction_view_def
    by (intro struct_intros meta_contractD [OF assms] CMPTransactionSpec_copier [OF assms] CMPTransactionStatus_copier [OF assms]) (simp_all add: struct_simps)
qed

text \<open>The two kinds of issuer are copied alike.\<close>

lemma CMPClusterIssuer_copier: "meta_contract lib meta \<Longrightarrow> deep_copier (CMPClusterIssuer_DeepCopyInto lib) (issuer_view meta)"
  using CMPIssuer_copier [of lib meta] unfolding CMPClusterIssuer_DeepCopyInto_def CMPIssuer_DeepCopyInto_def .

lemma items_copier:
  assumes "meta_contract lib meta" "deep_copier items w"
    and "\<And>src m. copy src m = (let (x, m1) = dc_ListMeta lib (me_ListMeta src) m; (is, m2) = items (me_Items src) m1
      in (src\<lparr>me_TypeMeta := me_TypeMeta src, me_ListMeta := x, me_Items := is\<rparr>, m2))"
  shows "deep_copier copy (items_view meta w)"
proof -
  have eq: "copy = with_field me_Items (\<lambda>b s. s\<lparr>me_Items := b\<rparr>) items
      (with_field me_ListMeta (\<lambda>b s. s\<lparr>me_ListMeta := b\<rparr>) (dc_ListMeta lib) (\<lambda>s m. (s, m)))"
    by (simp add: fun_eq_iff assms(3) struct_simps)
  show ?thesis
    unfolding eq items_view_def
    by (intro struct_intros assms(2) meta_contractD [OF assms(1)]) (simp_all add: struct_simps)
qed

lemma CMPIssuerList_copier:
  assumes "meta_contract lib meta"
  shows "deep_copier (CMPIssuerList_DeepCopyInto lib) (items_view meta (slice_view as_CMPIssuers (issuer_view meta)))"
  by (rule items_copier [OF assms deep_copier.slice [OF CMPIssuer_copier [OF assms]]]) (simp_all add: CMPIssuerList_DeepCopyInto_def)

lemma CMPClusterIssuerList_copier:
  assumes "meta_contract lib meta"
  shows "deep_copier (CMPClusterIssuerList_DeepCopyInto lib) (items_view meta (slice_view as_CMPClusterIssuers (issuer_view meta)))"
  by (rule items_copier [OF assms deep_copier.slice [OF CMPClusterIssuer_copier [OF assms]]]) (simp_all add: CMPClusterIssuerList_DeepCopyInto_def)

lemma CMPTransactionList_copier:
  assumes "meta_contract lib meta"
  shows "deep_copier (CMPTransactionList_DeepCopyInto lib) (items_view meta (slice_view as_CMPTransactions (transaction_view meta)))"
  by (rule items_copier [OF assms deep_copier.slice [OF CMPTransaction_copier [OF assms]]]) (simp_all add: CMPTransactionList_DeepCopyInto_def)

text \<open>The structs without pointers, and every \<^verbatim>\<open>DeepCopy\<close>.\<close>

lemma plain_struct_copiers:
  "deep_copier EndpointSpec_DeepCopyInto (scalar_view (\<lambda>a. a))"
  "deep_copier LocalSecretReference_DeepCopyInto (scalar_view (\<lambda>a. a))"
  "deep_copier PasswordBasedMacAlgorithmSpec_DeepCopyInto (scalar_view (\<lambda>a. a))"
  "deep_copier PasswordBasedMacSpec_DeepCopyInto (scalar_view (\<lambda>a. a))"
  "deep_copier PolicySpec_DeepCopyInto (scalar_view (\<lambda>a. a))"
  "deep_copier SecretKeyReference_DeepCopyInto (scalar_view (\<lambda>a. a))"
  "deep_copier SignatureProtectionSpec_DeepCopyInto (scalar_view (\<lambda>a. a))"
  "deep_copier TransactionIssuerReference_DeepCopyInto (scalar_view (\<lambda>a. a))"
  "deep_copier TransactionSpec_DeepCopyInto (scalar_view (\<lambda>a. a))"
  unfolding EndpointSpec_DeepCopyInto_def
    LocalSecretReference_DeepCopyInto_def
    PasswordBasedMacAlgorithmSpec_DeepCopyInto_def
    PasswordBasedMacSpec_DeepCopyInto_def
    PolicySpec_DeepCopyInto_def
    SecretKeyReference_DeepCopyInto_def
    SignatureProtectionSpec_DeepCopyInto_def
    TransactionIssuerReference_DeepCopyInto_def
    TransactionSpec_DeepCopyInto_def
  by (rule deep_copier_scalar; simp)+

lemma plain_DeepCopy_copiers:
  "deep_copier EndpointSpec_DeepCopy (plain_pointer as_EndpointSpec)"
  "deep_copier LocalSecretReference_DeepCopy (plain_pointer as_LocalSecretReference)"
  "deep_copier PasswordBasedMacAlgorithmSpec_DeepCopy (plain_pointer as_PasswordBasedMacAlgorithmSpec)"
  "deep_copier PasswordBasedMacSpec_DeepCopy (plain_pointer as_PasswordBasedMacSpec)"
  "deep_copier PolicySpec_DeepCopy (plain_pointer as_PolicySpec)"
  "deep_copier SecretKeyReference_DeepCopy (plain_pointer as_SecretKeyReference)"
  "deep_copier SignatureProtectionSpec_DeepCopy (plain_pointer as_SignatureProtectionSpec)"
  "deep_copier TransactionIssuerReference_DeepCopy (plain_pointer as_TransactionIssuerReference)"
  "deep_copier TransactionSpec_DeepCopy (plain_pointer as_TransactionSpec)"
  unfolding plain_pointer_def EndpointSpec_DeepCopy_def
    LocalSecretReference_DeepCopy_def
    PasswordBasedMacAlgorithmSpec_DeepCopy_def
    PasswordBasedMacSpec_DeepCopy_def
    PolicySpec_DeepCopy_def
    SecretKeyReference_DeepCopy_def
    SignatureProtectionSpec_DeepCopy_def
    TransactionIssuerReference_DeepCopy_def
    TransactionSpec_DeepCopy_def
  by (rule deep_copier.pointer, rule plain_struct_copiers, simp)+

lemma struct_DeepCopy_copiers:
  "deep_copier ProtocolSpec_DeepCopy (pointer_view as_ProtocolSpec protocol_view)"
  "deep_copier ProtectionSpec_DeepCopy (pointer_view as_ProtectionSpec protection_view)"
  "deep_copier CMPTrustSpec_DeepCopy (pointer_view as_CMPTrustSpec cmp_trust_view)"
  "deep_copier TLSTransportSpec_DeepCopy (pointer_view as_TLSTransportSpec tls_view)"
  "deep_copier TransportSpec_DeepCopy (pointer_view as_TransportSpec transport_view)"
  "deep_copier CMPIssuerSpec_DeepCopy (pointer_view as_CMPIssuerSpec issuer_spec_view)"
  unfolding ProtocolSpec_DeepCopy_def ProtectionSpec_DeepCopy_def CMPTrustSpec_DeepCopy_def
    TLSTransportSpec_DeepCopy_def TransportSpec_DeepCopy_def CMPIssuerSpec_DeepCopy_def
  by (rule protocol.pointer protection.pointer cmp_trust.pointer
      tls.pointer transport.pointer issuer_spec.pointer, simp)+

lemma object_DeepCopy_copiers:
  assumes "meta_contract lib meta"
  shows "deep_copier (CMPIssuerStatus_DeepCopy lib) (pointer_view as_CMPIssuerStatus (issuer_status_view meta))"
    "deep_copier (CMPTransactionSpec_DeepCopy lib) (pointer_view as_CMPTransactionSpec transaction_spec_view)"
    "deep_copier (CMPTransactionStatus_DeepCopy lib) (pointer_view as_CMPTransactionStatus transaction_status_view)"
    "deep_copier (CMPIssuer_DeepCopy lib) (pointer_view as_CMPIssuer (issuer_view meta))"
    "deep_copier (CMPClusterIssuer_DeepCopy lib) (pointer_view as_CMPClusterIssuer (issuer_view meta))"
    "deep_copier (CMPTransaction_DeepCopy lib) (pointer_view as_CMPTransaction (transaction_view meta))"
    "deep_copier (CMPIssuerList_DeepCopy lib) (pointer_view as_CMPIssuerList (items_view meta (slice_view as_CMPIssuers (issuer_view meta))))"
    "deep_copier (CMPClusterIssuerList_DeepCopy lib) (pointer_view as_CMPClusterIssuerList (items_view meta (slice_view as_CMPClusterIssuers (issuer_view meta))))"
    "deep_copier (CMPTransactionList_DeepCopy lib) (pointer_view as_CMPTransactionList (items_view meta (slice_view as_CMPTransactions (transaction_view meta))))"
  unfolding CMPIssuerStatus_DeepCopy_def
    CMPTransactionSpec_DeepCopy_def
    CMPTransactionStatus_DeepCopy_def
    CMPIssuer_DeepCopy_def
    CMPClusterIssuer_DeepCopy_def
    CMPTransaction_DeepCopy_def
    CMPIssuerList_DeepCopy_def
    CMPClusterIssuerList_DeepCopy_def
    CMPTransactionList_DeepCopy_def
  by (rule deep_copier.pointer, rule CMPIssuerStatus_copier [OF assms]
      CMPTransactionSpec_copier [OF assms]
      CMPTransactionStatus_copier [OF assms]
      CMPIssuer_copier [OF assms]
      CMPClusterIssuer_copier [OF assms]
      CMPTransaction_copier [OF assms]
      CMPIssuerList_copier [OF assms]
      CMPClusterIssuerList_copier [OF assms]
      CMPTransactionList_copier [OF assms], simp)+

text \<open>
  The accessors of the issuers. The conditions returned are the slice of the issuer itself, so a copy of the issuer
  returns the same conditions in an array of its own.
\<close>

definition CMPIssuer_GetConditions :: "'x issuer_mem \<Rightarrow> slice option" where
  "CMPIssuer_GetConditions i = mc_Conditions (mo_Status i)"

definition CMPIssuer_GetIssuerTypeIdentifier :: "'x issuer_mem \<Rightarrow> bytes" where
  "CMPIssuer_GetIssuerTypeIdentifier i = ''cmpissuers.certmanager.misiektoja.github.io''"

definition CMPClusterIssuer_GetConditions :: "'x issuer_mem \<Rightarrow> slice option" where
  "CMPClusterIssuer_GetConditions i = mc_Conditions (mo_Status i)"

definition CMPClusterIssuer_GetIssuerTypeIdentifier :: "'x issuer_mem \<Rightarrow> bytes" where
  "CMPClusterIssuer_GetIssuerTypeIdentifier i = ''cmpclusterissuers.certmanager.misiektoja.github.io''"

lemma GetConditions_copied:
  assumes "meta_contract lib meta" "placed (issuer_view meta) m i" "CMPIssuer_DeepCopyInto lib i m = (i', m')"
  shows "copy_of (slice_view as_Conditions meta) m (CMPIssuer_GetConditions i) (m_Next m) m' (CMPIssuer_GetConditions i')"
  using deep_copier.copies [OF CMPIssuer_copier [OF assms(1)] assms(2,3)]
  by (simp add: copy_of_def issuer_view_def issuer_status_view_def map_view_def field_view_def CMPIssuer_GetConditions_def)

subsection \<open>Copies are independent\<close>

definition transaction_pointer ::
    "('x cell, 'x, 'v) view \<Rightarrow> ('x cell, nat option, (((type_meta \<times> 'v) \<times> cmp_transaction_spec) \<times> cmp_transaction_status) option) view" where
  "transaction_pointer meta = pointer_view as_CMPTransaction (transaction_view meta)"

definition issuer_list_pointer ::
    "('x cell, 'x, 'v) view \<Rightarrow> ('x cell, nat option,
       ((type_meta \<times> 'v) \<times> (((type_meta \<times> 'v) \<times> cmp_issuer_spec) \<times> 'v list) list) option) view" where
  "issuer_list_pointer meta = pointer_view as_CMPIssuerList (items_view meta (slice_view as_CMPIssuers (issuer_view meta)))"

lemma new_copy_fresh:
  assumes "placed (pointer_view project v) m (Some p)" "new_copy inject project copy (Some p) m = (q, m')"
  shows "q = Some (m_Next m)"
  using assms by (auto simp: placed_def pointer_view_def new_copy_def Let_def split_def split: option.splits)

text \<open>
  A sample memory: a transaction whose metadata is a byte slice, with a transaction ID that is part of a longer
  array, an issuer reference, a chain of one certificate and a nil entry, and a certReqId; and a list of one issuer
  with a TLS trust anchor, which shares the metadata of the transaction.
\<close>

definition sample_meta_lib :: "slice option meta_lib" where
  "sample_meta_lib = \<lparr>dc_ObjectMeta = copy_bytes, dc_ListMeta = copy_bytes, dc_Condition = copy_bytes, dc_Time = \<lambda>t. t\<rparr>"

definition sample_transaction_mem :: "slice option transaction_mem" where
  "sample_transaction_mem =
     \<lparr>mx_TypeMeta = ([], []), mx_ObjectMeta = Some \<lparr>sl_Array = 0, sl_Offset = 0, sl_Len = 1\<rparr>,
      mx_Spec = \<lparr>ms_CertificateRequestName = ''r'', ms_CertificateRequestUID = ''u'',
        ms_TransactionID = Some \<lparr>sl_Array = 1, sl_Offset = 1, sl_Len = 2\<rparr>, ms_Deadline = 60, ms_CSRDigest = [],
        ms_IssuerRef = Some 2, ms_ConfigurationDigest = [], ms_Operation = ''IR'', ms_RenewalFallback = [],
        ms_ProtocolVersion = 2\<rparr>,
      mx_Status = \<lparr>ma_Phase = ''Issued'', ma_IssuedChain = Some \<lparr>sl_Array = 3, sl_Offset = 0, sl_Len = 2\<rparr>,
        ma_CompletionTime = 50, ma_RecipNonce = None, ma_RequestNonce = None, ma_CertReqID = Some 5,
        ma_ResponseSigner = None, ma_Polls = 0, ma_LastTransitionTime = 50\<rparr>\<rparr>"

definition sample_issuer_mem :: "slice option issuer_mem" where
  "sample_issuer_mem =
     \<lparr>mo_TypeMeta = ([], []), mo_ObjectMeta = Some \<lparr>sl_Array = 0, sl_Offset = 0, sl_Len = 1\<rparr>,
      mo_Spec = \<lparr>mi_Endpoint = \<lparr>ep_URL = ''https://ca'', ep_RenewalURL = [], ep_Timeout = 30, ep_MaxResponseSize = 1024\<rparr>,
        mi_Protocol = \<lparr>mp_Version = 2, mp_InitialEnrollment = ''IR'', mp_Renewal = [], mp_RequestedValidity = [],
          mp_RenewalFallback = [], mp_ValidationProfile = [], mp_KURResponseCAPubs = [], mp_P10CRResponseCertReqID = None,
          mp_MACResponseProtection = [], mp_SignatureDigest = [], mp_CertProfile = [], mp_Sender = [],
          mp_Recipient = ''CN=ca'', mp_Confirmation = ''Explicit''\<rparr>,
        mi_Protection = \<lparr>mr_Type = ''Signature'', mr_PasswordBasedMac = None, mr_Signature = None\<rparr>,
        mi_CMPTrust = \<lparr>mu_CASecretRef = \<lparr>sk_Name = ''t'', sk_Key = ''k''\<rparr>, mu_SignerCertificatesSecretRef = None\<rparr>,
        mi_Transport = \<lparr>mn_TLS = Some 7\<rparr>,
        mi_Transaction = \<lparr>tl_MaximumDuration = 0, tl_MinimumPollInterval = 0, tl_MaximumPollInterval = 0, tl_MaximumPolls = 0\<rparr>,
        mi_Policy = \<lparr>pol_GrantedModifications = []\<rparr>\<rparr>,
      mo_Status = \<lparr>mc_Conditions = None\<rparr>\<rparr>"

definition sample_cells :: "slice option cell list" where
  "sample_cells =
     [BytesCell ''l'', BytesCell ''xab'', TransactionIssuerReferenceCell \<lparr>ir_Name = ''i'', ir_Kind = ''CMPIssuer'', ir_UID = [],
        ir_Generation = 1\<rparr>, ByteSlicesCell [Some \<lparr>sl_Array = 4, sl_Offset = 0, sl_Len = 1\<rparr>, None], BytesCell ''c'',
      Int64Cell 0, CMPTransactionCell sample_transaction_mem,
      TLSTransportSpecCell \<lparr>ml_CASecretRef = Some 8, ml_ClientCertificateSecretRef = None\<rparr>,
      SecretKeyReferenceCell \<lparr>sk_Name = ''tls'', sk_Key = ''ca''\<rparr>, CMPIssuersCell [sample_issuer_mem],
      CMPIssuerListCell \<lparr>me_TypeMeta = ([], []), me_ListMeta = None, me_Items = Some \<lparr>sl_Array = 9, sl_Offset = 0, sl_Len = 1\<rparr>\<rparr>]"

definition sample_memory :: "slice option cell memory" where
  "sample_memory = \<lparr>m_Next = length sample_cells, m_Cells = \<lambda>q. if q < length sample_cells then Some (sample_cells ! q) else None\<rparr>"

lemma sample_meta_contract: "meta_contract sample_meta_lib bytes_view"
  by (simp add: meta_contract_def sample_meta_lib_def bytes.deep_copier_axioms)

lemma sample_memory_simps [simp]:
  "m_Next sample_memory = 11"
  "load project sample_memory 0 = project (BytesCell ''l'')"
  "load project sample_memory (Suc 0) = project (BytesCell ''xab'')"
  "load project sample_memory 2 = project (sample_cells ! 2)"
  "load project sample_memory 3 = project (ByteSlicesCell [Some \<lparr>sl_Array = 4, sl_Offset = 0, sl_Len = 1\<rparr>, None])"
  "load project sample_memory 4 = project (BytesCell ''c'')"
  "load project sample_memory 5 = project (Int64Cell 0)"
  "load project sample_memory 6 = project (CMPTransactionCell sample_transaction_mem)"
  "load project sample_memory 7 = project (TLSTransportSpecCell \<lparr>ml_CASecretRef = Some 8, ml_ClientCertificateSecretRef = None\<rparr>)"
  "load project sample_memory 8 = project (SecretKeyReferenceCell \<lparr>sk_Name = ''tls'', sk_Key = ''ca''\<rparr>)"
  "load project sample_memory 9 = project (CMPIssuersCell [sample_issuer_mem])"
  "load project sample_memory 10 = project (CMPIssuerListCell \<lparr>me_TypeMeta = ([], []), me_ListMeta = None,
     me_Items = Some \<lparr>sl_Array = 9, sl_Offset = 0, sl_Len = 1\<rparr>\<rparr>)"
  by (simp_all add: sample_memory_def sample_cells_def load_def)

lemma load_reserve [simp]: "load project (reserve m) q = load project m q"
  by (simp add: load_def reserve_def)

lemmas api_view_defs = transaction_pointer_def transaction_view_def transaction_spec_view_def transaction_status_view_def
  issuer_list_pointer_def items_view_def issuer_view_def issuer_spec_view_def issuer_status_view_def transport_view_def
  tls_view_def cmp_trust_view_def protection_view_def protocol_view_def bytes_view_def plain_pointer_def view_defs

lemma sample_transaction_placed: "placed (transaction_pointer bytes_view) sample_memory (Some 6)"
  by (simp add: placed_def api_view_defs elements_def sample_transaction_mem_def sample_cells_def) auto

lemma sample_issuer_list_placed: "placed (issuer_list_pointer bytes_view) sample_memory (Some 10)"
  by (simp add: placed_def api_view_defs elements_def sample_issuer_mem_def sample_cells_def)

lemmas sample_copy_simps = CMPTransaction_DeepCopy_def CMPTransaction_DeepCopyInto_def CMPTransactionSpec_DeepCopyInto_def
  CMPTransactionStatus_DeepCopyInto_def sample_meta_lib_def copy_bytes_def copy_int64_def new_copy_def make_copy_def
  CMPIssuerList_DeepCopyObject_def CMPIssuerList_DeepCopy_def CMPIssuerList_DeepCopyInto_def CMPIssuer_DeepCopyInto_def
  CMPIssuerSpec_DeepCopyInto_def CMPIssuerStatus_DeepCopyInto_def ProtocolSpec_DeepCopyInto_def ProtectionSpec_DeepCopyInto_def
  CMPTrustSpec_DeepCopyInto_def TransportSpec_DeepCopyInto_def TLSTransportSpec_DeepCopyInto_def sample_issuer_mem_def
  plain_copy_def elements_def sample_transaction_mem_def sample_cells_def Let_def differs_inside_def api_view_defs

text \<open>
  C22: A deep copy of a CMPTransaction is a new object with the value of the original: the same metadata, spec and
  status, with the contents of every slice and pointer. Whatever is written later to the objects of the copy does not
  show in the original, and whatever is written to those of the original does not show in the copy.
\<close>

theorem CMPTransaction_DeepCopy_independent:
  assumes "meta_contract lib meta" "placed (transaction_pointer meta) m (Some p)"
    and "CMPTransaction_DeepCopy lib (Some p) m = (q, m')"
  shows "q = Some (m_Next m)
    \<and> vw_value (transaction_pointer meta) m' q = vw_value (transaction_pointer meta) m (Some p)
    \<and> (\<forall>m''. differs_inside (vw_reach (transaction_pointer meta) m' q) m' m'' \<longrightarrow>
         vw_value (transaction_pointer meta) m'' (Some p) = vw_value (transaction_pointer meta) m (Some p))
    \<and> (\<forall>m''. differs_inside (vw_reach (transaction_pointer meta) m (Some p)) m' m'' \<longrightarrow>
         vw_value (transaction_pointer meta) m'' q = vw_value (transaction_pointer meta) m (Some p))"
proof -
  have "deep_copier (CMPTransaction_DeepCopy lib) (transaction_pointer meta)"
    unfolding CMPTransaction_DeepCopy_def transaction_pointer_def
    by (intro deep_copier.pointer CMPTransaction_copier assms(1)) simp
  from deep_copier.independent [OF this assms(2,3)] show ?thesis
    using new_copy_fresh [OF assms(2,3) [unfolded transaction_pointer_def CMPTransaction_DeepCopy_def]] by blast
qed

lemma CMPTransaction_DeepCopy_independent_witness:
  "let (q, m') = CMPTransaction_DeepCopy sample_meta_lib (Some 6) sample_memory;
       changed = assign 13 (BytesCell ''zz'') m'
   in q = Some 11
      \<and> vw_value (transaction_pointer bytes_view) m' q = vw_value (transaction_pointer bytes_view) sample_memory (Some 6)
      \<and> vw_value (transaction_pointer bytes_view) changed (Some 6) = vw_value (transaction_pointer bytes_view) sample_memory (Some 6)
      \<and> vw_value (transaction_pointer bytes_view) changed q \<noteq> vw_value (transaction_pointer bytes_view) sample_memory (Some 6)"
proof -
  obtain q m' where copied: "CMPTransaction_DeepCopy sample_meta_lib (Some 6) sample_memory = (q, m')"
    by fastforce
  have m': "m' = snd (CMPTransaction_DeepCopy sample_meta_lib (Some 6) sample_memory)"
    by (simp add: copied)
  note independent = CMPTransaction_DeepCopy_independent [OF sample_meta_contract sample_transaction_placed copied]
  have q: "q = Some 11"
    using independent by simp
  have "differs_inside (vw_reach (transaction_pointer bytes_view) m' q) m' (assign 13 (BytesCell ''zz'') m')"
    unfolding m' q by (simp add: sample_copy_simps)
  with independent have "vw_value (transaction_pointer bytes_view) (assign 13 (BytesCell ''zz'') m') (Some 6)
      = vw_value (transaction_pointer bytes_view) sample_memory (Some 6)"
    by blast
  moreover have "vw_value (transaction_pointer bytes_view) (assign 13 (BytesCell ''zz'') m') q
      \<noteq> vw_value (transaction_pointer bytes_view) sample_memory (Some 6)"
    unfolding m' q by (simp add: sample_copy_simps)
  ultimately show ?thesis
    using independent q copied by simp
qed

text \<open>
  C23: The same for the runtime.Object copy of a list of issuers: the copy of a list is a new list whose issuers have
  the same metadata, spec and conditions, and the two lists share no object that can be written.
\<close>

theorem CMPIssuerList_DeepCopyObject_independent:
  assumes "meta_contract lib meta" "placed (issuer_list_pointer meta) m (Some p)"
    and "CMPIssuerList_DeepCopyObject lib (Some p) m = (object, m')"
  shows "object = Some (CMPIssuerListObject (m_Next m))
    \<and> vw_value (issuer_list_pointer meta) m' (Some (m_Next m)) = vw_value (issuer_list_pointer meta) m (Some p)
    \<and> (\<forall>m''. differs_inside (vw_reach (issuer_list_pointer meta) m' (Some (m_Next m))) m' m'' \<longrightarrow>
         vw_value (issuer_list_pointer meta) m'' (Some p) = vw_value (issuer_list_pointer meta) m (Some p))
    \<and> (\<forall>m''. differs_inside (vw_reach (issuer_list_pointer meta) m (Some p)) m' m'' \<longrightarrow>
         vw_value (issuer_list_pointer meta) m'' (Some (m_Next m)) = vw_value (issuer_list_pointer meta) m (Some p))"
proof -
  have copier: "deep_copier (CMPIssuerList_DeepCopy lib) (issuer_list_pointer meta)"
    unfolding CMPIssuerList_DeepCopy_def issuer_list_pointer_def
    by (intro deep_copier.pointer CMPIssuerList_copier assms(1)) simp
  obtain q where q: "CMPIssuerList_DeepCopy lib (Some p) m = (q, m')" "object = map_option CMPIssuerListObject q"
    using assms(3) by (auto simp: CMPIssuerList_DeepCopyObject_def Let_def split_def prod_eq_iff map_option_case split: option.splits)
  have "q = Some (m_Next m)"
    by (rule new_copy_fresh [OF assms(2) [unfolded issuer_list_pointer_def] q(1) [unfolded CMPIssuerList_DeepCopy_def]])
  with deep_copier.independent [OF copier assms(2) q(1)] q(2) show ?thesis
    by simp
qed

lemma CMPIssuerList_DeepCopyObject_independent_witness:
  "let (object, m') = CMPIssuerList_DeepCopyObject sample_meta_lib (Some 10) sample_memory;
       changed = assign 15 (SecretKeyReferenceCell \<lparr>sk_Name = ''other'', sk_Key = ''ca''\<rparr>) m'
   in object = Some (CMPIssuerListObject 11)
      \<and> vw_value (issuer_list_pointer bytes_view) m' (Some 11) = vw_value (issuer_list_pointer bytes_view) sample_memory (Some 10)
      \<and> vw_value (issuer_list_pointer bytes_view) changed (Some 10) = vw_value (issuer_list_pointer bytes_view) sample_memory (Some 10)
      \<and> vw_value (issuer_list_pointer bytes_view) changed (Some 11) \<noteq> vw_value (issuer_list_pointer bytes_view) sample_memory (Some 10)"
proof -
  obtain object m' where copied: "CMPIssuerList_DeepCopyObject sample_meta_lib (Some 10) sample_memory = (object, m')"
    by fastforce
  have m': "m' = snd (CMPIssuerList_DeepCopyObject sample_meta_lib (Some 10) sample_memory)"
    by (simp add: copied)
  note independent = CMPIssuerList_DeepCopyObject_independent [OF sample_meta_contract sample_issuer_list_placed copied]
  let ?changed = "assign 15 (SecretKeyReferenceCell \<lparr>sk_Name = ''other'', sk_Key = ''ca''\<rparr>) m'"
  have "differs_inside (vw_reach (issuer_list_pointer bytes_view) m' (Some 11)) m' ?changed"
    unfolding m' by (simp add: sample_copy_simps)
  with independent have "vw_value (issuer_list_pointer bytes_view) ?changed (Some 10)
      = vw_value (issuer_list_pointer bytes_view) sample_memory (Some 10)"
    by simp
  moreover have "vw_value (issuer_list_pointer bytes_view) ?changed (Some 11)
      \<noteq> vw_value (issuer_list_pointer bytes_view) sample_memory (Some 10)"
    unfolding m' by (simp add: sample_copy_simps)
  ultimately show ?thesis
    using independent copied by simp
qed

end
