(* ===== verification/Spec2Isabelle.thy ===== *)
theory Spec2Isabelle
  imports Reconciliation Accounting Record_Schema Deep_Copy
begin

text \<open>
  Verification of cmp-issuer, an external issuer of cert-manager that obtains certificates over the Certificate
  Management Protocol (CMP). A controller reconciles CertificateRequests: it loads the issuer's configuration and
  credentials from Secrets, records a CMPTransaction, exchanges protected messages with a CMP server over several
  reconciliations if need be, and returns a PEM chain.

  \<^bold>\<open>Parts and theories.\<close> The theories follow the packages of the source, from the language up.

  \<^item> \<open>Prelude\<close> (results, actions on a state, \<open>behaves\<close> and \<open>triple\<close> with their rules) and
    \<open>Go_Runtime\<close> (strings as bytes, UTF-8, digits, 32 and 64 bit arithmetic) are shared by all others.
  \<^item> \<open>Log_Text\<close>: \<^verbatim>\<open>src/internal/logging/logging.go\<close>. \<open>Build_Identity\<close>:
    \<^verbatim>\<open>src/internal/version/version.go\<close>.
  \<^item> \<open>Errors\<close>: the error values of \<^verbatim>\<open>protocol/types.go\<close>, \<^verbatim>\<open>controller/configuration.go\<close>
    and issuer-lib, and the search of wrapped errors by type.
  \<^item> \<open>Names\<close>, \<open>Certificates\<close>: \<^verbatim>\<open>src/internal/protocol/parse.go\<close>, \<^verbatim>\<open>certificate.go\<close>
    and the comparison of names.
  \<^item> \<open>Cmp_Types\<close>, \<open>Cmp_Response\<close>, \<open>Cmp_Client\<close>: \<^verbatim>\<open>src/internal/protocol/types.go\<close>,
    \<^verbatim>\<open>client.go\<close>, \<^verbatim>\<open>ir.go\<close> and \<^verbatim>\<open>kur.go\<close>. The pure decisions are in \<open>Cmp_Response\<close>;
    the exchanges are actions on a state that keeps the messages sent, the entropy used and the clock.
  \<^item> \<open>Api\<close>: \<^verbatim>\<open>src/api/v1alpha1\<close>. \<open>Admission\<close>: the schema that the markers of
    \<^verbatim>\<open>common_types.go\<close> give the issuer resources; \<open>Record_Schema\<close>: that of the CMPTransaction. \<open>Memory\<close>, \<open>Api_Memory\<close>, \<open>Deep_Copy\<close>: a memory
    with pointers and slices, the API types in it, and \<^verbatim>\<open>zz_generated.deepcopy.go\<close>. \<open>Metrics\<close>: \<^verbatim>\<open>src/internal/metrics/metrics.go\<close> and
    \<^verbatim>\<open>controller/metrics.go\<close>.
  \<^item> \<open>Cluster\<close>: the API server the controller talks to. It extends the client's state by the objects it holds,
    and keeps a log of Secret reads and of writes of transactions, interleaved with the messages sent, that no definition
    of the program reads.
  \<^item> \<open>Transaction_Store\<close>, \<open>Configuration\<close>, \<open>Workload_Keys\<close>, \<open>Signer\<close>:
    \<^verbatim>\<open>src/internal/controller/transaction_store.go\<close>, \<^verbatim>\<open>configuration.go\<close>, \<^verbatim>\<open>kur.go\<close> with
    \<^verbatim>\<open>renewal_fallback.go\<close>, and \<^verbatim>\<open>signer.go\<close>. \<open>Log_Lines\<close>: \<^verbatim>\<open>controller/logging.go\<close>.
    \<open>Manager\<close>: \<^verbatim>\<open>src/cmd/main.go\<close> and \<^verbatim>\<open>SetupWithManager\<close>.
  \<^item> \<open>Samples\<close>, \<open>Controller_Samples\<close>, \<open>Sample_Run\<close>: concrete libraries, a cluster and a
    complete run, on which the hypotheses of the properties are shown to hold.
  \<^item> \<open>Signer_Decisions\<close>, \<open>Reconciliation\<close>, \<open>Accounting\<close>, \<open>Loading\<close>,
    \<open>Resumption\<close>: the properties of the controller.

  A Go struct is a record, a call that may fail a sum whose left side is the error, and a call with effects an action
  that takes the state and returns a result and a state. Functions keep their names; a long function is cut at its
  early returns or at the place where its state splits, and each piece names the lines it stands for.

  \<^bold>\<open>What is shown.\<close>

  \<^item> Protocol client: a response is accepted only if it is protected, authenticated and belongs to the request;
    a chain only for the key of the CSR and below the configured trust; what each operation sends and returns;
    the mapping of statuses to errors; bounds of texts, bodies and waits; the round trip of distinguished names.
  \<^item> Controller, one run: every message follows the storing of a record that allows it (write-ahead), only the
    request's record and the permitted Secrets are touched, success delivers a verified chain and leaves an Issued
    record, resumption never crosses a changed CSR, issuer or operation, deadlines and poll budgets end a transaction,
    and every outcome is counted once.
  \<^item> Controller, all runs: \<open>Sign\<close> refines the abstract life cycle of a record, and an invariant of all
    reachable states of a state machine that interleaves runs, checks and outside changes.
  \<^item> Loading: the configuration digest covers exactly the Secrets read, each read once, and the keys of a workload
    come only from the Secrets its owning Certificate names.
  \<^item> Store: what is recorded is resumed, what is removed is forgotten.
  \<^item> Admission: the schema and the validation in the controller accept the same issuer specs, up to conditions
    that are listed for each side; a record that the store writes satisfies its schema exactly when what it takes over
    from outside fits.
  \<^item> Deep copies: every generated copy has the value of the original and lies in new objects, so that writing to
    the one never shows in the other.

  \<^bold>\<open>Interfaces.\<close> \<open>protocol_contract\<close> states what the signer relies on from its client,
  \<open>quiet_client\<close> that the client leaves the metrics alone, \<open>record_store\<close> what the signer relies on
  from its store, and \<open>deep_copier\<close> what a deep copy promises; each is interpreted on the definitions of the
  program. The contract of a struct's copy is put together from those of its fields, pointers and slices.

  \<^bold>\<open>Parameters.\<close> Code outside the repository is an argument: \<open>x509_lib\<close> (crypto/x509, PEM and ASN.1),
  \<open>cmp_lib\<close> (pkicmp, net/http, net/url, mime, the clock), \<open>kube_lib\<close> (the API server's faults and
  identifiers, randomness, JSON, Unicode case), \<open>manager_lib\<close> (controller-runtime and issuer-lib), \<open>meta_lib\<close> (the copies of the apimachinery
  types). What is assumed
  of them is a named hypothesis: \<open>message_contract\<close> (building and protecting a message keeps its body and identifiers),
  \<open>verify_contract\<close> (a verified chain starts with the leaf and ends in a root), \<open>json_injective\<close>, \<open>meta_contract\<close> (ObjectMeta,
  ListMeta and Condition are copied deeply and Time as a value).

  \<^bold>\<open>Bounds and termination.\<close> No definition uses fuel: loops are structural recursion, or recursion on the
  bytes left. Counters that the API limits to 32 bits and durations wrap as in Go. The API server may fault before or
  after each call; properties that need it to answer say so.

  \<^bold>\<open>Not modelled.\<close>

  \<^item> Concurrent changes between two calls of one run: runs interleave as wholes, and objects change between them.
    Status updates still check the version they were based on.
  \<^item> Aliasing outside the deep copies: the controller's definitions pass API objects as values. A copy whose source and
    target are the same struct, which no call of the program makes.
  \<^item> The defaults the API server fills in from the schema. The API server of \<open>Cluster\<close> does not refuse what the
    schema forbids.
  \<^item> The registration of the API types and of the metric collectors, the help texts, the parsing of the command line: declarations and calls into libraries without a decision of the program.
  \<^item> The rendered text of error messages, which no branch reads, and the moment a log line is written.
\<close>

subsection \<open>Properties\<close>

text \<open>
  C35: The chain handed to cert-manager is well formed. When validateAndOrderChain accepts, the
  chain starts with the leaf, it is a prefix of a chain that Verify built from the leaf and the
  candidates, every certificate of that chain obeys the ML-DSA key usage rule, and no
  certificate after the leaf is a self-signed root.
\<close>

theorem validateAndOrderChain_shape:
  assumes "verify_contract lib" and "validateAndOrderChain lib leaf candidates roots = Inr chain"
  shows "\<exists>verified verifiedChains rest.
     x509_Verify lib leaf roots (filter (\<lambda>c. cert_Raw c \<noteq> cert_Raw leaf) candidates) = Inr verifiedChains
     \<and> verified \<in> set verifiedChains \<and> verified = chain @ rest \<and> hd chain = leaf
     \<and> last verified \<in> set roots \<and> (\<forall>c \<in> set verified. mldsa_usage_ok c)
     \<and> (\<forall>c \<in> set (tl chain). \<not> self_signed lib c)"
proof -
  from assms(2) obtain verified where
      verify: "verifyCertificateChain lib leaf roots
        (filter (\<lambda>c. cert_Raw c \<noteq> cert_Raw leaf) candidates) = Inr verified"
      and chain: "chain = leaf # takeWhile (\<lambda>c. \<not> self_signed lib c) (tl verified)"
    by (elim validateAndOrderChain_Inr)
  from verify obtain verifiedChains where
      all: "x509_Verify lib leaf roots (filter (\<lambda>c. cert_Raw c \<noteq> cert_Raw leaf) candidates) = Inr verifiedChains"
        "verified \<in> set verifiedChains" "\<forall>c \<in> set verified. mldsa_usage_ok c"
    by (elim verifyCertificateChain_Inr)
  with assms(1) have ends: "verified \<noteq> []" "hd verified = leaf" "last verified \<in> set roots"
    by (auto simp: verify_contract_def)
  have "tl verified = takeWhile (\<lambda>c. \<not> self_signed lib c) (tl verified)
      @ dropWhile (\<lambda>c. \<not> self_signed lib c) (tl verified)"
    by simp
  with ends chain have "verified = chain @ dropWhile (\<lambda>c. \<not> self_signed lib c) (tl verified)"
    by (metis append_Cons list.collapse)
  moreover have "hd chain = leaf" "\<forall>c \<in> set (tl chain). \<not> self_signed lib c"
    using chain by (auto dest: set_takeWhileD)
  ultimately show ?thesis
    using all ends(3) by blast
qed

theorem validateAndOrderChain_shape_witness:
  "validateAndOrderChain sample_x509 sample_leaf [sample_root] [sample_root] = Inr [sample_leaf]
   \<and> (\<exists>verified rest. verified = [sample_leaf] @ rest \<and> last verified \<in> set [sample_root])"
proof -
  have contract: "verify_contract sample_x509"
    by (auto simp: verify_contract_def sample_x509_def split: if_splits)
  have result: "validateAndOrderChain sample_x509 sample_leaf [sample_root] [sample_root] = Inr [sample_leaf]"
    by (simp add: validateAndOrderChain_def verifyCertificateChain_def ValidateMLDSAKeyUsage_def
        self_signed_def sample_libs sample_data)
  from validateAndOrderChain_shape [OF contract result] result show ?thesis
    by blast
qed

end
